(* ===== verification/Prelude.thy ===== *)
theory Prelude
  imports Main "HOL-Library.Word" "HOL-Library.Sublist"
begin

text \<open>
  Shared vocabulary of the development: the byte strings of the Go code and the
  (ASCII) strings of the TypeScript code, the string functions both sides use, decimal
  printing, and the collections of simplification rules the component theories fill.

  Strings are \<open>char list\<close>s. A Go string is a byte sequence, so \<open>length\<close> is Go's
  \<open>len\<close>. A JavaScript string is its UTF-8 bytes; \<open>js_length\<close> is its \<open>length\<close>. \<open>strings.TrimSpace\<close> is
  that of Unicode. Case mapping is the ASCII one: this is what \<open>strings.ToLower\<close>,
  \<open>strings.ToUpper\<close> and \<open>toLowerCase\<close> do on ASCII text.
\<close>

named_theorems reply_defs \<open>how a reply becomes a value or a thrown error\<close>

subsection \<open>Characters and strings\<close>

definition char_code :: "char \<Rightarrow> nat" where
  "char_code c = of_char c"

definition is_space :: "char \<Rightarrow> bool" where
  "is_space c \<longleftrightarrow> char_code c = 32 \<or> 9 \<le> char_code c \<and> char_code c \<le> 13"

text \<open>The characters of \<open>unicode.IsSpace\<close> as UTF-8: the ASCII ones, then U+0085, U+00A0, U+1680, U+2000 to
  U+200A, U+2028, U+2029, U+202F, U+205F and U+3000.\<close>

definition wide_spaces :: "string list" where
  "wide_spaces = map (map char_of)
     ([[194, 133], [194, 160], [225, 154, 128]]
      @ map (\<lambda>b. [226, 128, b]) ([128..<139] @ [168, 169, 175])
      @ [[226, 129, 159], [227, 128, 128 :: nat]])"

text \<open>Dropping white space from the front, given the wide characters: no wide character is a
  prefix of another one.\<close>

fun wide_size :: "string list \<Rightarrow> string \<Rightarrow> nat" where
  "wide_size [] s = 0"
| "wide_size (w # ws) s = (if take (length w) s = w then length w else wide_size ws s)"

function drop_space :: "string list \<Rightarrow> string \<Rightarrow> string" where
  "drop_space ws s =
     (if s = [] then []
      else if is_space (hd s) then drop_space ws (tl s)
      else if wide_size ws s = 0 then s
      else drop_space ws (drop (wide_size ws s) s))"
  by pat_completeness auto
termination
  by (relation "measure (\<lambda>(ws, s). length s)") auto

declare drop_space.simps [simp del]

definition trim_space :: "string \<Rightarrow> string" where
  "trim_space s = rev (drop_space (map rev wide_spaces) (rev (drop_space wide_spaces s)))"

definition lower_char :: "char \<Rightarrow> char" where
  "lower_char c = (if 65 \<le> char_code c \<and> char_code c \<le> 90 then char_of (char_code c + 32) else c)"

definition upper_char :: "char \<Rightarrow> char" where
  "upper_char c = (if 97 \<le> char_code c \<and> char_code c \<le> 122 then char_of (char_code c - 32) else c)"

definition to_lower :: "string \<Rightarrow> string" where
  "to_lower s = map lower_char s"

definition to_upper :: "string \<Rightarrow> string" where
  "to_upper s = map upper_char s"

definition equal_fold :: "string \<Rightarrow> string \<Rightarrow> bool" where
  "equal_fold s t \<longleftrightarrow> to_lower s = to_lower t"

fun starts_with :: "string \<Rightarrow> string \<Rightarrow> bool" where
  "starts_with [] s = True"
| "starts_with (c # cs) [] = False"
| "starts_with (c # cs) (d # ds) = (c = d \<and> starts_with cs ds)"

fun js_includes :: "string \<Rightarrow> string \<Rightarrow> bool" where
  "js_includes [] sub = (sub = [])"
| "js_includes (c # cs) sub = (starts_with sub (c # cs) \<or> js_includes cs sub)"

definition is_digit :: "char \<Rightarrow> bool" where
  "is_digit c \<longleftrightarrow> 48 \<le> char_code c \<and> char_code c \<le> 57"

text \<open>Strings are byte strings (UTF-8). JavaScript's \<open>length\<close> counts UTF-16 units: one per character,
  two for those of four bytes, so it is the number of bytes only for ASCII text.\<close>

definition js_length :: "string \<Rightarrow> nat" where
  "js_length s = length (filter (\<lambda>c. char_code c < 128 \<or> 192 \<le> char_code c) s)
     + length (filter (\<lambda>c. 240 \<le> char_code c) s)"

lemma js_length_ascii: "\<forall>c \<in> set s. char_code c < 128 \<Longrightarrow> js_length s = length s"
  by (induction s) (auto simp: js_length_def)

lemma starts_with_iff: "starts_with p s \<longleftrightarrow> prefix p s"
  by (induction p s rule: starts_with.induct) auto

lemma js_includes_iff: "js_includes s sub \<longleftrightarrow> sublist sub s"
  by (induction s) (auto simp: starts_with_iff sublist_Cons_right)

lemma starts_with_append [simp]: "starts_with p (p @ s)"
  by (simp add: starts_with_iff)

lemma char_code_less: "char_code c < 256"
  by (simp add: char_code_def nat_of_char_less_256)

lemma lower_char_idem [simp]: "lower_char (lower_char c) = lower_char c"
  by (auto simp: lower_char_def char_code_def)

lemma to_lower_idem [simp]: "to_lower (to_lower s) = to_lower s"
  by (simp add: to_lower_def)

lemma length_to_lower [simp]: "length (to_lower s) = length s"
  by (simp add: to_lower_def)

lemma equal_fold_refl [simp]: "equal_fold s s"
  by (simp add: equal_fold_def)

lemma equal_fold_sym: "equal_fold s t \<longleftrightarrow> equal_fold t s"
  by (auto simp: equal_fold_def)

lemma dropWhile_eq_self: "(xs \<noteq> [] \<Longrightarrow> \<not> P (hd xs)) \<Longrightarrow> dropWhile P xs = xs"
  by (cases xs) auto

lemma hd_dropWhile_not: "dropWhile P xs \<noteq> [] \<Longrightarrow> \<not> P (hd (dropWhile P xs))"
  by (induction xs) auto

lemma last_dropWhile: "dropWhile P xs \<noteq> [] \<Longrightarrow> last (dropWhile P xs) = last xs"
  by (induction xs) (auto split: if_splits)

lemma drop_space_Nil [simp]: "drop_space ws [] = []"
  by (simp add: drop_space.simps)

lemma trim_space_Nil [simp]: "trim_space [] = []"
  by (simp add: trim_space_def)

text \<open>What is left is a suffix that starts with no white space, and stays as it is.\<close>

definition starts_solid :: "string list \<Rightarrow> string \<Rightarrow> bool" where
  "starts_solid ws s \<longleftrightarrow> s = [] \<or> \<not> is_space (hd s) \<and> wide_size ws s = 0"

lemma drop_space_solid: "starts_solid ws (drop_space ws s)"
proof (induction ws s rule: drop_space.induct)
  case (1 ws s)
  then show ?case by (subst drop_space.simps) (auto simp: starts_solid_def)
qed

lemma drop_space_id: "starts_solid ws s \<Longrightarrow> drop_space ws s = s"
  by (subst drop_space.simps) (auto simp: starts_solid_def)

lemma drop_space_suffix: "suffix (drop_space ws s) s"
proof (induction ws s rule: drop_space.induct)
  case (1 ws s)
  then show ?case
    by (subst drop_space.simps) (auto intro: suffix_order.trans suffix_drop suffix_tl)
qed

text \<open>Cutting a string at its end leaves its first characters solid.\<close>

lemma wide_size_prefix:
  assumes "wide_size ws s = 0" and "prefix t s" and "t \<noteq> []" and "[] \<notin> set ws"
  shows "wide_size ws t = 0"
  using assms
proof (induction ws)
  case (Cons w ws)
  have "take (length w) t \<noteq> w"
  proof
    assume w: "take (length w) t = w"
    then have "length w \<le> length t" by (metis length_take min.absorb_iff2 min.commute)
    with Cons.prems(2) w have "take (length w) s = w" by (auto simp: prefix_def)
    with Cons.prems(1,4) show False by simp
  qed
  with Cons show ?case by (simp split: if_splits)
qed simp

lemma starts_solid_prefix:
  "starts_solid ws s \<Longrightarrow> prefix t s \<Longrightarrow> [] \<notin> set ws \<Longrightarrow> starts_solid ws t"
  using wide_size_prefix [of ws s t] by (cases t; cases s) (auto simp: starts_solid_def)

lemma wide_spaces_nonempty: "[] \<notin> set wide_spaces" "[] \<notin> set (map rev wide_spaces)"
  by (auto simp: wide_spaces_def)

text \<open>Trimming removes white space at both ends only, so trimming twice changes nothing.\<close>

lemma trim_space_idem [simp]: "trim_space (trim_space s) = trim_space s"
proof -
  let ?t = "drop_space wide_spaces s"
  let ?u = "drop_space (map rev wide_spaces) (rev ?t)"
  have "prefix (rev ?u) ?t"
    using drop_space_suffix [of "map rev wide_spaces" "rev ?t"] by (simp add: suffix_to_prefix)
  then have "starts_solid wide_spaces (rev ?u)"
    using starts_solid_prefix drop_space_solid wide_spaces_nonempty(1) by blast
  then show ?thesis
    using drop_space_solid [of "map rev wide_spaces" "rev ?t"] by (simp add: trim_space_def drop_space_id)
qed

lemma length_trim_space: "length (trim_space s) \<le> length s"
  using suffix_length_le [OF drop_space_suffix [of wide_spaces s]]
    suffix_length_le [OF drop_space_suffix [of "map rev wide_spaces" "rev (drop_space wide_spaces s)"]]
  by (simp add: trim_space_def)

lemma set_trim_space: "set (trim_space s) \<subseteq> set s"
  using set_mono_suffix [OF drop_space_suffix [of wide_spaces s]]
    set_mono_suffix [OF drop_space_suffix [of "map rev wide_spaces" "rev (drop_space wide_spaces s)"]]
  by (auto simp: trim_space_def)

text \<open>On ASCII text only the ASCII characters count.\<close>

lemma wide_size_ascii:
  assumes "s = [] \<or> char_code (hd s) < 128" and "\<forall>w \<in> set ws. w \<noteq> [] \<and> 128 \<le> char_code (hd w)"
  shows "wide_size ws s = 0"
  using assms(2)
proof (induction ws)
  case (Cons w ws)
  have "take (length w) s \<noteq> w"
    using Cons.prems assms(1) by (cases w; cases s) auto
  with Cons show ?case by simp
qed simp

lemma wide_spaces_bytes: "\<forall>w \<in> set wide_spaces. w \<noteq> [] \<and> (\<forall>c \<in> set w. 128 \<le> char_code c)"
  by (auto simp: wide_spaces_def char_code_def)

lemma wide_spaces_hd:
  "\<forall>w \<in> set wide_spaces. w \<noteq> [] \<and> 128 \<le> char_code (hd w)"
  "\<forall>w \<in> set (map rev wide_spaces). w \<noteq> [] \<and> 128 \<le> char_code (hd w)"
  using wide_spaces_bytes by (auto simp: hd_rev)

lemma drop_space_ascii:
  assumes "\<forall>w \<in> set ws. w \<noteq> [] \<and> 128 \<le> char_code (hd w)"
  shows "\<forall>c \<in> set s. char_code c < 128 \<Longrightarrow> drop_space ws s = dropWhile is_space s"
proof (induction s)
  case (Cons c s)
  then have "wide_size ws (c # s) = 0" by (intro wide_size_ascii [OF _ assms]) simp
  with Cons show ?case by (subst drop_space.simps) simp
qed simp

lemma trim_space_ascii:
  assumes "\<forall>c \<in> set s. char_code c < 128"
  shows "trim_space s = rev (dropWhile is_space (rev (dropWhile is_space s)))"
proof -
  have "\<forall>c \<in> set (rev (dropWhile is_space s)). char_code c < 128"
    using assms by (auto dest: set_dropWhileD)
  with assms show ?thesis
    by (simp only: trim_space_def drop_space_ascii [OF wide_spaces_hd(1)] drop_space_ascii [OF wide_spaces_hd(2)])
qed

lemma trim_space_id:
  assumes "s \<noteq> []" "char_code (hd s) < 128" "\<not> is_space (hd s)" "char_code (last s) < 128" "\<not> is_space (last s)"
  shows "trim_space s = s"
proof -
  have "starts_solid wide_spaces s" "starts_solid (map rev wide_spaces) (rev s)"
    using assms wide_size_ascii [OF _ wide_spaces_hd(1)] wide_size_ascii [OF _ wide_spaces_hd(2)]
    by (simp_all add: starts_solid_def hd_rev)
  then show ?thesis by (simp add: trim_space_def drop_space_id)
qed

text \<open>A no-break space is trimmed.\<close>

lemma trim_no_break_space: "trim_space (map char_of [194, 160, 98, 111, 98 :: nat]) = ''bob''"
  unfolding trim_space_def wide_spaces_def by code_simp

lemma hd_le_last: "sorted xs \<Longrightarrow> xs \<noteq> [] \<Longrightarrow> hd xs \<le> last xs"
  by (cases xs) auto

subsection \<open>Decimal printing\<close>

definition digit_char :: "nat \<Rightarrow> char" where
  "digit_char d = char_of (48 + d)"

fun show_nat :: "nat \<Rightarrow> string" where
  "show_nat n = (if n < 10 then [digit_char n] else show_nat (n div 10) @ [digit_char (n mod 10)])"

declare show_nat.simps [simp del]

definition show_int :: "int \<Rightarrow> string" where
  "show_int i = (if i < 0 then ''-'' @ show_nat (nat (- i)) else show_nat (nat i))"

lemma is_digit_digit_char: "d < 10 \<Longrightarrow> is_digit (digit_char d)"
  by (simp add: is_digit_def digit_char_def char_code_def)

lemma digit_char_inj: "d < 10 \<Longrightarrow> e < 10 \<Longrightarrow> digit_char d = digit_char e \<Longrightarrow> d = e"
proof -
  assume d: "d < 10" and e: "e < 10" and eq: "digit_char d = digit_char e"
  from eq have "of_char (digit_char d) = (of_char (digit_char e) :: nat)" by simp
  with d e show "d = e" by (simp add: digit_char_def)
qed

lemma show_nat_digits: "list_all is_digit (show_nat n)"
proof (induction n rule: show_nat.induct)
  case (1 n)
  then show ?case
    by (cases "n < 10") (simp_all add: show_nat.simps [of n] is_digit_digit_char)
qed

lemma show_nat_nonempty [simp]: "show_nat n \<noteq> []"
  by (subst show_nat.simps) simp

lemma show_nat_length: "0 < d \<Longrightarrow> n < 10 ^ d \<Longrightarrow> length (show_nat n) \<le> d"
proof (induction n arbitrary: d rule: show_nat.induct)
  case (1 n)
  show ?case
  proof (cases "n < 10")
    case True
    with "1.prems" show ?thesis by (simp add: show_nat.simps [of n])
  next
    case False
    obtain d' where d: "d = Suc d'" using "1.prems"(1) by (cases d) auto
    with False "1.prems"(2) have d': "0 < d'" by (cases d') auto
    from "1.prems" d have "n div 10 < 10 ^ d'"
      by (simp add: less_mult_imp_div_less mult.commute)
    with "1.IH" False d' have "length (show_nat (n div 10)) \<le> d'" by blast
    with False d show ?thesis by (simp add: show_nat.simps [of n])
  qed
qed

end
