(* ===== verification/Users.thy ===== *)
theory Users
  imports Prelude
begin

text \<open>
  The user model of \<open>backend/internal/users/model.go\<close>: roles and statuses are Go strings
  with named constants, the user record carries the secrets, and \<open>to_public\<close> is the
  projection that leaves them out. The role type of the client, a closed union in
  \<open>frontend/src/types/index.ts\<close>, is the datatype \<open>ui_role\<close>; \<open>role_name\<close> is its spelling.
\<close>

subsection \<open>Roles and statuses of the server\<close>

type_synonym role = string

definition RoleSuperAdmin :: role where "RoleSuperAdmin = ''super_admin''"
definition RoleAdmin :: role where "RoleAdmin = ''admin''"
definition RoleSecurityManager :: role where "RoleSecurityManager = ''security_manager''"
definition RoleDeveloper :: role where "RoleDeveloper = ''developer''"
definition RoleAnalyst :: role where "RoleAnalyst = ''analyst''"
definition RoleViewer :: role where "RoleViewer = ''viewer''"
definition RoleUser :: role where "RoleUser = ''user''"

lemmas role_defs = RoleSuperAdmin_def RoleAdmin_def RoleSecurityManager_def
  RoleDeveloper_def RoleAnalyst_def RoleViewer_def RoleUser_def

definition ValidRoles :: "role list" where
  "ValidRoles = [RoleSuperAdmin, RoleAdmin, RoleSecurityManager, RoleDeveloper,
     RoleAnalyst, RoleViewer, RoleUser]"

type_synonym status = string

definition StatusActive :: status where "StatusActive = ''active''"
definition StatusInactive :: status where "StatusInactive = ''inactive''"
definition StatusSuspended :: status where "StatusSuspended = ''suspended''"

lemmas status_defs = StatusActive_def StatusInactive_def StatusSuspended_def

subsection \<open>The user record and its public view\<close>

record user =
  u_id :: string
  u_username :: string
  u_password_hash :: string
  u_role :: role
  u_organization_id :: string
  u_status :: status
  u_mfa_secret :: string
  u_mfa_enabled :: bool
  u_created_at :: int
  u_updated_at :: int

record public_user =
  pu_id :: string
  pu_username :: string
  pu_role :: role
  pu_organization_id :: string
  pu_status :: status
  pu_mfa_enabled :: bool
  pu_created_at :: int

definition to_public :: "user \<Rightarrow> public_user" where
  "to_public u = \<lparr>pu_id = u_id u, pu_username = u_username u, pu_role = u_role u,
     pu_organization_id = u_organization_id u, pu_status = u_status u,
     pu_mfa_enabled = u_mfa_enabled u, pu_created_at = u_created_at u\<rparr>"

text \<open>Users that differ in their secrets only have the same public view.\<close>

lemma to_public_no_secrets [simp]:
  "to_public (u\<lparr>u_password_hash := h, u_mfa_secret := s\<rparr>) = to_public u"
  by (simp add: to_public_def)

lemma to_public_sel [simp]:
  "pu_id (to_public u) = u_id u" "pu_username (to_public u) = u_username u"
  "pu_role (to_public u) = u_role u" "pu_status (to_public u) = u_status u"
  "pu_mfa_enabled (to_public u) = u_mfa_enabled u"
  by (simp_all add: to_public_def)

subsection \<open>The role type of the client\<close>

datatype ui_role = SuperAdmin | Admin | SecurityManager | Developer | Analyst | Viewer | UserRole

fun role_name :: "ui_role \<Rightarrow> role" where
  "role_name SuperAdmin = ''super_admin''"
| "role_name Admin = ''admin''"
| "role_name SecurityManager = ''security_manager''"
| "role_name Developer = ''developer''"
| "role_name Analyst = ''analyst''"
| "role_name Viewer = ''viewer''"
| "role_name UserRole = ''user''"

lemma role_name_inj [simp]: "role_name r = role_name s \<longleftrightarrow> r = s"
  by (cases r; cases s) simp_all

text \<open>The roles are finitely many, so that statements about all of them evaluate.\<close>

instantiation ui_role :: enum
begin

definition enum_ui_role :: "ui_role list" where
  "enum_ui_role = [SuperAdmin, Admin, SecurityManager, Developer, Analyst, Viewer, UserRole]"

definition enum_all_ui_role :: "(ui_role \<Rightarrow> bool) \<Rightarrow> bool" where
  "enum_all_ui_role P \<longleftrightarrow> list_all P [SuperAdmin, Admin, SecurityManager, Developer, Analyst, Viewer, UserRole]"

definition enum_ex_ui_role :: "(ui_role \<Rightarrow> bool) \<Rightarrow> bool" where
  "enum_ex_ui_role P \<longleftrightarrow> list_ex P [SuperAdmin, Admin, SecurityManager, Developer, Analyst, Viewer, UserRole]"

instance
proof
  have all: "r \<in> set [SuperAdmin, Admin, SecurityManager, Developer, Analyst, Viewer, UserRole]" for r
    by (cases r) simp_all
  then show univ: "(UNIV :: ui_role set) = set enum_class.enum"
    unfolding enum_ui_role_def by blast
  show "distinct (enum_class.enum :: ui_role list)"
    by (simp add: enum_ui_role_def)
  show "enum_class.enum_all P \<longleftrightarrow> Ball UNIV P" for P :: "ui_role \<Rightarrow> bool"
    unfolding univ by (simp add: enum_all_ui_role_def enum_ui_role_def)
  show "enum_class.enum_ex P \<longleftrightarrow> Bex UNIV P" for P :: "ui_role \<Rightarrow> bool"
    unfolding univ by (simp add: enum_ex_ui_role_def enum_ui_role_def)
qed

end

text \<open>The client's union lists exactly the roles the server accepts.\<close>

lemma ValidRoles_ui: "set ValidRoles = role_name ` UNIV"
  unfolding UNIV_enum by (auto simp: enum_ui_role_def ValidRoles_def role_defs)

end
