(* ===== verification/Rbac.thy ===== *)
theory Rbac
  imports Users
begin

text \<open>
  The permission table of \<open>backend/internal/rbac/permissions.go\<close>: the permission constants,
  the map from roles to permission lists and the lookup \<open>HasPermission\<close> with its early
  returns.
\<close>

type_synonym permission = string

definition PermUsersRead :: permission where "PermUsersRead = ''users.read''"
definition PermUsersCreate :: permission where "PermUsersCreate = ''users.create''"
definition PermUsersUpdate :: permission where "PermUsersUpdate = ''users.update''"
definition PermUsersDelete :: permission where "PermUsersDelete = ''users.delete''"
definition PermApplicationsRead :: permission where "PermApplicationsRead = ''applications.read''"
definition PermApplicationsManage :: permission where
  "PermApplicationsManage = ''applications.manage''"
definition PermPoliciesRead :: permission where "PermPoliciesRead = ''policies.read''"
definition PermPoliciesManage :: permission where "PermPoliciesManage = ''policies.manage''"
definition PermAuditRead :: permission where "PermAuditRead = ''audit.read''"
definition PermSecurityManage :: permission where "PermSecurityManage = ''security.manage''"
definition PermOrgsRead :: permission where "PermOrgsRead = ''organizations.read''"
definition PermOrgsManage :: permission where "PermOrgsManage = ''organizations.manage''"
definition PermRolesRead :: permission where "PermRolesRead = ''roles.read''"
definition PermRolesManage :: permission where "PermRolesManage = ''roles.manage''"

lemmas perm_defs = PermUsersRead_def PermUsersCreate_def PermUsersUpdate_def PermUsersDelete_def
  PermApplicationsRead_def PermApplicationsManage_def PermPoliciesRead_def PermPoliciesManage_def
  PermAuditRead_def PermSecurityManage_def PermOrgsRead_def PermOrgsManage_def
  PermRolesRead_def PermRolesManage_def

definition rolePermissions :: "role \<rightharpoonup> permission list" where
  "rolePermissions = map_of
    [(RoleSuperAdmin,
       [PermUsersRead, PermUsersCreate, PermUsersUpdate, PermUsersDelete,
        PermApplicationsRead, PermApplicationsManage,
        PermPoliciesRead, PermPoliciesManage,
        PermAuditRead,
        PermSecurityManage,
        PermOrgsRead, PermOrgsManage,
        PermRolesRead, PermRolesManage]),
     (RoleAdmin,
       [PermUsersRead, PermUsersCreate, PermUsersUpdate,
        PermApplicationsRead, PermApplicationsManage,
        PermPoliciesRead, PermPoliciesManage,
        PermAuditRead,
        PermOrgsRead,
        PermRolesRead]),
     (RoleSecurityManager,
       [PermUsersRead,
        PermApplicationsRead,
        PermPoliciesRead, PermPoliciesManage,
        PermAuditRead,
        PermSecurityManage,
        PermRolesRead]),
     (RoleDeveloper,
       [PermUsersRead,
        PermApplicationsRead, PermApplicationsManage,
        PermPoliciesRead]),
     (RoleAnalyst,
       [PermUsersRead,
        PermApplicationsRead,
        PermPoliciesRead,
        PermAuditRead]),
     (RoleViewer, [PermApplicationsRead]),
     (RoleUser, [PermApplicationsRead])]"

fun perm_loop :: "permission list \<Rightarrow> permission \<Rightarrow> bool" where
  "perm_loop [] perm = False"
| "perm_loop (p # ps) perm = (if p = perm then True else perm_loop ps perm)"

definition HasPermission :: "role \<Rightarrow> permission \<Rightarrow> bool" where
  "HasPermission role perm =
     (case rolePermissions role of None \<Rightarrow> False | Some perms \<Rightarrow> perm_loop perms perm)"

definition PermissionsForRole :: "role \<Rightarrow> permission list" where
  "PermissionsForRole role = (case rolePermissions role of None \<Rightarrow> [] | Some ps \<Rightarrow> ps)"

lemma perm_loop_iff: "perm_loop ps perm \<longleftrightarrow> perm \<in> set ps"
  by (induction ps) auto

text \<open>
  Reference semantics: the loop is membership in the role's list, and a role outside the
  table holds nothing.
\<close>

lemma HasPermission_iff: "HasPermission role perm \<longleftrightarrow> perm \<in> set (PermissionsForRole role)"
  by (simp add: HasPermission_def PermissionsForRole_def perm_loop_iff split: option.split)

lemma dom_rolePermissions: "dom rolePermissions = set ValidRoles"
  unfolding rolePermissions_def dom_map_of_conv_image_fst ValidRoles_def by auto

lemma HasPermission_valid_role: "HasPermission role perm \<Longrightarrow> role \<in> set ValidRoles"
  by (auto simp: HasPermission_def dom_rolePermissions [symmetric] split: option.splits)

text \<open>The rows of the table, for the seven roles.\<close>

lemma PermissionsForRole_ui:
  "PermissionsForRole (role_name SuperAdmin) = [PermUsersRead, PermUsersCreate, PermUsersUpdate,
     PermUsersDelete, PermApplicationsRead, PermApplicationsManage, PermPoliciesRead,
     PermPoliciesManage, PermAuditRead, PermSecurityManage, PermOrgsRead, PermOrgsManage,
     PermRolesRead, PermRolesManage]"
  "PermissionsForRole (role_name Admin) = [PermUsersRead, PermUsersCreate, PermUsersUpdate,
     PermApplicationsRead, PermApplicationsManage, PermPoliciesRead, PermPoliciesManage,
     PermAuditRead, PermOrgsRead, PermRolesRead]"
  "PermissionsForRole (role_name SecurityManager) = [PermUsersRead, PermApplicationsRead,
     PermPoliciesRead, PermPoliciesManage, PermAuditRead, PermSecurityManage, PermRolesRead]"
  "PermissionsForRole (role_name Developer) = [PermUsersRead, PermApplicationsRead,
     PermApplicationsManage, PermPoliciesRead]"
  "PermissionsForRole (role_name Analyst) = [PermUsersRead, PermApplicationsRead,
     PermPoliciesRead, PermAuditRead]"
  "PermissionsForRole (role_name Viewer) = [PermApplicationsRead]"
  "PermissionsForRole (role_name UserRole) = [PermApplicationsRead]"
  by (simp_all add: PermissionsForRole_def rolePermissions_def role_defs)

text \<open>The role table is a hierarchy: whatever any role may do, the super administrator may
  do, and the viewer's permissions are held by every role of the table.\<close>

theorem rbac_hierarchy:
  "(HasPermission (role_name r) perm \<longrightarrow> HasPermission RoleSuperAdmin perm) \<and>
   (HasPermission RoleViewer perm \<longrightarrow> HasPermission (role_name r) perm)"
proof -
  have sa: "RoleSuperAdmin = role_name SuperAdmin" and vw: "RoleViewer = role_name Viewer"
    by (simp_all add: role_defs)
  show ?thesis
    unfolding sa vw HasPermission_iff
    by (cases r) (auto simp: PermissionsForRole_ui simp del: role_name.simps)
qed

theorem rbac_hierarchy_witness:
  "HasPermission RoleSuperAdmin PermUsersDelete \<and> HasPermission RoleAnalyst PermApplicationsRead"
  using rbac_hierarchy [of SuperAdmin PermUsersDelete] rbac_hierarchy [of Analyst PermApplicationsRead]
  by (simp add: HasPermission_def rolePermissions_def role_defs perm_defs)

end
