(* ===== verification/UserStore.thy ===== *)
theory UserStore
  imports Users
begin

text \<open>
  The persistence interface \<open>UserStore\<close> of \<open>backend/internal/auth/store.go\<close> as a record of
  operations and the locale \<open>user_store\<close> of the laws its clients rely on, the domain errors of
  \<open>errors.go\<close>, and the in-memory implementation with its two indexes. The store holds copies,
  and an entry is only ever replaced, never changed in place, so values model its pointers.
\<close>

subsection \<open>Errors\<close>

datatype auth_error =
    ErrUserNotFound
  | ErrUserAlreadyExists
  | ErrInvalidCredentials
  | ErrInvalidInput
  | ErrWeakPassword
  | ErrInvalidRole
  | ErrMFARequired
  | ErrInvalidMFACode
  | Wrapped auth_error string   \<comment> \<open>\<open>fmt.Errorf("%w...", err)\<close> with the text after the error\<close>
  | OtherError string

fun error_text :: "auth_error \<Rightarrow> string" where
  "error_text ErrUserNotFound = ''user not found''"
| "error_text ErrUserAlreadyExists = ''username already taken''"
| "error_text ErrInvalidCredentials = ''invalid credentials''"
| "error_text ErrInvalidInput = ''invalid input''"
| "error_text ErrWeakPassword = ''password must be at least 8 characters''"
| "error_text ErrInvalidRole = ''invalid role''"
| "error_text ErrMFARequired = ''MFA verification required''"
| "error_text ErrInvalidMFACode = ''invalid or expired MFA code''"
| "error_text (Wrapped e s) = error_text e @ s"
| "error_text (OtherError s) = s"

text \<open>\<open>errors.Is\<close>: the error itself or one it wraps.\<close>

fun errors_is :: "auth_error \<Rightarrow> auth_error \<Rightarrow> bool" where
  "errors_is (Wrapped e s) target = (Wrapped e s = target \<or> errors_is e target)"
| "errors_is e target = (e = target)"

subsection \<open>The interface\<close>

text \<open>Creating a user fills in its id (from \<open>uuid.New\<close>) and times; the user comes back with them,
  since the Go method writes through its pointer.\<close>

record 's user_store_ops =
  CreateUser :: "'s \<Rightarrow> string \<Rightarrow> int \<Rightarrow> user \<Rightarrow> auth_error + ('s \<times> user)"
  GetUserByUsername :: "'s \<Rightarrow> string \<Rightarrow> auth_error + user"
  GetUserByID :: "'s \<Rightarrow> string \<Rightarrow> auth_error + user"
  ListUsers :: "'s \<Rightarrow> string list \<Rightarrow> auth_error + user list"
  UpdateUser :: "'s \<Rightarrow> int \<Rightarrow> user \<Rightarrow> auth_error + 's"

definition created_user :: "string \<Rightarrow> int \<Rightarrow> user \<Rightarrow> user" where
  "created_user new_id now u =
     u\<lparr>u_id := (if u_id u = [] then new_id else u_id u), u_created_at := now, u_updated_at := now\<rparr>"

lemma created_user_sel [simp]:
  "u_username (created_user i t u) = u_username u"
  "u_password_hash (created_user i t u) = u_password_hash u"
  "u_role (created_user i t u) = u_role u"
  "u_status (created_user i t u) = u_status u"
  "u_mfa_enabled (created_user i t u) = u_mfa_enabled u"
  "u_mfa_secret (created_user i t u) = u_mfa_secret u"
  "u_id u \<noteq> [] \<Longrightarrow> u_id (created_user i t u) = u_id u"
  by (simp_all add: created_user_def)

text \<open>What the auth service relies on, whichever store runs. The laws are about a well-formed store
  (\<open>store_ok\<close>), a created user whose id is new, and users the store keeps as they are (\<open>fits\<close>: a
  database column may be too short for a value).\<close>

locale user_store =
  fixes ops :: "'s user_store_ops"
    and store_ok :: "'s \<Rightarrow> bool"
    and fits :: "user \<Rightarrow> bool"
  assumes created: "CreateUser ops s i t u = Inr (s', v) \<Longrightarrow> v = created_user i t u"
    and name_was_free:
      "CreateUser ops s i t u = Inr (s', v) \<Longrightarrow> fits v \<Longrightarrow> \<exists>e. GetUserByUsername ops s (u_username u) = Inl e"
    and create_ok:
      "store_ok s \<Longrightarrow> CreateUser ops s i t u = Inr (s', v) \<Longrightarrow>
       GetUserByID ops s (u_id v) = Inl e \<Longrightarrow> store_ok s'"
    and by_name_created:
      "CreateUser ops s i t u = Inr (s', v) \<Longrightarrow> fits v \<Longrightarrow> GetUserByUsername ops s' n =
         (if n = u_username u then Inr v else GetUserByUsername ops s n)"
    and by_id_created:
      "CreateUser ops s i t u = Inr (s', v) \<Longrightarrow> fits v \<Longrightarrow> GetUserByID ops s' j =
         (if j = u_id v then Inr v else GetUserByID ops s j)"
    and by_name_name: "store_ok s \<Longrightarrow> GetUserByUsername ops s n = Inr v \<Longrightarrow> u_username v = n"
    and by_name_by_id:
      "store_ok s \<Longrightarrow> GetUserByUsername ops s n = Inr v \<Longrightarrow> GetUserByID ops s (u_id v) = Inr v"
begin

text \<open>A created user is found under its name and its id, and no other account changes.\<close>

lemma created_lookup:
  assumes "CreateUser ops s i t u = Inr (s', v)" and "fits v"
  shows "GetUserByUsername ops s' (u_username u) = Inr v" and "GetUserByID ops s' (u_id v) = Inr v"
    and "n \<noteq> u_username u \<Longrightarrow> GetUserByUsername ops s' n = GetUserByUsername ops s n"
  by (simp_all add: by_name_created [OF assms] by_id_created [OF assms])

lemma create_twice:
  assumes "CreateUser ops s i t u = Inr (s', v)" and "fits v"
    and "u_username w = u_username u" and "fits (created_user j t' w)"
  shows "\<exists>e. CreateUser ops s' j t' w = Inl e"
proof (cases "CreateUser ops s' j t' w")
  case (Inr r)
  then obtain s'' x where r: "CreateUser ops s' j t' w = Inr (s'', x)" by (cases r) simp
  with created [OF r] name_was_free [OF r] assms(4) created_lookup(1) [OF assms(1,2)] assms(3)
  show ?thesis by simp
qed simp

end

text \<open>A store that takes every user under a free name and names the error otherwise.\<close>

locale total_user_store = user_store +
  assumes create_taken:
      "GetUserByUsername ops s (u_username u) = Inr v \<Longrightarrow>
       CreateUser ops s i t u = Inl ErrUserAlreadyExists"
    and create_free:
      "GetUserByUsername ops s (u_username u) = Inl e \<Longrightarrow>
       \<exists>s'. CreateUser ops s i t u = Inr (s', created_user i t u)"
begin

lemma create_iff_free:
  "(\<exists>s' v. CreateUser ops s i t u = Inr (s', v)) \<longleftrightarrow> (\<exists>e. GetUserByUsername ops s (u_username u) = Inl e)"
proof
  assume "\<exists>s' v. CreateUser ops s i t u = Inr (s', v)"
  then show "\<exists>e. GetUserByUsername ops s (u_username u) = Inl e"
    using create_taken [of s u] by (cases "GetUserByUsername ops s (u_username u)") auto
qed (use create_free in blast)

end

subsection \<open>The in-memory store\<close>

record mem_store =
  byID :: "string \<rightharpoonup> user"
  byUsername :: "string \<rightharpoonup> user"

definition NewMemoryUserStore :: mem_store where
  "NewMemoryUserStore = \<lparr>byID = Map.empty, byUsername = Map.empty\<rparr>"

definition mem_CreateUser ::
    "mem_store \<Rightarrow> string \<Rightarrow> int \<Rightarrow> user \<Rightarrow> auth_error + (mem_store \<times> user)" where
  "mem_CreateUser s new_id now u =
     (case byUsername s (u_username u) of
        Some _ \<Rightarrow> Inl ErrUserAlreadyExists
      | None \<Rightarrow>
          let u' = created_user new_id now u
          in Inr (s\<lparr>byID := (byID s)(u_id u' \<mapsto> u'),
                    byUsername := (byUsername s)(u_username u' \<mapsto> u')\<rparr>, u'))"

definition mem_GetUserByUsername :: "mem_store \<Rightarrow> string \<Rightarrow> auth_error + user" where
  "mem_GetUserByUsername s username =
     (case byUsername s username of None \<Rightarrow> Inl ErrUserNotFound | Some u \<Rightarrow> Inr u)"

definition mem_GetUserByID :: "mem_store \<Rightarrow> string \<Rightarrow> auth_error + user" where
  "mem_GetUserByID s i = (case byID s i of None \<Rightarrow> Inl ErrUserNotFound | Some u \<Rightarrow> Inr u)"

text \<open>\<open>order\<close> is the order in which \<open>range s.byID\<close> visits the ids.\<close>

definition mem_ListUsers :: "mem_store \<Rightarrow> string list \<Rightarrow> auth_error + user list" where
  "mem_ListUsers s order = Inr (List.map_filter (byID s) order)"

text \<open>The new entries are written first, then the old name is removed if the name changed.\<close>

definition mem_UpdateUser :: "mem_store \<Rightarrow> int \<Rightarrow> user \<Rightarrow> auth_error + mem_store" where
  "mem_UpdateUser s now u =
     (case byID s (u_id u) of
        None \<Rightarrow> Inl ErrUserNotFound
      | Some existing \<Rightarrow>
          let u' = u\<lparr>u_updated_at := now\<rparr>;
              s1 = s\<lparr>byID := (byID s)(u_id u' \<mapsto> u'),
                     byUsername := (byUsername s)(u_username u' \<mapsto> u')\<rparr>
          in Inr (if u_username existing \<noteq> u_username u
                  then s1\<lparr>byUsername := (byUsername s1)(u_username existing := None)\<rparr>
                  else s1))"

definition mem_ops :: "mem_store user_store_ops" where
  "mem_ops = \<lparr>CreateUser = mem_CreateUser, GetUserByUsername = mem_GetUserByUsername,
     GetUserByID = mem_GetUserByID, ListUsers = mem_ListUsers, UpdateUser = mem_UpdateUser\<rparr>"

lemmas mem_defs = mem_ops_def mem_CreateUser_def mem_GetUserByUsername_def mem_GetUserByID_def
  mem_ListUsers_def mem_UpdateUser_def

text \<open>The two indexes agree: each entry of one is an entry of the other, under its own keys.\<close>

definition store_consistent :: "mem_store \<Rightarrow> bool" where
  "store_consistent s \<longleftrightarrow>
     (\<forall>i u. byID s i = Some u \<longrightarrow> u_id u = i \<and> byUsername s (u_username u) = Some u) \<and>
     (\<forall>n u. byUsername s n = Some u \<longrightarrow> u_username u = n \<and> byID s (u_id u) = Some u)"

lemma store_consistent_new [simp]: "store_consistent NewMemoryUserStore"
  by (simp add: store_consistent_def NewMemoryUserStore_def)

lemma store_consistentD:
  assumes "store_consistent s"
  shows "byID s i = Some u \<Longrightarrow> u_id u = i" "byID s i = Some u \<Longrightarrow> byUsername s (u_username u) = Some u"
    "byUsername s n = Some u \<Longrightarrow> u_username u = n" "byUsername s n = Some u \<Longrightarrow> byID s (u_id u) = Some u"
  using assms by (auto simp: store_consistent_def)

lemma mem_CreateUser_consistent:
  assumes ok: "store_consistent s" and c: "mem_CreateUser s i t u = Inr (s', v)"
    and fresh: "byID s (u_id v) = None"
  shows "store_consistent s'"
proof -
  from c have free: "byUsername s (u_username v) = None"
    and s': "s' = s\<lparr>byID := (byID s)(u_id v \<mapsto> v), byUsername := (byUsername s)(u_username v \<mapsto> v)\<rparr>"
    by (auto simp: mem_CreateUser_def Let_def split: option.splits)
  show ?thesis
    unfolding store_consistent_def s'
    using fresh free by (auto dest: store_consistentD [OF ok])
qed

interpretation mem: total_user_store mem_ops store_consistent "\<lambda>u. True"
proof
  fix s u v i t s' e n j
  show "CreateUser mem_ops s i t u = Inr (s', v) \<Longrightarrow> v = created_user i t u"
    by (auto simp: mem_defs Let_def split: option.splits)
  show "CreateUser mem_ops s i t u = Inr (s', v) \<Longrightarrow> True \<Longrightarrow>
      \<exists>e. GetUserByUsername mem_ops s (u_username u) = Inl e"
    by (auto simp: mem_defs Let_def split: option.splits)
  show "GetUserByUsername mem_ops s (u_username u) = Inr v \<Longrightarrow>
      CreateUser mem_ops s i t u = Inl ErrUserAlreadyExists"
    by (simp add: mem_defs split: option.splits)
  show "GetUserByUsername mem_ops s (u_username u) = Inl e \<Longrightarrow>
      \<exists>s'. CreateUser mem_ops s i t u = Inr (s', created_user i t u)"
    by (simp add: mem_defs Let_def split: option.splits)
  show "store_consistent s \<Longrightarrow> CreateUser mem_ops s i t u = Inr (s', v) \<Longrightarrow>
      GetUserByID mem_ops s (u_id v) = Inl e \<Longrightarrow> store_consistent s'"
    by (simp add: mem_ops_def mem_GetUserByID_def mem_CreateUser_consistent split: option.splits)
  show "CreateUser mem_ops s i t u = Inr (s', v) \<Longrightarrow> True \<Longrightarrow> GetUserByUsername mem_ops s' n =
      (if n = u_username u then Inr v else GetUserByUsername mem_ops s n)"
    by (auto simp: mem_defs Let_def split: option.splits if_splits)
  show "CreateUser mem_ops s i t u = Inr (s', v) \<Longrightarrow> True \<Longrightarrow> GetUserByID mem_ops s' j =
      (if j = u_id v then Inr v else GetUserByID mem_ops s j)"
    by (auto simp: mem_defs Let_def split: option.splits if_splits)
  show "store_consistent s \<Longrightarrow> GetUserByUsername mem_ops s n = Inr v \<Longrightarrow> u_username v = n"
    by (simp add: mem_ops_def mem_GetUserByUsername_def store_consistentD split: option.splits)
  show "store_consistent s \<Longrightarrow> GetUserByUsername mem_ops s n = Inr v \<Longrightarrow>
      GetUserByID mem_ops s (u_id v) = Inr v"
    by (simp add: mem_ops_def mem_GetUserByUsername_def mem_GetUserByID_def store_consistentD
        split: option.splits)
qed

text \<open>Updating an account keeps the two indexes consistent, provided the new name is free or
  is the account's own: the account is then found under its new name and its id.\<close>

theorem UpdateUser_consistent:
  assumes ok: "store_consistent s" and upd: "mem_UpdateUser s t u = Inr s'"
    and name: "\<forall>v. byUsername s (u_username u) = Some v \<longrightarrow> u_id v = u_id u"
  shows "store_consistent s' \<and> mem_GetUserByUsername s' (u_username u) = Inr (u\<lparr>u_updated_at := t\<rparr>) \<and>
    mem_GetUserByID s' (u_id u) = Inr (u\<lparr>u_updated_at := t\<rparr>)"
proof -
  obtain w where w: "byID s (u_id u) = Some w"
    using upd by (auto simp: mem_UpdateUser_def split: option.splits)
  note ww = store_consistentD(1,2) [OF ok w]
  let ?u = "u\<lparr>u_updated_at := t\<rparr>"
  have s': "byID s' = (byID s)(u_id u \<mapsto> ?u)"
    "byUsername s' = (if u_username w \<noteq> u_username u
       then ((byUsername s)(u_username u \<mapsto> ?u))(u_username w := None)
       else (byUsername s)(u_username u \<mapsto> ?u))"
    using upd w by (auto simp: mem_UpdateUser_def Let_def)
  have "u_id x = i \<and> byUsername s' (u_username x) = Some x" if x: "byID s' i = Some x" for i x
  proof (cases "i = u_id u")
    case True
    with x s' have "x = ?u" by simp
    then show ?thesis using True s' by simp
  next
    case False
    with x s' have "byID s i = Some x" by simp
    note xx = store_consistentD(1,2) [OF ok this]
    have "u_username x \<noteq> u_username u"
      using name xx False by metis
    moreover have "u_username x \<noteq> u_username w"
      using xx ww False by (metis option.inject)
    ultimately show ?thesis using xx s' by auto
  qed
  moreover have "u_username x = n \<and> byID s' (u_id x) = Some x" if x: "byUsername s' n = Some x" for n x
  proof (cases "n = u_username u")
    case True
    with x s' have "x = ?u" by (auto split: if_splits)
    then show ?thesis using True s' by simp
  next
    case False
    with x s' have "byUsername s n = Some x" and n: "n \<noteq> u_username w" by (auto split: if_splits)
    note xx = store_consistentD(3,4) [OF ok this(1)]
    with n w have "u_id x \<noteq> u_id u" by (metis option.inject)
    then show ?thesis using xx s' by auto
  qed
  ultimately have "store_consistent s'" by (simp add: store_consistent_def)
  then show ?thesis
    using s' by (auto simp: mem_GetUserByUsername_def mem_GetUserByID_def)
qed


definition sample_user :: "string \<Rightarrow> string \<Rightarrow> role \<Rightarrow> user" where
  "sample_user i n r = \<lparr>u_id = i, u_username = n, u_password_hash = ''h'', u_role = r,
     u_organization_id = [], u_status = StatusActive, u_mfa_secret = [], u_mfa_enabled = False,
     u_created_at = 0, u_updated_at = 0\<rparr>"

definition two_users :: mem_store where
  "two_users = \<lparr>
     byID = [''1'' \<mapsto> sample_user ''1'' ''ann'' RoleAdmin, ''2'' \<mapsto> sample_user ''2'' ''bob'' RoleViewer],
     byUsername = [''ann'' \<mapsto> sample_user ''1'' ''ann'' RoleAdmin,
                   ''bob'' \<mapsto> sample_user ''2'' ''bob'' RoleViewer]\<rparr>"

lemma two_users_consistent: "store_consistent two_users"
  by (auto simp: store_consistent_def two_users_def sample_user_def split: if_splits)

lemma two_users_rename:
  "\<exists>s'. mem_UpdateUser two_users 7 (sample_user ''2'' n RoleViewer) = Inr s'"
  by (simp add: mem_UpdateUser_def two_users_def sample_user_def Let_def)

theorem UpdateUser_consistent_witness:
  "\<exists>s'. mem_UpdateUser two_users 7 (sample_user ''2'' ''bobby'' RoleViewer) = Inr s' \<and>
     store_consistent s' \<and> mem_GetUserByUsername s' ''bob'' = Inl ErrUserNotFound"
proof -
  obtain s' where upd: "mem_UpdateUser two_users 7 (sample_user ''2'' ''bobby'' RoleViewer) = Inr s'"
    using two_users_rename by blast
  have "store_consistent s'"
    by (rule UpdateUser_consistent [OF two_users_consistent upd, THEN conjunct1])
      (simp add: two_users_def sample_user_def)
  moreover have "mem_GetUserByUsername s' ''bob'' = Inl ErrUserNotFound"
    using upd by (auto simp: mem_UpdateUser_def two_users_def sample_user_def Let_def
        mem_GetUserByUsername_def)
  ultimately show ?thesis using upd by blast
qed

text \<open>Nothing checks that the new name is free: renaming an account to a name in use succeeds,
  takes over the other account's name index entry and leaves the store inconsistent, so the
  other account can no longer be found by its name.\<close>

theorem UpdateUser_steals_name:
  "\<exists>s'. mem_UpdateUser two_users 7 (sample_user ''2'' ''ann'' RoleViewer) = Inr s' \<and>
     store_consistent two_users \<and> \<not> store_consistent s' \<and>
     mem_GetUserByID s' ''1'' = mem_GetUserByID two_users ''1'' \<and>
     map_sum id u_id (mem_GetUserByUsername s' ''ann'') = Inr ''2''"
proof -
  obtain s' where upd: "mem_UpdateUser two_users 7 (sample_user ''2'' ''ann'' RoleViewer) = Inr s'"
    using two_users_rename by blast
  then have ann: "byID s' ''1'' = Some (sample_user ''1'' ''ann'' RoleAdmin)"
    "\<exists>v. byUsername s' ''ann'' = Some v \<and> u_id v = ''2''"
    by (auto simp: mem_UpdateUser_def two_users_def sample_user_def Let_def)
  then have "\<not> store_consistent s'"
    by (auto dest!: store_consistentD(2) simp: sample_user_def)
  then show ?thesis
    using upd ann two_users_consistent
    by (auto simp: mem_GetUserByID_def mem_GetUserByUsername_def two_users_def)
qed

end
