(* ===== verification/PolicyEngine.thy ===== *)
theory PolicyEngine
  imports Users
begin

text \<open>
  The policy engine of \<open>backend/internal/policy/types.go\<close> and \<open>engine.go\<close>. A decision is a
  Go string (the API stores whatever decision string it is sent), a policy and a request are
  records, and the engine's state is the Go map from policy ids to policies.

  Go iterates over a map in an unspecified order, so \<open>Evaluate\<close> takes the order in which the
  keys are visited as an argument (\<open>iteration_order\<close> says which orders are possible), and the
  properties say what holds for every order. Risk scores are Go \<open>int\<close>s that are only compared,
  so they are integers here.
\<close>

subsection \<open>Data\<close>

type_synonym decision = string

definition DecisionAllow :: decision where "DecisionAllow = ''ALLOW''"
definition DecisionDeny :: decision where "DecisionDeny = ''DENY''"
definition DecisionRequireMFA :: decision where "DecisionRequireMFA = ''REQUIRE_MFA''"

lemmas decision_defs = DecisionAllow_def DecisionDeny_def DecisionRequireMFA_def

record request =
  rq_user_id :: string
  rq_role :: role
  rq_application :: string
  rq_device_trusted :: bool
  rq_mfa_verified :: bool
  rq_risk_score :: int
  rq_ip_address :: string

record result =
  rs_decision :: decision
  rs_reason :: string
  rs_policy_id :: string

record policy =
  p_id :: string
  p_name :: string
  p_role :: role
  p_application :: string
  p_require_mfa :: bool
  p_require_trusted :: bool
  p_max_risk_score :: int
  p_decision :: decision
  p_enabled :: bool

type_synonym engine = "string \<rightharpoonup> policy"

text \<open>The orders in which a \<open>range\<close> over the map can visit the policies.\<close>

definition iteration_order :: "('k \<rightharpoonup> 'v) \<Rightarrow> 'k list \<Rightarrow> bool" where
  "iteration_order m ks \<longleftrightarrow> distinct ks \<and> set ks = dom m"

definition range_over :: "('k \<rightharpoonup> 'v) \<Rightarrow> 'k list \<Rightarrow> 'v list" where
  "range_over m ks = List.map_filter m ks"

lemma set_range_over: "iteration_order m ks \<Longrightarrow> set (range_over m ks) = ran m"
  unfolding iteration_order_def range_over_def List.map_filter_def ran_def dom_def
  by (auto simp: image_iff) (metis option.sel)

subsection \<open>Evaluation\<close>

text \<open>The filter of the first loop: its three \<open>continue\<close> guards in order.\<close>

definition policy_matches :: "policy \<Rightarrow> request \<Rightarrow> bool" where
  "policy_matches p req =
     (if \<not> p_enabled p then False
      else if p_role p \<noteq> rq_role req \<and> p_role p \<noteq> ''*'' then False
      else if p_application p \<noteq> ''*'' \<and> p_application p \<noteq> rq_application req then False
      else True)"

text \<open>\<open>'%s'\<close> of a format string: the text between two single quotes.\<close>

definition quoted :: "string \<Rightarrow> string" where
  "quoted s = CHR 0x27 # s @ [CHR 0x27]"

text \<open>The body of the second loop: the early return of one policy, if it has one.\<close>

definition check_policy :: "policy \<Rightarrow> request \<Rightarrow> result option" where
  "check_policy p req =
     (if p_max_risk_score p > 0 \<and> rq_risk_score req > p_max_risk_score p
      then Some \<lparr>rs_decision = DecisionDeny,
             rs_reason = ''risk score '' @ show_int (rq_risk_score req)
               @ '' exceeds policy maximum of '' @ show_int (p_max_risk_score p),
             rs_policy_id = p_id p\<rparr>
      else if p_require_trusted p \<and> \<not> rq_device_trusted req
      then Some \<lparr>rs_decision = DecisionDeny,
             rs_reason = ''trusted device required by policy'',
             rs_policy_id = p_id p\<rparr>
      else if p_require_mfa p \<and> \<not> rq_mfa_verified req
      then Some \<lparr>rs_decision = DecisionRequireMFA,
             rs_reason = ''MFA verification required by policy'',
             rs_policy_id = p_id p\<rparr>
      else if p_decision p = DecisionDeny
      then Some \<lparr>rs_decision = DecisionDeny,
             rs_reason = ''policy '' @ quoted (p_name p) @ '' explicitly denies access'',
             rs_policy_id = p_id p\<rparr>
      else None)"

text \<open>The second loop: the first policy whose body returns decides.\<close>

fun check_loop :: "policy list \<Rightarrow> request \<Rightarrow> result option" where
  "check_loop [] req = None"
| "check_loop (p # ps) req =
     (case check_policy p req of Some r \<Rightarrow> Some r | None \<Rightarrow> check_loop ps req)"

definition Evaluate :: "engine \<Rightarrow> string list \<Rightarrow> request \<Rightarrow> result" where
  "Evaluate e order req =
     (let matching = filter (\<lambda>p. policy_matches p req) (range_over e order)
      in if length matching = 0
         then \<lparr>rs_decision = DecisionDeny,
               rs_reason = ''no policy grants role '' @ quoted (rq_role req)
                 @ '' access to '' @ quoted (rq_application req),
               rs_policy_id = []\<rparr>
         else (case check_loop matching req of
                 Some r \<Rightarrow> r
               | None \<Rightarrow> \<lparr>rs_decision = DecisionAllow,
                            rs_reason = ''access granted by policy'',
                            rs_policy_id = []\<rparr>))"

subsection \<open>Policy operations\<close>

text \<open>\<open>CreatePolicy\<close> overwrites the id it is given with a fresh one (\<open>new_id\<close>, the value of
  \<open>uuid.New\<close>) and never fails.\<close>

definition CreatePolicy :: "engine \<Rightarrow> string \<Rightarrow> policy \<Rightarrow> engine \<times> policy" where
  "CreatePolicy e new_id p = (let p' = p\<lparr>p_id := new_id\<rparr> in (e(new_id \<mapsto> p'), p'))"

definition ListPolicies :: "engine \<Rightarrow> string list \<Rightarrow> policy list" where
  "ListPolicies e order = range_over e order"

definition policy_not_found :: "string \<Rightarrow> string" where
  "policy_not_found i = ''policy not found: '' @ i"

definition GetPolicy :: "engine \<Rightarrow> string \<Rightarrow> string + policy" where
  "GetPolicy e i = (case e i of None \<Rightarrow> Inl (policy_not_found i) | Some p \<Rightarrow> Inr p)"

definition UpdatePolicy :: "engine \<Rightarrow> policy \<Rightarrow> string + (engine \<times> policy)" where
  "UpdatePolicy e p =
     (case e (p_id p) of
        None \<Rightarrow> Inl (policy_not_found (p_id p))
      | Some _ \<Rightarrow> Inr (e(p_id p \<mapsto> p), p))"

definition DeletePolicy :: "engine \<Rightarrow> string \<Rightarrow> string + engine" where
  "DeletePolicy e i =
     (case e i of None \<Rightarrow> Inl (policy_not_found i) | Some _ \<Rightarrow> Inr (e(i := None)))"

text \<open>\<open>NewEngine\<close>: the three seeded policies, under the three ids \<open>uuid.New\<close> returns.\<close>

definition seed_policies :: "string \<Rightarrow> string \<Rightarrow> string \<Rightarrow> policy list" where
  "seed_policies i1 i2 i3 =
    [\<lparr>p_id = i1, p_name = ''Developer AWS Console Access'', p_role = RoleDeveloper,
      p_application = ''aws-console'', p_require_mfa = True, p_require_trusted = True,
      p_max_risk_score = 70, p_decision = DecisionAllow, p_enabled = True\<rparr>,
     \<lparr>p_id = i2, p_name = ''Admin Full Access'', p_role = RoleAdmin,
      p_application = ''*'', p_require_mfa = True, p_require_trusted = False,
      p_max_risk_score = 50, p_decision = DecisionAllow, p_enabled = True\<rparr>,
     \<lparr>p_id = i3, p_name = ''Viewer Read-Only'', p_role = RoleViewer,
      p_application = ''*'', p_require_mfa = False, p_require_trusted = False,
      p_max_risk_score = 0, p_decision = DecisionAllow, p_enabled = True\<rparr>]"

definition NewEngine :: "string \<Rightarrow> string \<Rightarrow> string \<Rightarrow> engine" where
  "NewEngine i1 i2 i3 = foldl (\<lambda>e p. e(p_id p \<mapsto> p)) Map.empty (seed_policies i1 i2 i3)"


subsection \<open>Reference semantics\<close>

text \<open>What a policy demands of a request, as a conjunction without order.\<close>

definition policy_satisfied :: "policy \<Rightarrow> request \<Rightarrow> bool" where
  "policy_satisfied p req \<longleftrightarrow>
     \<not> (p_max_risk_score p > 0 \<and> rq_risk_score req > p_max_risk_score p) \<and>
     (p_require_trusted p \<longrightarrow> rq_device_trusted req) \<and>
     (p_require_mfa p \<longrightarrow> rq_mfa_verified req) \<and>
     p_decision p \<noteq> DecisionDeny"

text \<open>A policy denies on its own when its risk, device or explicit rule does.\<close>

definition policy_denies :: "policy \<Rightarrow> request \<Rightarrow> bool" where
  "policy_denies p req \<longleftrightarrow>
     p_max_risk_score p > 0 \<and> rq_risk_score req > p_max_risk_score p \<or>
     p_require_trusted p \<and> \<not> rq_device_trusted req \<or>
     p_decision p = DecisionDeny"

text \<open>
  The evaluation the comment above \<open>Evaluate\<close> documents: no match denies, any denial denies,
  otherwise an unverified MFA demand asks for MFA, otherwise access is allowed.
\<close>

definition documented_decision :: "policy set \<Rightarrow> request \<Rightarrow> decision" where
  "documented_decision ps req =
     (let matching = {p \<in> ps. policy_matches p req}
      in if matching = {} then DecisionDeny
         else if \<exists>p \<in> matching. policy_denies p req then DecisionDeny
         else if \<exists>p \<in> matching. p_require_mfa p \<and> \<not> rq_mfa_verified req then DecisionRequireMFA
         else DecisionAllow)"

lemma decisions_distinct [simp]:
  "DecisionAllow \<noteq> DecisionDeny" "DecisionDeny \<noteq> DecisionAllow"
  "DecisionAllow \<noteq> DecisionRequireMFA" "DecisionRequireMFA \<noteq> DecisionAllow"
  "DecisionDeny \<noteq> DecisionRequireMFA" "DecisionRequireMFA \<noteq> DecisionDeny"
  by (simp_all add: decision_defs)

lemma check_policy_None_iff: "check_policy p req = None \<longleftrightarrow> policy_satisfied p req"
  by (auto simp: check_policy_def policy_satisfied_def)

lemma check_policy_Some:
  "check_policy p req = Some r \<Longrightarrow>
   rs_policy_id r = p_id p \<and>
   (rs_decision r = DecisionDeny \<and> policy_denies p req \<or>
    rs_decision r = DecisionRequireMFA \<and> p_require_mfa p \<and> \<not> rq_mfa_verified req)"
  by (auto simp: check_policy_def policy_denies_def split: if_splits)

lemma check_loop_None_iff:
  "check_loop ps req = None \<longleftrightarrow> (\<forall>p \<in> set ps. policy_satisfied p req)"
  by (induction ps) (auto simp: check_policy_None_iff [symmetric] split: option.split)

lemma check_loop_Some:
  "check_loop ps req = Some r \<Longrightarrow> \<exists>p \<in> set ps. check_policy p req = Some r"
  by (induction ps) (auto split: option.splits)

text \<open>The shape of every evaluation: default denial, the verdict of one unsatisfied matching
  policy, or a grant when every matching policy is satisfied.\<close>

lemma Evaluate_cases:
  assumes ord: "iteration_order e order"
  obtains
    (no_match) "\<forall>p \<in> ran e. \<not> policy_matches p req"
      "rs_decision (Evaluate e order req) = DecisionDeny"
      "rs_policy_id (Evaluate e order req) = []"
  | (verdict) p where "p \<in> ran e" "policy_matches p req"
      "check_policy p req = Some (Evaluate e order req)"
  | (grant) "\<exists>p \<in> ran e. policy_matches p req"
      "\<forall>p \<in> ran e. policy_matches p req \<longrightarrow> policy_satisfied p req"
      "rs_decision (Evaluate e order req) = DecisionAllow"
      "rs_policy_id (Evaluate e order req) = []"
proof -
  define ms where "ms = filter (\<lambda>p. policy_matches p req) (range_over e order)"
  have set_ms: "set ms = {p \<in> ran e. policy_matches p req}"
    by (auto simp: ms_def set_range_over [OF ord])
  have ev: "Evaluate e order req =
     (if length ms = 0
      then \<lparr>rs_decision = DecisionDeny, rs_reason = ''no policy grants role '' @ quoted (rq_role req)
              @ '' access to '' @ quoted (rq_application req), rs_policy_id = []\<rparr>
      else (case check_loop ms req of Some r \<Rightarrow> r
            | None \<Rightarrow> \<lparr>rs_decision = DecisionAllow, rs_reason = ''access granted by policy'',
                        rs_policy_id = []\<rparr>))"
    by (simp add: Evaluate_def ms_def Let_def)
  show thesis
  proof (cases "ms = []")
    case True
    with ev set_ms show thesis by (intro no_match) auto
  next
    case nonempty: False
    show thesis
    proof (cases "check_loop ms req")
      case None
      with ev nonempty set_ms show thesis
        by (intro grant) (auto simp: check_loop_None_iff neq_Nil_conv)
    next
      case (Some r)
      with check_loop_Some obtain p where "p \<in> set ms" "check_policy p req = Some r" by blast
      with ev nonempty Some set_ms show thesis by (intro verdict [of p]) auto
    qed
  qed
qed

lemma Evaluate_verified:
  assumes ord: "iteration_order e order" and mfa: "rq_mfa_verified req"
  shows "rs_decision (Evaluate e order req) =
    (if (\<exists>p \<in> ran e. policy_matches p req) \<and> (\<forall>p \<in> ran e. policy_matches p req \<longrightarrow> policy_satisfied p req)
     then DecisionAllow else DecisionDeny)"
  using ord
proof (cases rule: Evaluate_cases [where req = req])
  case (verdict p)
  then have "\<not> policy_satisfied p req" by (simp add: check_policy_None_iff [symmetric])
  with verdict check_policy_Some [OF verdict(3)] mfa show ?thesis by auto
qed auto

subsection \<open>Properties of the evaluation\<close>

lemma Evaluate_grants:
  assumes ord: "iteration_order e order"
  shows "rs_decision (Evaluate e order req) = DecisionAllow \<longleftrightarrow>
    (\<exists>p \<in> ran e. policy_matches p req) \<and>
    (\<forall>p \<in> ran e. policy_matches p req \<longrightarrow> policy_satisfied p req)"
  using ord
proof (cases rule: Evaluate_cases [where req = req])
  case no_match
  then show ?thesis by simp
next
  case (verdict p)
  then have "\<not> policy_satisfied p req" by (simp add: check_policy_None_iff [symmetric])
  with verdict check_policy_Some [OF verdict(3)] show ?thesis
    by auto
next
  case grant
  then show ?thesis by simp
qed

text \<open>C4: Access is allowed exactly when some enabled policy matches the role and application and
  every matching policy is satisfied by the risk score, the device and the MFA state and is no
  explicit denial. The order in which the map is visited does not matter for a grant.\<close>

theorem Evaluate_allow_iff:
  assumes ord: "iteration_order e order"
  shows "rs_decision (Evaluate e order req) = DecisionAllow \<longleftrightarrow>
    (\<exists>p \<in> ran e. policy_matches p req) \<and>
    (\<forall>p \<in> ran e. policy_matches p req \<longrightarrow> policy_satisfied p req)"
  using ord by (rule Evaluate_grants)

definition example_request :: request where
  "example_request = \<lparr>rq_user_id = ''u1'', rq_role = RoleAdmin, rq_application = ''prod-db'',
     rq_device_trusted = False, rq_mfa_verified = True, rq_risk_score = 30, rq_ip_address = []\<rparr>"

lemma iteration_order_seed:
  "distinct [i1, i2, i3] \<Longrightarrow> iteration_order (NewEngine i1 i2 i3) [i1, i2, i3]"
  by (auto simp: iteration_order_def NewEngine_def seed_policies_def split: if_splits)

lemma ran_NewEngine:
  "distinct [i1, i2, i3] \<Longrightarrow> ran (NewEngine i1 i2 i3) = set (seed_policies i1 i2 i3)"
  by (subst set_range_over [OF iteration_order_seed, symmetric])
    (auto simp: NewEngine_def seed_policies_def range_over_def List.map_filter_simps)

lemmas engine_eval = Evaluate_def NewEngine_def seed_policies_def range_over_def
  List.map_filter_simps policy_matches_def check_policy_def decision_defs role_defs

theorem Evaluate_allow_iff_witness:
  "rs_decision (Evaluate (NewEngine ''1'' ''2'' ''3'') [''1'', ''2'', ''3''] example_request)
     = DecisionAllow"
proof -
  have ord: "iteration_order (NewEngine ''1'' ''2'' ''3'') [''1'', ''2'', ''3'']"
    by (rule iteration_order_seed) simp
  show ?thesis
    unfolding Evaluate_allow_iff [OF ord] ran_NewEngine [of "''1''" "''2''" "''3''", simplified]
    by (simp add: seed_policies_def policy_matches_def policy_satisfied_def example_request_def
        role_defs decision_defs)
qed

text \<open>Default deny: when no enabled policy matches the role and application, the decision is
  a denial that names no policy, whatever the rest of the request says.\<close>

theorem Evaluate_default_deny:
  assumes ord: "iteration_order e order"
    and none: "\<forall>p \<in> ran e. \<not> policy_matches p req"
  shows "rs_decision (Evaluate e order req) = DecisionDeny \<and> rs_policy_id (Evaluate e order req) = []"
  using ord by (cases rule: Evaluate_cases [where req = req]) (use none in auto)

theorem Evaluate_default_deny_witness:
  "rs_decision (Evaluate (NewEngine ''1'' ''2'' ''3'') [''1'', ''2'', ''3'']
     (example_request\<lparr>rq_role := RoleAnalyst\<rparr>)) = DecisionDeny"
  by (rule Evaluate_default_deny [THEN conjunct1])
    (simp_all add: iteration_order_seed ran_NewEngine seed_policies_def policy_matches_def
      example_request_def role_defs)

text \<open>C12: Refinement of the documented evaluation: when MFA is verified, the decision is the
  documented one (deny if any matching policy denies, else allow), in every visiting order.\<close>

theorem Evaluate_refines_documented:
  assumes ord: "iteration_order e order" and mfa: "rq_mfa_verified req"
  shows "rs_decision (Evaluate e order req) = documented_decision (ran e) req"
  using ord
proof (cases rule: Evaluate_cases [where req = req])
  case no_match
  then show ?thesis by (auto simp: documented_decision_def Let_def)
next
  case (verdict p)
  with check_policy_Some [OF verdict(3)] mfa show ?thesis
    by (auto simp: documented_decision_def Let_def)
next
  case grant
  then show ?thesis
    by (auto simp: documented_decision_def Let_def policy_satisfied_def policy_denies_def)
qed

theorem Evaluate_refines_documented_witness:
  "rs_decision (Evaluate (NewEngine ''1'' ''2'' ''3'') [''1'', ''2'', ''3'']
     (example_request\<lparr>rq_risk_score := 90\<rparr>))
   = documented_decision (ran (NewEngine ''1'' ''2'' ''3'')) (example_request\<lparr>rq_risk_score := 90\<rparr>)"
  by (rule Evaluate_refines_documented) (simp_all add: iteration_order_seed example_request_def)

text \<open>Without a verified MFA the decision depends on the map's iteration order: one engine
  and one request get a denial in one order and a request for MFA in the other, so the
  documented "any policy denies: DENY" is not what the loop computes.\<close>

theorem Evaluate_order_dependent:
  "\<exists>e req o1 o2. iteration_order e o1 \<and> iteration_order e o2 \<and>
     documented_decision (ran e) req = DecisionDeny \<and>
     rs_decision (Evaluate e o1 req) = DecisionDeny \<and>
     rs_decision (Evaluate e o2 req) = DecisionRequireMFA"
proof -
  define p1 where "p1 = \<lparr>p_id = ''a'', p_name = ''mfa'', p_role = ''*'', p_application = ''*'',
    p_require_mfa = True, p_require_trusted = False, p_max_risk_score = 0,
    p_decision = DecisionAllow, p_enabled = True\<rparr>"
  define p2 where "p2 = \<lparr>p_id = ''b'', p_name = ''freeze'', p_role = ''*'', p_application = ''*'',
    p_require_mfa = False, p_require_trusted = False, p_max_risk_score = 0,
    p_decision = DecisionDeny, p_enabled = True\<rparr>"
  define e :: engine where "e = [''a'' \<mapsto> p1, ''b'' \<mapsto> p2]"
  define req where "req = example_request\<lparr>rq_mfa_verified := False\<rparr>"
  have ords: "iteration_order e [''b'', ''a'']" "iteration_order e [''a'', ''b'']"
    by (auto simp: iteration_order_def e_def split: if_splits)
  have ran: "ran e = {p1, p2}"
    by (subst set_range_over [OF ords(2), symmetric])
      (simp add: range_over_def List.map_filter_simps e_def)
  have "rs_decision (Evaluate e [''b'', ''a''] req) = DecisionDeny"
    "rs_decision (Evaluate e [''a'', ''b''] req) = DecisionRequireMFA"
    by (simp_all add: engine_eval e_def p1_def p2_def req_def example_request_def)
  moreover have "documented_decision (ran e) req = DecisionDeny"
  proof -
    have "policy_matches p2 req" "policy_denies p2 req"
      by (simp_all add: p2_def policy_matches_def policy_denies_def)
    then show ?thesis unfolding documented_decision_def Let_def ran by auto
  qed
  ultimately show ?thesis using ords by blast
qed

text \<open>Improving the context never revokes a grant: a request allowed in some order stays
  allowed, in every order, when its risk score drops and its device and MFA flags only improve.\<close>

theorem Evaluate_monotone:
  assumes ord: "iteration_order e order" "iteration_order e order'"
    and allow: "rs_decision (Evaluate e order req) = DecisionAllow"
    and same: "rq_role req' = rq_role req" "rq_application req' = rq_application req"
    and better: "rq_risk_score req' \<le> rq_risk_score req"
      "rq_device_trusted req \<longrightarrow> rq_device_trusted req'"
      "rq_mfa_verified req \<longrightarrow> rq_mfa_verified req'"
  shows "rs_decision (Evaluate e order' req') = DecisionAllow"
proof -
  have "policy_matches p req' = policy_matches p req" for p
    using same by (simp add: policy_matches_def)
  moreover have "policy_satisfied p req \<Longrightarrow> policy_satisfied p req'" for p
    using better by (auto simp: policy_satisfied_def)
  ultimately show ?thesis
    using allow by (auto simp: Evaluate_grants [OF ord(1)] Evaluate_grants [OF ord(2)])
qed

theorem Evaluate_monotone_witness:
  "rs_decision (Evaluate (NewEngine ''1'' ''2'' ''3'') [''3'', ''2'', ''1'']
     (example_request\<lparr>rq_risk_score := 5, rq_device_trusted := True\<rparr>)) = DecisionAllow"
proof (rule Evaluate_monotone [where order = "[''1'', ''2'', ''3'']" and req = example_request])
  show "iteration_order (NewEngine ''1'' ''2'' ''3'') [''1'', ''2'', ''3'']"
    by (rule iteration_order_seed) simp
  show "iteration_order (NewEngine ''1'' ''2'' ''3'') [''3'', ''2'', ''1'']"
    by (auto simp: iteration_order_def NewEngine_def seed_policies_def split: if_splits)
  show "rs_decision (Evaluate (NewEngine ''1'' ''2'' ''3'') [''1'', ''2'', ''3''] example_request)
      = DecisionAllow"
    by (simp add: engine_eval example_request_def)
qed (simp_all add: example_request_def)

text \<open>A policy's decision matters only when it is DENY: replacing every other decision by
  ALLOW changes no result, so a policy stored with decision REQUIRE_MFA grants access like an
  ALLOW policy unless its separate MFA flag is set.\<close>

theorem Evaluate_ignores_require_mfa_decision:
  "Evaluate (\<lambda>i. map_option (\<lambda>p. if p_decision p = DecisionDeny then p
                              else p\<lparr>p_decision := DecisionAllow\<rparr>) (e i)) order req
   = Evaluate e order req"
proof -
  define f :: "policy \<Rightarrow> policy" where "f = (\<lambda>p. if p_decision p = DecisionDeny then p else p\<lparr>p_decision := DecisionAllow\<rparr>)"
  have m: "policy_matches (f p) req = policy_matches p req" for p
    by (simp add: f_def policy_matches_def)
  have c: "check_policy (f p) req = check_policy p req" for p
    by (simp add: f_def check_policy_def)
  have r: "range_over (\<lambda>i. map_option f (e i)) order = map f (range_over e order)"
    by (induction order) (simp_all add: range_over_def List.map_filter_simps split: option.split)
  have l: "check_loop (map f ps) req = check_loop ps req" for ps
    by (induction ps) (simp_all add: c split: option.split)
  have flt: "filter (\<lambda>p. policy_matches p req) (map f ps) = map f (filter (\<lambda>p. policy_matches p req) ps)"
    for ps by (induction ps) (simp_all add: m)
  show ?thesis
    unfolding f_def [symmetric] Evaluate_def r flt by (simp add: l Let_def)
qed

end
