(* ===== verification/AuditLog.thy ===== *)
theory AuditLog
  imports Prelude
begin

text \<open>
  The audit component of \<open>backend/internal/audit\<close>: the event type, the in-memory logger and the
  paged listing. Page arithmetic is on Go's 64-bit \<open>int\<close> (\<open>64 word\<close>, read as signed by \<open>sint\<close>),
  so the overflow of the page offset is part of the model, and a slice expression that Go
  would reject with a run-time panic is the \<open>Inl\<close> side of the result.
\<close>

subsection \<open>Events\<close>

type_synonym action = string

definition ActionUserRegistered :: action where "ActionUserRegistered = ''USER_REGISTERED''"
definition ActionLoginSuccess :: action where "ActionLoginSuccess = ''LOGIN_SUCCESS''"
definition ActionLoginFailed :: action where "ActionLoginFailed = ''LOGIN_FAILED''"
definition ActionMFASuccess :: action where "ActionMFASuccess = ''MFA_SUCCESS''"
definition ActionMFAFailed :: action where "ActionMFAFailed = ''MFA_FAILED''"
definition ActionAccessGranted :: action where "ActionAccessGranted = ''ACCESS_GRANTED''"
definition ActionAccessDenied :: action where "ActionAccessDenied = ''ACCESS_DENIED''"
definition ActionPolicyCreated :: action where "ActionPolicyCreated = ''POLICY_CREATED''"
definition ActionPolicyDeleted :: action where "ActionPolicyDeleted = ''POLICY_DELETED''"
definition ActionRateLimitTriggered :: action where
  "ActionRateLimitTriggered = ''RATE_LIMIT_TRIGGERED''"

lemmas action_defs = ActionUserRegistered_def ActionLoginSuccess_def ActionLoginFailed_def
  ActionMFASuccess_def ActionMFAFailed_def ActionAccessGranted_def ActionAccessDenied_def
  ActionPolicyCreated_def ActionPolicyDeleted_def ActionRateLimitTriggered_def

text \<open>The zero time of \<open>Timestamp\<close> is \<open>None\<close>; the metadata map is a list of pairs.\<close>

record event =
  ev_id :: string
  ev_user_id :: string
  ev_action :: action
  ev_resource :: string
  ev_ip_address :: string
  ev_user_agent :: string
  ev_metadata :: "(string \<times> string) list"
  ev_timestamp :: "int option"

definition new_event :: "action \<Rightarrow> event" where
  "new_event a = \<lparr>ev_id = [], ev_user_id = [], ev_action = a, ev_resource = [],
     ev_ip_address = [], ev_user_agent = [], ev_metadata = [], ev_timestamp = None\<rparr>"

subsection \<open>The in-memory logger\<close>

record memory_logger =
  ml_events :: "event list"

definition NewMemoryLogger :: memory_logger where
  "NewMemoryLogger = \<lparr>ml_events = []\<rparr>"

text \<open>The id and the time are filled in where the caller left them out; \<open>new_id\<close> and \<open>now\<close> are
  the values of \<open>uuid.New\<close> and \<open>time.Now\<close>.\<close>

definition stamp_event :: "string \<Rightarrow> int \<Rightarrow> event \<Rightarrow> event" where
  "stamp_event new_id now e =
     (let e1 = (if ev_id e = [] then e\<lparr>ev_id := new_id\<rparr> else e)
      in if ev_timestamp e1 = None then e1\<lparr>ev_timestamp := Some now\<rparr> else e1)"

definition Log :: "memory_logger \<Rightarrow> string \<Rightarrow> int \<Rightarrow> event \<Rightarrow> memory_logger" where
  "Log l new_id now e = l\<lparr>ml_events := ml_events l @ [stamp_event new_id now e]\<rparr>"

text \<open>\<open>xs[lo:hi]\<close> on a slice whose capacity is its length: it panics out of range.\<close>

definition go_slice :: "'a list \<Rightarrow> int \<Rightarrow> int \<Rightarrow> string + 'a list" where
  "go_slice xs lo hi =
     (if 0 \<le> lo \<and> lo \<le> hi \<and> hi \<le> int (length xs)
      then Inr (take (nat (hi - lo)) (drop (nat lo) xs))
      else Inl ''slice bounds out of range'')"

text \<open>The loop \<open>reversed[total-1-i] = e\<close> over an index range.\<close>

definition reverse_copy :: "event list \<Rightarrow> event list" where
  "reverse_copy es =
     (let total = length es
      in foldl (\<lambda>acc i. acc[total - 1 - i := es ! i]) (replicate total (new_event [])) [0..<total])"

definition List_page ::
    "memory_logger \<Rightarrow> 64 word \<Rightarrow> 64 word \<Rightarrow> string + (event list \<times> nat)" where
  "List_page l page pageSize =
     (let total = length (ml_events l)
      in if total = 0 then Inr ([], 0)
         else let reversed = reverse_copy (ml_events l);
                  start = (page - 1) * pageSize
              in if sint start \<ge> int total then Inr ([], total)
                 else let end0 = start + pageSize;
                          end1 = (if sint end0 > int total then int total else sint end0)
                      in (case go_slice reversed (sint start) end1 of
                            Inl panic \<Rightarrow> Inl panic
                          | Inr es \<Rightarrow> Inr (es, total)))"

subsection \<open>Correctness of the listing\<close>

lemma Log_events [simp]: "ml_events (Log l i t e) = ml_events l @ [stamp_event i t e]"
  by (simp add: Log_def)

lemma stamp_event_action [simp]: "ev_action (stamp_event i t e) = ev_action e"
  by (simp add: stamp_event_def Let_def)

lemma stamp_event_filled:
  "i \<noteq> [] \<Longrightarrow> ev_id (stamp_event i t e) \<noteq> [] \<and> ev_timestamp (stamp_event i t e) \<noteq> None"
  by (auto simp: stamp_event_def Let_def)

lemma reverse_loop:
  assumes len: "length xs0 = length es" and "n \<le> length es"
  shows "foldl (\<lambda>acc i. acc[length es - 1 - i := es ! i]) xs0 [0..<n] =
    take (length es - n) xs0 @ rev (take n es)"
  using assms(2)
proof (induction n)
  case 0
  with len show ?case by simp
next
  case (Suc n)
  then have n: "n < length es" by simp
  have split: "take (length es - n) xs0 = take (length es - Suc n) xs0 @ [xs0 ! (length es - Suc n)]"
    using n len by (metis Suc_diff_Suc diff_Suc_less length_0_conv length_greater_0_conv
        not_less_zero take_Suc_conv_app_nth)
  have "foldl (\<lambda>acc i. acc[length es - 1 - i := es ! i]) xs0 [0..<Suc n] =
    (take (length es - n) xs0 @ rev (take n es))[length es - 1 - n := es ! n]"
    using Suc by simp
  also have "\<dots> = take (length es - Suc n) xs0 @ es ! n # rev (take n es)"
    using n len by (simp add: split list_update_append)
  also have "es ! n # rev (take n es) = rev (take (Suc n) es)"
    using n by (simp add: take_Suc_conv_app_nth)
  finally show ?case .
qed

text \<open>The index loop computes the reversed list.\<close>

lemma reverse_copy_rev: "reverse_copy es = rev es"
  using reverse_loop [of "replicate (length es) (new_event [])" es "length es"]
  by (simp add: reverse_copy_def Let_def)

text \<open>Offsets below \<open>2^63\<close> do not wrap.\<close>

lemma sint_of_nat64: "int n < 2 ^ 63 \<Longrightarrow> sint (of_nat n :: 64 word) = int n"
  by (simp add: signed_of_nat take_bit_int_eq_self signed_take_bit_int_eq_self)

lemma page_start:
  "1 \<le> p \<Longrightarrow> ((of_nat p :: 64 word) - 1) * of_nat s = of_nat ((p - 1) * s)"
  by (simp add: of_nat_diff)

text \<open>The specified page: newest first, \<open>s\<close> events per page, pages counted from 1.\<close>

definition page_of :: "event list \<Rightarrow> nat \<Rightarrow> nat \<Rightarrow> event list" where
  "page_of es p s = take s (drop ((p - 1) * s) (rev es))"

lemma go_slice_page:
  assumes "a < length xs"
  shows "go_slice xs (int a) (if int (a + s) > int (length xs) then int (length xs) else int (a + s))
    = Inr (take s (drop a xs))"
proof (cases "a + s > length xs")
  case True
  with assms have "nat (int (length xs) - int a) = length xs - a" by simp
  with True assms show ?thesis by (simp add: go_slice_def)
next
  case False
  then show ?thesis by (simp add: go_slice_def)
qed

lemma List_page_spec:
  assumes p: "1 \<le> p" and bound: "int (p * s) < 2 ^ 63"
  shows "List_page l (of_nat p) (of_nat s) = Inr (page_of (ml_events l) p s, length (ml_events l))"
proof (cases "ml_events l = []")
  case True
  then show ?thesis by (simp add: List_page_def page_of_def)
next
  case False
  let ?es = "ml_events l" and ?a = "(p - 1) * s"
  have e: "?a + s = p * s" using p by (cases p) simp_all
  have start: "((of_nat p :: 64 word) - 1) * of_nat s = of_nat ?a"
    using p by (rule page_start)
  have fin: "of_nat ?a + (of_nat s :: 64 word) = of_nat (p * s)"
    by (simp only: e [symmetric] of_nat_add)
  have le: "?a \<le> p * s" using e by linarith
  then have sa: "sint (of_nat ?a :: 64 word) = int ?a"
    using bound by (intro sint_of_nat64) linarith
  have sf: "sint (of_nat (p * s) :: 64 word) = int (p * s)"
    using bound by (rule sint_of_nat64)
  have pg: "\<not> int ?a \<ge> int (length ?es) \<Longrightarrow>
      go_slice (rev ?es) (int ?a)
        (if int (p * s) > int (length ?es) then int (length ?es) else int (p * s))
      = Inr (page_of ?es p s)"
    using go_slice_page [of ?a "rev ?es" s] unfolding page_of_def e length_rev
    by (simp only: not_le of_nat_less_iff)
  have none: "int ?a \<ge> int (length ?es) \<Longrightarrow> page_of ?es p s = []"
    unfolding page_of_def of_nat_le_iff by simp
  show ?thesis
    using False pg none
    unfolding List_page_def Let_def start fin sa sf reverse_copy_rev by simp
qed


lemma length_page_of: "length (page_of es p s) \<le> s"
  by (simp add: page_of_def)

lemma page_of_tile: "concat (map (\<lambda>p. page_of es p s) [1..<Suc n]) = take (n * s) (rev es)"
proof (induction n)
  case 0
  show ?case by simp
next
  case (Suc n)
  have "concat (map (\<lambda>p. page_of es p s) [1..<Suc (Suc n)]) =
    take (n * s) (rev es) @ page_of es (Suc n) s"
    using Suc by simp
  also have "\<dots> = take (n * s + s) (rev es)"
    by (simp add: page_of_def take_add)
  finally show ?case by (simp add: add.commute)
qed

text \<open>Consecutive pages of the listing tile the log: the first \<open>n\<close> pages of size \<open>s\<close>, one after
  the other, are the newest \<open>n * s\<close> events in reverse order of logging, none repeated and
  none skipped.\<close>

theorem pages_tile:
  assumes "int (n * s) < 2 ^ 63"
  shows "concat (map (\<lambda>p. case List_page l (of_nat p) (of_nat s) of Inr (es, _) \<Rightarrow> es | Inl _ \<Rightarrow> [])
    [1..<Suc n]) = take (n * s) (rev (ml_events l))"
proof -
  have "(case List_page l (of_nat p) (of_nat s) of Inr (es, _) \<Rightarrow> es | Inl _ \<Rightarrow> []) =
      page_of (ml_events l) p s" if "p \<in> set [1..<Suc n]" for p
  proof -
    from that have "p \<le> n" by auto
    then have "p * s \<le> n * s" by simp
    with assms have "int (p * s) < 2 ^ 63" by linarith
    moreover have "1 \<le> p" using that by auto
    ultimately have "List_page l (of_nat p) (of_nat s) = Inr (page_of (ml_events l) p s, length (ml_events l))"
      by (intro List_page_spec)
    then show ?thesis by simp
  qed
  then have "map (\<lambda>p. case List_page l (of_nat p) (of_nat s) of Inr (es, _) \<Rightarrow> es | Inl _ \<Rightarrow> []) [1..<Suc n] =
      map (\<lambda>p. page_of (ml_events l) p s) [1..<Suc n]"
    by (rule map_cong [OF refl])
  then show ?thesis by (simp only: page_of_tile)
qed

subsection \<open>The audit endpoint\<close>

text \<open>\<open>strconv.Atoi\<close> on a 64-bit platform: an optional sign, at least one digit, in range.\<close>

definition nat_of_digits :: "string \<Rightarrow> nat" where
  "nat_of_digits ds = foldl (\<lambda>n c. 10 * n + (char_code c - 48)) 0 ds"

definition atoi :: "string \<Rightarrow> int option" where
  "atoi s =
     (let neg = starts_with ''-'' s;
          ds = (if neg \<or> starts_with ''+'' s then tl s else s)
      in if ds = [] \<or> \<not> list_all is_digit ds then None
         else let n = int (nat_of_digits ds)
              in if neg then (if n \<le> 2 ^ 63 then Some (- n) else None)
                 else (if n < 2 ^ 63 then Some n else None))"

text \<open>\<open>url.Values.Get\<close>: the first value of the key, or the empty string.\<close>

fun query_get :: "(string \<times> string) list \<Rightarrow> string \<Rightarrow> string" where
  "query_get [] k = []"
| "query_get ((a, v) # q) k = (if a = k then v else query_get q k)"

text \<open>The body of the answer: a nil slice (\<open>None\<close>) is encoded as \<open>null\<close>, an empty one as \<open>[]\<close>.\<close>

record audit_reply =
  ar_events :: "event list option"
  ar_total :: nat
  ar_page :: int
  ar_page_size :: int

definition page_param :: "(string \<times> string) list \<Rightarrow> int" where
  "page_param q =
     (let p = query_get q ''page''
      in if p \<noteq> [] then (case atoi p of Some v \<Rightarrow> if v > 0 then v else 1 | None \<Rightarrow> 1) else 1)"

definition page_size_param :: "(string \<times> string) list \<Rightarrow> int" where
  "page_size_param q =
     (let ps = query_get q ''page_size''
      in if ps \<noteq> []
         then (case atoi ps of Some v \<Rightarrow> if v > 0 \<and> v \<le> 200 then v else 50 | None \<Rightarrow> 50)
         else 50)"

text \<open>The interface \<open>audit.Logger\<close>: \<open>Log\<close> with the id and the time it may fill in, and \<open>List\<close>, which
  panics (the outer \<open>Inl\<close>), returns an error (the inner one), or a page, maybe nil, with the total.\<close>

record 'l logger_ops =
  lg_Log :: "'l \<Rightarrow> string \<Rightarrow> int \<Rightarrow> event \<Rightarrow> 'l"
  lg_List :: "'l \<Rightarrow> 64 word \<Rightarrow> 64 word \<Rightarrow> string + string + event list option \<times> nat"

text \<open>The handler, up to the response it writes: a panic ends the request.\<close>

definition List_handler_on ::
    "(64 word \<Rightarrow> 64 word \<Rightarrow> string + string + event list option \<times> nat) \<Rightarrow> (string \<times> string) list \<Rightarrow>
     string + string + audit_reply" where
  "List_handler_on list q =
     (let page = page_param q; pageSize = page_size_param q
      in map_sum id (map_sum id (\<lambda>(events, n).
           \<lparr>ar_events = events, ar_total = n, ar_page = page, ar_page_size = pageSize\<rparr>))
         (list (word_of_int page) (word_of_int pageSize)))"

text \<open>The in-memory logger always makes its slice.\<close>

definition mem_log_ops :: "memory_logger logger_ops" where
  "mem_log_ops = \<lparr>lg_Log = Log,
     lg_List = (\<lambda>l page n. map_sum id (\<lambda>(events, total). Inr (Some events, total)) (List_page l page n))\<rparr>"

lemma mem_log_ops_sel [simp]:
  "lg_Log mem_log_ops = Log"
  "lg_List mem_log_ops l page n = map_sum id (\<lambda>(events, total). Inr (Some events, total)) (List_page l page n)"
  by (simp_all add: mem_log_ops_def)

text \<open>On the in-memory logger, which returns no error.\<close>

definition List_handler :: "memory_logger \<Rightarrow> (string \<times> string) list \<Rightarrow> string + audit_reply" where
  "List_handler l q = map_sum id projr (List_handler_on (lg_List mem_log_ops l) q)"

lemma List_handler_eq:
  "List_handler l q =
     (case List_page l (word_of_int (page_param q)) (word_of_int (page_size_param q)) of
        Inl panic \<Rightarrow> Inl panic
      | Inr (events, n) \<Rightarrow> Inr \<lparr>ar_events = Some events, ar_total = n, ar_page = page_param q,
          ar_page_size = page_size_param q\<rparr>)"
  by (simp add: List_handler_def List_handler_on_def Let_def split: sum.split)

lemma List_handler_on_mem: "List_handler_on (lg_List mem_log_ops l) q = map_sum id Inr (List_handler l q)"
  by (cases "List_page l (word_of_int (page_param q)) (word_of_int (page_size_param q))")
    (auto simp: List_handler_def List_handler_on_def Let_def)

lemma page_param_bounds: "1 \<le> page_param q" "page_param q < 2 ^ 63"
  by (auto simp: page_param_def Let_def atoi_def split: option.splits if_splits)

lemma page_size_param_bounds: "1 \<le> page_size_param q" "page_size_param q \<le> 200"
  by (auto simp: page_size_param_def Let_def split: option.splits)

lemma List_handler_page:
  assumes "page_param q < 2 ^ 55"
  shows "List_handler l q = Inr
    \<lparr>ar_events = Some (page_of (ml_events l) (nat (page_param q)) (nat (page_size_param q))),
     ar_total = length (ml_events l), ar_page = page_param q, ar_page_size = page_size_param q\<rparr>"
proof -
  let ?p = "nat (page_param q)" and ?s = "nat (page_size_param q)"
  have p: "page_param q = int ?p" "1 \<le> ?p" and s: "page_size_param q = int ?s"
    using page_param_bounds(1) [of q] page_size_param_bounds(1) [of q] by simp_all
  have "page_param q * page_size_param q \<le> 2 ^ 55 * 200"
    using assms page_param_bounds(1) [of q] page_size_param_bounds [of q]
    by (intro mult_mono) auto
  then have "int (?p * ?s) < 2 ^ 63"
    using page_param_bounds(1) [of q] page_size_param_bounds(1) [of q] by simp
  then have "List_page l (of_nat ?p) (of_nat ?s) =
      Inr (page_of (ml_events l) ?p ?s, length (ml_events l))"
    using p(2) by (intro List_page_spec)
  then show ?thesis
    using p(1) s by (simp add: List_handler_eq)
qed

text \<open>For every query whose page number is below \<open>2^55\<close> (where the offset cannot overflow),
  the listing does not panic, echoes the effective page and page size (1 to 200), reports the
  full count and returns exactly that page of the reversed log.\<close>

theorem List_handler_correct:
  assumes "page_param q < 2 ^ 55"
  shows "List_handler l q = Inr
    \<lparr>ar_events = Some (page_of (ml_events l) (nat (page_param q)) (nat (page_size_param q))),
     ar_total = length (ml_events l), ar_page = page_param q, ar_page_size = page_size_param q\<rparr>"
  using assms by (rule List_handler_page)

definition example_log :: memory_logger where
  "example_log = \<lparr>ml_events = map (\<lambda>a. new_event a)
     [ActionLoginFailed, ActionLoginSuccess, ActionPolicyCreated]\<rparr>"

lemma page_param_Nil [simp]: "page_param [] = 1" "page_size_param [] = 50"
  by (simp_all add: page_param_def page_size_param_def Let_def)

theorem List_handler_correct_witness:
  "List_handler example_log [] = Inr \<lparr>ar_events = Some (rev (ml_events example_log)), ar_total = 3,
     ar_page = 1, ar_page_size = 50\<rparr>"
  using List_handler_correct [of "[]" example_log]
  by (simp add: page_of_def example_log_def)

theorem pages_tile_witness:
  "concat (map (\<lambda>p. case List_page example_log (of_nat p) (of_nat 2) of Inr (es, _) \<Rightarrow> es | Inl _ \<Rightarrow> [])
    [1..<Suc 2]) = rev (ml_events example_log)"
proof -
  have "int (2 * 2) < 2 ^ 63" by simp
  from pages_tile [OF this, of example_log] show ?thesis by (simp add: example_log_def)
qed

text \<open>The page offset can overflow: on any non-empty log, the query
  \<open>page=4611686018427387905\<close> (that is \<open>2^62 + 1\<close>) passes the checks of the handler and
  makes the slice expression of the listing panic.\<close>

theorem List_handler_overflow_panics:
  assumes "ml_events l \<noteq> []"
  shows "List_handler l [(''page'', ''4611686018427387905'')]
     = Inl ''slice bounds out of range''"
proof -
  have "page_param [(''page'', ''4611686018427387905'')] = 4611686018427387905"
    by (simp add: page_param_def Let_def atoi_def nat_of_digits_def is_digit_def char_code_def)
  moreover have "page_size_param [(''page'', ''4611686018427387905'')] = 50"
    by (simp add: page_size_param_def)
  ultimately show ?thesis
    using assms by (simp add: List_handler_eq List_page_def Let_def go_slice_def)
qed

theorem List_handler_overflow_panics_witness:
  "List_handler example_log [(''page'', ''4611686018427387905'')]
     = Inl ''slice bounds out of range''"
  by (rule List_handler_overflow_panics) (simp add: example_log_def)

end
