(* ===== verification/Http.thy ===== *)
theory Http
  imports PolicyEngine AuditLog
begin

text \<open>
  The HTTP vocabulary the Go handlers share: the JSON values of request bodies and Go's
  decoding of them into structs, the claims carried in the request context, requests,
  responses, the bearer-token parser and the role middleware of
  \<open>backend/internal/auth/middleware.go\<close>, and the response headers of
  \<open>backend/internal/middleware/http.go\<close>.

  A request body is \<open>None\<close> when \<open>json.Decoder\<close> fails to read a JSON value from it. Response
  bodies are the datatype \<open>payload\<close>, one constructor per shape that the handlers encode. A
  handler that panics (net/http then aborts the request) yields \<open>Inl\<close>.
\<close>

subsection \<open>JSON bodies and struct decoding\<close>

datatype json =
    JNull
  | JBool bool
  | JInt int           \<comment> \<open>an integer literal\<close>
  | JFrac string       \<comment> \<open>any other number literal, as written\<close>
  | JStr string
  | JArr "json list"
  | JObj "(string \<times> json) list"

text \<open>Decoding a value into a field: \<open>null\<close> keeps the field, a value of another type is an
  \<open>UnmarshalTypeError\<close> (\<open>None\<close>), and an integer must fit a 64-bit \<open>int\<close>.\<close>

fun go_string :: "json \<Rightarrow> string \<Rightarrow> string option" where
  "go_string JNull cur = Some cur"
| "go_string (JStr s) cur = Some s"
| "go_string _ cur = None"

fun go_bool :: "json \<Rightarrow> bool \<Rightarrow> bool option" where
  "go_bool JNull cur = Some cur"
| "go_bool (JBool b) cur = Some b"
| "go_bool _ cur = None"

fun go_int :: "json \<Rightarrow> int \<Rightarrow> int option" where
  "go_int JNull cur = Some cur"
| "go_int (JInt i) cur = (if - (2 ^ 63) \<le> i \<and> i < 2 ^ 63 then Some i else None)"
| "go_int _ cur = None"

text \<open>
  A struct decoder sets one field per member of the object, in the order of the members;
  unknown members are skipped, and keys match field names up to case. \<open>set_field\<close> is the
  struct's table of fields: it returns \<open>None\<close> on a type error.
\<close>

fun decode_members ::
    "('r \<Rightarrow> string \<Rightarrow> json \<Rightarrow> 'r option) \<Rightarrow> (string \<times> json) list \<Rightarrow> 'r \<Rightarrow> 'r option" where
  "decode_members set_field [] r = Some r"
| "decode_members set_field ((k, v) # ms) r =
     (case set_field r (to_lower k) v of
        None \<Rightarrow> None
      | Some r' \<Rightarrow> decode_members set_field ms r')"

fun decode_struct :: "('r \<Rightarrow> string \<Rightarrow> json \<Rightarrow> 'r option) \<Rightarrow> 'r \<Rightarrow> json option \<Rightarrow> 'r option" where
  "decode_struct set_field zero None = None"
| "decode_struct set_field zero (Some JNull) = Some zero"
| "decode_struct set_field zero (Some (JObj ms)) = decode_members set_field ms zero"
| "decode_struct set_field zero (Some _) = None"

subsection \<open>Claims, requests and responses\<close>

record claims =
  c_user_id :: string
  c_username :: string
  c_role :: role
  c_issuer :: string
  c_issued_at :: int
  c_expires_at :: int
  c_jti :: string

text \<open>\<open>hr_body_bytes\<close> is the number of bytes up to the end of the JSON value of the body.
  \<open>hr_claims\<close> is the value stored in the request context under \<open>claimsKey\<close>; a header or a
  path value that is absent is the empty string.\<close>

record http_request =
  hr_method :: string
  hr_path :: string
  hr_authorization :: string
  hr_origin :: string
  hr_remote_addr :: string
  hr_user_agent :: string
  hr_query :: "(string \<times> string) list"
  hr_body :: "json option"
  hr_body_bytes :: nat
  hr_path_id :: string
  hr_claims :: "claims option"

datatype payload =
    ErrorBody string
  | TokenBody string
  | RegisteredBody string public_user
  | UserBody public_user
  | UsersBody "public_user list" nat
  | ZoneBody string string role
  | MfaSetupBody string string string
  | MfaVerifiedBody string bool string
  | DecisionBody result
  | PoliciesBody "policy list" nat
  | PolicyBody policy
  | MessageBody string
  | AuditBody audit_reply
  | HealthBody string string
  | TextBody string
  | EmptyBody

record http_response =
  rsp_status :: nat
  rsp_headers :: "(string \<times> string) list"
  rsp_payload :: payload

definition writeJSON :: "nat \<Rightarrow> payload \<Rightarrow> http_response" where
  "writeJSON st p = \<lparr>rsp_status = st, rsp_headers = [(''Content-Type'', ''application/json'')],
     rsp_payload = p\<rparr>"

definition writeError :: "nat \<Rightarrow> string \<Rightarrow> http_response" where
  "writeError st msg = writeJSON st (ErrorBody msg)"

lemma writeJSON_sel [simp]:
  "rsp_status (writeJSON st p) = st" "rsp_payload (writeJSON st p) = p"
  "rsp_status (writeError st m) = st" "rsp_payload (writeError st m) = ErrorBody m"
  by (simp_all add: writeJSON_def writeError_def)

text \<open>A handler reads the server state and a request and yields the new state, the audit events
  it logs, in order, and its outcome: a panic or a response.\<close>

type_synonym 's handler = "'s \<Rightarrow> http_request \<Rightarrow> 's \<times> event list \<times> (string + http_response)"

definition respond :: "'s \<Rightarrow> http_response \<Rightarrow> 's \<times> event list \<times> (string + http_response)" where
  "respond s r = (s, [], Inr r)"

subsection \<open>Bearer tokens\<close>

text \<open>\<open>strings.SplitN(header, " ", 2)\<close>: the text before the first space and the rest after it, or
  the header alone when it has no space.\<close>

fun split_space :: "string \<Rightarrow> string \<times> string option" where
  "split_space [] = ([], None)"
| "split_space (c # cs) =
     (if c = CHR '' '' then ([], Some cs)
      else let (a, b) = split_space cs in (c # a, b))"

definition extractBearerToken :: "http_request \<Rightarrow> string option" where
  "extractBearerToken r =
     (let header = hr_authorization r
      in if header = [] then None
         else case split_space header of
             (scheme, None) \<Rightarrow> None
           | (scheme, Some rest) \<Rightarrow>
               if \<not> equal_fold scheme ''Bearer'' then None
               else let token = trim_space rest
                    in if token = [] then None else Some token)"

lemma split_space_Some: "split_space s = (a, Some b) \<longleftrightarrow> s = a @ CHR '' '' # b \<and> CHR '' '' \<notin> set a"
proof (induction s arbitrary: a)
  case (Cons c cs)
  obtain a' b' where sp: "split_space cs = (a', b')" by (cases "split_space cs")
  show ?case
  proof (cases "c = CHR '' ''")
    case True
    then show ?thesis by (cases a) simp_all
  next
    case False
    then have "split_space (c # cs) = (a, Some b) \<longleftrightarrow> a = c # a' \<and> b' = Some b"
      by (auto simp: sp)
    also have "\<dots> \<longleftrightarrow> (c # cs = a @ CHR '' '' # b \<and> CHR '' '' \<notin> set a)"
      using Cons.IH [of a'] Cons.IH [of "tl a"] False sp by (cases a) auto
    finally show ?thesis .
  qed
qed simp

subsection \<open>Role middleware\<close>

definition RequireRole :: "role \<Rightarrow> 's handler \<Rightarrow> 's handler" where
  "RequireRole role next s r =
     (case hr_claims r of
        None \<Rightarrow> respond s (writeError 401 ''unauthorized'')
      | Some c \<Rightarrow>
          if c_role c \<noteq> role \<and> c_role c \<noteq> RoleSuperAdmin
          then respond s (writeError 403 (''insufficient role: '' @ role @ '' required''))
          else next s r)"

definition RequireAnyRole :: "role list \<Rightarrow> 's handler \<Rightarrow> 's handler" where
  "RequireAnyRole roles next s r =
     (let allowed = insert RoleSuperAdmin (set roles)
      in case hr_claims r of
           None \<Rightarrow> respond s (writeError 401 ''unauthorized'')
         | Some c \<Rightarrow>
             if c_role c \<notin> allowed then respond s (writeError 403 ''insufficient permissions'')
             else next s r)"

text \<open>One required role is the same gate as a set with one role: the two middlewares let the same
  requests through.\<close>

lemma RequireRole_passes:
  "hr_claims r = Some c \<Longrightarrow> c_role c = role \<or> c_role c = RoleSuperAdmin \<Longrightarrow>
   RequireRole role next s r = next s r"
  by (auto simp: RequireRole_def)

lemma RequireAnyRole_passes:
  "hr_claims r = Some c \<Longrightarrow> c_role c \<in> insert RoleSuperAdmin (set roles) \<Longrightarrow>
   RequireAnyRole roles next s r = next s r"
  by (auto simp: RequireAnyRole_def Let_def)

lemma RequireAnyRole_blocks:
  "hr_claims r = Some c \<Longrightarrow> c_role c \<notin> insert RoleSuperAdmin (set roles) \<Longrightarrow>
   RequireAnyRole roles next s r = respond s (writeError 403 ''insufficient permissions'')"
  by (auto simp: RequireAnyRole_def Let_def)

subsection \<open>Global middleware\<close>

text \<open>Headers set before the inner handler runs come first; a later \<open>Set\<close> of the same key by
  the inner handler would replace them, which no handler of the program does.\<close>

definition add_headers ::
    "(string \<times> string) list \<Rightarrow> 's \<times> event list \<times> (string + http_response) \<Rightarrow>
     's \<times> event list \<times> (string + http_response)" where
  "add_headers hs res =
     (case res of (s, evs, out) \<Rightarrow>
        (s, evs, map_sum id (\<lambda>r. r\<lparr>rsp_headers := hs @ rsp_headers r\<rparr>) out))"

definition CORS :: "string list \<Rightarrow> 's handler \<Rightarrow> 's handler" where
  "CORS allowedOrigins next s r =
     (let originSet = set (map to_lower allowedOrigins);
          origin = hr_origin r;
          hs = (if origin \<noteq> [] \<and> (''*'' \<in> originSet \<or> to_lower origin \<in> originSet)
                then [(''Access-Control-Allow-Origin'', origin),
                      (''Access-Control-Allow-Methods'', ''GET, POST, PUT, PATCH, DELETE, OPTIONS''),
                      (''Access-Control-Allow-Headers'', ''Content-Type, Authorization''),
                      (''Access-Control-Allow-Credentials'', ''true''),
                      (''Access-Control-Max-Age'', ''86400'')]
                else [])
      in if hr_method r = ''OPTIONS''
         then add_headers hs (s, [], Inr \<lparr>rsp_status = 204, rsp_headers = [], rsp_payload = EmptyBody\<rparr>)
         else add_headers hs (next s r))"

definition SecurityHeaders :: "'s handler \<Rightarrow> 's handler" where
  "SecurityHeaders next s r =
     add_headers
       [(''X-Content-Type-Options'', ''nosniff''),
        (''X-Frame-Options'', ''DENY''),
        (''X-XSS-Protection'', ''1; mode=block''),
        (''Referrer-Policy'', ''strict-origin-when-cross-origin''),
        (''Content-Security-Policy'', ''default-src '' @ quoted ''self'')]
       (next s r)"

text \<open>\<open>http.MaxBytesReader\<close>: reading past the limit fails, so a value that ends beyond it does
  not decode.\<close>

definition BodyLimit :: "nat \<Rightarrow> 's handler \<Rightarrow> 's handler" where
  "BodyLimit maxBytes next s r =
     next s (if hr_body_bytes r > maxBytes then r\<lparr>hr_body := None\<rparr> else r)"

lemma add_headers_sel [simp]:
  "fst (add_headers hs res) = fst res"
  "fst (snd (add_headers hs res)) = fst (snd res)"
  by (simp_all add: add_headers_def split: prod.split)

end
