(* ===== verification/AuthService.thy ===== *)
theory AuthService
  imports UserStore Http
begin

text \<open>
  The authentication service of \<open>backend/internal/auth/service.go\<close> over any user store: key
  loading, registration, login, token generation and validation, and the \<open>RequireAuth\<close>
  middleware of \<open>middleware.go\<close>.

  The third-party libraries are the record \<open>auth_lib\<close>: bcrypt's hashing (\<open>None\<close> for its error,
  with the random salt as an argument) and comparison, and golang-jwt's signing and parsing.
  The clock, fresh ids, randomness and map iteration orders a request consumes are the record
  \<open>env\<close>. \<open>bcrypt_ok\<close> and \<open>jwt_ok\<close> state what the libraries document.
\<close>

subsection \<open>Environment and libraries\<close>

record env =
  en_now :: int
  en_uuid :: string
  en_event_id :: string
  en_salt :: string
  en_random :: "8 word list option"
  en_user_order :: "string list"
  en_policy_order :: "string list"

record auth_lib =
  bcrypt_generate :: "string \<Rightarrow> nat \<Rightarrow> string \<Rightarrow> string option"
  bcrypt_compare :: "string \<Rightarrow> string \<Rightarrow> bool"
  jwt_sign :: "claims \<Rightarrow> string \<Rightarrow> string option"
  jwt_parse :: "(string \<Rightarrow> string option) \<Rightarrow> int \<Rightarrow> string \<Rightarrow> claims option"

definition minPasswordLength :: nat where "minPasswordLength = 8"
definition bcryptCost :: nat where "bcryptCost = 12"
definition tokenExpiry :: int where "tokenExpiry = 24 * 60 * 60"
definition jwtIssuer :: string where "jwtIssuer = ''nexus-identity-platform''"

text \<open>The key function of \<open>ValidateToken\<close>: the signing key for the HMAC methods, else an error.\<close>

definition hmac_keyfunc :: "string \<Rightarrow> string \<Rightarrow> string option" where
  "hmac_keyfunc key alg = (if alg \<in> {''HS256'', ''HS384'', ''HS512''} then Some key else None)"

text \<open>Comparing a hash with the password it was made from succeeds; a token signed with a key is
  accepted under that key's key function exactly until its expiry.\<close>

definition bcrypt_ok :: "auth_lib \<Rightarrow> bool" where
  "bcrypt_ok lib \<longleftrightarrow>
     (\<forall>p cost salt h. bcrypt_generate lib p cost salt = Some h \<longrightarrow> bcrypt_compare lib h p)"

definition jwt_ok :: "auth_lib \<Rightarrow> bool" where
  "jwt_ok lib \<longleftrightarrow>
     (\<forall>c key. \<exists>tok. jwt_sign lib c key = Some tok \<and>
        (\<forall>now. jwt_parse lib (hmac_keyfunc key) now tok = (if now < c_expires_at c then Some c else None)))"

subsection \<open>Loading the signing key\<close>

text \<open>\<open>aws\<close> is what the AWS client yields for a secret name: \<open>None\<close> when the configuration or the
  call fails or the secret has no string, else the secret string.\<close>

definition LoadSigningKey :: "(string \<Rightarrow> string option) \<Rightarrow> (string \<Rightarrow> string) \<Rightarrow> string + string" where
  "LoadSigningKey aws getenv =
     (let name0 = getenv ''AWS_SECRET_NAME'';
          secretName = (if name0 = [] then ''nexus/jwt-signing-key'' else name0);
          fallback = (let envKey = getenv ''JWT_SIGNING_KEY''
                      in if envKey = []
                         then Inl (''JWT_SIGNING_KEY environment variable is not set and ''
                                   @ ''AWS Secrets Manager is unavailable'')
                         else Inr envKey)
      in case aws secretName of
           Some s \<Rightarrow> if s \<noteq> [] then Inr s else fallback
         | None \<Rightarrow> fallback)"

definition NewService :: "string \<Rightarrow> string + string" where
  "NewService signingKey =
     (if length signingKey = 0 then Inl ''auth service: signing key must not be empty''
      else Inr signingKey)"

text \<open>A key that loads is never empty, so the service it is given to always starts.\<close>

lemma LoadSigningKey_NewService:
  "LoadSigningKey aws getenv = Inr key \<Longrightarrow> NewService key = Inr key"
  by (auto simp: LoadSigningKey_def NewService_def Let_def split: option.splits if_splits)

subsection \<open>Registration and login\<close>

record register_input =
  ri_username :: string
  ri_password :: string
  ri_role :: role

definition Register ::
    "'s user_store_ops \<Rightarrow> auth_lib \<Rightarrow> env \<Rightarrow> 's \<Rightarrow> register_input \<Rightarrow> auth_error + ('s \<times> user)" where
  "Register ops lib env s input =
     (let username = trim_space (ri_username input)
      in if length username < 3
         then Inl (Wrapped ErrInvalidInput '': username must be at least 3 characters'')
         else if length username > 50
         then Inl (Wrapped ErrInvalidInput '': username must be at most 50 characters'')
         else if length (ri_password input) < minPasswordLength then Inl ErrWeakPassword
         else if ri_role input \<notin> set ValidRoles then Inl ErrInvalidRole
         else case bcrypt_generate lib (ri_password input) bcryptCost (en_salt env) of
             None \<Rightarrow> Inl (OtherError ''password hashing failed'')
           | Some hash \<Rightarrow>
               CreateUser ops s (en_uuid env) (en_now env)
                 \<lparr>u_id = en_uuid env, u_username = username, u_password_hash = hash,
                  u_role = ri_role input, u_organization_id = [], u_status = StatusActive,
                  u_mfa_secret = [], u_mfa_enabled = False, u_created_at = 0, u_updated_at = 0\<rparr>)"

definition token_claims :: "env \<Rightarrow> user \<Rightarrow> claims" where
  "token_claims env u =
     \<lparr>c_user_id = u_id u, c_username = u_username u, c_role = u_role u, c_issuer = jwtIssuer,
      c_issued_at = en_now env, c_expires_at = en_now env + tokenExpiry, c_jti = en_uuid env\<rparr>"

definition generateJWT :: "auth_lib \<Rightarrow> string \<Rightarrow> env \<Rightarrow> user \<Rightarrow> string option" where
  "generateJWT lib key env u = jwt_sign lib (token_claims env u) key"

record login_input =
  li_username :: string
  li_password :: string

text \<open>The dummy comparison for an unknown name only spends time; its result is discarded.\<close>

definition Login ::
    "'s user_store_ops \<Rightarrow> auth_lib \<Rightarrow> string \<Rightarrow> env \<Rightarrow> 's \<Rightarrow> login_input \<Rightarrow> auth_error + (string \<times> user)" where
  "Login ops lib key env s input =
     (case GetUserByUsername ops s (li_username input) of
        Inl _ \<Rightarrow> Inl ErrInvalidCredentials
      | Inr u \<Rightarrow>
          if \<not> bcrypt_compare lib (u_password_hash u) (li_password input)
          then Inl ErrInvalidCredentials
          else if u_status u \<noteq> StatusActive
          then Inl (Wrapped ErrInvalidCredentials ('': account is '' @ u_status u))
          else case generateJWT lib key env u of
              None \<Rightarrow> Inl (OtherError ''token generation failed'')
            | Some token \<Rightarrow> Inr (token, u))"

definition ValidateToken :: "auth_lib \<Rightarrow> string \<Rightarrow> int \<Rightarrow> string \<Rightarrow> string + claims" where
  "ValidateToken lib key now tok =
     (case jwt_parse lib (hmac_keyfunc key) now tok of
        None \<Rightarrow> Inl ''token is not valid''
      | Some c \<Rightarrow> if c_issuer c \<noteq> jwtIssuer then Inl ''invalid token issuer'' else Inr c)"

definition RequireAuth :: "auth_lib \<Rightarrow> string \<Rightarrow> int \<Rightarrow> 's handler \<Rightarrow> 's handler" where
  "RequireAuth lib key now next s r =
     (case extractBearerToken r of
        None \<Rightarrow> respond s (writeError 401 ''authorization header required (Bearer <token>)'')
      | Some tok \<Rightarrow>
          (case ValidateToken lib key now tok of
             Inl _ \<Rightarrow> respond s (writeError 401 ''invalid or expired token'')
           | Inr c \<Rightarrow> next s (r\<lparr>hr_claims := Some c\<rparr>)))"

subsection \<open>Facts about the service\<close>

lemma jwt_ok_sign: "jwt_ok lib \<Longrightarrow> \<exists>tok. jwt_sign lib c key = Some tok"
  unfolding jwt_ok_def by meson

lemma jwt_ok_parse:
  assumes "jwt_ok lib" and "jwt_sign lib c key = Some tok"
  shows "jwt_parse lib (hmac_keyfunc key) now tok = (if now < c_expires_at c then Some c else None)"
proof -
  obtain tok' where "jwt_sign lib c key = Some tok'"
    "jwt_parse lib (hmac_keyfunc key) now tok' = (if now < c_expires_at c then Some c else None)"
    using assms(1) unfolding jwt_ok_def by meson
  with assms(2) show ?thesis by simp
qed

lemma ValidateToken_issuer: "ValidateToken lib key now tok = Inr c \<Longrightarrow> c_issuer c = jwtIssuer"
  by (auto simp: ValidateToken_def split: option.splits if_splits)

lemma ValidateToken_generated:
  assumes "jwt_ok lib" and "generateJWT lib key env u = Some tok"
  shows "ValidateToken lib key now tok =
    (if now < en_now env + tokenExpiry then Inr (token_claims env u) else Inl ''token is not valid'')"
  using jwt_ok_parse [OF assms(1) assms(2) [unfolded generateJWT_def]]
  by (simp add: ValidateToken_def token_claims_def)

lemma RequireAuth_cases:
  obtains (unauthorized) msg where "RequireAuth lib key now next s r = respond s (writeError 401 msg)"
  | (authenticated) tok c where "extractBearerToken r = Some tok" "ValidateToken lib key now tok = Inr c"
      "RequireAuth lib key now next s r = next s (r\<lparr>hr_claims := Some c\<rparr>)"
  by (cases "extractBearerToken r"; cases "ValidateToken lib key now (the (extractBearerToken r))")
    (auto simp: RequireAuth_def)

definition valid_registration :: "register_input \<Rightarrow> bool" where
  "valid_registration input \<longleftrightarrow>
     3 \<le> length (trim_space (ri_username input)) \<and> length (trim_space (ri_username input)) \<le> 50 \<and>
     8 \<le> length (ri_password input) \<and> ri_role input \<in> set ValidRoles"

lemma Register_invalid:
  "\<not> valid_registration input \<Longrightarrow> \<exists>e. Register ops lib env s input = Inl e \<and>
     (errors_is e ErrInvalidInput \<or> e = ErrWeakPassword \<or> e = ErrInvalidRole)"
  by (auto simp: Register_def valid_registration_def Let_def minPasswordLength_def)

lemma Register_Inr:
  assumes "Register ops lib env s input = Inr (s', u)"
  obtains h where "valid_registration input"
    "bcrypt_generate lib (ri_password input) bcryptCost (en_salt env) = Some h"
    "CreateUser ops s (en_uuid env) (en_now env)
       \<lparr>u_id = en_uuid env, u_username = trim_space (ri_username input), u_password_hash = h,
        u_role = ri_role input, u_organization_id = [], u_status = StatusActive,
        u_mfa_secret = [], u_mfa_enabled = False, u_created_at = 0, u_updated_at = 0\<rparr> = Inr (s', u)"
  using assms
  by (fastforce simp: Register_def valid_registration_def Let_def minPasswordLength_def
      split: if_splits option.splits)

context user_store
begin

text \<open>A successful registration creates an active account without MFA under the trimmed name.\<close>

lemma Register_account:
  assumes "Register ops lib env s input = Inr (s', u)" and id: "en_uuid env \<noteq> []" and fit: "fits u"
  shows "u_id u = en_uuid env" "u_username u = trim_space (ri_username input)"
    "u_role u = ri_role input" "u_status u = StatusActive" "\<not> u_mfa_enabled u" "u_mfa_secret u = []"
    "GetUserByUsername ops s' (trim_space (ri_username input)) = Inr u"
    "GetUserByID ops s' (u_id u) = Inr u"
    "n \<noteq> trim_space (ri_username input) \<Longrightarrow> GetUserByUsername ops s' n = GetUserByUsername ops s n"
proof -
  from assms(1) obtain h where c: "CreateUser ops s (en_uuid env) (en_now env)
       \<lparr>u_id = en_uuid env, u_username = trim_space (ri_username input), u_password_hash = h,
        u_role = ri_role input, u_organization_id = [], u_status = StatusActive,
        u_mfa_secret = [], u_mfa_enabled = False, u_created_at = 0, u_updated_at = 0\<rparr> = Inr (s', u)"
    by (rule Register_Inr)
  note u = created [OF c] and look = created_lookup [OF c fit]
  show "u_id u = en_uuid env" "u_username u = trim_space (ri_username input)"
    "u_role u = ri_role input" "u_status u = StatusActive" "\<not> u_mfa_enabled u" "u_mfa_secret u = []"
    using id by (simp_all add: u)
  show "GetUserByUsername ops s' (trim_space (ri_username input)) = Inr u"
    "GetUserByID ops s' (u_id u) = Inr u"
    "n \<noteq> trim_space (ri_username input) \<Longrightarrow> GetUserByUsername ops s' n = GetUserByUsername ops s n"
    using look by simp_all
qed

text \<open>The new account can log in under its trimmed name, for a token that names it.\<close>

lemma Register_Login:
  assumes reg: "Register ops lib env s input = Inr (s', u)" and lib: "bcrypt_ok lib" "jwt_ok lib"
    and fit: "fits u"
  shows "\<exists>tok. Login ops lib key env' s'
      \<lparr>li_username = trim_space (ri_username input), li_password = ri_password input\<rparr> = Inr (tok, u) \<and>
    generateJWT lib key env' u = Some tok"
proof -
  from reg obtain h where gen: "bcrypt_generate lib (ri_password input) bcryptCost (en_salt env) = Some h"
    and c: "CreateUser ops s (en_uuid env) (en_now env)
       \<lparr>u_id = en_uuid env, u_username = trim_space (ri_username input), u_password_hash = h,
        u_role = ri_role input, u_organization_id = [], u_status = StatusActive,
        u_mfa_secret = [], u_mfa_enabled = False, u_created_at = 0, u_updated_at = 0\<rparr> = Inr (s', u)"
    by (rule Register_Inr)
  have cmp: "bcrypt_compare lib h (ri_password input)"
    using lib(1) gen by (auto simp: bcrypt_ok_def)
  obtain tok where tok: "generateJWT lib key env' u = Some tok"
    using jwt_ok_sign [OF lib(2)] by (auto simp: generateJWT_def)
  show ?thesis
    using created_lookup(1) [OF c fit] cmp tok created [OF c] by (simp add: Login_def)
qed

end

end
