(* ===== verification/Hmac.thy ===== *)
theory Hmac
  imports Prelude
begin

unbundle bit_operations_syntax

text \<open>
  The part of Go's standard library the one-time passwords rest on: \<open>crypto/sha1\<close> (FIPS 180-4)
  and \<open>crypto/hmac\<close> (FIPS 198-1) over byte lists, with the fact the code needs from them:
  a tag is twenty bytes.
\<close>

type_synonym byte = "8 word"

subsection \<open>Bytes and words\<close>

text \<open>\<open>binary.BigEndian\<close>: the bytes of a 32-bit and a 64-bit value, most significant first.\<close>

definition put_uint32 :: "32 word \<Rightarrow> byte list" where
  "put_uint32 w = [ucast (drop_bit 24 w), ucast (drop_bit 16 w), ucast (drop_bit 8 w), ucast w]"

definition put_uint64 :: "64 word \<Rightarrow> byte list" where
  "put_uint64 w = put_uint32 (ucast (drop_bit 32 w)) @ put_uint32 (ucast w)"

fun get_uint32 :: "byte list \<Rightarrow> 32 word" where
  "get_uint32 (a # b # c # d # _) =
     push_bit 24 (ucast a) OR push_bit 16 (ucast b) OR push_bit 8 (ucast c) OR ucast d"
| "get_uint32 _ = 0"

lemma length_put [simp]: "length (put_uint32 w) = 4" "length (put_uint64 v) = 8"
  by (simp_all add: put_uint32_def put_uint64_def)

subsection \<open>SHA-1\<close>

definition sha1_pad :: "byte list \<Rightarrow> byte list" where
  "sha1_pad m =
     (let n = length m; z = (if n mod 64 < 56 then 55 - n mod 64 else 119 - n mod 64)
      in m @ [0x80] @ replicate z 0 @ put_uint64 (of_nat (8 * n)))"

fun words32 :: "byte list \<Rightarrow> 32 word list" where
  "words32 (a # b # c # d # bs) = get_uint32 [a, b, c, d] # words32 bs"
| "words32 _ = []"

text \<open>The message schedule, extended one word at a time; the list is kept newest first.\<close>

primrec schedule :: "nat \<Rightarrow> 32 word list \<Rightarrow> 32 word list" where
  "schedule 0 ws = ws"
| "schedule (Suc n) ws =
     schedule n (word_rotl 1 (ws ! 2 XOR ws ! 7 XOR ws ! 13 XOR ws ! 15) # ws)"

type_synonym sha1_state = "32 word \<times> 32 word \<times> 32 word \<times> 32 word \<times> 32 word"

definition sha1_round :: "sha1_state \<Rightarrow> nat \<times> 32 word \<Rightarrow> sha1_state" where
  "sha1_round st tw =
     (case st of (a, b, c, d, e) \<Rightarrow> case tw of (t, w) \<Rightarrow>
        let (f, k) =
          (if t < 20 then ((b AND c) OR ((NOT b) AND d), 0x5A827999)
           else if t < 40 then (b XOR c XOR d, 0x6ED9EBA1)
           else if t < 60 then ((b AND c) OR (b AND d) OR (c AND d), 0x8F1BBCDC)
           else (b XOR c XOR d, 0xCA62C1D6))
        in (word_rotl 5 a + f + e + k + w, a, word_rotl 30 b, c, d))"

definition sha1_block :: "sha1_state \<Rightarrow> byte list \<Rightarrow> sha1_state" where
  "sha1_block st blk =
     (case st of (a, b, c, d, e) \<Rightarrow>
        case foldl sha1_round st (zip [0..<80] (rev (schedule 64 (rev (words32 blk))))) of
          (a', b', c', d', e') \<Rightarrow> (a + a', b + b', c + c', d + d', e + e'))"

primrec sha1_blocks :: "nat \<Rightarrow> sha1_state \<Rightarrow> byte list \<Rightarrow> sha1_state" where
  "sha1_blocks 0 st bs = st"
| "sha1_blocks (Suc n) st bs = sha1_blocks n (sha1_block st (take 64 bs)) (drop 64 bs)"

definition sha1 :: "byte list \<Rightarrow> byte list" where
  "sha1 m =
     (let p = sha1_pad m
      in case sha1_blocks (length p div 64)
            (0x67452301, 0xEFCDAB89, 0x98BADCFE, 0x10325476, 0xC3D2E1F0) p of
          (a, b, c, d, e) \<Rightarrow> put_uint32 a @ put_uint32 b @ put_uint32 c @ put_uint32 d @ put_uint32 e)"

lemma length_sha1 [simp]: "length (sha1 m) = 20"
  by (simp add: sha1_def Let_def split: prod.split)

subsection \<open>HMAC\<close>

definition hmac_sha1 :: "byte list \<Rightarrow> byte list \<Rightarrow> byte list" where
  "hmac_sha1 key m =
     (let k = (if length key > 64 then sha1 key else key);
          k' = k @ replicate (64 - length k) 0
      in sha1 (map (\<lambda>b. b XOR 0x5C) k' @ sha1 (map (\<lambda>b. b XOR 0x36) k' @ m)))"

lemma length_hmac_sha1 [simp]: "length (hmac_sha1 key m) = 20"
  by (simp add: hmac_sha1_def Let_def)

end
