(* ===== verification/Totp.thy ===== *)
theory Totp
  imports Hmac AuditLog
begin

text \<open>
  One-time passwords: \<open>backend/internal/auth/totp.go\<close> and the secret generator of
  \<open>mfa_handler.go\<close>, on the Base32 codec of Go's \<open>encoding/base32\<close> (RFC 4648 alphabet). Unix
  times are 64-bit: \<open>at\<close> is the signed value of \<open>Unix()\<close>, the counters are \<open>64 word\<close>s.
\<close>

subsection \<open>Base32\<close>

definition b32_char :: "byte \<Rightarrow> char" where
  "b32_char v = (if unat v < 26 then char_of (65 + unat v) else char_of (50 + (unat v - 26)))"

definition b32_value :: "char \<Rightarrow> byte option" where
  "b32_value c =
     (let n = char_code c
      in if 65 \<le> n \<and> n \<le> 90 then Some (of_nat (n - 65))
         else if 50 \<le> n \<and> n \<le> 55 then Some (of_nat (n - 50 + 26))
         else None)"

text \<open>\<open>EncodeToString\<close> without padding: five bytes give eight characters; a shorter last group
  gives two, four, five or seven.\<close>

fun b32_quintets :: "byte \<Rightarrow> byte \<Rightarrow> byte \<Rightarrow> byte \<Rightarrow> byte \<Rightarrow> byte list" where
  "b32_quintets a b c d e =
    [drop_bit 3 a, (push_bit 2 a OR drop_bit 6 b) AND 31, drop_bit 1 b AND 31,
     (push_bit 4 b OR drop_bit 4 c) AND 31, (push_bit 1 c OR drop_bit 7 d) AND 31,
     drop_bit 2 d AND 31, (push_bit 3 d OR drop_bit 5 e) AND 31, e AND 31]"

fun b32_encode :: "byte list \<Rightarrow> string" where
  "b32_encode [] = []"
| "b32_encode [a] = map b32_char (take 2 (b32_quintets a 0 0 0 0))"
| "b32_encode [a, b] = map b32_char (take 4 (b32_quintets a b 0 0 0))"
| "b32_encode [a, b, c] = map b32_char (take 5 (b32_quintets a b c 0 0))"
| "b32_encode [a, b, c, d] = map b32_char (take 7 (b32_quintets a b c d 0))"
| "b32_encode (a # b # c # d # e # r) = map b32_char (b32_quintets a b c d e) @ b32_encode r"

text \<open>
  One quantum of the decoder: up to eight characters, with the padding rules of the last one.
  The result is the values read, whether padding ended the input, and the rest of it.
\<close>

function b32_quantum :: "nat \<Rightarrow> byte list \<Rightarrow> string \<Rightarrow> (byte list \<times> bool \<times> string) option" where
  "b32_quantum j acc src =
     (if j \<ge> 8 then Some (acc, False, src)
      else case src of
          [] \<Rightarrow> None
        | c # cs \<Rightarrow>
            if c = CHR ''='' \<and> j \<ge> 2 \<and> length cs < 8
            then (if length cs + j < 7 then None
                  else if \<not> list_all (\<lambda>x. x = CHR ''='') (take (7 - j) cs) then None
                  else if j = 3 \<or> j = 6 then None
                  else Some (acc, True, cs))
            else (case b32_value c of
                    None \<Rightarrow> None
                  | Some v \<Rightarrow> b32_quantum (Suc j) (acc @ [v]) cs))"
  by pat_completeness auto
termination
  by (relation "measure (\<lambda>(j, acc, src). length src)") auto

declare b32_quantum.simps [simp del]

text \<open>Packing the 5-bit values of a quantum: one byte for each complete group of eight bits.\<close>

fun b32_pack :: "byte list \<Rightarrow> byte list" where
  "b32_pack [a, b, c, d, e, f, g, h] =
    [push_bit 3 a OR drop_bit 2 b, push_bit 6 b OR push_bit 1 c OR drop_bit 4 d,
     push_bit 4 d OR drop_bit 1 e, push_bit 7 e OR push_bit 2 f OR drop_bit 3 g,
     push_bit 5 g OR h]"
| "b32_pack [a, b, c, d, e, f, g] =
    [push_bit 3 a OR drop_bit 2 b, push_bit 6 b OR push_bit 1 c OR drop_bit 4 d,
     push_bit 4 d OR drop_bit 1 e, push_bit 7 e OR push_bit 2 f OR drop_bit 3 g]"
| "b32_pack [a, b, c, d, e] =
    [push_bit 3 a OR drop_bit 2 b, push_bit 6 b OR push_bit 1 c OR drop_bit 4 d,
     push_bit 4 d OR drop_bit 1 e]"
| "b32_pack [a, b, c, d] =
    [push_bit 3 a OR drop_bit 2 b, push_bit 6 b OR push_bit 1 c OR drop_bit 4 d]"
| "b32_pack [a, b] = [push_bit 3 a OR drop_bit 2 b]"
| "b32_pack _ = []"

lemma b32_quantum_shorter:
  "b32_quantum j acc src = Some (vs, fin, rest) \<Longrightarrow> length rest + (if j < 8 then 1 else 0) \<le> length src"
proof (induction j acc src rule: b32_quantum.induct)
  case (1 j acc src)
  show ?case
  proof (cases "j < 8")
    case True
    with "1.prems" obtain c cs where src: "src = c # cs"
      by (cases src) (auto simp: b32_quantum.simps [of j])
    show ?thesis
    proof (cases "c = CHR ''='' \<and> j \<ge> 2 \<and> length cs < 8")
      case pad: True
      with "1.prems" True src show ?thesis
        by (auto simp: b32_quantum.simps [of j] split: if_splits)
    next
      case False
      with "1.prems" True src obtain v where
        v: "b32_value c = Some v" and q: "b32_quantum (Suc j) (acc @ [v]) cs = Some (vs, fin, rest)"
        by (auto simp: b32_quantum.simps [of j] split: if_splits option.splits)
      have "length rest + (if Suc j < 8 then 1 else 0) \<le> length cs"
        using True by (intro "1.IH" [OF _ src False v q]) simp
      with True src show ?thesis by (auto split: if_splits)
    qed
  next
    case False
    with "1.prems" show ?thesis by (simp add: b32_quantum.simps [of j])
  qed
qed

function b32_decode :: "string \<Rightarrow> byte list option" where
  "b32_decode src =
     (if src = [] then Some []
      else case b32_quantum 0 [] src of
          None \<Rightarrow> None
        | Some (vs, fin, rest) \<Rightarrow>
            if fin then Some (b32_pack vs)
            else map_option (append (b32_pack vs)) (b32_decode rest))"
  by pat_completeness auto
termination
  by (relation "measure length") (auto dest!: b32_quantum_shorter)

declare b32_decode.simps [simp del]

text \<open>\<open>DecodeString\<close> drops line breaks before it decodes.\<close>

definition b32_DecodeString :: "string \<Rightarrow> byte list option" where
  "b32_DecodeString s = b32_decode (filter (\<lambda>c. char_code c \<noteq> 10 \<and> char_code c \<noteq> 13) s)"

definition base32Decode :: "string \<Rightarrow> byte list option" where
  "base32Decode secret =
     (let upper = to_upper (trim_space secret);
          pad = length upper mod 8;
          padded = (if pad \<noteq> 0 then upper @ replicate (8 - pad) (CHR ''='') else upper)
      in b32_DecodeString padded)"

definition generateMFASecret :: "byte list option \<Rightarrow> string option" where
  "generateMFASecret rand = map_option b32_encode rand"

subsection \<open>Passwords\<close>

definition totpTimeStep :: int where "totpTimeStep = 30"

text \<open>\<open>fmt.Sprintf("%0*d", digits, n)\<close>.\<close>

definition zero_pad :: "nat \<Rightarrow> nat \<Rightarrow> string" where
  "zero_pad digits n = replicate (digits - length (show_nat n)) (CHR ''0'') @ show_nat n"

text \<open>The offset is a byte; the slice of the tag panics when it is out of range.\<close>

definition hotp :: "byte list \<Rightarrow> 64 word \<Rightarrow> nat \<Rightarrow> string + string" where
  "hotp key counter digits =
     (let h = hmac_sha1 key (put_uint64 counter);
          offset = last h AND 0x0F
      in case go_slice h (uint offset) (uint (offset + 4)) of
           Inl panic \<Rightarrow> Inl panic
         | Inr four \<Rightarrow>
             let truncated = get_uint32 four AND 0x7FFFFFFF;
                 modulus = (of_nat (10 ^ digits) :: 32 word);
                 otp = truncated mod modulus
             in Inr (zero_pad digits (unat otp)))"

definition invalid_secret :: string where "invalid_secret = ''totp: invalid secret''"

definition GenerateTOTP :: "string \<Rightarrow> int \<Rightarrow> string + string" where
  "GenerateTOTP secret at =
     (case base32Decode secret of
        None \<Rightarrow> Inl invalid_secret
      | Some key \<Rightarrow> hotp key ((word_of_int at :: 64 word) div word_of_int totpTimeStep) 6)"

text \<open>Go's signed division truncates towards zero.\<close>

definition go_div :: "int \<Rightarrow> int \<Rightarrow> int" where
  "go_div a b = sgn a * sgn b * (\<bar>a\<bar> div \<bar>b\<bar>)"

fun verify_window :: "byte list \<Rightarrow> int \<Rightarrow> string \<Rightarrow> int list \<Rightarrow> string + bool" where
  "verify_window key counter code [] = Inr False"
| "verify_window key counter code (delta # ds) =
     (case hotp key (word_of_int (counter + delta)) 6 of
        Inl e \<Rightarrow> Inl e
      | Inr expected \<Rightarrow> if expected = code then Inr True else verify_window key counter code ds)"

definition VerifyTOTP :: "string \<Rightarrow> string \<Rightarrow> int \<Rightarrow> string + bool" where
  "VerifyTOTP secret code at =
     (case base32Decode secret of
        None \<Rightarrow> Inl invalid_secret
      | Some key \<Rightarrow> verify_window key (go_div at totpTimeStep) code [-1, 0, 1])"

subsection \<open>Bounds of a password\<close>

lemma low_nibble: "unat (x AND 0x0F :: byte) < 16"
proof -
  have "unat (x AND 0x0F) \<le> unat (0x0F :: byte)"
    by (rule word_and_le1 [THEN word_le_nat_alt [THEN iffD1]])
  then show ?thesis by simp
qed

lemma hotp_slice:
  fixes x :: byte
  assumes "length h = 20"
  shows "go_slice h (uint (x AND 0x0F)) (uint ((x AND 0x0F) + 4)) =
    Inr (take 4 (drop (unat (x AND 0x0F)) h))"
proof -
  let ?o = "x AND 0x0F"
  have o: "unat ?o < 16" by (rule low_nibble)
  then have o4: "unat (?o + 4) = unat ?o + 4" by (simp add: unat_word_ariths)
  have u: "uint w = int (unat w)" for w :: byte by simp
  obtain n where n: "unat ?o = n" and "n < 16" using o by blast
  then show ?thesis
    unfolding go_slice_def u o4 n using assms by simp
qed

lemma zero_pad_length:
  assumes "0 < d" "n < 10 ^ d"
  shows "length (zero_pad d n) = d" and "list_all is_digit (zero_pad d n)"
proof -
  show "length (zero_pad d n) = d"
    using show_nat_length [OF assms] by (simp add: zero_pad_def)
  have "is_digit (CHR ''0'')" by (simp add: is_digit_def char_code_def)
  then show "list_all is_digit (zero_pad d n)"
    using show_nat_digits [of n] by (auto simp: zero_pad_def list_all_iff)
qed

text \<open>Every password is computed without a panic, for any key and counter, and is a string of
  exactly six decimal digits.\<close>

theorem hotp_six_digits:
  "\<exists>otp. hotp key counter 6 = Inr otp \<and> length otp = 6 \<and> list_all is_digit otp"
proof -
  let ?h = "hmac_sha1 key (put_uint64 counter)"
  define m where "m = get_uint32 (take 4 (drop (unat (last ?h AND 0x0F)) ?h)) AND 0x7FFFFFFF"
  have "unat (m mod 1000000) < 10 ^ 6"
    by (simp add: unat_mod)
  moreover have "hotp key counter 6 = Inr (zero_pad 6 (unat (m mod 1000000)))"
    by (simp add: hotp_def Let_def hotp_slice m_def)
  ultimately show ?thesis
    using zero_pad_length [of 6 "unat (m mod 1000000)"] by simp
qed

subsection \<open>The Base32 codec is the identity on whole quanta\<close>

lemma and31: "(x :: byte) AND 31 = take_bit 5 x"
  by (simp add: take_bit_eq_mask mask_numeral)

lemma less_8_cases: "(n::nat) < 8 \<longleftrightarrow> n = 0 \<or> n = 1 \<or> n = 2 \<or> n = 3 \<or> n = 4 \<or> n = 5 \<or> n = 6 \<or> n = 7"
  by auto

lemma byte_eqI: "(\<And>n. n \<in> {0,1,2,3,4,5,6,7} \<Longrightarrow> bit v n = bit w n) \<Longrightarrow> v = (w::byte)"
  by (rule bit_word_eqI) (simp add: less_8_cases)

lemmas byte_bits = bit_or_iff bit_push_bit_iff bit_take_bit_iff bit_drop_bit_eq possible_bit_word o_def

lemma not_bit_byte: "8 \<le> k \<Longrightarrow> \<not> bit (x :: byte) k"
  using bit_imp_le_length [of x k] by auto

lemma pack_byte1: "push_bit 3 (drop_bit 3 a) OR drop_bit 2 (take_bit 5 (push_bit 2 a OR drop_bit 6 b)) = (a::byte)"
  by (rule byte_eqI; unfold byte_bits) (auto simp: not_bit_byte eval_nat_numeral)

lemma pack_byte2: "push_bit 6 (take_bit 5 (push_bit 2 a OR drop_bit 6 b)) OR push_bit 1 (take_bit 5 (drop_bit 1 b))
  OR drop_bit 4 (take_bit 5 (push_bit 4 b OR drop_bit 4 c)) = (b::byte)"
  by (rule byte_eqI; unfold byte_bits) (auto simp: not_bit_byte eval_nat_numeral)

lemma pack_byte3: "push_bit 4 (take_bit 5 (push_bit 4 b OR drop_bit 4 c)) OR
  drop_bit 1 (take_bit 5 (push_bit 1 c OR drop_bit 7 d)) = (c::byte)"
  by (rule byte_eqI; unfold byte_bits) (auto simp: not_bit_byte eval_nat_numeral)

lemma pack_byte4: "push_bit 7 (take_bit 5 (push_bit 1 c OR drop_bit 7 d)) OR push_bit 2 (take_bit 5 (drop_bit 2 d))
  OR drop_bit 3 (take_bit 5 (push_bit 3 d OR drop_bit 5 e)) = (d::byte)"
  by (rule byte_eqI; unfold byte_bits) (auto simp: not_bit_byte eval_nat_numeral)

lemma pack_byte5: "push_bit 5 (take_bit 5 (push_bit 3 d OR drop_bit 5 e)) OR take_bit 5 e = (e::byte)"
  by (rule byte_eqI; unfold byte_bits) (auto simp: not_bit_byte eval_nat_numeral)

lemma b32_pack_quintets: "b32_pack (b32_quintets a b c d e) = [a, b, c, d, e]"
  by (simp only: b32_quintets.simps and31 b32_pack.simps pack_byte1 pack_byte2 pack_byte3 pack_byte4 pack_byte5)

lemma b32_quintets_small: "v \<in> set (b32_quintets a b c d e) \<Longrightarrow> unat v < 32"
proof -
  have d: "unat (drop_bit 3 a) < 32"
    using unsigned_less [of a, where ?'a = nat] by (simp add: drop_bit_eq_div unat_div)
  have t: "unat (x AND 31) < 32" for x :: byte
  proof -
    have "unat (x AND 31) \<le> unat (31 :: byte)"
      by (rule word_and_le1 [THEN word_le_nat_alt [THEN iffD1]])
    then show ?thesis by simp
  qed
  show "v \<in> set (b32_quintets a b c d e) \<Longrightarrow> unat v < 32"
    using d t by auto
qed

lemma b32_value_char:
  assumes "unat v < 32"
  shows "b32_value (b32_char v) = Some v" and "upper_char (b32_char v) = b32_char v"
    and "\<not> is_space (b32_char v)" and "b32_char v \<noteq> CHR ''=''"
    and "char_code (b32_char v) \<noteq> 10 \<and> char_code (b32_char v) \<noteq> 13"
    and "char_code (b32_char v) < 128"
proof -
  have code: "char_code (b32_char v) = (if unat v < 26 then 65 + unat v else 24 + unat v)"
    using assms by (simp add: b32_char_def char_code_def)
  show "b32_value (b32_char v) = Some v"
    using assms by (simp add: b32_value_def code Let_def)
  show "upper_char (b32_char v) = b32_char v"
    using assms by (simp add: upper_char_def code)
  show "\<not> is_space (b32_char v)"
    using assms by (simp add: is_space_def code)
  have "char_code (b32_char v) \<noteq> char_code (CHR ''='')"
    unfolding code using assms by (simp add: char_code_def)
  then show "b32_char v \<noteq> CHR ''=''" by auto
  show "char_code (b32_char v) \<noteq> 10 \<and> char_code (b32_char v) \<noteq> 13"
    and "char_code (b32_char v) < 128"
    using assms by (simp_all add: code)
qed

text \<open>Reading eight alphabet characters yields their values.\<close>

lemma b32_quantum_full:
  "list_all (\<lambda>v. unat v < 32) vs \<Longrightarrow> length acc + length vs = 8 \<Longrightarrow>
   b32_quantum (length acc) acc (map b32_char vs @ rest) = Some (acc @ vs, False, rest)"
proof (induction vs arbitrary: acc)
  case Nil
  then show ?case by (simp add: b32_quantum.simps [of 8])
next
  case (Cons v vs)
  then have "b32_quantum (length (acc @ [v])) (acc @ [v]) (map b32_char vs @ rest) =
      Some ((acc @ [v]) @ vs, False, rest)"
    by (intro Cons.IH) simp_all
  with Cons.prems show ?case
    by (simp add: b32_quantum.simps [of "length acc"] b32_value_char)
qed

lemma b32_decode_encode:
  "length bs mod 5 = 0 \<Longrightarrow> b32_decode (b32_encode bs) = Some bs"
proof (induction bs rule: b32_encode.induct)
  case (6 a b c d e r)
  let ?q = "b32_quintets a b c d e"
  have q: "list_all (\<lambda>v. unat v < 32) ?q"
    using b32_quintets_small by (simp only: list_all_iff) blast
  have "b32_quantum 0 [] (map b32_char ?q @ b32_encode r) = Some (?q, False, b32_encode r)"
    using b32_quantum_full [OF q, of "[]"] by simp
  moreover have "b32_decode (b32_encode r) = Some r"
    using 6 by (simp add: mod_if)
  ultimately show ?case
    by (simp add: b32_decode.simps [of "map b32_char ?q @ b32_encode r"] b32_pack_quintets
        del: b32_quintets.simps) (simp add: b32_pack_quintets)
qed (simp_all add: b32_decode.simps)

lemma b32_encode_chars:
  "length bs mod 5 = 0 \<Longrightarrow> length (b32_encode bs) = 8 * (length bs div 5) \<and>
   list_all (\<lambda>c. \<exists>v. unat v < 32 \<and> c = b32_char v) (b32_encode bs)"
proof (induction bs rule: b32_encode.induct)
  case (6 a b c d e r)
  have q: "list_all (\<lambda>c. \<exists>v. unat v < 32 \<and> c = b32_char v) (map b32_char (b32_quintets a b c d e))"
    using b32_quintets_small [of _ a b c d e] by (auto simp only: list_all_iff set_map)
  have "length (map b32_char (b32_quintets a b c d e)) = 8" by simp
  moreover have "(5 + n) div 5 = Suc (n div 5)" for n :: nat by simp
  ultimately show ?case using 6 q by (simp add: mod_if del: b32_quintets.simps)
qed simp_all

text \<open>A generated secret reads back: decoding the Base32 text of \<open>generateMFASecret\<close> for twenty
  random bytes gives exactly those bytes, so the key of the authenticator and the key of the
  verifier agree.\<close>

theorem generateMFASecret_roundtrip:
  assumes "length bs = 20"
  shows "\<exists>secret. generateMFASecret (Some bs) = Some secret \<and> length secret = 32 \<and>
    base32Decode secret = Some bs"
proof -
  let ?s = "b32_encode bs"
  have m: "length bs mod 5 = 0" using assms by simp
  from b32_encode_chars [OF m] have len: "length ?s = 8 * (length bs div 5)"
    and chars: "\<And>c. c \<in> set ?s \<Longrightarrow> \<exists>v. unat v < 32 \<and> c = b32_char v"
    by (auto simp: list_all_iff)
  have "trim_space ?s = ?s"
  proof (cases "?s = []")
    case False
    then show ?thesis
      using chars [of "hd ?s"] chars [of "last ?s"] b32_value_char(3,6)
      by (intro trim_space_id) auto
  qed simp
  moreover have "to_upper ?s = ?s"
    unfolding to_upper_def by (intro map_idI) (metis chars b32_value_char(2))
  moreover have "filter (\<lambda>c. char_code c \<noteq> 10 \<and> char_code c \<noteq> 13) ?s = ?s"
    using chars b32_value_char(5) by (intro filter_True) blast
  ultimately have "base32Decode ?s = b32_decode ?s"
    using len by (simp add: base32Decode_def b32_DecodeString_def Let_def)
  moreover have "length ?s = 32" using len assms by simp
  ultimately show ?thesis
    using b32_decode_encode [OF m] by (simp add: generateMFASecret_def)
qed


theorem generateMFASecret_roundtrip_witness:
  "\<exists>secret. generateMFASecret (Some (replicate 20 7)) = Some secret \<and>
     base32Decode secret = Some (replicate 20 7)"
  using generateMFASecret_roundtrip [of "replicate 20 7"] by auto

subsection \<open>The verification window\<close>

lemma hotp_Inr: obtains otp where "hotp key counter 6 = Inr otp" "length otp = 6"
  using hotp_six_digits [of key counter] by blast

lemma verify_window_iff:
  "verify_window key counter code ds =
     Inr (\<exists>d \<in> set ds. hotp key (word_of_int (counter + d)) 6 = Inr code)"
proof (induction ds)
  case (Cons d ds)
  obtain otp where "hotp key (word_of_int (counter + d)) 6 = Inr otp" by (rule hotp_Inr)
  with Cons show ?case by auto
qed simp

lemma VerifyTOTP_iff:
  "base32Decode secret = Some key \<Longrightarrow> VerifyTOTP secret code at =
     Inr (\<exists>d \<in> {-1, 0, 1}. hotp key (word_of_int (go_div at totpTimeStep + d)) 6 = Inr code)"
  by (simp add: VerifyTOTP_def verify_window_iff)

lemma counter_of_time:
  assumes "0 \<le> t" "t < 2 ^ 63"
  shows "(word_of_int t :: 64 word) div word_of_int totpTimeStep = word_of_int (go_div t totpTimeStep)"
proof -
  have "uint (word_of_int t :: 64 word) = t"
    using assms by (simp add: uint_word_of_int take_bit_int_eq_self_iff)
  moreover have "go_div t totpTimeStep = t div 30"
    using assms by (cases "t = 0") (simp_all add: go_div_def totpTimeStep_def sgn_if)
  ultimately show ?thesis
    by (simp add: word_div_def totpTimeStep_def)
qed

text \<open>C37: Clock tolerance: a password generated at one time is accepted at another whenever the two
  30-second steps are at most one apart, in either direction, for every decodable secret.\<close>

theorem VerifyTOTP_accepts_window:
  assumes secret: "base32Decode secret = Some key"
    and t: "0 \<le> t" "t < 2 ^ 63" and gen: "GenerateTOTP secret t = Inr code"
    and near: "\<bar>go_div t totpTimeStep - go_div t' totpTimeStep\<bar> \<le> 1"
  shows "VerifyTOTP secret code t' = Inr True"
proof -
  define d where "d = go_div t totpTimeStep - go_div t' totpTimeStep"
  have d: "d \<in> {-1, 0, 1}" using near unfolding d_def by auto
  have "hotp key (word_of_int (go_div t' totpTimeStep + d)) 6 = Inr code"
    using gen secret counter_of_time [OF t] by (simp add: GenerateTOTP_def d_def)
  with d show ?thesis unfolding VerifyTOTP_iff [OF secret] by blast
qed

text \<open>Only passwords of the window are accepted: an accepted code is the six-digit password of
  the previous, the current or the next time step, and an undecodable secret is an error.\<close>

theorem VerifyTOTP_only_window:
  "(VerifyTOTP secret code t = Inr True \<longrightarrow>
     (\<exists>key. base32Decode secret = Some key \<and> length code = 6 \<and>
        (\<exists>d \<in> {-1, 0, 1}. hotp key (word_of_int (go_div t totpTimeStep + d)) 6 = Inr code))) \<and>
   (VerifyTOTP secret code t = Inl invalid_secret \<longleftrightarrow> base32Decode secret = None)"
proof (cases "base32Decode secret")
  case None
  then show ?thesis by (simp add: VerifyTOTP_def)
next
  case (Some key)
  have "length code = 6" if "hotp key c 6 = Inr code" for c
    using that hotp_six_digits [of key c] by auto
  with Some show ?thesis by (auto simp: VerifyTOTP_iff)
qed


definition rfc_secret :: string where
  "rfc_secret = b32_encode (map (\<lambda>c. of_nat (char_code c)) ''12345678901234567890'')"

lemma rfc_secret_decode:
  "base32Decode rfc_secret = Some (map (\<lambda>c. of_nat (char_code c)) ''12345678901234567890'')"
  using generateMFASecret_roundtrip [of "map (\<lambda>c. of_nat (char_code c)) ''12345678901234567890''"]
  by (simp add: generateMFASecret_def rfc_secret_def)

lemma GenerateTOTP_total:
  assumes "base32Decode secret = Some key"
  obtains code where "GenerateTOTP secret t = Inr code"
proof -
  obtain code where "hotp key ((word_of_int t :: 64 word) div word_of_int totpTimeStep) 6 = Inr code"
    by (rule hotp_Inr)
  with assms that show thesis by (simp add: GenerateTOTP_def)
qed

theorem VerifyTOTP_accepts_window_witness:
  "\<exists>code. GenerateTOTP rfc_secret 59 = Inr code \<and> VerifyTOTP rfc_secret code 61 = Inr True"
proof -
  obtain code where code: "GenerateTOTP rfc_secret 59 = Inr code"
    by (rule GenerateTOTP_total [OF rfc_secret_decode])
  have "VerifyTOTP rfc_secret code 61 = Inr True"
    by (rule VerifyTOTP_accepts_window [OF rfc_secret_decode _ _ code])
      (simp_all add: go_div_def totpTimeStep_def)
  with code show ?thesis by blast
qed

theorem VerifyTOTP_only_window_witness:
  "VerifyTOTP ''01234567'' ''000000'' 59 = Inl invalid_secret \<and>
   VerifyTOTP rfc_secret ''12345'' 59 \<noteq> Inr True"
proof -
  have "base32Decode ''01234567'' = b32_decode ''01234567''"
    by (simp add: base32Decode_def b32_DecodeString_def trim_space_ascii is_space_def to_upper_def
        upper_char_def char_code_def Let_def)
  moreover have "b32_quantum 0 [] ''01234567'' = None"
    by (simp add: b32_quantum.simps [of 0] b32_value_def char_code_def Let_def)
  ultimately have "base32Decode ''01234567'' = None"
    by (simp add: b32_decode.simps [of "''01234567''"])
  then show ?thesis
    using VerifyTOTP_only_window [of "''01234567''" "''000000''" 59]
      VerifyTOTP_only_window [of rfc_secret "''12345''" 59] by auto
qed

end
