(* ===== verification/AuthHandlers.thy ===== *)
theory AuthHandlers
  imports AuthService Totp
begin

text \<open>
  The HTTP handlers of \<open>backend/internal/auth/handler.go\<close> and \<open>mfa_handler.go\<close>, over any user
  store. Each decodes its body as Go does, calls the service and yields the audit events it
  logs and its response.
\<close>

subsection \<open>Request bodies\<close>

record register_body =
  rb_username :: string
  rb_password :: string
  rb_role :: string

definition set_register_field :: "register_body \<Rightarrow> string \<Rightarrow> json \<Rightarrow> register_body option" where
  "set_register_field b k v =
     (if k = ''username'' then map_option (\<lambda>x. b\<lparr>rb_username := x\<rparr>) (go_string v (rb_username b))
      else if k = ''password'' then map_option (\<lambda>x. b\<lparr>rb_password := x\<rparr>) (go_string v (rb_password b))
      else if k = ''role'' then map_option (\<lambda>x. b\<lparr>rb_role := x\<rparr>) (go_string v (rb_role b))
      else Some b)"

definition decode_register :: "json option \<Rightarrow> register_body option" where
  "decode_register =
     decode_struct set_register_field \<lparr>rb_username = [], rb_password = [], rb_role = []\<rparr>"

definition set_login_field :: "login_input \<Rightarrow> string \<Rightarrow> json \<Rightarrow> login_input option" where
  "set_login_field b k v =
     (if k = ''username'' then map_option (\<lambda>x. b\<lparr>li_username := x\<rparr>) (go_string v (li_username b))
      else if k = ''password'' then map_option (\<lambda>x. b\<lparr>li_password := x\<rparr>) (go_string v (li_password b))
      else Some b)"

definition decode_login :: "json option \<Rightarrow> login_input option" where
  "decode_login = decode_struct set_login_field \<lparr>li_username = [], li_password = []\<rparr>"

definition decode_mfa :: "json option \<Rightarrow> string option" where
  "decode_mfa =
     decode_struct (\<lambda>code k v. if k = ''code'' then go_string v code else Some code) []"

subsection \<open>Handlers\<close>

definition request_event :: "action \<Rightarrow> http_request \<Rightarrow> event" where
  "request_event a r = (new_event a)\<lparr>ev_ip_address := hr_remote_addr r, ev_user_agent := hr_user_agent r\<rparr>"

definition register_error :: "auth_error \<Rightarrow> http_response" where
  "register_error e =
     (if errors_is e ErrUserAlreadyExists then writeError 409 ''username already taken''
      else if errors_is e ErrWeakPassword then writeError 400 (error_text e)
      else if errors_is e ErrInvalidRole
      then writeError 400 (''invalid role; allowed: admin, user, developer, analyst, viewer, ''
                           @ ''security_manager, super_admin'')
      else if errors_is e ErrInvalidInput then writeError 400 (error_text e)
      else writeError 500 ''registration failed'')"

definition Register_handler ::
    "'s user_store_ops \<Rightarrow> auth_lib \<Rightarrow> env \<Rightarrow> 's handler" where
  "Register_handler ops lib env s r =
     (case decode_register (hr_body r) of
        None \<Rightarrow> respond s (writeError 400 ''invalid JSON body'')
      | Some req \<Rightarrow>
          let role = to_lower (trim_space (rb_role req))
          in case Register ops lib env s
                 \<lparr>ri_username = rb_username req, ri_password = rb_password req, ri_role = role\<rparr> of
               Inl e \<Rightarrow>
                 (s, [(request_event ActionUserRegistered r)
                        \<lparr>ev_metadata := [(''username'', rb_username req), (''result'', ''failed'')]\<rparr>],
                  Inr (register_error e))
             | Inr (s', u) \<Rightarrow>
                 (s', [(request_event ActionUserRegistered r)
                        \<lparr>ev_user_id := u_id u,
                         ev_metadata := [(''username'', u_username u), (''role'', u_role u)]\<rparr>],
                  Inr (writeJSON 201
                    (RegisteredBody ''user registered successfully'' (to_public u)))))"

definition Login_handler ::
    "'s user_store_ops \<Rightarrow> auth_lib \<Rightarrow> string \<Rightarrow> env \<Rightarrow> 's handler" where
  "Login_handler ops lib key env s r =
     (case decode_login (hr_body r) of
        None \<Rightarrow> respond s (writeError 400 ''invalid JSON body'')
      | Some req \<Rightarrow>
          (case Login ops lib key env s req of
             Inl e \<Rightarrow>
               if errors_is e ErrInvalidCredentials
               then (s, [(request_event ActionLoginFailed r)
                           \<lparr>ev_metadata := [(''username'', li_username req)]\<rparr>],
                     Inr (writeError 401 ''invalid credentials''))
               else respond s (writeError 500 ''login failed'')
           | Inr (token, u) \<Rightarrow>
               (s, [(request_event ActionLoginSuccess r)
                      \<lparr>ev_user_id := u_id u, ev_metadata := [(''username'', u_username u)]\<rparr>],
                Inr (writeJSON 200 (TokenBody token)))))"

definition Me :: "'s user_store_ops \<Rightarrow> 's handler" where
  "Me ops s r =
     (case hr_claims r of
        None \<Rightarrow> respond s (writeError 401 ''unauthorized'')
      | Some claims \<Rightarrow>
          (case GetUserByID ops s (c_user_id claims) of
             Inl _ \<Rightarrow> respond s (writeError 404 ''user not found'')
           | Inr u \<Rightarrow> respond s (writeJSON 200 (UserBody (to_public u)))))"

definition ListUsers_handler :: "'s user_store_ops \<Rightarrow> env \<Rightarrow> 's handler" where
  "ListUsers_handler ops env s r =
     (case ListUsers ops s (en_user_order env) of
        Inl _ \<Rightarrow> respond s (writeError 500 ''failed to retrieve users'')
      | Inr us \<Rightarrow>
          let public = map to_public us
          in respond s (writeJSON 200 (UsersBody public (length public))))"

text \<open>The two demonstration handlers read the claims without a check: without claims they would
  dereference a nil pointer.\<close>

definition AdminOnly :: "'s handler" where
  "AdminOnly s r =
     (case hr_claims r of
        None \<Rightarrow> (s, [], Inl ''nil pointer dereference'')
      | Some c \<Rightarrow> respond s (writeJSON 200
          (ZoneBody ''welcome to the admin zone'' (c_username c) (c_role c))))"

definition UserOrAdmin :: "'s handler" where
  "UserOrAdmin s r =
     (case hr_claims r of
        None \<Rightarrow> (s, [], Inl ''nil pointer dereference'')
      | Some c \<Rightarrow> respond s (writeJSON 200
          (ZoneBody ''authenticated access granted'' (c_username c) (c_role c))))"

definition MFAVerify :: "'s user_store_ops \<Rightarrow> env \<Rightarrow> 's handler" where
  "MFAVerify ops env s r =
     (case hr_claims r of
        None \<Rightarrow> respond s (writeError 401 ''unauthorized'')
      | Some claims \<Rightarrow>
      (case decode_mfa (hr_body r) of
        None \<Rightarrow> respond s (writeError 400 ''invalid JSON body'')
      | Some code \<Rightarrow>
      if length code \<noteq> 6 then respond s (writeError 400 ''MFA code must be 6 digits'')
      else case GetUserByID ops s (c_user_id claims) of
        Inl _ \<Rightarrow> respond s (writeError 404 ''user not found'')
      | Inr u \<Rightarrow>
      if \<not> u_mfa_enabled u \<or> u_mfa_secret u = []
      then respond s (writeError 400 ''MFA is not enabled for this user'')
      else case VerifyTOTP (u_mfa_secret u) code (en_now env) of
        Inl _ \<Rightarrow> respond s (writeError 500 ''MFA verification error'')
      | Inr valid \<Rightarrow>
      if \<not> valid
      then (s, [(request_event ActionMFAFailed r)\<lparr>ev_user_id := u_id u\<rparr>],
            Inr (writeError 401 (error_text ErrInvalidMFACode)))
      else (s, [(request_event ActionMFASuccess r)\<lparr>ev_user_id := u_id u\<rparr>],
            Inr (writeJSON 200 (MfaVerifiedBody ''MFA verified successfully'' True (u_id u))))))"

definition totp_uri :: "string \<Rightarrow> string \<Rightarrow> string" where
  "totp_uri username secret =
     ''otpauth://totp/NEXUS:'' @ username @ ''?secret='' @ secret
       @ ''&issuer=NEXUS&algorithm=SHA1&digits=6&period=30''"

text \<open>The generated secret goes into the response only: the handler has no store access.\<close>

definition MFASetup :: "env \<Rightarrow> 's handler" where
  "MFASetup env s r =
     (case hr_claims r of
        None \<Rightarrow> respond s (writeError 401 ''unauthorized'')
      | Some claims \<Rightarrow>
          (case generateMFASecret (en_random env) of
             None \<Rightarrow> respond s (writeError 500 ''failed to generate MFA secret'')
           | Some secret \<Rightarrow> respond s (writeJSON 200
               (MfaSetupBody secret (totp_uri (c_username claims) secret)
                 ''Scan the QR code or enter the secret into your authenticator app''))))"

lemmas auth_handler_defs = Register_handler_def Login_handler_def Me_def ListUsers_handler_def
  AdminOnly_def UserOrAdmin_def MFAVerify_def MFASetup_def respond_def

subsection \<open>What the handlers leave alone\<close>

text \<open>Only registration writes to the store.\<close>

lemma handlers_keep_store [simp]:
  "fst (Login_handler ops lib key env s r) = s"
  "fst (Me ops s r) = s" "fst (ListUsers_handler ops env s r) = s"
  "fst (AdminOnly s r) = s" "fst (UserOrAdmin s r) = s"
  "fst (MFAVerify ops env s r) = s" "fst (MFASetup env s r) = s"
  by (auto simp: auth_handler_defs Let_def split: option.splits sum.splits prod.splits)

text \<open>A registration either fails and changes nothing, or is a creation by the service.\<close>

lemma Register_handler_cases:
  obtains (fail) "fst (Register_handler ops lib env s r) = s"
  | (success) input s' u where "Register ops lib env s input = Inr (s', u)"
      "fst (Register_handler ops lib env s r) = s'"
proof (cases "decode_register (hr_body r)")
  case None
  then show thesis by (intro fail) (simp add: Register_handler_def respond_def)
next
  case (Some req)
  let ?in = "\<lparr>ri_username = rb_username req, ri_password = rb_password req,
    ri_role = to_lower (trim_space (rb_role req))\<rparr>"
  show thesis
  proof (cases "Register ops lib env s ?in")
    case (Inl e)
    with Some show thesis by (intro fail) (simp add: Register_handler_def Let_def)
  next
    case (Inr p)
    with Some show thesis
      by (intro success [of ?in "fst p" "snd p"]) (simp_all add: Register_handler_def Let_def split: prod.split)
  qed
qed

text \<open>Login does not reveal why it failed: whether the name is unknown, the password is wrong or
  the account is not active, the response and the audit event are the same function of the
  request, and the store is unchanged.\<close>

theorem Login_failures_indistinguishable:
  assumes "decode_login (hr_body r) = Some req"
    and "\<forall>u. GetUserByUsername ops s (li_username req) = Inr u \<longrightarrow>
      \<not> bcrypt_compare lib (u_password_hash u) (li_password req) \<or> u_status u \<noteq> StatusActive"
  shows "Login_handler ops lib key env s r =
    (s, [(request_event ActionLoginFailed r)\<lparr>ev_metadata := [(''username'', li_username req)]\<rparr>],
     Inr (writeError 401 ''invalid credentials''))"
  using assms by (cases "GetUserByUsername ops s (li_username req)")
    (auto simp: Login_handler_def Login_def)

end
