(* ===== verification/DemoLib.thy ===== *)
theory DemoLib
  imports AuthHandlers
begin

text \<open>
  A concrete instance of the library parameters, for the witnesses: a reversible rendering of
  claims as token text, a signature that repeats the key, and a hash that repeats the
  password. It satisfies \<open>bcrypt_ok\<close> and \<open>jwt_ok\<close>, so their theorems are not vacuous.
\<close>

subsection \<open>Rendering claims\<close>

fun enc_str :: "string \<Rightarrow> string" where
  "enc_str [] = ''.''"
| "enc_str (c # cs) = CHR ''c'' # c # enc_str cs"

fun dec_str :: "string \<Rightarrow> (string \<times> string) option" where
  "dec_str (d # c # cs) =
     (if d = CHR ''c'' then map_option (\<lambda>(s, r). (c # s, r)) (dec_str cs)
      else Some ([], c # cs))"
| "dec_str [d] = Some ([], [])"
| "dec_str [] = None"

fun enc_nat :: "nat \<Rightarrow> string" where
  "enc_nat n = (if n = 0 then ''.'' else (if odd n then CHR ''1'' else CHR ''0'') # enc_nat (n div 2))"

fun dec_nat :: "string \<Rightarrow> (nat \<times> string) option" where
  "dec_nat [] = None"
| "dec_nat (c # cs) =
     (if c = CHR ''1'' then map_option (\<lambda>(n, r). (2 * n + 1, r)) (dec_nat cs)
      else if c = CHR ''0'' then map_option (\<lambda>(n, r). (2 * n, r)) (dec_nat cs)
      else Some (0, cs))"

declare enc_nat.simps [simp del]

definition enc_int :: "int \<Rightarrow> string" where
  "enc_int i = (if i < 0 then CHR ''-'' # enc_nat (nat (- i)) else CHR ''+'' # enc_nat (nat i))"

fun dec_int :: "string \<Rightarrow> (int \<times> string) option" where
  "dec_int [] = None"
| "dec_int (c # cs) =
     map_option (\<lambda>(n, r). (if c = CHR ''-'' then - int n else int n, r)) (dec_nat cs)"

lemma dec_enc_str [simp]: "dec_str (enc_str s @ r) = Some (s, r)"
proof (induction s)
  case Nil
  show ?case by (cases r) simp_all
qed simp

lemma dec_enc_nat [simp]: "dec_nat (enc_nat n @ r) = Some (n, r)"
proof (induction n rule: enc_nat.induct)
  case (1 n)
  then show ?case
    by (cases "n = 0"; cases "odd n") (simp_all add: enc_nat.simps [of n] enc_nat.simps [of 0])
qed

lemma dec_enc_int [simp]: "dec_int (enc_int i @ r) = Some (i, r)"
  by (simp add: enc_int_def)

definition enc_claims :: "claims \<Rightarrow> string" where
  "enc_claims c = enc_str (c_user_id c) @ enc_str (c_username c) @ enc_str (c_role c) @
     enc_str (c_issuer c) @ enc_int (c_issued_at c) @ enc_int (c_expires_at c) @ enc_str (c_jti c)"

definition dec_claims :: "string \<Rightarrow> (claims \<times> string) option" where
  "dec_claims s =
     Option.bind (dec_str s) (\<lambda>(a, s). Option.bind (dec_str s) (\<lambda>(b, s).
     Option.bind (dec_str s) (\<lambda>(c, s). Option.bind (dec_str s) (\<lambda>(d, s).
     Option.bind (dec_int s) (\<lambda>(e, s). Option.bind (dec_int s) (\<lambda>(f, s).
     Option.bind (dec_str s) (\<lambda>(g, s).
       Some (\<lparr>c_user_id = a, c_username = b, c_role = c, c_issuer = d, c_issued_at = e,
              c_expires_at = f, c_jti = g\<rparr>, s))))))))"

lemma dec_enc_claims [simp]: "dec_claims (enc_claims c @ r) = Some (c, r)"
  by (simp add: dec_claims_def enc_claims_def)

subsection \<open>The instance\<close>

definition demo_lib :: auth_lib where
  "demo_lib = \<lparr>
     bcrypt_generate = (\<lambda>p cost salt. if length p \<le> 72 then Some (''$2a$'' @ p) else None),
     bcrypt_compare = (\<lambda>h p. h = ''$2a$'' @ p),
     jwt_sign = (\<lambda>c key. Some (enc_claims c @ enc_str key)),
     jwt_parse = (\<lambda>kf now tok.
       case dec_claims tok of
         None \<Rightarrow> None
       | Some (c, sig) \<Rightarrow>
           (case kf ''HS256'' of
              None \<Rightarrow> None
            | Some key \<Rightarrow> if sig = enc_str key \<and> now < c_expires_at c then Some c else None))\<rparr>"

lemma demo_bcrypt_ok: "bcrypt_ok demo_lib"
  by (auto simp: bcrypt_ok_def demo_lib_def)

lemma demo_jwt_ok: "jwt_ok demo_lib"
  by (simp add: jwt_ok_def demo_lib_def hmac_keyfunc_def)

definition demo_env :: env where
  "demo_env = \<lparr>en_now = 1000, en_uuid = ''uuid-1'', en_event_id = ''event-1'', en_salt = ''salt'',
     en_random = Some (replicate 20 7), en_user_order = [], en_policy_order = []\<rparr>"

definition demo_request :: http_request where
  "demo_request = \<lparr>hr_method = ''POST'', hr_path = ''/api/v1/auth/login'', hr_authorization = [],
     hr_origin = [], hr_remote_addr = ''10.0.0.1:4000'', hr_user_agent = ''ua'', hr_query = [],
     hr_body = Some (JObj [(''username'', JStr ''ann''), (''password'', JStr ''WrongPass1'')]), hr_body_bytes = 50,
     hr_path_id = [], hr_claims = None\<rparr>"

lemma decode_demo_login:
  "decode_login (hr_body demo_request) = Some \<lparr>li_username = ''ann'', li_password = ''WrongPass1''\<rparr>"
  by (simp add: decode_login_def demo_request_def set_login_field_def to_lower_def lower_char_def
      char_code_def)

theorem Login_failures_indistinguishable_witness:
  "snd (snd (Login_handler mem_ops demo_lib ''k'' demo_env two_users demo_request)) =
     Inr (writeError 401 ''invalid credentials'')"
proof -
  have "\<forall>u. GetUserByUsername mem_ops two_users ''ann'' = Inr u \<longrightarrow>
      \<not> bcrypt_compare demo_lib (u_password_hash u) ''WrongPass1'' \<or> u_status u \<noteq> StatusActive"
    by (simp add: mem_defs two_users_def sample_user_def demo_lib_def)
  then show ?thesis
    using Login_failures_indistinguishable [OF decode_demo_login, of mem_ops two_users demo_lib
        "''k''" demo_env] by simp
qed

text \<open>A registered account can be used: registration with a valid name, password and role
  creates an active account, and logging in with the trimmed name and the same password yields
  a token whose validation returns that account's id and role until 24 hours later, and nothing
  afterwards.\<close>

theorem register_login_token:
  assumes reg: "Register mem_ops lib env s input = Inr (s', u)"
    and lib: "bcrypt_ok lib" "jwt_ok lib" and id: "en_uuid env \<noteq> []"
  shows "\<exists>tok. Login mem_ops lib key env' s'
      \<lparr>li_username = trim_space (ri_username input), li_password = ri_password input\<rparr> = Inr (tok, u) \<and>
    u_id u = en_uuid env \<and> u_role u = ri_role input \<and> u_status u = StatusActive \<and>
    (\<forall>now < en_now env' + tokenExpiry. \<exists>c. ValidateToken lib key now tok = Inr c \<and>
       c_user_id c = en_uuid env \<and> c_role c = ri_role input) \<and>
    (\<forall>now \<ge> en_now env' + tokenExpiry. \<exists>msg. ValidateToken lib key now tok = Inl msg)"
proof -
  obtain tok where tok: "Login mem_ops lib key env' s'
      \<lparr>li_username = trim_space (ri_username input), li_password = ri_password input\<rparr> = Inr (tok, u)"
    "generateJWT lib key env' u = Some tok"
    using mem.Register_Login [OF reg lib TrueI] by blast
  note acc = mem.Register_account [OF reg id TrueI]
  show ?thesis
    by (rule exI [of _ tok]) (simp add: tok(1) acc ValidateToken_generated [OF lib(2) tok(2)] token_claims_def)
qed

definition demo_input :: register_input where
  "demo_input = \<lparr>ri_username = '' dave '', ri_password = ''Secret-123'', ri_role = RoleDeveloper\<rparr>"

lemma trim_dave: "trim_space '' dave '' = ''dave''"
  by (simp add: trim_space_ascii is_space_def char_code_def)

lemma demo_register:
  "\<exists>s' u. Register mem_ops demo_lib demo_env NewMemoryUserStore demo_input = Inr (s', u)"
  by (simp add: Register_def demo_input_def trim_dave Let_def minPasswordLength_def ValidRoles_def
      demo_lib_def mem_defs NewMemoryUserStore_def)

theorem register_login_token_witness:
  "\<exists>s' u tok. Register mem_ops demo_lib demo_env NewMemoryUserStore demo_input = Inr (s', u) \<and>
     Login mem_ops demo_lib ''k'' demo_env s' \<lparr>li_username = ''dave'', li_password = ''Secret-123''\<rparr>
       = Inr (tok, u) \<and> ValidateToken demo_lib ''k'' 100000 tok = Inl ''token is not valid''"
proof -
  obtain s' u where reg: "Register mem_ops demo_lib demo_env NewMemoryUserStore demo_input = Inr (s', u)"
    using demo_register by blast
  have "en_uuid demo_env \<noteq> []" by (simp add: demo_env_def)
  from register_login_token [OF reg demo_bcrypt_ok demo_jwt_ok this, of "''k''" demo_env]
  obtain tok where tok: "Login mem_ops demo_lib ''k'' demo_env s'
      \<lparr>li_username = ''dave'', li_password = ''Secret-123''\<rparr> = Inr (tok, u)"
    and exp: "\<exists>msg. ValidateToken demo_lib ''k'' 100000 tok = Inl msg"
    by (auto simp: demo_input_def trim_dave demo_env_def tokenExpiry_def)
  have "ValidateToken demo_lib ''k'' 100000 tok = Inl ''token is not valid''"
    using exp tok mem.Register_Login [OF reg demo_bcrypt_ok demo_jwt_ok TrueI, of "''k''" demo_env]
    by (auto simp: demo_input_def trim_dave demo_env_def tokenExpiry_def
        ValidateToken_generated [OF demo_jwt_ok])
  with reg tok show ?thesis by blast
qed

end
