(* ===== verification/PolicyHandler.thy ===== *)
theory PolicyHandler
  imports DemoLib
begin

text \<open>
  The HTTP handlers of \<open>backend/internal/policy/handler.go\<close> over the engine: the access check,
  which takes the subject from the token and the context from the body, and the listing,
  creation and deletion of policies.
\<close>

record access_check =
  ac_user_id :: string
  ac_application :: string
  ac_device_trusted :: bool
  ac_mfa_verified :: bool
  ac_risk_score :: int

definition set_access_field :: "access_check \<Rightarrow> string \<Rightarrow> json \<Rightarrow> access_check option" where
  "set_access_field b k v =
     (if k = ''user_id'' then map_option (\<lambda>x. b\<lparr>ac_user_id := x\<rparr>) (go_string v (ac_user_id b))
      else if k = ''application''
      then map_option (\<lambda>x. b\<lparr>ac_application := x\<rparr>) (go_string v (ac_application b))
      else if k = ''device_trusted''
      then map_option (\<lambda>x. b\<lparr>ac_device_trusted := x\<rparr>) (go_bool v (ac_device_trusted b))
      else if k = ''mfa_verified''
      then map_option (\<lambda>x. b\<lparr>ac_mfa_verified := x\<rparr>) (go_bool v (ac_mfa_verified b))
      else if k = ''risk_score''
      then map_option (\<lambda>x. b\<lparr>ac_risk_score := x\<rparr>) (go_int v (ac_risk_score b))
      else Some b)"

definition decode_access_check :: "json option \<Rightarrow> access_check option" where
  "decode_access_check =
     decode_struct set_access_field \<lparr>ac_user_id = [], ac_application = [], ac_device_trusted = False,
       ac_mfa_verified = False, ac_risk_score = 0\<rparr>"

definition policy_request :: "claims \<Rightarrow> access_check \<Rightarrow> http_request \<Rightarrow> request" where
  "policy_request claims req r =
     \<lparr>rq_user_id = c_user_id claims, rq_role = c_role claims, rq_application = ac_application req,
      rq_device_trusted = ac_device_trusted req, rq_mfa_verified = ac_mfa_verified req,
      rq_risk_score = ac_risk_score req, rq_ip_address = hr_remote_addr r\<rparr>"

definition access_event :: "claims \<Rightarrow> access_check \<Rightarrow> http_request \<Rightarrow> result \<Rightarrow> event" where
  "access_event claims req r res =
     \<lparr>ev_id = [], ev_user_id = c_user_id claims,
      ev_action = (if rs_decision res \<noteq> DecisionAllow then ActionAccessDenied else ActionAccessGranted),
      ev_resource = ac_application req, ev_ip_address = hr_remote_addr r,
      ev_user_agent = hr_user_agent r,
      ev_metadata = [(''decision'', rs_decision res), (''reason'', rs_reason res)],
      ev_timestamp = None\<rparr>"

definition CheckAccess :: "env \<Rightarrow> engine handler" where
  "CheckAccess env e r =
     (case hr_claims r of
        None \<Rightarrow> respond e (writeError 401 ''unauthorized'')
      | Some claims \<Rightarrow>
      (case decode_access_check (hr_body r) of
        None \<Rightarrow> respond e (writeError 400 ''invalid JSON body'')
      | Some req \<Rightarrow>
      if ac_application req = [] then respond e (writeError 400 ''application is required'')
      else let res = Evaluate e (en_policy_order env) (policy_request claims req r)
           in (e, [access_event claims req r res], Inr (writeJSON 200 (DecisionBody res)))))"

definition ListPolicies_handler :: "env \<Rightarrow> engine handler" where
  "ListPolicies_handler env e r =
     (let ps = ListPolicies e (en_policy_order env)
      in respond e (writeJSON 200 (PoliciesBody ps (length ps))))"

definition set_policy_field :: "policy \<Rightarrow> string \<Rightarrow> json \<Rightarrow> policy option" where
  "set_policy_field b k v =
     (if k = ''name'' then map_option (\<lambda>x. b\<lparr>p_name := x\<rparr>) (go_string v (p_name b))
      else if k = ''role'' then map_option (\<lambda>x. b\<lparr>p_role := x\<rparr>) (go_string v (p_role b))
      else if k = ''application''
      then map_option (\<lambda>x. b\<lparr>p_application := x\<rparr>) (go_string v (p_application b))
      else if k = ''require_mfa''
      then map_option (\<lambda>x. b\<lparr>p_require_mfa := x\<rparr>) (go_bool v (p_require_mfa b))
      else if k = ''require_trusted_device''
      then map_option (\<lambda>x. b\<lparr>p_require_trusted := x\<rparr>) (go_bool v (p_require_trusted b))
      else if k = ''max_risk_score''
      then map_option (\<lambda>x. b\<lparr>p_max_risk_score := x\<rparr>) (go_int v (p_max_risk_score b))
      else if k = ''decision'' then map_option (\<lambda>x. b\<lparr>p_decision := x\<rparr>) (go_string v (p_decision b))
      else if k = ''enabled'' then map_option (\<lambda>x. b\<lparr>p_enabled := x\<rparr>) (go_bool v (p_enabled b))
      else Some b)"

text \<open>\<open>createPolicyRequest\<close> has the fields of a policy but the id, so a policy without id models it.\<close>

definition decode_create_policy :: "json option \<Rightarrow> policy option" where
  "decode_create_policy =
     decode_struct set_policy_field \<lparr>p_id = [], p_name = [], p_role = [], p_application = [],
       p_require_mfa = False, p_require_trusted = False, p_max_risk_score = 0, p_decision = [],
       p_enabled = False\<rparr>"

definition CreatePolicy_handler :: "env \<Rightarrow> engine handler" where
  "CreatePolicy_handler env e r =
     (case decode_create_policy (hr_body r) of
        None \<Rightarrow> respond e (writeError 400 ''invalid JSON body'')
      | Some req \<Rightarrow>
          if p_name req = [] \<or> p_application req = []
          then respond e (writeError 400 ''name and application are required'')
          else case CreatePolicy e (en_uuid env) req of (e', p) \<Rightarrow>
            (case hr_claims r of
               None \<Rightarrow> (e', [], Inl ''nil pointer dereference'')
             | Some claims \<Rightarrow>
                 (e', [(new_event ActionPolicyCreated)
                         \<lparr>ev_user_id := c_user_id claims, ev_resource := p_id p,
                          ev_metadata := [(''policy_name'', p_name p)]\<rparr>],
                  Inr (writeJSON 201 (PolicyBody p)))))"

definition DeletePolicy_handler :: "engine handler" where
  "DeletePolicy_handler e r =
     (if hr_path_id r = [] then respond e (writeError 400 ''policy id required'')
      else case DeletePolicy e (hr_path_id r) of
          Inl _ \<Rightarrow> respond e (writeError 404 ''policy not found'')
        | Inr e' \<Rightarrow>
            (case hr_claims r of
               None \<Rightarrow> (e', [], Inl ''nil pointer dereference'')
             | Some claims \<Rightarrow>
                 (e', [(new_event ActionPolicyDeleted)
                         \<lparr>ev_user_id := c_user_id claims, ev_resource := hr_path_id r\<rparr>],
                  Inr (writeJSON 200 (MessageBody ''policy deleted'')))))"

lemmas policy_handler_defs = CheckAccess_def ListPolicies_handler_def CreatePolicy_handler_def
  DeletePolicy_handler_def respond_def

text \<open>The keys of the map are the ids of the policies, which every operation of the API keeps.\<close>

definition engine_keyed :: "engine \<Rightarrow> bool" where
  "engine_keyed e \<longleftrightarrow> (\<forall>i p. e i = Some p \<longrightarrow> p_id p = i)"

lemma engine_keyed_ops:
  "engine_keyed e \<Longrightarrow> engine_keyed (fst (CreatePolicy e i p))"
  "engine_keyed e \<Longrightarrow> DeletePolicy e i = Inr e' \<Longrightarrow> engine_keyed e'"
  "engine_keyed e \<Longrightarrow> UpdatePolicy e p = Inr (e', q) \<Longrightarrow> engine_keyed e'"
  by (auto simp: engine_keyed_def CreatePolicy_def DeletePolicy_def UpdatePolicy_def Let_def
      split: option.splits if_splits)

lemma engine_keyed_handlers:
  assumes "engine_keyed e"
  shows "engine_keyed (fst (CreatePolicy_handler env e r))" "engine_keyed (fst (DeletePolicy_handler e r))"
  using assms engine_keyed_ops(1) [OF assms, of "en_uuid env"] engine_keyed_ops(2) [OF assms]
  by (auto simp: policy_handler_defs CreatePolicy_def Let_def split: option.splits sum.splits)

text \<open>A policy that is created can be read back under its fresh id with exactly the fields it
  was given, and deleting it restores the engine when the id was unused; every other policy is
  untouched in between.\<close>

theorem CreatePolicy_roundtrip:
  assumes "e i = None"
  shows "GetPolicy (fst (CreatePolicy e i p)) i = Inr (p\<lparr>p_id := i\<rparr>) \<and>
    DeletePolicy (fst (CreatePolicy e i p)) i = Inr e \<and>
    (j \<noteq> i \<longrightarrow> GetPolicy (fst (CreatePolicy e i p)) j = GetPolicy e j)"
  using assms by (auto simp: CreatePolicy_def GetPolicy_def DeletePolicy_def Let_def fun_upd_idem)

theorem CreatePolicy_roundtrip_witness:
  "DeletePolicy (fst (CreatePolicy (NewEngine ''1'' ''2'' ''3'') ''4''
     (hd (seed_policies [] [] [])))) ''4'' = Inr (NewEngine ''1'' ''2'' ''3'')"
proof -
  have "NewEngine ''1'' ''2'' ''3'' ''4'' = None"
    by (simp add: NewEngine_def seed_policies_def)
  from CreatePolicy_roundtrip [of "NewEngine ''1'' ''2'' ''3''" "''4''", OF this] show ?thesis by blast
qed

text \<open>An access check answers with the engine's decision for the token's user and role, records
  exactly one audit event, which says granted exactly when the decision is ALLOW, names the
  token's user and carries the decision and its reason, and leaves the policies unchanged. The
  user id in the body is ignored.\<close>

theorem CheckAccess_audited:
  assumes "hr_claims r = Some claims" and "decode_access_check (hr_body r) = Some req"
    and "ac_application req \<noteq> []"
  shows "\<exists>res ev. CheckAccess env e r = (e, [ev], Inr (writeJSON 200 (DecisionBody res))) \<and>
    res = Evaluate e (en_policy_order env) (policy_request claims (req\<lparr>ac_user_id := x\<rparr>) r) \<and>
    (ev_action ev = ActionAccessGranted \<longleftrightarrow> rs_decision res = DecisionAllow) \<and>
    (ev_action ev = ActionAccessDenied \<longleftrightarrow> rs_decision res \<noteq> DecisionAllow) \<and>
    ev_user_id ev = c_user_id claims \<and> ev_resource ev = ac_application req \<and>
    ev_metadata ev = [(''decision'', rs_decision res), (''reason'', rs_reason res)]"
  using assms by (simp add: CheckAccess_def access_event_def policy_request_def Let_def action_defs)


definition demo_claims :: claims where
  "demo_claims = \<lparr>c_user_id = ''uuid-7'', c_username = ''ann'', c_role = RoleAdmin, c_issuer = jwtIssuer,
     c_issued_at = 1000, c_expires_at = 87400, c_jti = ''j''\<rparr>"

definition demo_check :: http_request where
  "demo_check = demo_request\<lparr>hr_claims := Some demo_claims, hr_path := ''/api/v1/access/check'',
     hr_body := Some (JObj [(''application'', JStr ''prod-db''), (''mfa_verified'', JBool True),
                            (''user_id'', JStr ''someone-else''), (''risk_score'', JInt 30)])\<rparr>"

lemma decode_demo_check:
  "decode_access_check (hr_body demo_check) = Some \<lparr>ac_user_id = ''someone-else'',
     ac_application = ''prod-db'', ac_device_trusted = False, ac_mfa_verified = True,
     ac_risk_score = 30\<rparr>"
  by (simp add: decode_access_check_def demo_check_def set_access_field_def to_lower_def
      lower_char_def char_code_def)

theorem CheckAccess_audited_witness:
  "\<exists>res ev. CheckAccess (demo_env\<lparr>en_policy_order := [''1'', ''2'', ''3'']\<rparr>)
       (NewEngine ''1'' ''2'' ''3'') demo_check
     = (NewEngine ''1'' ''2'' ''3'', [ev], Inr (writeJSON 200 (DecisionBody res))) \<and>
   ev_user_id ev = ''uuid-7'' \<and> ev_resource ev = ''prod-db''"
proof -
  have "hr_claims demo_check = Some demo_claims" by (simp add: demo_check_def)
  from CheckAccess_audited [OF this decode_demo_check, where x = "[]"]
  obtain res ev where "CheckAccess (demo_env\<lparr>en_policy_order := [''1'', ''2'', ''3'']\<rparr>)
       (NewEngine ''1'' ''2'' ''3'') demo_check
     = (NewEngine ''1'' ''2'' ''3'', [ev], Inr (writeJSON 200 (DecisionBody res)))"
    "ev_user_id ev = c_user_id demo_claims" "ev_resource ev = ''prod-db''"
    by (metis access_check.select_convs(2) list.distinct(1))
  then show ?thesis by (auto simp: demo_claims_def)
qed

end
