(* ===== verification/RateLimit.thy ===== *)
theory RateLimit
  imports AuthHandlers
begin

text \<open>
  The login rate limiter: the interface \<open>Limiter\<close> of \<open>backend/internal/security/limiter.go\<close>, the
  Redis-backed and the no-op implementation of \<open>ratelimit.go\<close>, and the middleware
  \<open>withRateLimit\<close> of \<open>backend/cmd/server/main.go\<close>.

  Redis is a service outside the repository: its commands are the parameter record
  \<open>redis_ops\<close>, where \<open>Inl\<close> is a client error, and the locale \<open>redis_server\<close> states what the
  commands document (a counter per key that lives until its expiry). Times are in seconds.
\<close>

subsection \<open>Redis\<close>

text \<open>The pipeline INCR, EXPIRE; GET (\<open>None\<close> for \<open>redis.Nil\<close>); DEL.\<close>

record 'r redis_ops =
  r_incr_expire :: "'r \<Rightarrow> int \<Rightarrow> string \<Rightarrow> int \<Rightarrow> string + (int \<times> 'r)"
  r_get :: "'r \<Rightarrow> int \<Rightarrow> string \<Rightarrow> string + int option"
  r_del :: "'r \<Rightarrow> int \<Rightarrow> string \<Rightarrow> string + 'r"

definition MaxLoginAttempts :: int where "MaxLoginAttempts = 5"
definition LockoutDuration :: int where "LockoutDuration = 15 * 60"

definition loginKey :: "string \<Rightarrow> string" where
  "loginKey ip = ''nexus:rate:login:'' @ ip"

lemma loginKey_inj [simp]: "loginKey a = loginKey b \<longleftrightarrow> a = b"
  by (simp add: loginKey_def)

subsection \<open>The limiter interface and its implementations\<close>

record 'r limiter_ops =
  IsRateLimited :: "'r \<Rightarrow> int \<Rightarrow> string \<Rightarrow> bool \<times> string option"
  RecordFailedLogin :: "'r \<Rightarrow> int \<Rightarrow> string \<Rightarrow> (int \<times> bool \<times> string option) \<times> 'r"
  ResetFailedLogins :: "'r \<Rightarrow> int \<Rightarrow> string \<Rightarrow> string option \<times> 'r"

definition redis_RecordFailedLogin ::
    "'r redis_ops \<Rightarrow> 'r \<Rightarrow> int \<Rightarrow> string \<Rightarrow> (int \<times> bool \<times> string option) \<times> 'r" where
  "redis_RecordFailedLogin rd s now ip =
     (case r_incr_expire rd s now (loginKey ip) LockoutDuration of
        Inl e \<Rightarrow> ((0, False, Some (''rate limiter: redis pipeline failed: '' @ e)), s)
      | Inr (count, s') \<Rightarrow> ((count, count \<ge> MaxLoginAttempts, None), s'))"

definition redis_IsRateLimited :: "'r redis_ops \<Rightarrow> 'r \<Rightarrow> int \<Rightarrow> string \<Rightarrow> bool \<times> string option" where
  "redis_IsRateLimited rd s now ip =
     (case r_get rd s now (loginKey ip) of
        Inl e \<Rightarrow> (False, Some (''rate limiter: redis get failed: '' @ e))
      | Inr None \<Rightarrow> (False, None)
      | Inr (Some count) \<Rightarrow> (count \<ge> MaxLoginAttempts, None))"

definition redis_ResetFailedLogins :: "'r redis_ops \<Rightarrow> 'r \<Rightarrow> int \<Rightarrow> string \<Rightarrow> string option \<times> 'r" where
  "redis_ResetFailedLogins rd s now ip =
     (case r_del rd s now (loginKey ip) of Inl e \<Rightarrow> (Some e, s) | Inr s' \<Rightarrow> (None, s'))"

definition RedisLimiter :: "'r redis_ops \<Rightarrow> 'r limiter_ops" where
  "RedisLimiter rd = \<lparr>IsRateLimited = redis_IsRateLimited rd,
     RecordFailedLogin = redis_RecordFailedLogin rd, ResetFailedLogins = redis_ResetFailedLogins rd\<rparr>"

definition NilRateLimiter :: "'r limiter_ops" where
  "NilRateLimiter = \<lparr>IsRateLimited = (\<lambda>s now ip. (False, None)),
     RecordFailedLogin = (\<lambda>s now ip. ((0, False, None), s)),
     ResetFailedLogins = (\<lambda>s now ip. (None, s))\<rparr>"

lemmas limiter_defs = RedisLimiter_def NilRateLimiter_def redis_IsRateLimited_def
  redis_RecordFailedLogin_def redis_ResetFailedLogins_def

definition withRateLimit :: "'r limiter_ops \<Rightarrow> 'r \<Rightarrow> int \<Rightarrow> 's handler \<Rightarrow> 's handler" where
  "withRateLimit rl red now next s r =
     (let ip = hr_remote_addr r
      in if fst (IsRateLimited rl red now ip)
         then (s, [request_event ActionRateLimitTriggered r],
               Inr \<lparr>rsp_status = 429,
                    rsp_headers = [(''Content-Type'', ''application/json''), (''Retry-After'', ''900'')],
                    rsp_payload = ErrorBody ''too many failed login attempts; try again in 15 minutes''\<rparr>)
         else next s r)"

text \<open>What a caller may rely on, whichever limiter runs: an error means the request is let
  through (the limiter fails open).\<close>

locale limiter =
  fixes rl :: "'r limiter_ops"
  assumes fail_open: "IsRateLimited rl s now ip = (b, Some e) \<Longrightarrow> \<not> b"
begin

lemma withRateLimit_error:
  "IsRateLimited rl red now (hr_remote_addr r) = (b, Some e) \<Longrightarrow>
   withRateLimit rl red now next s r = next s r"
  using fail_open by (fastforce simp: withRateLimit_def Let_def)

end

interpretation redis_lim: limiter "RedisLimiter rd"
  by unfold_locales (auto simp: limiter_defs split: sum.splits option.splits)

interpretation nil_lim: limiter NilRateLimiter
  by unfold_locales (simp add: limiter_defs)

subsection \<open>The lockout\<close>

text \<open>The documented commands: GET reads the count while it is alive; INCR continues it or starts
  at one, EXPIRE sets its life, and no other key is touched; DEL removes it.\<close>

locale redis_server =
  fixes rd :: "'r redis_ops"
  assumes incr_count:
      "r_get rd s now k = Inr c \<Longrightarrow> \<exists>s'. r_incr_expire rd s now k ttl =
         Inr ((case c of None \<Rightarrow> 1 | Some n \<Rightarrow> n + 1), s')"
    and incr_get:
      "r_incr_expire rd s now k ttl = Inr (n, s') \<Longrightarrow> now \<le> t \<Longrightarrow>
       r_get rd s' t k = Inr (if t < now + ttl then Some n else None)"
    and incr_other:
      "r_incr_expire rd s now k ttl = Inr (n, s') \<Longrightarrow> j \<noteq> k \<Longrightarrow> r_get rd s' t j = r_get rd s t j"
    and del_get: "r_del rd s now k = Inr s' \<Longrightarrow> r_get rd s' t k = Inr None"
begin

text \<open>The state after recording failures of one address at the given times.\<close>

lemma failures_count:
  assumes "r_get rd s (hd ts) (loginKey ip) = Inr None" and "ts \<noteq> []"
    and "sorted ts" and "last ts < hd ts + LockoutDuration" and "last ts \<le> t"
  shows "r_get rd (foldl (\<lambda>s t. snd (RecordFailedLogin (RedisLimiter rd) s t ip)) s ts) t (loginKey ip)
    = Inr (if t < last ts + LockoutDuration then Some (int (length ts)) else None)"
  using assms
proof (induction ts arbitrary: t rule: rev_induct)
  case (snoc x ts)
  let ?f = "\<lambda>s t. snd (RecordFailedLogin (RedisLimiter rd) s t ip)"
  let ?s = "foldl ?f s ts"
  have x: "r_get rd ?s x (loginKey ip) = Inr (if ts = [] then None else Some (int (length ts)))"
  proof (cases "ts = []")
    case True
    with snoc.prems show ?thesis by simp
  next
    case False
    have "last ts \<le> x" "hd ts \<le> last ts"
      using snoc.prems(3) last_in_set [OF False] hd_le_last [OF _ False] by (auto simp: sorted_append)
    moreover have "x < hd ts + LockoutDuration" "hd (ts @ [x]) = hd ts"
      using snoc.prems(4) False by simp_all
    ultimately show ?thesis
      using snoc.IH [of x] snoc.prems False by (simp add: sorted_append)
  qed
  obtain s' where s': "r_incr_expire rd ?s x (loginKey ip) LockoutDuration = Inr (int (length ts) + 1, s')"
    using incr_count [OF x, of LockoutDuration] by (auto split: if_splits)
  then have "?f ?s x = s'"
    by (simp add: limiter_defs)
  with incr_get [OF s'] snoc.prems(5) show ?case by simp
qed simp

text \<open>Five failures within fifteen minutes lock the address out until fifteen minutes after the
  last of them; fewer do not, and no other address is affected.\<close>

lemma lockout:
  assumes "r_get rd s (hd ts) (loginKey ip) = Inr None" and "ts \<noteq> []"
    and "sorted ts" and "last ts < hd ts + LockoutDuration" and "last ts \<le> t"
  shows "IsRateLimited (RedisLimiter rd)
      (foldl (\<lambda>s t. snd (RecordFailedLogin (RedisLimiter rd) s t ip)) s ts) t ip =
    (5 \<le> length ts \<and> t < last ts + LockoutDuration, None)"
  unfolding RedisLimiter_def
  using failures_count [OF assms]
  by (simp add: limiter_defs MaxLoginAttempts_def)

end


subsection \<open>A reference server\<close>

text \<open>A store of counters with expiry times, as the Redis documentation describes the commands;
  it shows that the laws hold together and carries the witness.\<close>

type_synonym kv_redis = "(string \<times> int \<times> int) list"

definition kv_get :: "kv_redis \<Rightarrow> int \<Rightarrow> string \<Rightarrow> string + int option" where
  "kv_get s now k = Inr (case map_of s k of None \<Rightarrow> None
     | Some (n, expiry) \<Rightarrow> if now < expiry then Some n else None)"

definition kv_incr_expire :: "kv_redis \<Rightarrow> int \<Rightarrow> string \<Rightarrow> int \<Rightarrow> string + (int \<times> kv_redis)" where
  "kv_incr_expire s now k ttl =
     (let n = (case map_of s k of None \<Rightarrow> 1
               | Some (n, expiry) \<Rightarrow> if now < expiry then n + 1 else 1)
      in Inr (n, (k, n, now + ttl) # s))"

definition kv_ops :: "kv_redis redis_ops" where
  "kv_ops = \<lparr>r_incr_expire = kv_incr_expire, r_get = kv_get,
     r_del = (\<lambda>s now k. Inr (filter (\<lambda>(j, _). j \<noteq> k) s))\<rparr>"

lemma map_of_filter_other: "map_of (filter (\<lambda>(j, _). j \<noteq> k) s) k = None"
  by (induction s) auto

interpretation kv: redis_server kv_ops
proof
  fix s s' now k c ttl n t j
  show "r_get kv_ops s now k = Inr c \<Longrightarrow> \<exists>s'. r_incr_expire kv_ops s now k ttl =
      Inr ((case c of None \<Rightarrow> 1 | Some n \<Rightarrow> n + 1), s')"
    by (auto simp: kv_ops_def kv_get_def kv_incr_expire_def Let_def split: option.splits prod.splits)
  show "r_incr_expire kv_ops s now k ttl = Inr (n, s') \<Longrightarrow> now \<le> t \<Longrightarrow>
      r_get kv_ops s' t k = Inr (if t < now + ttl then Some n else None)"
    by (auto simp: kv_ops_def kv_get_def kv_incr_expire_def Let_def)
  show "r_incr_expire kv_ops s now k ttl = Inr (n, s') \<Longrightarrow> j \<noteq> k \<Longrightarrow>
      r_get kv_ops s' t j = r_get kv_ops s t j"
    by (auto simp: kv_ops_def kv_get_def kv_incr_expire_def Let_def)
  show "r_del kv_ops s now k = Inr s' \<Longrightarrow> r_get kv_ops s' t k = Inr None"
    by (auto simp: kv_ops_def kv_get_def map_of_filter_other)
qed

text \<open>C38: The lockout of the limiter, on any Redis that keeps its documented laws: after failures of
  an address within fifteen minutes of the first, the address is limited exactly when there
  were at least five and fewer than fifteen minutes have passed since the last one.\<close>

theorem lockout_after_five:
  assumes "redis_server rd" and "r_get rd s (hd ts) (loginKey ip) = Inr None" and "ts \<noteq> []"
    and "sorted ts" and "last ts < hd ts + LockoutDuration" and "last ts \<le> t"
  shows "IsRateLimited (RedisLimiter rd)
      (foldl (\<lambda>s t. snd (RecordFailedLogin (RedisLimiter rd) s t ip)) s ts) t ip =
    (5 \<le> length ts \<and> t < last ts + 15 * 60, None)"
  using redis_server.lockout [OF assms] by (simp add: LockoutDuration_def)

theorem lockout_after_five_witness:
  "IsRateLimited (RedisLimiter kv_ops)
      (foldl (\<lambda>s t. snd (RecordFailedLogin (RedisLimiter kv_ops) s t ''ip'')) [] [0, 10, 20, 30, 40])
      900 ''ip'' = (True, None)"
  using lockout_after_five [OF kv.redis_server_axioms, of "[]" "[0, 10, 20, 30, 40]" "''ip''" 900]
  by (simp add: kv_ops_def kv_get_def LockoutDuration_def)

end
