(* ===== verification/Server.thy ===== *)
theory Server
  imports PolicyHandler RateLimit
begin

text \<open>
  The server of \<open>backend/cmd/server/main.go\<close> over any user store and audit logger: the state every
  handler shares, the routes with their middleware and the global middleware stack; then its
  in-memory deployment, with the seeded accounts and the states reachable by serving requests.
\<close>

subsection \<open>State and configuration\<close>

record ('u, 'l, 'r) server_state =
  sv_users :: 'u
  sv_engine :: engine
  sv_log :: 'l
  sv_redis :: 'r

text \<open>The two interfaces \<open>main\<close> picks an implementation for, \<open>auth.UserStore\<close> and \<open>audit.Logger\<close>.\<close>

record ('u, 'l) stores =
  st_users :: "'u user_store_ops"
  st_log :: "'l logger_ops"

record 'r config =
  cf_lib :: auth_lib
  cf_key :: string
  cf_limiter :: "'r limiter_ops"
  cf_origins :: "string list"

text \<open>Handlers of one component as handlers of the server.\<close>

definition on_users :: "'u handler \<Rightarrow> ('u, 'l, 'r) server_state handler" where
  "on_users h s r = (case h (sv_users s) r of (u, evs, out) \<Rightarrow> (s\<lparr>sv_users := u\<rparr>, evs, out))"

definition on_engine :: "engine handler \<Rightarrow> ('u, 'l, 'r) server_state handler" where
  "on_engine h s r = (case h (sv_engine s) r of (e, evs, out) \<Rightarrow> (s\<lparr>sv_engine := e\<rparr>, evs, out))"

definition audit_list_on :: "('u, 'l) stores \<Rightarrow> ('u, 'l, 'r) server_state handler" where
  "audit_list_on st s r =
     (s, [], map_sum id
        (\<lambda>res. case res of
            Inl _ \<Rightarrow> writeError 500 ''failed to retrieve audit logs''
          | Inr a \<Rightarrow> writeJSON 200 (AuditBody a))
        (List_handler_on (lg_List (st_log st) (sv_log s)) (hr_query r)))"

definition health :: "('u, 'l, 'r) server_state handler" where
  "health s r = respond s (writeJSON 200 (HealthBody ''ok'' ''nexus-identity-platform''))"

subsection \<open>Routes\<close>

datatype pattern = Exact string | WithId string

text \<open>\<open>{id}\<close> matches one non-empty path segment.\<close>

fun pattern_match :: "pattern \<Rightarrow> string \<Rightarrow> string option" where
  "pattern_match (Exact p) path = (if path = p then Some [] else None)"
| "pattern_match (WithId p) path =
     (if starts_with p path
      then let i = drop (length p) path
           in if i \<noteq> [] \<and> CHR ''/'' \<notin> set i then Some i else None
      else None)"

definition registerRoutes ::
    "('u, 'l) stores \<Rightarrow> 'r config \<Rightarrow> env \<Rightarrow> (string \<times> pattern \<times> ('u, 'l, 'r) server_state handler) list" where
  "registerRoutes st cfg env =
     (let lib = cf_lib cfg; key = cf_key cfg; now = en_now env;
          auth = RequireAuth lib key now; ops = st_users st
      in
      [(''GET'', Exact ''/health'', health),
       (''POST'', Exact ''/api/v1/auth/register'', on_users (Register_handler ops lib env)),
       (''POST'', Exact ''/api/v1/auth/login'',
          (\<lambda>s. withRateLimit (cf_limiter cfg) (sv_redis s) now
             (on_users (Login_handler ops lib key env)) s)),
       (''GET'', Exact ''/api/v1/auth/me'', auth (on_users (Me ops))),
       (''POST'', Exact ''/api/v1/mfa/setup'', auth (on_users (MFASetup env))),
       (''POST'', Exact ''/api/v1/mfa/verify'', auth (on_users (MFAVerify ops env))),
       (''GET'', Exact ''/api/v1/admin-only'',
          auth (RequireRole RoleAdmin (on_users AdminOnly))),
       (''GET'', Exact ''/api/v1/user-or-admin'', auth (on_users UserOrAdmin)),
       (''GET'', Exact ''/api/v1/users'',
          auth (RequireRole RoleAdmin (on_users (ListUsers_handler ops env)))),
       (''GET'', Exact ''/api/v1/policies'', auth (on_engine (ListPolicies_handler env))),
       (''POST'', Exact ''/api/v1/policies'',
          auth (RequireAnyRole [RoleAdmin, RoleSecurityManager] (on_engine (CreatePolicy_handler env)))),
       (''DELETE'', WithId ''/api/v1/policies/'',
          auth (RequireAnyRole [RoleAdmin, RoleSecurityManager] (on_engine DeletePolicy_handler))),
       (''POST'', Exact ''/api/v1/access/check'', auth (on_engine (CheckAccess env))),
       (''GET'', Exact ''/api/v1/audit'',
          auth (RequireAnyRole [RoleAdmin, RoleSecurityManager] (audit_list_on st)))])"

text \<open>\<open>http.ServeMux\<close>: the route whose pattern and method fit; 405 when only the pattern fits, 404
  when none does. A GET route also serves HEAD.\<close>

definition method_match :: "string \<Rightarrow> string \<Rightarrow> bool" where
  "method_match m req = (m = req \<or> m = ''GET'' \<and> req = ''HEAD'')"

fun serve_mux :: "(string \<times> pattern \<times> 's handler) list \<Rightarrow> bool \<Rightarrow> 's handler" where
  "serve_mux [] seen s r =
     respond s \<lparr>rsp_status = (if seen then 405 else 404), rsp_headers = [],
       rsp_payload = TextBody (if seen then ''Method Not Allowed'' else ''404 page not found'')\<rparr>"
| "serve_mux ((m, p, h) # rs) seen s r =
     (case pattern_match p (hr_path r) of
        None \<Rightarrow> serve_mux rs seen s r
      | Some i \<Rightarrow>
          if method_match m (hr_method r) then h s (r\<lparr>hr_path_id := i\<rparr>)
          else serve_mux rs True s r)"

definition global_handler :: "('u, 'l) stores \<Rightarrow> 'r config \<Rightarrow> env \<Rightarrow> ('u, 'l, 'r) server_state handler" where
  "global_handler st cfg env =
     CORS (cf_origins cfg) (SecurityHeaders (BodyLimit (2 ^ 20)
       (serve_mux (registerRoutes st cfg env) False)))"

text \<open>Serving a request: the handler runs (the request context starts without claims) and its
  events go to the logger.\<close>

definition serve_on :: "('u, 'l) stores \<Rightarrow> 'r config \<Rightarrow> env \<Rightarrow> ('u, 'l, 'r) server_state \<Rightarrow>
    http_request \<Rightarrow> ('u, 'l, 'r) server_state \<times> (string + http_response)" where
  "serve_on st cfg env s r =
     (case global_handler st cfg env s (r\<lparr>hr_claims := None\<rparr>) of
        (s', evs, out) \<Rightarrow>
          (s'\<lparr>sv_log := foldl (\<lambda>l e. lg_Log (st_log st) l (en_event_id env) (en_now env) e) (sv_log s') evs\<rparr>,
           out))"

subsection \<open>The in-memory deployment\<close>

type_synonym 'r server = "(mem_store, memory_logger, 'r) server_state"

definition memory_stores :: "(mem_store, memory_logger) stores" where
  "memory_stores = \<lparr>st_users = mem_ops, st_log = mem_log_ops\<rparr>"

abbreviation serve :: "'r config \<Rightarrow> env \<Rightarrow> 'r server \<Rightarrow> http_request \<Rightarrow> 'r server \<times> (string + http_response)" where
  "serve \<equiv> serve_on memory_stores"

abbreviation audit_list :: "'r server handler" where
  "audit_list \<equiv> audit_list_on memory_stores"

lemma memory_stores_sel [simp]: "st_users memory_stores = mem_ops" "st_log memory_stores = mem_log_ops"
  by (simp_all add: memory_stores_def)

text \<open>The in-memory listing never fails, so its endpoint has no 500 answer.\<close>

lemma audit_list_def:
  "audit_list s r =
     (s, [], map_sum id (\<lambda>a. writeJSON 200 (AuditBody a)) (List_handler (sv_log s) (hr_query r)))"
  by (simp add: audit_list_on_def List_handler_on_mem sum.map_comp comp_def id_def)

subsection \<open>Start-up\<close>

definition dev_seeds :: "(string \<times> string \<times> role) list" where
  "dev_seeds =
    [(''admin'', ''AdminPassword123!'', RoleAdmin),
     (''developer'', ''DevPassword123!'', RoleDeveloper),
     (''viewer'', ''ViewerPassword123!'', RoleViewer),
     (''secmgr'', ''SecPassword123!'', RoleSecurityManager)]"

text \<open>A seed whose hashing or creation fails is skipped; \<open>ids\<close> are the ids \<open>CreateUser\<close> draws.\<close>

definition seed_one ::
    "'u user_store_ops \<Rightarrow> auth_lib \<Rightarrow> string \<Rightarrow> int \<Rightarrow> 'u \<Rightarrow> (string \<times> string \<times> role) \<times> string \<Rightarrow> 'u" where
  "seed_one ops lib salt now store x =
     (case x of ((username, password, role), new_id) \<Rightarrow>
       (case bcrypt_generate lib password 12 salt of
          None \<Rightarrow> store
        | Some hash \<Rightarrow>
            (case CreateUser ops store new_id now
                 \<lparr>u_id = [], u_username = username, u_password_hash = hash, u_role = role,
                  u_organization_id = [], u_status = StatusActive, u_mfa_secret = [],
                  u_mfa_enabled = False, u_created_at = 0, u_updated_at = 0\<rparr> of
               Inl _ \<Rightarrow> store
             | Inr (store', _) \<Rightarrow> store')))"

definition seedDevUsers ::
    "'u user_store_ops \<Rightarrow> auth_lib \<Rightarrow> string \<Rightarrow> int \<Rightarrow> string list \<Rightarrow> 'u \<Rightarrow> 'u" where
  "seedDevUsers ops lib salt now ids store = foldl (seed_one ops lib salt now) store (zip dev_seeds ids)"

definition start_server ::
    "'r config \<Rightarrow> 'r \<Rightarrow> string \<Rightarrow> int \<Rightarrow> string list \<Rightarrow> string \<times> string \<times> string \<Rightarrow> 'r server" where
  "start_server cfg redis salt now ids pids =
     (case pids of (i1, i2, i3) \<Rightarrow>
       \<lparr>sv_users = seedDevUsers mem_ops (cf_lib cfg) salt now ids NewMemoryUserStore,
        sv_engine = NewEngine i1 i2 i3, sv_log = NewMemoryLogger, sv_redis = redis\<rparr>)"

subsection \<open>Reachable states\<close>

text \<open>Fresh ids: what \<open>uuid.New\<close> promises.\<close>

definition fresh_env :: "env \<Rightarrow> 'r server \<Rightarrow> bool" where
  "fresh_env env s \<longleftrightarrow> en_uuid env \<noteq> [] \<and> en_event_id env \<noteq> [] \<and>
     byID (sv_users s) (en_uuid env) = None \<and> sv_engine s (en_uuid env) = None"

inductive reachable :: "'r config \<Rightarrow> 'r \<Rightarrow> 'r server \<Rightarrow> bool" for cfg r0 where
  start: "length ids = 4 \<Longrightarrow> distinct ids \<Longrightarrow> [] \<notin> set ids \<Longrightarrow>
    reachable cfg r0 (start_server cfg r0 salt now ids pids)"
| request: "reachable cfg r0 s \<Longrightarrow> fresh_env env s \<Longrightarrow> reachable cfg r0 (fst (serve cfg env s req))"

end
