(* ===== verification/ServerRoutes.thy ===== *)
theory ServerRoutes
  imports Server
begin

text \<open>
  The shape of serving a request: the global middleware around the router, the route table with
  the gate of each route, and the roles a route requires.
\<close>

subsection \<open>Serving a request\<close>

definition limited_request :: "http_request \<Rightarrow> http_request" where
  "limited_request r = (if hr_body_bytes r > 2 ^ 20 then r\<lparr>hr_body := None\<rparr> else r)"

lemma limited_request_sel [simp]:
  "hr_authorization (limited_request r) = hr_authorization r"
  "hr_path (limited_request r) = hr_path r" "hr_method (limited_request r) = hr_method r"
  "hr_claims (limited_request r) = hr_claims r" "hr_query (limited_request r) = hr_query r"
  "hr_remote_addr (limited_request r) = hr_remote_addr r"
  "hr_user_agent (limited_request r) = hr_user_agent r"
  by (simp_all add: limited_request_def)

lemma extractBearerToken_cong:
  "hr_authorization r = hr_authorization r' \<Longrightarrow> extractBearerToken r = extractBearerToken r'"
  by (simp add: extractBearerToken_def)

lemma serve_mux_disj:
  "(\<exists>st msg. (st = 404 \<or> st = 405) \<and> serve_mux rs seen s r = respond s
      \<lparr>rsp_status = st, rsp_headers = [], rsp_payload = TextBody msg\<rparr>) \<or>
   (\<exists>m p h i. (m, p, h) \<in> set rs \<and> pattern_match p (hr_path r) = Some i \<and>
      method_match m (hr_method r) \<and> serve_mux rs seen s r = h s (r\<lparr>hr_path_id := i\<rparr>))"
proof (induction rs seen s r rule: serve_mux.induct)
  case (1 seen s r)
  show ?case by (cases seen) auto
next
  case (2 m p h rs seen s r)
  show ?case
  proof (cases "pattern_match p (hr_path r)")
    case None
    from "2.IH"(1) [OF None] None show ?thesis
      by (simp only: serve_mux.simps option.case list.set insert_iff) blast
  next
    case (Some i)
    show ?thesis
    proof (cases "method_match m (hr_method r)")
      case True
      with Some show ?thesis by (intro disjI2 exI [of _ m] exI [of _ p] exI [of _ h] exI [of _ i]) simp
    next
      case False
      from "2.IH"(2) [OF Some False] Some False show ?thesis
        by (simp only: serve_mux.simps option.case if_False list.set insert_iff) blast
    qed
  qed
qed

lemma serve_mux_cases:
  obtains (unrouted) st msg where "st = 404 \<or> st = 405" "serve_mux rs seen s r = respond s
      \<lparr>rsp_status = st, rsp_headers = [], rsp_payload = TextBody msg\<rparr>"
  | (routed) m p h i where "(m, p, h) \<in> set rs" "pattern_match p (hr_path r) = Some i"
      "method_match m (hr_method r)" "serve_mux rs seen s r = h s (r\<lparr>hr_path_id := i\<rparr>)"
  using serve_mux_disj [of rs seen s r] by (elim disjE exE conjE) blast+

text \<open>Every served request is either answered without a handler (preflight, 404, 405) or is one
  route's handler on the request, with headers added and its events logged.\<close>

definition log_events_on ::
    "('u, 'l) stores \<Rightarrow> env \<Rightarrow> event list \<Rightarrow> ('u, 'l, 'r) server_state \<Rightarrow> ('u, 'l, 'r) server_state" where
  "log_events_on st env evs s =
     s\<lparr>sv_log := foldl (\<lambda>l e. lg_Log (st_log st) l (en_event_id env) (en_now env) e) (sv_log s) evs\<rparr>"

abbreviation log_events :: "env \<Rightarrow> event list \<Rightarrow> 'r server \<Rightarrow> 'r server" where
  "log_events \<equiv> log_events_on memory_stores"

lemma foldl_Log_events:
  "ml_events (foldl (\<lambda>l e. Log l i t e) l evs) = ml_events l @ map (stamp_event i t) evs"
  by (induction evs arbitrary: l) simp_all

lemma log_events_on_sel [simp]:
  "sv_users (log_events_on st env evs s) = sv_users s" "sv_engine (log_events_on st env evs s) = sv_engine s"
  "sv_redis (log_events_on st env evs s) = sv_redis s" "log_events_on st env [] s = s"
  by (simp_all add: log_events_on_def)

lemma log_events_sel [simp]:
  "ml_events (sv_log (log_events env evs s)) =
     ml_events (sv_log s) @ map (stamp_event (en_event_id env) (en_now env)) evs"
  by (simp add: log_events_on_def foldl_Log_events)

definition same_answer :: "(string + http_response) \<Rightarrow> (string + http_response) \<Rightarrow> bool" where
  "same_answer out out' \<longleftrightarrow> (\<exists>hs. out' = map_sum id (\<lambda>r. r\<lparr>rsp_headers := hs @ rsp_headers r\<rparr>) out)"

lemma same_answer_Inr:
  "same_answer (Inr a) (Inr b) \<Longrightarrow> rsp_status b = rsp_status a \<and> rsp_payload b = rsp_payload a"
  "\<not> same_answer (Inl e) (Inr b)"
  by (auto simp: same_answer_def)

lemma same_answer_headers: "same_answer out (map_sum id (\<lambda>r. r\<lparr>rsp_headers := hs @ rsp_headers r\<rparr>) out)"
  by (auto simp: same_answer_def)

lemma same_answer_trans: "same_answer a b \<Longrightarrow> same_answer b c \<Longrightarrow> same_answer a c"
proof -
  assume "same_answer a b" "same_answer b c"
  then obtain hs hs' where "b = map_sum id (\<lambda>r. r\<lparr>rsp_headers := hs @ rsp_headers r\<rparr>) a"
    "c = map_sum id (\<lambda>r. r\<lparr>rsp_headers := hs' @ rsp_headers r\<rparr>) b"
    by (auto simp: same_answer_def)
  then have "c = map_sum id (\<lambda>r. r\<lparr>rsp_headers := (hs' @ hs) @ rsp_headers r\<rparr>) a"
    by (cases a) simp_all
  then show ?thesis unfolding same_answer_def by blast
qed

lemma add_headers_answer:
  "\<exists>out'. add_headers hs (s, evs, out) = (s, evs, out') \<and> same_answer out out'"
  by (simp add: add_headers_def same_answer_headers)

lemma CORS_passes:
  "hr_method r \<noteq> ''OPTIONS'' \<Longrightarrow> \<exists>hs. CORS origins next s r = add_headers hs (next s r)"
  by (simp add: CORS_def Let_def) blast

lemma SecurityHeaders_passes: "\<exists>hs. SecurityHeaders next s r = add_headers hs (next s r)"
  unfolding SecurityHeaders_def by (rule exI) (rule refl)

lemma CORS_preflight:
  "hr_method r = ''OPTIONS'' \<Longrightarrow>
   \<exists>rsp. CORS origins next s r = (s, [], Inr rsp) \<and> rsp_status rsp = 204"
  by (simp add: CORS_def add_headers_def Let_def)

lemma global_handler_answer:
  assumes "hr_method r \<noteq> ''OPTIONS''"
    and "serve_mux (registerRoutes st cfg env) False s (limited_request r) = (s', evs, out)"
  shows "\<exists>out'. global_handler st cfg env s r = (s', evs, out') \<and> same_answer out out'"
proof -
  let ?mux = "serve_mux (registerRoutes st cfg env) False"
  obtain hs where cors: "global_handler st cfg env s r =
      add_headers hs (SecurityHeaders (BodyLimit (2 ^ 20) ?mux) s r)"
    using CORS_passes [OF assms(1), of "cf_origins cfg" "SecurityHeaders (BodyLimit (2 ^ 20) ?mux)" s]
    unfolding global_handler_def by (elim exE)
  have "BodyLimit (2 ^ 20) ?mux s r = (s', evs, out)"
    using assms(2) by (simp add: BodyLimit_def limited_request_def)
  with SecurityHeaders_passes [of "BodyLimit (2 ^ 20) ?mux" s r] obtain hs' where
    "SecurityHeaders (BodyLimit (2 ^ 20) ?mux) s r = add_headers hs' (s', evs, out)" by metis
  moreover obtain out1 where out1: "add_headers hs' (s', evs, out) = (s', evs, out1)"
    "same_answer out out1"
    using add_headers_answer [of hs' s' evs out] by (elim exE conjE)
  moreover obtain out2 where "add_headers hs (s', evs, out1) = (s', evs, out2)" "same_answer out1 out2"
    using add_headers_answer [of hs s' evs out1] by (elim exE conjE)
  ultimately show ?thesis
    using cors same_answer_trans [OF out1(2)] by auto
qed

lemma serve_cases:
  obtains
    (unrouted) rsp where "serve_on st cfg env s r = (s, Inr rsp)" "rsp_status rsp \<in> {204, 404, 405}"
      "rsp_status rsp = 204 \<Longrightarrow> hr_method r = ''OPTIONS''"
  | (routed) m p h i s' evs out out' where
      "(m, p, h) \<in> set (registerRoutes st cfg env)" "pattern_match p (hr_path r) = Some i"
      "method_match m (hr_method r)"
      "h s ((limited_request r)\<lparr>hr_claims := None, hr_path_id := i\<rparr>) = (s', evs, out)"
      "serve_on st cfg env s r = (log_events_on st env evs s', out')" "same_answer out out'"
proof (cases "hr_method r = ''OPTIONS''")
  case True
  then have "hr_method (r\<lparr>hr_claims := None\<rparr>) = ''OPTIONS''" by simp
  from CORS_preflight [OF this] obtain rsp where
    "global_handler st cfg env s (r\<lparr>hr_claims := None\<rparr>) = (s, [], Inr rsp)" "rsp_status rsp = 204"
    by (force simp: global_handler_def)
  with True show thesis by (intro unrouted [of rsp]) (simp_all add: serve_on_def)
next
  case False
  let ?r = "r\<lparr>hr_claims := None\<rparr>"
  have lim: "limited_request ?r = (limited_request r)\<lparr>hr_claims := None\<rparr>"
    by (simp add: limited_request_def)
  obtain s' evs out where mux:
    "serve_mux (registerRoutes st cfg env) False s (limited_request ?r) = (s', evs, out)"
    by (cases "serve_mux (registerRoutes st cfg env) False s (limited_request ?r)")
  have "hr_method ?r \<noteq> ''OPTIONS''" using False by simp
  from global_handler_answer [OF this mux] obtain out' where
    g: "global_handler st cfg env s ?r = (s', evs, out')" and same: "same_answer out out'" by blast
  then have sv: "serve_on st cfg env s r = (log_events_on st env evs s', out')"
    by (simp add: serve_on_def log_events_on_def)
  show thesis
  proof (cases rule: serve_mux_cases [of "registerRoutes st cfg env" False s "limited_request ?r"])
    case (unrouted st msg)
    with mux have mux': "s' = s" "evs = []"
      "out = Inr \<lparr>rsp_status = st, rsp_headers = [], rsp_payload = TextBody msg\<rparr>"
      by (simp_all add: respond_def)
    from same mux'(3) obtain rsp where "out' = Inr rsp" "rsp_status rsp = st"
      by (auto simp: same_answer_def)
    with sv mux' unrouted(1) show thesis by (intro that(1) [of rsp]) auto
  next
    case (routed m p h i)
    have r4: "h s ((limited_request r)\<lparr>hr_claims := None, hr_path_id := i\<rparr>) = (s', evs, out)"
      using trans [OF routed(4) [symmetric] mux] by (simp only: lim)
    have r2: "pattern_match p (hr_path r) = Some i"
      using routed(2) by simp
    have r3: "method_match m (hr_method r)"
      using routed(3) by simp
    show thesis by (rule that(2) [OF routed(1) r2 r3 r4 sv same])
  qed
qed


subsection \<open>Gates\<close>

text \<open>The caller of a request, as the token it carries says.\<close>

definition caller :: "'r config \<Rightarrow> env \<Rightarrow> http_request \<Rightarrow> claims \<Rightarrow> bool" where
  "caller cfg env r c \<longleftrightarrow> (\<exists>tok. extractBearerToken r = Some tok \<and>
     ValidateToken (cf_lib cfg) (cf_key cfg) (en_now env) tok = Inr c)"

definition policy_managers :: "role set" where
  "policy_managers = {RoleAdmin, RoleSecurityManager, RoleSuperAdmin}"

text \<open>A refused request: an error answer, no change, no event.\<close>

definition refused :: "'s \<Rightarrow> 's \<times> event list \<times> (string + http_response) \<Rightarrow> bool" where
  "refused s res \<longleftrightarrow> (\<exists>st msg. res = respond s (writeError st msg) \<and> st \<in> {401, 403})"

lemma refused_respond [simp]: "refused s (respond s (writeError st msg)) \<longleftrightarrow> st \<in> {401, 403}"
  by (auto simp: refused_def respond_def writeError_def writeJSON_def)

lemma refusedD: "refused s (s', evs, out) \<Longrightarrow>
   s' = s \<and> evs = [] \<and> (\<exists>rsp. out = Inr rsp \<and> (rsp_status rsp = 401 \<or> rsp_status rsp = 403))"
  by (auto simp: refused_def respond_def)

lemma RequireAuth_gate:
  "refused s (RequireAuth (cf_lib cfg) (cf_key cfg) (en_now env) next s r) \<or>
   (\<exists>c. caller cfg env r c \<and>
      RequireAuth (cf_lib cfg) (cf_key cfg) (en_now env) next s r = next s (r\<lparr>hr_claims := Some c\<rparr>))"
  by (cases rule: RequireAuth_cases [of "cf_lib cfg" "cf_key cfg" "en_now env" "next" s r])
    (simp, unfold caller_def, blast)

lemma RequireRole_gate:
  "refused s (RequireRole role next s (r\<lparr>hr_claims := Some c\<rparr>)) \<or>
   c_role c \<in> {role, RoleSuperAdmin} \<and>
   RequireRole role next s (r\<lparr>hr_claims := Some c\<rparr>) = next s (r\<lparr>hr_claims := Some c\<rparr>)"
  by (simp add: RequireRole_def)

lemma RequireAnyRole_gate:
  "refused s (RequireAnyRole roles next s (r\<lparr>hr_claims := Some c\<rparr>)) \<or>
   c_role c \<in> insert RoleSuperAdmin (set roles) \<and>
   RequireAnyRole roles next s (r\<lparr>hr_claims := Some c\<rparr>) = next s (r\<lparr>hr_claims := Some c\<rparr>)"
  by (simp add: RequireAnyRole_def Let_def)

text \<open>What each route serves: the component handler behind its gate, run with the caller's claims,
  and the roles the gate lets through.\<close>

datatype 's route_kind =
    Public "'s handler"
  | Gated "role set" "'s handler"

definition route_table_on ::
    "('u, 'l) stores \<Rightarrow> 'r config \<Rightarrow> env \<Rightarrow> (string \<times> pattern \<times> ('u, 'l, 'r) server_state route_kind) list" where
  "route_table_on st cfg env =
    [(''GET'', Exact ''/health'', Public health),
     (''POST'', Exact ''/api/v1/auth/register'',
        Public (on_users (Register_handler (st_users st) (cf_lib cfg) env))),
     (''POST'', Exact ''/api/v1/auth/login'',
        Public (\<lambda>s. withRateLimit (cf_limiter cfg) (sv_redis s) (en_now env)
          (on_users (Login_handler (st_users st) (cf_lib cfg) (cf_key cfg) env)) s)),
     (''GET'', Exact ''/api/v1/auth/me'', Gated UNIV (on_users (Me (st_users st)))),
     (''POST'', Exact ''/api/v1/mfa/setup'', Gated UNIV (on_users (MFASetup env))),
     (''POST'', Exact ''/api/v1/mfa/verify'', Gated UNIV (on_users (MFAVerify (st_users st) env))),
     (''GET'', Exact ''/api/v1/admin-only'', Gated {RoleAdmin, RoleSuperAdmin} (on_users AdminOnly)),
     (''GET'', Exact ''/api/v1/user-or-admin'', Gated UNIV (on_users UserOrAdmin)),
     (''GET'', Exact ''/api/v1/users'',
        Gated {RoleAdmin, RoleSuperAdmin} (on_users (ListUsers_handler (st_users st) env))),
     (''GET'', Exact ''/api/v1/policies'', Gated UNIV (on_engine (ListPolicies_handler env))),
     (''POST'', Exact ''/api/v1/policies'', Gated policy_managers (on_engine (CreatePolicy_handler env))),
     (''DELETE'', WithId ''/api/v1/policies/'', Gated policy_managers (on_engine DeletePolicy_handler)),
     (''POST'', Exact ''/api/v1/access/check'', Gated UNIV (on_engine (CheckAccess env))),
     (''GET'', Exact ''/api/v1/audit'', Gated policy_managers (audit_list_on st))]"

abbreviation route_table :: "'r config \<Rightarrow> env \<Rightarrow> (string \<times> pattern \<times> 'r server route_kind) list" where
  "route_table \<equiv> route_table_on memory_stores"

definition route_ok :: "'r config \<Rightarrow> env \<Rightarrow> 's route_kind \<Rightarrow> 's handler \<Rightarrow> bool" where
  "route_ok cfg env k h \<longleftrightarrow> (\<forall>s r. case k of
      Public g \<Rightarrow> h s r = g s r
    | Gated R g \<Rightarrow> refused s (h s r) \<or>
        (\<exists>c. caller cfg env r c \<and> c_role c \<in> R \<and> h s r = g s (r\<lparr>hr_claims := Some c\<rparr>)))"

lemma route_ok_auth:
  "route_ok cfg env (Gated UNIV g) (RequireAuth (cf_lib cfg) (cf_key cfg) (en_now env) g)"
  unfolding route_ok_def using RequireAuth_gate [of _ cfg env g] by auto

lemma route_ok_role:
  "route_ok cfg env (Gated {role, RoleSuperAdmin} g)
     (RequireAuth (cf_lib cfg) (cf_key cfg) (en_now env) (RequireRole role g))"
  unfolding route_ok_def
  using RequireAuth_gate [of _ cfg env "RequireRole role g"] RequireRole_gate [of _ role g]
  by simp metis

lemma route_ok_any:
  "R = insert RoleSuperAdmin (set roles) \<Longrightarrow> route_ok cfg env (Gated R g)
     (RequireAuth (cf_lib cfg) (cf_key cfg) (en_now env) (RequireAnyRole roles g))"
  unfolding route_ok_def
  using RequireAuth_gate [of _ cfg env "RequireAnyRole roles g"] RequireAnyRole_gate [of _ roles g]
  by simp metis

lemma route_ok_public: "route_ok cfg env (Public g) g"
  by (simp add: route_ok_def)

lemma routes_ok:
  "list_all2 (\<lambda>(m, p, h) (m', p', k). m = m' \<and> p = p' \<and> route_ok cfg env k h)
     (registerRoutes st cfg env) (route_table_on st cfg env)"
  by (simp add: registerRoutes_def route_table_on_def Let_def route_ok_public route_ok_auth
      route_ok_role route_ok_any policy_managers_def insert_commute)

lemma route_in_table:
  assumes "(m, p, h) \<in> set (registerRoutes st cfg env)"
  obtains k where "(m, p, k) \<in> set (route_table_on st cfg env)" "route_ok cfg env k h"
proof -
  obtain i where i: "i < length (registerRoutes st cfg env)" "registerRoutes st cfg env ! i = (m, p, h)"
    using assms by (auto simp: in_set_conv_nth)
  have len: "i < length (route_table_on st cfg env)"
    using list_all2_lengthD [OF routes_ok [of cfg env st]] i(1) by simp
  obtain m' p' k where k: "route_table_on st cfg env ! i = (m', p', k)" by (cases "route_table_on st cfg env ! i")
  from list_all2_nthD [OF routes_ok [of cfg env st] i(1)] have "m = m'" "p = p'" "route_ok cfg env k h"
    by (simp_all add: i(2) k)
  then show thesis using that [of k] k len by (auto simp: in_set_conv_nth)
qed


lemma caller_cong: "hr_authorization r = hr_authorization r' \<Longrightarrow> caller cfg env r c \<longleftrightarrow> caller cfg env r' c"
  unfolding caller_def using extractBearerToken_cong [of r r'] by simp

text \<open>The request as a route's handler sees it: the body limit applied, no claims, the path value set.\<close>

definition routed_request :: "http_request \<Rightarrow> string \<Rightarrow> http_request" where
  "routed_request r i = (limited_request r)\<lparr>hr_claims := None, hr_path_id := i\<rparr>"

lemma serve_table:
  obtains
    (plain) rsp where "serve_on st cfg env s r = (s, Inr rsp)"
      "rsp_status rsp \<in> {204, 401, 403, 404, 405}" "rsp_status rsp = 204 \<Longrightarrow> hr_method r = ''OPTIONS''"
  | (public) m p g i s' evs out out' where
      "(m, p, Public g) \<in> set (route_table_on st cfg env)" "pattern_match p (hr_path r) = Some i"
      "method_match m (hr_method r)" "g s (routed_request r i) = (s', evs, out)"
      "serve_on st cfg env s r = (log_events_on st env evs s', out')" "same_answer out out'"
  | (gated) m p R g i c s' evs out out' where
      "(m, p, Gated R g) \<in> set (route_table_on st cfg env)" "pattern_match p (hr_path r) = Some i"
      "method_match m (hr_method r)" "caller cfg env r c" "c_role c \<in> R"
      "g s ((routed_request r i)\<lparr>hr_claims := Some c\<rparr>) = (s', evs, out)"
      "serve_on st cfg env s r = (log_events_on st env evs s', out')" "same_answer out out'"
proof (cases rule: serve_cases [of st cfg env s r])
  case (unrouted rsp)
  then show thesis by (intro plain [of rsp]) auto
next
  case (routed m p h i s' evs out out')
  from routed(1) obtain k where k: "(m, p, k) \<in> set (route_table_on st cfg env)" "route_ok cfg env k h"
    by (rule route_in_table)
  note h = routed(4) [folded routed_request_def]
  show thesis
  proof (cases k)
    case (Public g)
    with k(2) h have "g s (routed_request r i) = (s', evs, out)" by (simp add: route_ok_def)
    with k(1) Public routed show thesis by (intro public [of m p g i s' evs out out']) simp_all
  next
    case (Gated R g)
    with k(2) have "refused s (h s (routed_request r i)) \<or>
        (\<exists>c. caller cfg env (routed_request r i) c \<and> c_role c \<in> R \<and>
          h s (routed_request r i) = g s ((routed_request r i)\<lparr>hr_claims := Some c\<rparr>))"
      by (simp add: route_ok_def)
    then show thesis
    proof
      assume "refused s (h s (routed_request r i))"
      with h obtain rsp where rsp: "s' = s" "evs = []" "out = Inr rsp"
        "rsp_status rsp = 401 \<or> rsp_status rsp = 403"
        by (auto dest: refusedD)
      from routed(6) rsp(3) obtain rsp' where "out' = Inr rsp'" "rsp_status rsp' = rsp_status rsp"
        by (auto simp: same_answer_def)
      with rsp routed(5) show thesis by (intro plain [of rsp']) auto
    next
      assume "\<exists>c. caller cfg env (routed_request r i) c \<and> c_role c \<in> R \<and>
          h s (routed_request r i) = g s ((routed_request r i)\<lparr>hr_claims := Some c\<rparr>)"
      then obtain c where c: "caller cfg env (routed_request r i) c" "c_role c \<in> R"
        "h s (routed_request r i) = g s ((routed_request r i)\<lparr>hr_claims := Some c\<rparr>)" by blast
      from c(1) have "caller cfg env r c"
        by (rule caller_cong [THEN iffD1, rotated]) (simp add: routed_request_def)
      with c Gated k(1) routed h show thesis
        by (intro gated [of m p R g i c s' evs out out']) simp_all
    qed
  qed
qed

lemma method_matchD: "method_match m q \<Longrightarrow> m \<noteq> ''GET'' \<Longrightarrow> q = m"
  by (auto simp: method_match_def)

lemma exact_matchD: "pattern_match (Exact p) path = Some i \<Longrightarrow> path = p"
  by (simp split: if_splits)

lemma withid_matchD: "pattern_match (WithId p) path = Some i \<Longrightarrow> path = p @ i \<and> i \<noteq> []"
  by (auto simp: Let_def starts_with_iff prefix_def split: if_splits)

subsection \<open>Who may do what\<close>

text \<open>The roles that may use a resource, from the access matrix of the API.\<close>

definition required_roles :: "string \<Rightarrow> string \<Rightarrow> role set option" where
  "required_roles meth path =
     (if path \<in> {''/health'', ''/api/v1/auth/register'', ''/api/v1/auth/login''} then None
      else if path \<in> {''/api/v1/admin-only'', ''/api/v1/users''} then Some {RoleAdmin, RoleSuperAdmin}
      else if path = ''/api/v1/audit'' \<or> starts_with ''/api/v1/policies/'' path \<or>
              path = ''/api/v1/policies'' \<and> meth = ''POST'' then Some policy_managers
      else Some UNIV)"

text \<open>The gates of the table are the required roles.\<close>

lemma table_gates:
  assumes "(m, p, Gated R g) \<in> set (route_table_on st cfg env)"
  shows "(m, p, R) \<in> {(''GET'', Exact ''/api/v1/auth/me'', UNIV), (''POST'', Exact ''/api/v1/mfa/setup'', UNIV),
      (''POST'', Exact ''/api/v1/mfa/verify'', UNIV),
      (''GET'', Exact ''/api/v1/admin-only'', {RoleAdmin, RoleSuperAdmin}),
      (''GET'', Exact ''/api/v1/user-or-admin'', UNIV),
      (''GET'', Exact ''/api/v1/users'', {RoleAdmin, RoleSuperAdmin}),
      (''GET'', Exact ''/api/v1/policies'', UNIV), (''POST'', Exact ''/api/v1/policies'', policy_managers),
      (''DELETE'', WithId ''/api/v1/policies/'', policy_managers),
      (''POST'', Exact ''/api/v1/access/check'', UNIV), (''GET'', Exact ''/api/v1/audit'', policy_managers)}"
  using assms unfolding route_table_on_def
  by (simp only: list.set insert_iff empty_iff prod.inject route_kind.distinct route_kind.inject
      simp_thms) (elim disjE conjE; simp)

lemma table_required:
  assumes "(m, p, Gated R g) \<in> set (route_table_on st cfg env)" "pattern_match p path = Some i"
    "method_match m meth"
  shows "required_roles meth path = Some R"
  using table_gates [OF assms(1)] assms(2,3)
  by (elim insertE emptyE; clarsimp dest!: exact_matchD withid_matchD simp del: pattern_match.simps;
      auto simp: required_roles_def method_match_def)


lemma table_public:
  assumes "(m, p, Public g) \<in> set (route_table_on st cfg env)"
  shows "(m, p, g) \<in> {(''GET'', Exact ''/health'', health),
     (''POST'', Exact ''/api/v1/auth/register'',
        on_users (Register_handler (st_users st) (cf_lib cfg) env)),
     (''POST'', Exact ''/api/v1/auth/login'',
        \<lambda>s. withRateLimit (cf_limiter cfg) (sv_redis s) (en_now env)
          (on_users (Login_handler (st_users st) (cf_lib cfg) (cf_key cfg) env)) s)}"
  using assms unfolding route_table_on_def
  by (simp only: list.set insert_iff empty_iff prod.inject route_kind.distinct route_kind.inject
      simp_thms)

end
