(* ===== verification/ServerEffects.thy ===== *)
theory ServerEffects
  imports ServerRoutes
begin

text \<open>
  What a request changes: the effect of every route on the shared state, and the invariant of the
  states the server reaches from its start-up.
\<close>

subsection \<open>What a request changes\<close>

lemma on_users_eq:
  "on_users h s r = (s', evs, out) \<Longrightarrow>
   \<exists>u. h (sv_users s) r = (u, evs, out) \<and> s' = s\<lparr>sv_users := u\<rparr>"
  by (auto simp: on_users_def split: prod.splits)

lemma on_engine_eq:
  "on_engine h s r = (s', evs, out) \<Longrightarrow>
   \<exists>e. h (sv_engine s) r = (e, evs, out) \<and> s' = s\<lparr>sv_engine := e\<rparr>"
  by (auto simp: on_engine_def split: prod.splits)

text \<open>A calm handler changes nothing, logs at most one event and does not panic.\<close>

definition calm :: "('s \<Rightarrow> http_request \<Rightarrow> 's \<times> event list \<times> (string + http_response)) \<Rightarrow> bool" where
  "calm h \<longleftrightarrow> (\<forall>s r. hr_claims r \<noteq> None \<longrightarrow>
     (\<exists>evs rsp. h s r = (s, evs, Inr rsp) \<and> length evs \<le> 1))"

lemma calm_respond: "\<exists>evs rsp'. respond s rsp = (s, evs, Inr rsp') \<and> length evs \<le> 1"
  by (simp add: respond_def)

lemma calm_handlers:
  "calm (Me ops)" "calm (ListUsers_handler ops env)" "calm (AdminOnly)" "calm (UserOrAdmin)"
  "calm (MFAVerify ops env)" "calm (MFASetup env)" "calm (CheckAccess env)"
  "calm (ListPolicies_handler env)"
  by (auto simp: calm_def auth_handler_defs policy_handler_defs Let_def
      split: option.splits sum.splits)

lemma Login_handler_shape:
  "\<exists>evs rsp. Login_handler ops lib key env s r = (s, evs, Inr rsp) \<and> length evs \<le> 1"
  by (auto simp: Login_handler_def respond_def split: option.splits sum.splits)

lemma on_users_calm:
  assumes "calm h"
  shows "calm (on_users h)"
  unfolding calm_def
proof (intro allI impI)
  fix s :: "('a, 'b, 'c) server_state" and r :: http_request
  assume "hr_claims r \<noteq> None"
  with assms obtain evs rsp where "h (sv_users s) r = (sv_users s, evs, Inr rsp)" "length evs \<le> 1"
    unfolding calm_def by meson
  then show "\<exists>evs rsp. on_users h s r = (s, evs, Inr rsp) \<and> length evs \<le> 1"
    by (simp add: on_users_def)
qed

lemma on_engine_calm:
  assumes "calm h"
  shows "calm (on_engine h)"
  unfolding calm_def
proof (intro allI impI)
  fix s :: "('a, 'b, 'c) server_state" and r :: http_request
  assume "hr_claims r \<noteq> None"
  with assms obtain evs rsp where "h (sv_engine s) r = (sv_engine s, evs, Inr rsp)" "length evs \<le> 1"
    unfolding calm_def by meson
  then show "\<exists>evs rsp. on_engine h s r = (s, evs, Inr rsp) \<and> length evs \<le> 1"
    by (simp add: on_engine_def)
qed

text \<open>The effect of a request on the shared state, by route.\<close>

inductive effect :: "'r config \<Rightarrow> env \<Rightarrow> http_request \<Rightarrow> 'r server \<Rightarrow> 'r server \<Rightarrow> bool"
  for cfg env r s where
  none: "effect cfg env r s s"
| registered: "hr_method r = ''POST'' \<Longrightarrow> hr_path r = ''/api/v1/auth/register'' \<Longrightarrow>
    Register mem_ops (cf_lib cfg) env (sv_users s) input = Inr (us, u) \<Longrightarrow>
    effect cfg env r s (s\<lparr>sv_users := us\<rparr>)"
| created: "hr_method r = ''POST'' \<Longrightarrow> hr_path r = ''/api/v1/policies'' \<Longrightarrow> caller cfg env r c \<Longrightarrow>
    c_role c \<in> policy_managers \<Longrightarrow>
    effect cfg env r s (s\<lparr>sv_engine := fst (CreatePolicy (sv_engine s) (en_uuid env) p)\<rparr>)"
| deleted: "hr_method r = ''DELETE'' \<Longrightarrow> hr_path r = ''/api/v1/policies/'' @ i \<Longrightarrow> caller cfg env r c \<Longrightarrow>
    c_role c \<in> policy_managers \<Longrightarrow> DeletePolicy (sv_engine s) i = Inr e \<Longrightarrow>
    effect cfg env r s (s\<lparr>sv_engine := e\<rparr>)"

lemma Register_handler_shape:
  assumes "Register_handler ops lib env s r = (s', evs, out)"
  shows "length evs \<le> 1 \<and> (\<exists>rsp. out = Inr rsp) \<and>
    (s' = s \<or> (\<exists>input u. Register ops lib env s input = Inr (s', u)))"
  using assms by (auto simp: Register_handler_def respond_def Let_def split: option.splits sum.splits)

lemma CreatePolicy_handler_shape:
  assumes "CreatePolicy_handler env e r = (e', evs, out)" "hr_claims r = Some c"
  shows "length evs \<le> 1 \<and> (\<exists>rsp. out = Inr rsp) \<and>
    (e' = e \<or> (\<exists>p. e' = fst (CreatePolicy e (en_uuid env) p)))"
  using assms by (auto simp: CreatePolicy_handler_def respond_def CreatePolicy_def Let_def
      split: option.splits if_splits)

lemma DeletePolicy_handler_shape:
  assumes "DeletePolicy_handler e r = (e', evs, out)" "hr_claims r = Some c"
  shows "length evs \<le> 1 \<and> (\<exists>rsp. out = Inr rsp) \<and>
    (e' = e \<or> DeletePolicy e (hr_path_id r) = Inr e')"
  using assms by (auto simp: DeletePolicy_handler_def respond_def split: sum.splits if_splits)

definition shape :: "'r config \<Rightarrow> env \<Rightarrow> http_request \<Rightarrow> 'r server \<Rightarrow>
    'r server \<times> event list \<times> (string + http_response) \<Rightarrow> bool" where
  "shape cfg env r s res \<longleftrightarrow> (case res of (s', evs, out) \<Rightarrow>
     effect cfg env r s s' \<and> length evs \<le> 1 \<and> ((\<exists>rsp. out = Inr rsp) \<or> hr_path r = ''/api/v1/audit''))"

lemma shape_calm:
  assumes "calm g" and "hr_claims q \<noteq> None"
  shows "shape cfg env r s (g s q)"
proof -
  from assms obtain evs rsp where "g s q = (s, evs, Inr rsp)" "length evs \<le> 1"
    unfolding calm_def by meson
  then show ?thesis by (simp add: shape_def effect.none)
qed

lemma shape_create:
  assumes "hr_method r = ''POST''" "hr_path r = ''/api/v1/policies''" "caller cfg env r c"
    "c_role c \<in> policy_managers" "hr_claims q = Some c"
  shows "shape cfg env r s (on_engine (CreatePolicy_handler env) s q)"
proof -
  obtain e evs out where h: "CreatePolicy_handler env (sv_engine s) q = (e, evs, out)"
    by (cases "CreatePolicy_handler env (sv_engine s) q")
  from CreatePolicy_handler_shape [OF h assms(5)] created [OF assms(1-4), of s] none [of cfg env r s]
  show ?thesis by (auto simp: shape_def on_engine_def h)
qed

lemma shape_delete:
  assumes "hr_method r = ''DELETE''" "hr_path r = ''/api/v1/policies/'' @ i" "caller cfg env r c"
    "c_role c \<in> policy_managers" "hr_claims q = Some c" "hr_path_id q = i"
  shows "shape cfg env r s (on_engine DeletePolicy_handler s q)"
proof -
  obtain e evs out where h: "DeletePolicy_handler (sv_engine s) q = (e, evs, out)"
    by (cases "DeletePolicy_handler (sv_engine s) q")
  from DeletePolicy_handler_shape [OF h assms(5)] deleted [OF assms(1-4), of s] none [of cfg env r s]
  show ?thesis by (auto simp: shape_def on_engine_def h assms(6))
qed

lemma shape_register:
  assumes "hr_method r = ''POST''" "hr_path r = ''/api/v1/auth/register''"
  shows "shape cfg env r s (on_users (Register_handler mem_ops (cf_lib cfg) env) s q)"
proof -
  obtain u evs out where h: "Register_handler mem_ops (cf_lib cfg) env (sv_users s) q = (u, evs, out)"
    by (cases "Register_handler mem_ops (cf_lib cfg) env (sv_users s) q")
  from Register_handler_shape [OF h] registered [OF assms, of cfg env s] none [of cfg env r s]
  show ?thesis by (auto simp: shape_def on_users_def h)
qed

lemma shape_login:
  "shape cfg env r s (withRateLimit rl red now (on_users (Login_handler mem_ops lib key env)) s q)"
proof (cases "fst (IsRateLimited rl red now (hr_remote_addr q))")
  case True
  then show ?thesis by (simp add: withRateLimit_def shape_def none)
next
  case False
  obtain evs rsp where "Login_handler mem_ops lib key env (sv_users s) q = (sv_users s, evs, Inr rsp)"
    "length evs \<le> 1"
    using Login_handler_shape [of mem_ops lib key env "sv_users s" q] by blast
  then show ?thesis using False by (simp add: withRateLimit_def on_users_def shape_def none)
qed

lemma shape_public:
  assumes "(m, p, Public g) \<in> set (route_table cfg env)" "pattern_match p (hr_path r) = Some i"
    "method_match m (hr_method r)"
  shows "shape cfg env r s (g s q)"
  using table_public [OF assms(1), unfolded memory_stores_sel]
proof (elim insertE emptyE)
  assume "(m, p, g) = (''GET'', Exact ''/health'', health)"
  then show ?thesis by (simp add: health_def respond_def shape_def none)
next
  assume "(m, p, g) = (''POST'', Exact ''/api/v1/auth/register'',
    on_users (Register_handler mem_ops (cf_lib cfg) env))"
  with assms(2,3) show ?thesis
    using shape_register [of r cfg env s q] by (auto dest!: method_matchD split: if_splits)
next
  assume "(m, p, g) = (''POST'', Exact ''/api/v1/auth/login'',
    \<lambda>s. withRateLimit (cf_limiter cfg) (sv_redis s) (en_now env)
      (on_users (Login_handler mem_ops (cf_lib cfg) (cf_key cfg) env)) s)"
  then show ?thesis by (simp add: shape_login)
qed

lemma audit_list_shape: "hr_path r = ''/api/v1/audit'' \<Longrightarrow> shape cfg env r s (audit_list s q)"
  by (simp add: audit_list_def shape_def none)

lemma table_gated:
  assumes "(m, p, Gated R g) \<in> set (route_table cfg env)"
  shows "calm g \<or>
    m = ''POST'' \<and> p = Exact ''/api/v1/policies'' \<and> R = policy_managers \<and>
      g = on_engine (CreatePolicy_handler env) \<or>
    m = ''DELETE'' \<and> p = WithId ''/api/v1/policies/'' \<and> R = policy_managers \<and>
      g = on_engine DeletePolicy_handler \<or>
    m = ''GET'' \<and> p = Exact ''/api/v1/audit'' \<and> R = policy_managers \<and> g = audit_list"
  using assms unfolding route_table_on_def
  by (simp only: list.set insert_iff empty_iff prod.inject route_kind.distinct route_kind.inject
      simp_thms)
    (elim disjE conjE; simp add: on_users_calm on_engine_calm calm_handlers)

lemma shape_gated:
  assumes "(m, p, Gated R g) \<in> set (route_table cfg env)" "pattern_match p (hr_path r) = Some i"
    "method_match m (hr_method r)" "caller cfg env r c" "c_role c \<in> R" "hr_claims q = Some c"
    "hr_path_id q = i"
  shows "shape cfg env r s (g s q)"
  using table_gated [OF assms(1)]
proof (elim disjE conjE)
  assume "calm g"
  then show ?thesis using assms(6) by (intro shape_calm) simp_all
next
  assume "m = ''POST''" "p = Exact ''/api/v1/policies''" "R = policy_managers"
    "g = on_engine (CreatePolicy_handler env)"
  moreover from this assms(2) have "hr_path r = ''/api/v1/policies''" by (intro exact_matchD) simp
  ultimately show ?thesis
    using assms(3-6) by (auto intro!: shape_create dest: method_matchD)
next
  assume "m = ''DELETE''" "p = WithId ''/api/v1/policies/''" "R = policy_managers"
    "g = on_engine DeletePolicy_handler"
  moreover from this assms(2) have "hr_path r = ''/api/v1/policies/'' @ i"
    by (intro withid_matchD [THEN conjunct1]) simp
  moreover have "hr_method r = ''DELETE''" using calculation(1) assms(3) by (auto dest: method_matchD)
  ultimately show ?thesis using assms(4-7) shape_delete by blast
next
  assume "p = Exact ''/api/v1/audit''" "g = audit_list"
  then show ?thesis using assms(2) by (simp only:) (rule audit_list_shape, rule exact_matchD)
qed

text \<open>Every request has an effect of this list, appends at most one event to the log, and panics
  only on the audit route.\<close>

lemma serve_shape:
  obtains s1 evs out where "effect cfg env r s s1" "length evs \<le> 1" "serve cfg env s r = (log_events env evs s1, out)"
    "(\<exists>rsp. out = Inr rsp) \<or> hr_path r = ''/api/v1/audit''"
proof (cases rule: serve_table [of memory_stores cfg env s r])
  case (plain rsp)
  then show thesis using that [of s "[]" "Inr rsp"] by (simp add: none)
next
  case (public m p g i s' evs out' out'')
  have "shape cfg env r s (g s (routed_request r i))" by (rule shape_public [OF public(1-3)])
  with public(4) have "effect cfg env r s s'" "length evs \<le> 1"
    "(\<exists>rsp. out' = Inr rsp) \<or> hr_path r = ''/api/v1/audit''" by (simp_all add: shape_def)
  with public(5,6) show thesis by (intro that [of s' evs out'']) (auto simp: same_answer_def)
next
  case (gated m p R g i c s' evs out' out'')
  have "shape cfg env r s (g s ((routed_request r i)\<lparr>hr_claims := Some c\<rparr>))"
    by (rule shape_gated [OF gated(1-5)]) (simp_all add: routed_request_def)
  with gated(6) have "effect cfg env r s s'" "length evs \<le> 1"
    "(\<exists>rsp. out' = Inr rsp) \<or> hr_path r = ''/api/v1/audit''" by (simp_all add: shape_def)
  with gated(7,8) show thesis by (intro that [of s' evs out'']) (auto simp: same_answer_def)
qed

lemma effect_rest: "effect cfg env r s s1 \<Longrightarrow> sv_log s1 = sv_log s \<and> sv_redis s1 = sv_redis s"
  by (cases rule: effect.cases) auto

subsection \<open>The invariant of the reachable states\<close>

definition account_ok :: "user \<Rightarrow> bool" where
  "account_ok u \<longleftrightarrow> u_id u \<noteq> [] \<and> trim_space (u_username u) = u_username u \<and> u_role u \<in> set ValidRoles \<and>
     u_status u = StatusActive \<and> \<not> u_mfa_enabled u \<and> u_mfa_secret u = []"

definition users_ok :: "mem_store \<Rightarrow> bool" where
  "users_ok s \<longleftrightarrow> store_consistent s \<and> (\<forall>i u. byID s i = Some u \<longrightarrow> account_ok u)"

lemma users_ok_create:
  assumes ok: "users_ok s" and c: "mem_CreateUser s i t u = Inr (s', v)"
    and fresh: "byID s (u_id v) = None" and acc: "account_ok v"
  shows "users_ok s'"
proof -
  have "store_consistent s'"
    using ok unfolding users_ok_def by (intro mem_CreateUser_consistent [OF _ c fresh]) simp
  moreover have "byID s' = (byID s)(u_id v \<mapsto> v)"
    using c by (auto simp: mem_CreateUser_def Let_def split: option.splits)
  ultimately show ?thesis using ok acc by (simp add: users_ok_def)
qed

lemma users_ok_Register:
  assumes ok: "users_ok s" and reg: "Register mem_ops lib env s input = Inr (s', u)"
    and fresh: "byID s (en_uuid env) = None" "en_uuid env \<noteq> []"
  shows "users_ok s'"
proof -
  note acc = mem.Register_account [OF reg fresh(2) TrueI]
  from reg obtain h where "valid_registration input" and c: "mem_CreateUser s (en_uuid env) (en_now env)
       \<lparr>u_id = en_uuid env, u_username = trim_space (ri_username input), u_password_hash = h,
        u_role = ri_role input, u_organization_id = [], u_status = StatusActive,
        u_mfa_secret = [], u_mfa_enabled = False, u_created_at = 0, u_updated_at = 0\<rparr> = Inr (s', u)"
    by (rule Register_Inr) (simp add: mem_ops_def)
  then show ?thesis
    using acc fresh by (intro users_ok_create [OF ok c]) (simp_all add: account_ok_def valid_registration_def)
qed

definition good_seed :: "string \<times> string \<times> role \<Rightarrow> bool" where
  "good_seed x \<longleftrightarrow> (case x of (n, pw, role) \<Rightarrow> trim_space n = n \<and> role \<in> set ValidRoles)"

lemma seed_one_ok:
  assumes "users_ok s" "byID s i = None" "i \<noteq> []" "good_seed x"
  shows "users_ok (seed_one mem_ops lib salt now s (x, i)) \<and>
    dom (byID (seed_one mem_ops lib salt now s (x, i))) \<subseteq> insert i (dom (byID s))"
proof -
  obtain n pw role where x: "x = (n, pw, role)" by (cases x)
  let ?u = "\<lambda>h. \<lparr>u_id = [], u_username = n, u_password_hash = h, u_role = role,
    u_organization_id = [], u_status = StatusActive, u_mfa_secret = [],
    u_mfa_enabled = False, u_created_at = 0, u_updated_at = 0\<rparr>"
  show ?thesis
  proof (cases "bcrypt_generate lib pw 12 salt")
    case None
    then show ?thesis using assms(1) by (auto simp: seed_one_def x)
  next
    case (Some h)
    show ?thesis
    proof (cases "mem_CreateUser s i now (?u h)")
      case (Inl e)
      then show ?thesis using Some assms(1) by (auto simp: seed_one_def x mem_ops_def)
    next
      case (Inr r)
      obtain s' v where r: "r = (s', v)" by (cases r)
      have v: "v = created_user i now (?u h)" and s': "byID s' = (byID s)(u_id v \<mapsto> v)"
        using Inr r by (auto simp: mem_CreateUser_def Let_def split: option.splits)
      have "u_id v = i" by (simp add: v created_user_def)
      moreover have "account_ok v"
        using assms(3,4) by (simp add: account_ok_def good_seed_def x v created_user_def)
      ultimately have "users_ok s'"
        using assms(1,2) Inr r by (intro users_ok_create [OF assms(1), of i now "?u h" s' v]) simp_all
      then show ?thesis
        using Some Inr r s' \<open>u_id v = i\<close> by (auto simp: seed_one_def x mem_ops_def)
    qed
  qed
qed

lemma seeds_ok:
  assumes "users_ok s" "distinct ids" "[] \<notin> set ids" "\<forall>i \<in> set ids. byID s i = None" "\<forall>x \<in> set xs. good_seed x"
  shows "users_ok (foldl (seed_one mem_ops lib salt now) s (zip xs ids))"
  using assms
proof (induction xs ids arbitrary: s rule: list_induct2')
  case (4 x xs i ids)
  have one: "users_ok (seed_one mem_ops lib salt now s (x, i))"
    "dom (byID (seed_one mem_ops lib salt now s (x, i))) \<subseteq> insert i (dom (byID s))"
    using seed_one_ok [of s i x lib salt now] "4.prems" by auto
  have "\<forall>j \<in> set ids. byID (seed_one mem_ops lib salt now s (x, i)) j = None"
    using one(2) "4.prems"(2,4) by (auto simp: subset_iff domIff)
  then show ?case
    using "4.IH" [OF one(1)] "4.prems" by simp
qed simp_all

lemma dev_seeds_good: "\<forall>x \<in> set dev_seeds. good_seed x"
  by (simp add: dev_seeds_def good_seed_def trim_space_ascii is_space_def char_code_def ValidRoles_def)

lemma users_ok_start:
  assumes "distinct ids" "[] \<notin> set ids"
  shows "users_ok (seedDevUsers mem_ops lib salt now ids NewMemoryUserStore)"
  unfolding seedDevUsers_def
  by (rule seeds_ok) (use assms dev_seeds_good in
      \<open>simp_all add: users_ok_def, simp_all add: NewMemoryUserStore_def\<close>)

definition server_ok :: "'r \<Rightarrow> 'r server \<Rightarrow> bool" where
  "server_ok r0 s \<longleftrightarrow> users_ok (sv_users s) \<and> engine_keyed (sv_engine s) \<and> sv_redis s = r0"

lemma engine_keyed_New: "engine_keyed (NewEngine i j k)"
  by (auto simp: engine_keyed_def NewEngine_def seed_policies_def split: if_splits)

lemma effect_ok:
  assumes "effect cfg env r s s1" and "server_ok r0 s" and "fresh_env env s"
  shows "server_ok r0 s1"
  using assms(1)
proof cases
  case (registered input us u)
  then show ?thesis
    using assms(2,3) users_ok_Register [of "sv_users s" "cf_lib cfg" env input us u]
    by (simp add: server_ok_def fresh_env_def)
next
  case (created c p)
  have "engine_keyed (fst (CreatePolicy (sv_engine s) (en_uuid env) p))"
    by (rule engine_keyed_ops(1)) (use assms(2) in \<open>simp add: server_ok_def\<close>)
  with created(1) assms(2) show ?thesis by (simp add: server_ok_def)
next
  case (deleted i c e)
  have "engine_keyed e"
    by (rule engine_keyed_ops(2) [OF _ deleted(6)]) (use assms(2) in \<open>simp add: server_ok_def\<close>)
  with deleted(1) assms(2) show ?thesis by (simp add: server_ok_def)
qed (use assms(2) in simp)

lemma reachable_server_ok: "reachable cfg r0 s \<Longrightarrow> server_ok r0 s"
proof (induction rule: reachable.induct)
  case (start ids salt now pids)
  then show ?case
    by (cases pids) (simp add: server_ok_def start_server_def users_ok_start engine_keyed_New)
next
  case (request s env req)
  obtain s1 evs out where "effect cfg env req s s1"
    "serve cfg env s req = (log_events env evs s1, out)" by (rule serve_shape)
  with effect_ok [OF this(1) request.IH request.hyps(2)] show ?case
    by (simp add: server_ok_def)
qed

end
