(* ===== verification/ServerProps.thy ===== *)
theory ServerProps
  imports ServerEffects
begin

text \<open>
  What holds of the running server: access control, the append-only audit trail, who may change
  what, the invariant of the reachable states, and the behaviours of the wiring that the
  components alone do not show (MFA can never be verified, the rate limiter never counts, anyone
  can register as super administrator).
\<close>

subsection \<open>Access and changes\<close>

text \<open>C1: The access matrix of the API is enforced: apart from preflight requests, a request that
  succeeds (status below 400) on a protected path carries a bearer token that the server
  validates and whose role is one the path requires: any role for the self-service routes,
  admin or super admin for the user list and the admin zone, and admin, security manager or
  super admin for the audit log and for creating and deleting policies.\<close>

theorem success_requires_role:
  assumes "serve cfg env s r = (s', Inr rsp)" and "rsp_status rsp < 400"
    and "hr_method r \<noteq> ''OPTIONS''" and "required_roles (hr_method r) (hr_path r) = Some R"
  shows "\<exists>tok c. extractBearerToken r = Some tok \<and>
    ValidateToken (cf_lib cfg) (cf_key cfg) (en_now env) tok = Inr c \<and> c_role c \<in> R"
proof (cases rule: serve_table [of memory_stores cfg env s r])
  case (plain rsp')
  with assms(1-3) show ?thesis by auto
next
  case (public m p g i)
  from table_public [OF public(1)] public(2) assms(4) show ?thesis
    by (elim insertE emptyE; clarsimp dest!: exact_matchD simp del: pattern_match.simps;
        simp add: required_roles_def)
next
  case (gated m p R' g i c)
  from table_required [OF gated(1-3)] assms(4) gated(4,5) show ?thesis
    by (auto simp: caller_def)
qed

text \<open>The audit log is append-only: serving any request keeps all earlier events in place and
  appends at most one.\<close>

theorem audit_append_only:
  "\<exists>evs. length evs \<le> 1 \<and>
     ml_events (sv_log (fst (serve cfg env s r))) = ml_events (sv_log s) @ evs"
proof -
  obtain s1 evs out where e: "effect cfg env r s s1" "length evs \<le> 1"
    "serve cfg env s r = (log_events env evs s1, out)" by (rule serve_shape)
  then show ?thesis
    by (intro exI [of _ "map (stamp_event (en_event_id env) (en_now env)) evs"]) (simp add: effect_rest)
qed

text \<open>C36: Accounts come only from registration and policies only from their managers: when serving a
  request changes the user store, the request is a POST to the registration route that the
  service accepted; when it changes the policies, it is a POST or DELETE on the policy routes
  by a caller whose validated token says admin, security manager or super admin.\<close>

theorem state_change_origin:
  "(sv_users (fst (serve cfg env s r)) \<noteq> sv_users s \<longrightarrow>
      hr_method r = ''POST'' \<and> hr_path r = ''/api/v1/auth/register'' \<and>
      (\<exists>input u. Register mem_ops (cf_lib cfg) env (sv_users s) input =
         Inr (sv_users (fst (serve cfg env s r)), u))) \<and>
   (sv_engine (fst (serve cfg env s r)) \<noteq> sv_engine s \<longrightarrow>
      (hr_method r = ''POST'' \<and> hr_path r = ''/api/v1/policies'' \<or>
       hr_method r = ''DELETE'' \<and> (\<exists>i. hr_path r = ''/api/v1/policies/'' @ i)) \<and>
      (\<exists>c. caller cfg env r c \<and> c_role c \<in> {RoleAdmin, RoleSecurityManager, RoleSuperAdmin}))"
proof -
  obtain s1 evs out where e: "effect cfg env r s s1"
    "serve cfg env s r = (log_events env evs s1, out)" by (rule serve_shape)
  from e(1) show ?thesis
    unfolding e(2) fst_conv log_events_on_sel log_events_sel policy_managers_def [symmetric]
    by cases auto
qed

lemma serve_no_panic: "snd (serve cfg env s r) = Inl e \<Longrightarrow> hr_path r = ''/api/v1/audit''"
proof -
  assume panic: "snd (serve cfg env s r) = Inl e"
  obtain s1 evs out where "serve cfg env s r = (log_events env evs s1, out)"
    "(\<exists>rsp. out = Inr rsp) \<or> hr_path r = ''/api/v1/audit''" by (rule serve_shape)
  with panic show ?thesis by auto
qed

text \<open>Only the audit route can panic: every request to another path is answered with a
  response.\<close>

theorem panic_only_in_audit:
  "hr_path r = ''/api/v1/audit'' \<or> (\<exists>rsp. snd (serve cfg env s r) = Inr rsp)"
proof (cases "snd (serve cfg env s r)")
  case (Inl e)
  then show ?thesis using serve_no_panic by blast
qed simp

subsection \<open>Properties of the running server\<close>

definition demo_config :: "kv_redis config" where
  "demo_config = \<lparr>cf_lib = demo_lib, cf_key = ''k'', cf_limiter = RedisLimiter kv_ops, cf_origins = []\<rparr>"

definition demo_server :: "kv_redis server" where
  "demo_server = start_server demo_config [] ''salt'' 0 [''a'', ''b'', ''c'', ''d''] (''1'', ''2'', ''3'')"

lemma demo_reachable: "reachable demo_config [] demo_server"
  unfolding demo_server_def by (rule reachable.start) simp_all

text \<open>C24: In every state the server reaches from its start-up, the two user indexes agree, every
  policy is stored under its id, and every account has a role the service knows, is active,
  and has MFA disabled with no secret.\<close>

theorem reachable_invariant:
  assumes "reachable cfg r0 s"
  shows "store_consistent (sv_users s) \<and> engine_keyed (sv_engine s) \<and>
    (\<forall>i u. byID (sv_users s) i = Some u \<longrightarrow> u_role u \<in> set ValidRoles \<and> u_status u = StatusActive \<and>
       \<not> u_mfa_enabled u \<and> u_mfa_secret u = [])"
  using reachable_server_ok [OF assms]
  by (auto simp: server_ok_def users_ok_def account_ok_def)

theorem reachable_invariant_witness:
  "store_consistent (sv_users demo_server) \<and> engine_keyed (sv_engine demo_server)"
  using reachable_invariant [OF demo_reachable] by blast

lemma table_mfa_verify:
  assumes "(m, p, Gated R g) \<in> set (route_table cfg env)" "pattern_match p ''/api/v1/mfa/verify'' = Some i"
  shows "g = on_users (MFAVerify mem_ops env)"
  using assms unfolding route_table_on_def
  by (simp only: list.set insert_iff empty_iff prod.inject route_kind.distinct route_kind.inject
      simp_thms) (elim disjE conjE; simp)

lemma MFAVerify_not_200:
  assumes "users_ok us" and "MFAVerify mem_ops env us r = (us', evs, Inr rsp)"
  shows "rsp_status rsp \<noteq> 200"
proof -
  have "\<not> u_mfa_enabled u" if "GetUserByID mem_ops us j = Inr u" for j u
    using assms(1) that
    by (auto simp: users_ok_def account_ok_def mem_ops_def mem_GetUserByID_def split: option.splits)
  with assms(2) show ?thesis
    by (auto simp: MFAVerify_def respond_def split: option.splits sum.splits if_splits)
qed

text \<open>MFA verification never succeeds: in every reachable state, after any sequence of requests,
  setups included, no request to the verification route is answered with 200, because the secret
  that the setup route returns is never stored with the account.\<close>

theorem mfa_verify_never_succeeds:
  assumes "reachable cfg r0 s" and "hr_path r = ''/api/v1/mfa/verify''"
    and "snd (serve cfg env s r) = Inr rsp"
  shows "rsp_status rsp \<noteq> 200"
proof (cases rule: serve_table [of memory_stores cfg env s r])
  case (plain rsp')
  with assms(3) show ?thesis by auto
next
  case (public m p g i)
  from table_public [OF public(1)] public(2) assms(2) show ?thesis by auto
next
  case (gated m p R g i c s' evs out out')
  have g: "g = on_users (MFAVerify mem_ops env)"
    using table_mfa_verify [OF gated(1), of i] gated(2) assms(2) by simp
  have ok: "users_ok (sv_users s)"
    using reachable_server_ok [OF assms(1)] by (simp add: server_ok_def)
  from gated(7) assms(3) have "out' = Inr rsp" by simp
  with gated(8) obtain rsp' where out: "out = Inr rsp'" "rsp_status rsp = rsp_status rsp'"
    by (cases out) (auto simp: same_answer_def)
  from on_users_eq [OF gated(6) [unfolded g]] out(1) obtain u where
    "MFAVerify mem_ops env (sv_users s) ((routed_request r i)\<lparr>hr_claims := Some c\<rparr>) = (u, evs, Inr rsp')"
    by blast
  from MFAVerify_not_200 [OF ok this] out(2) show ?thesis by simp
qed

definition demo_verify :: http_request where
  "demo_verify = demo_request\<lparr>hr_path := ''/api/v1/mfa/verify''\<rparr>"

theorem mfa_verify_never_succeeds_witness:
  "\<exists>rsp. snd (serve demo_config demo_env demo_server demo_verify) = Inr rsp \<and> rsp_status rsp \<noteq> 200"
proof -
  have path: "hr_path demo_verify = ''/api/v1/mfa/verify''" by (simp add: demo_verify_def)
  have "\<not> (\<exists>e. snd (serve demo_config demo_env demo_server demo_verify) = Inl e)"
    by (rule notI, elim exE, drule serve_no_panic) (simp add: path)
  then obtain rsp where rsp: "snd (serve demo_config demo_env demo_server demo_verify) = Inr rsp"
    by (cases "snd (serve demo_config demo_env demo_server demo_verify)") auto
  from mfa_verify_never_succeeds [OF demo_reachable path rsp] rsp show ?thesis by blast
qed

lemma table_login:
  assumes "(m, p, k) \<in> set (route_table cfg env)" "pattern_match p ''/api/v1/auth/login'' = Some i"
  shows "k = Public (\<lambda>s. withRateLimit (cf_limiter cfg) (sv_redis s) (en_now env)
          (on_users (Login_handler mem_ops (cf_lib cfg) (cf_key cfg) env)) s)"
  using assms unfolding route_table_on_def
  by (simp only: list.set insert_iff empty_iff prod.inject) (elim disjE conjE; simp)

lemma Login_handler_not_429:
  "Login_handler ops lib key env us r = (us', evs, Inr rsp) \<Longrightarrow> rsp_status rsp \<noteq> 429"
  by (auto simp: Login_handler_def respond_def split: option.splits sum.splits if_splits)

text \<open>C39: The login lockout never triggers: on a Redis that holds no counters at start-up, no request
  to the login route is ever answered with 429, however many logins have failed before,
  because no handler records a failure.\<close>

theorem login_never_locked:
  assumes "reachable cfg r0 s" and "cf_limiter cfg = RedisLimiter rd"
    and "\<forall>t k. r_get rd r0 t k = Inr None" and "hr_path r = ''/api/v1/auth/login''"
    and "snd (serve cfg env s r) = Inr rsp"
  shows "rsp_status rsp \<noteq> 429"
proof (cases rule: serve_table [of memory_stores cfg env s r])
  case (plain rsp')
  with assms(5) show ?thesis by auto
next
  case (public m p g i s' evs out out')
  have g: "g = (\<lambda>s. withRateLimit (cf_limiter cfg) (sv_redis s) (en_now env)
      (on_users (Login_handler mem_ops (cf_lib cfg) (cf_key cfg) env)) s)"
    using table_login [OF public(1), of i] public(2) assms(4) by simp
  have "sv_redis s = r0" using reachable_server_ok [OF assms(1)] by (simp add: server_ok_def)
  with assms(2,3) have "\<not> fst (IsRateLimited (cf_limiter cfg) (sv_redis s) (en_now env) ip)" for ip
    by (simp add: limiter_defs)
  with public(4) have h: "on_users (Login_handler mem_ops (cf_lib cfg) (cf_key cfg) env) s
      (routed_request r i) = (s', evs, out)"
    by (simp add: g withRateLimit_def)
  from public(5) assms(5) have "out' = Inr rsp" by simp
  with public(6) obtain rsp' where out: "out = Inr rsp'" "rsp_status rsp = rsp_status rsp'"
    by (cases out) (auto simp: same_answer_def)
  from on_users_eq [OF h] out(1) obtain u where
    "Login_handler mem_ops (cf_lib cfg) (cf_key cfg) env (sv_users s) (routed_request r i) = (u, evs, Inr rsp')"
    by blast
  from Login_handler_not_429 [OF this] out(2) show ?thesis by simp
next
  case (gated m p R g i)
  from table_login [OF gated(1), of i] gated(2) assms(4) show ?thesis by simp
qed

theorem login_never_locked_witness:
  "\<exists>rsp. snd (serve demo_config demo_env demo_server demo_request) = Inr rsp \<and> rsp_status rsp \<noteq> 429"
proof -
  have path: "hr_path demo_request = ''/api/v1/auth/login''" by (simp add: demo_request_def)
  have "\<not> (\<exists>e. snd (serve demo_config demo_env demo_server demo_request) = Inl e)"
    by (rule notI, elim exE, drule serve_no_panic) (simp add: path)
  then obtain rsp where rsp: "snd (serve demo_config demo_env demo_server demo_request) = Inr rsp"
    by (cases "snd (serve demo_config demo_env demo_server demo_request)") auto
  have "cf_limiter demo_config = RedisLimiter kv_ops" by (simp add: demo_config_def)
  moreover have "\<forall>t k. r_get kv_ops [] t k = Inr None" by (simp add: kv_ops_def kv_get_def)
  ultimately show ?thesis
    using login_never_locked [OF demo_reachable _ _ path rsp] rsp by blast
qed

text \<open>A name typed with surrounding white space cannot log in: registration stores the trimmed
  name but login looks the name up as it is, so in every reachable state a login with a padded
  name fails as invalid credentials, whatever the password.\<close>

theorem padded_login_fails:
  assumes "reachable cfg r0 s" and "trim_space n \<noteq> n"
  shows "Login mem_ops lib key env (sv_users s) \<lparr>li_username = n, li_password = pw\<rparr> = Inl ErrInvalidCredentials"
proof -
  have ok: "users_ok (sv_users s)"
    using reachable_server_ok [OF assms(1)] by (simp add: server_ok_def)
  have "byUsername (sv_users s) n = None"
  proof (cases "byUsername (sv_users s) n")
    case (Some u)
    from ok have cons: "store_consistent (sv_users s)" by (simp add: users_ok_def)
    from store_consistentD(3,4) [OF cons Some] have "u_username u = n" "byID (sv_users s) (u_id u) = Some u" .
    with ok have "trim_space n = n" unfolding users_ok_def account_ok_def by metis
    with assms(2) show ?thesis by simp
  qed
  then show ?thesis by (simp add: Login_def mem_ops_def mem_GetUserByUsername_def)
qed

theorem padded_login_fails_witness:
  "Login mem_ops demo_lib ''k'' demo_env (sv_users demo_server)
     \<lparr>li_username = '' admin'', li_password = ''AdminPassword123!''\<rparr> = Inl ErrInvalidCredentials"
  by (rule padded_login_fails [OF demo_reachable])
    (simp add: trim_space_ascii is_space_def char_code_def)

text \<open>Serving the registration route.\<close>

lemma mux_register:
  assumes "hr_method r = ''POST''" "hr_path r = ''/api/v1/auth/register''"
  shows "serve_mux (registerRoutes memory_stores cfg env) False s r =
    on_users (Register_handler mem_ops (cf_lib cfg) env) s (r\<lparr>hr_path_id := []\<rparr>)"
  by (simp add: registerRoutes_def Let_def assms method_match_def)

lemma serve_register:
  assumes "hr_method r = ''POST''" "hr_path r = ''/api/v1/auth/register''" "hr_body_bytes r \<le> 2 ^ 20"
    and "Register_handler mem_ops (cf_lib cfg) env (sv_users s) (r\<lparr>hr_claims := None, hr_path_id := []\<rparr>)
      = (us, evs, out)"
  shows "\<exists>out'. serve cfg env s r = (log_events env evs (s\<lparr>sv_users := us\<rparr>), out') \<and> same_answer out out'"
proof -
  let ?r = "r\<lparr>hr_claims := None\<rparr>"
  have lim: "limited_request ?r = ?r" using assms(3) by (simp add: limited_request_def)
  have "serve_mux (registerRoutes memory_stores cfg env) False s ?r = (s\<lparr>sv_users := us\<rparr>, evs, out)"
    using mux_register [of ?r cfg env s] assms by (simp add: on_users_def)
  then have "serve_mux (registerRoutes memory_stores cfg env) False s (limited_request ?r) = (s\<lparr>sv_users := us\<rparr>, evs, out)"
    by (simp only: lim)
  from global_handler_answer [OF _ this] assms(1) obtain out' where
    "global_handler memory_stores cfg env s ?r = (s\<lparr>sv_users := us\<rparr>, evs, out')" "same_answer out out'" by auto
  then show ?thesis by (simp add: serve_on_def log_events_on_def)
qed

definition register_request :: "string \<Rightarrow> string \<Rightarrow> string \<Rightarrow> http_request \<Rightarrow> bool" where
  "register_request n pw role r \<longleftrightarrow> hr_method r = ''POST'' \<and> hr_path r = ''/api/v1/auth/register'' \<and>
     hr_body_bytes r \<le> 2 ^ 20 \<and>
     hr_body r = Some (JObj [(''username'', JStr n), (''password'', JStr pw), (''role'', JStr role)])"

lemma decode_register_object:
  "decode_register (Some (JObj [(''username'', JStr n), (''password'', JStr pw), (''role'', JStr role)]))
   = Some \<lparr>rb_username = n, rb_password = pw, rb_role = role\<rparr>"
  by (simp add: decode_register_def set_register_field_def to_lower_def lower_char_def char_code_def)

lemma super_admin_normal: "to_lower (trim_space ''super_admin'') = RoleSuperAdmin"
  by (simp add: to_lower_def lower_char_def trim_space_ascii is_space_def char_code_def RoleSuperAdmin_def)

lemma registered_with_role:
  assumes "register_request n pw role r" and "to_lower (trim_space role) \<in> set ValidRoles"
    and "3 \<le> length (trim_space n)" "length (trim_space n) \<le> 50" "8 \<le> length pw"
    and "bcrypt_generate (cf_lib cfg) pw bcryptCost (en_salt env) = Some h"
    and "byUsername (sv_users s) (trim_space n) = None" and "en_uuid env \<noteq> []"
  shows "\<exists>s' rsp u. serve cfg env s r = (s', Inr rsp) \<and> rsp_status rsp = 201 \<and>
    byUsername (sv_users s') (trim_space n) = Some u \<and> u_role u = to_lower (trim_space role) \<and>
    u_status u = StatusActive"
proof -
  let ?r = "r\<lparr>hr_claims := None, hr_path_id := []\<rparr>"
  let ?in = "\<lparr>ri_username = n, ri_password = pw, ri_role = to_lower (trim_space role)\<rparr>"
  note rr = assms(1) [unfolded register_request_def]
  obtain us u where reg: "Register mem_ops (cf_lib cfg) env (sv_users s) ?in = Inr (us, u)"
    using assms(2-7) by (simp add: Register_def Let_def minPasswordLength_def mem_ops_def mem_CreateUser_def)
  note acc = mem.Register_account [OF reg assms(8) TrueI]
  have dec: "decode_register (hr_body r) = Some \<lparr>rb_username = n, rb_password = pw, rb_role = role\<rparr>"
    using rr by (simp add: decode_register_object)
  obtain evs rsp where h: "Register_handler mem_ops (cf_lib cfg) env (sv_users s) ?r = (us, evs, Inr rsp)"
    "rsp_status rsp = 201"
    by (simp add: Register_handler_def dec Let_def reg)
  from serve_register [OF _ _ _ h(1)] rr obtain out' where
    sv: "serve cfg env s r = (log_events env evs (s\<lparr>sv_users := us\<rparr>), out')" "same_answer (Inr rsp) out'"
    by auto
  from sv(2) h(2) obtain rsp' where "out' = Inr rsp'" "rsp_status rsp' = 201"
    by (auto simp: same_answer_def)
  moreover have "byUsername us (trim_space n) = Some u"
    using acc(7) by (simp add: mem_ops_def mem_GetUserByUsername_def split: option.splits)
  ultimately show ?thesis using sv(1) acc(3,4) by simp
qed

text \<open>C40: Anyone can become super administrator: a registration that carries no token at all, with a
  free name of 3 to 50 characters and a password of at least 8, asking for the role
  \<open>super_admin\<close>, is answered with 201 and stores an active account with that role.\<close>

theorem anonymous_super_admin:
  assumes "register_request n pw ''super_admin'' r" and "hr_authorization r = []"
    and "3 \<le> length (trim_space n)" "length (trim_space n) \<le> 50" "8 \<le> length pw"
    and "bcrypt_generate (cf_lib cfg) pw bcryptCost (en_salt env) = Some h"
    and "byUsername (sv_users s) (trim_space n) = None" and "en_uuid env \<noteq> []"
  shows "\<exists>s' rsp u. serve cfg env s r = (s', Inr rsp) \<and> rsp_status rsp = 201 \<and>
    byUsername (sv_users s') (trim_space n) = Some u \<and> u_role u = RoleSuperAdmin \<and>
    u_status u = StatusActive"
  using registered_with_role [OF assms(1) _ assms(3-8)]
  by (simp add: super_admin_normal ValidRoles_def)

definition demo_takeover :: http_request where
  "demo_takeover = demo_request\<lparr>hr_path := ''/api/v1/auth/register'',
     hr_body := Some (JObj [(''username'', JStr ''mallory''), (''password'', JStr ''Secret-123''),
                            (''role'', JStr ''super_admin'')])\<rparr>"

definition empty_server :: "kv_redis server" where
  "empty_server = \<lparr>sv_users = NewMemoryUserStore, sv_engine = Map.empty, sv_log = NewMemoryLogger, sv_redis = []\<rparr>"

lemma trim_mallory: "trim_space ''mallory'' = ''mallory''"
  by (simp add: trim_space_ascii is_space_def char_code_def)

lemma demo_takeover_request: "register_request ''mallory'' ''Secret-123'' ''super_admin'' demo_takeover"
  by (simp add: register_request_def demo_takeover_def demo_request_def)

lemma demo_takeover_facts:
  "hr_authorization demo_takeover = []" "8 \<le> length ''Secret-123''"
  "bcrypt_generate (cf_lib demo_config) ''Secret-123'' bcryptCost (en_salt demo_env) = Some ''$2a$Secret-123''"
  "byUsername (sv_users empty_server) n = None" "en_uuid demo_env \<noteq> []"
  "3 \<le> length (trim_space ''mallory'')" "length (trim_space ''mallory'') \<le> 50"
  by (simp_all add: demo_takeover_def demo_request_def demo_config_def demo_lib_def
      empty_server_def NewMemoryUserStore_def demo_env_def trim_mallory)

theorem anonymous_super_admin_witness:
  "\<exists>s' rsp u. serve demo_config demo_env empty_server demo_takeover = (s', Inr rsp) \<and> rsp_status rsp = 201 \<and>
    byUsername (sv_users s') ''mallory'' = Some u \<and> u_role u = RoleSuperAdmin"
  using anonymous_super_admin [OF demo_takeover_request demo_takeover_facts(1,6,7,2,3,4,5)]
  unfolding trim_mallory by blast

theorem state_change_origin_witness:
  "\<exists>input u. Register mem_ops demo_lib demo_env (sv_users empty_server) input =
     Inr (sv_users (fst (serve demo_config demo_env empty_server demo_takeover)), u)"
proof -
  have "RoleSuperAdmin \<in> set ValidRoles" by (simp add: ValidRoles_def)
  then obtain s' rsp u where "serve demo_config demo_env empty_server demo_takeover = (s', Inr rsp)"
    "byUsername (sv_users s') (trim_space ''mallory'') = Some u"
    using registered_with_role [OF demo_takeover_request _ demo_takeover_facts(6,7,2,3,4,5)]
    unfolding super_admin_normal by blast
  then have "sv_users (fst (serve demo_config demo_env empty_server demo_takeover)) \<noteq> sv_users empty_server"
    by (auto simp: demo_takeover_facts)
  with state_change_origin [of demo_config demo_env empty_server demo_takeover]
  show ?thesis by (simp add: demo_config_def)
qed

text \<open>A served administrator request, for the access matrix.\<close>


definition demo_token :: string where
  "demo_token = enc_claims demo_claims @ enc_str ''k''"

definition demo_admin_request :: http_request where
  "demo_admin_request = demo_request\<lparr>hr_method := ''GET'', hr_path := ''/api/v1/admin-only'',
     hr_authorization := ''Bearer '' @ demo_token\<rparr>"

lemma demo_token_ends: "demo_token = CHR ''c'' # tl demo_token" "last demo_token = CHR ''.''"
  by (simp_all add: demo_token_def enc_claims_def demo_claims_def)

lemma trim_demo_token: "trim_space demo_token = demo_token"
  by (rule trim_space_id; subst demo_token_ends) (simp_all add: is_space_def char_code_def)

lemma demo_bearer: "extractBearerToken demo_admin_request = Some demo_token"
proof -
  have "split_space (''Bearer '' @ t) = (''Bearer'', Some t)" for t by simp
  moreover have "demo_token \<noteq> []" using demo_token_ends(1) by (metis list.distinct(1))
  ultimately show ?thesis
  unfolding extractBearerToken_def demo_admin_request_def
  by (simp add: trim_demo_token equal_fold_def to_lower_def)
qed

lemma demo_validate: "ValidateToken demo_lib ''k'' 1000 demo_token = Inr demo_claims"
proof -
  have "jwt_sign demo_lib demo_claims ''k'' = Some demo_token"
    by (simp add: demo_lib_def demo_token_def)
  from jwt_ok_parse [OF demo_jwt_ok this] show ?thesis
    by (simp add: ValidateToken_def demo_claims_def)
qed

lemma mux_admin_zone:
  assumes "hr_method r = ''GET''" "hr_path r = ''/api/v1/admin-only''"
  shows "serve_mux (registerRoutes memory_stores cfg env) False s r =
    RequireAuth (cf_lib cfg) (cf_key cfg) (en_now env) (RequireRole RoleAdmin (on_users AdminOnly)) s
      (r\<lparr>hr_path_id := []\<rparr>)"
  by (simp add: registerRoutes_def Let_def assms method_match_def)

lemma demo_admin_served:
  "\<exists>s' rsp. serve demo_config demo_env s demo_admin_request = (s', Inr rsp) \<and> rsp_status rsp = 200"
proof -
  let ?r = "demo_admin_request\<lparr>hr_claims := None\<rparr>"
  let ?rsp = "writeJSON 200 (ZoneBody ''welcome to the admin zone'' ''ann'' RoleAdmin)"
  have lim: "limited_request ?r = ?r"
    by (simp add: limited_request_def demo_admin_request_def demo_request_def)
  have "extractBearerToken (?r\<lparr>hr_path_id := []\<rparr>) = Some demo_token"
    using demo_bearer extractBearerToken_cong [of "?r\<lparr>hr_path_id := []\<rparr>" demo_admin_request] by simp
  then have "RequireAuth demo_lib ''k'' 1000 (RequireRole RoleAdmin (on_users AdminOnly)) s
      (?r\<lparr>hr_path_id := []\<rparr>) = (s, [], Inr ?rsp)"
    by (simp add: RequireAuth_def demo_validate RequireRole_def on_users_def AdminOnly_def respond_def
        demo_claims_def)
  moreover have "hr_method ?r = ''GET''" "hr_path ?r = ''/api/v1/admin-only''"
    by (simp_all add: demo_admin_request_def)
  ultimately have "serve_mux (registerRoutes memory_stores demo_config demo_env) False s (limited_request ?r) = (s, [], Inr ?rsp)"
    unfolding lim using mux_admin_zone [of ?r demo_config demo_env s]
    by (simp add: demo_config_def demo_env_def)
  from global_handler_answer [OF _ this] obtain out' where
    "global_handler memory_stores demo_config demo_env s ?r = (s, [], out')" "same_answer (Inr ?rsp) out'"
    by (auto simp: demo_admin_request_def)
  then show ?thesis by (auto simp: serve_on_def same_answer_def)
qed

theorem success_requires_role_witness:
  "\<exists>tok c. extractBearerToken demo_admin_request = Some tok \<and>
    ValidateToken demo_lib ''k'' 1000 tok = Inr c \<and> c_role c \<in> {RoleAdmin, RoleSuperAdmin}"
proof -
  obtain s' rsp where sv: "serve demo_config demo_env empty_server demo_admin_request = (s', Inr rsp)"
    "rsp_status rsp = 200" using demo_admin_served by blast
  have "required_roles (hr_method demo_admin_request) (hr_path demo_admin_request) =
      Some {RoleAdmin, RoleSuperAdmin}"
    by (simp add: required_roles_def demo_admin_request_def)
  from success_requires_role [OF sv(1) _ _ this] sv(2) show ?thesis
    by (simp add: demo_config_def demo_env_def demo_admin_request_def)
qed

end
