(* ===== verification/Dom.thy ===== *)
theory Dom
  imports Users
begin

text \<open>
  What a React component renders: a tree of elements and text. A view is a function from the
  component's state to such a tree; the event attributes carry the message that the element
  sends to the component, so a view also says what the user can do in a state. Elements of
  component libraries (icons, router links) are elements with their name and properties.
  React keys and the text of constant \<open>{' '}\<close> spacers are kept as the source has them, except
  that keys, which are never rendered, are left out.
\<close>

subsection \<open>Elements\<close>

datatype 'm attr =
    Attr string string
  | Style "(string \<times> string) list"
  | Flag string bool
  | ClassOf "bool \<Rightarrow> string"       \<comment> \<open>a router link's class, given whether the link is active\<close>
  | OnClick 'm
  | OnSubmit 'm
  | OnChange "string \<Rightarrow> 'm"        \<comment> \<open>given the control's new value\<close>
  | OnCheck "bool \<Rightarrow> 'm"

datatype 'm node =
    Txt string
  | El string "'m attr list" "'m node list"

text \<open>Characters outside ASCII in the texts, as their UTF-8 bytes.\<close>

definition em_dash :: string where "em_dash = [CHR 0xE2, CHR 0x80, CHR 0x94]"
definition right_arrow :: string where "right_arrow = [CHR 0xE2, CHR 0x86, CHR 0x92]"
definition down_arrow :: string where "down_arrow = [CHR 0xE2, CHR 0x86, CHR 0x93]"
definition bullet :: string where "bullet = [CHR 0xE2, CHR 0x80, CHR 0xA2]"
definition middle_dot :: string where "middle_dot = [CHR 0xC2, CHR 0xB7]"
definition nbsp :: string where "nbsp = [CHR 0xC2, CHR 0xA0]"
definition black_circle :: string where "black_circle = [CHR 0xE2, CHR 0x97, CHR 0x8F]"

text \<open>A child that is a string or null: null renders as nothing.\<close>

definition text_of_option :: "string option \<Rightarrow> 'm node list" where
  "text_of_option s = (case s of None \<Rightarrow> [] | Some t \<Rightarrow> [Txt t])"

subsection \<open>Reading a view\<close>

definition is_disabled :: "'m attr list \<Rightarrow> bool" where
  "is_disabled as \<longleftrightarrow> Flag ''disabled'' True \<in> set as"

fun attr_msgs :: "'m attr list \<Rightarrow> 'm list" where
  "attr_msgs [] = []"
| "attr_msgs (OnClick m # as) = m # attr_msgs as"
| "attr_msgs (OnSubmit m # as) = m # attr_msgs as"
| "attr_msgs (_ # as) = attr_msgs as"

text \<open>The messages the user can send by clicking or submitting: those of enabled elements, in the
  order of the page.\<close>

fun clicks :: "'m node \<Rightarrow> 'm list" where
  "clicks (Txt s) = []"
| "clicks (El tag as ks) =
     (if is_disabled as then [] else attr_msgs as) @ concat (map clicks ks)"

text \<open>All texts of a view, and the destinations of its router elements.\<close>

fun texts :: "'m node \<Rightarrow> string list" where
  "texts (Txt s) = [s]"
| "texts (El tag as ks) = concat (map texts ks)"

fun attr_value :: "string \<Rightarrow> 'm attr list \<Rightarrow> string list" where
  "attr_value n [] = []"
| "attr_value n (Attr k v # as) = (if k = n then [v] else []) @ attr_value n as"
| "attr_value n (_ # as) = attr_value n as"

fun elements :: "string \<Rightarrow> 'm node \<Rightarrow> ('m attr list \<times> 'm node list) list" where
  "elements t (Txt s) = []"
| "elements t (El tag as ks) = (if tag = t then [(as, ks)] else []) @ concat (map (elements t) ks)"

definition link_targets :: "string \<Rightarrow> 'm node \<Rightarrow> string list" where
  "link_targets tag v = concat (map (\<lambda>(as, ks). attr_value ''to'' as) (elements tag v))"

lemma is_disabled_simps [simp]:
  "\<not> is_disabled []"
  "is_disabled (Attr k v # as) = is_disabled as" "is_disabled (Style st # as) = is_disabled as"
  "is_disabled (ClassOf f # as) = is_disabled as" "is_disabled (OnClick m # as) = is_disabled as"
  "is_disabled (OnSubmit m # as) = is_disabled as" "is_disabled (OnChange g # as) = is_disabled as"
  "is_disabled (OnCheck h # as) = is_disabled as"
  "is_disabled (Flag n b # as) \<longleftrightarrow> n = ''disabled'' \<and> b \<or> is_disabled as"
  by (auto simp: is_disabled_def)

text \<open>Reading distributes over the conditionals and lists a view is made of.\<close>

definition clicks_all :: "'m node list \<Rightarrow> 'm list" where
  "clicks_all ks = concat (map clicks ks)"

lemma clicks_all_simps [simp]:
  "clicks_all [] = []" "clicks_all (k # ks) = clicks k @ clicks_all ks"
  "clicks_all (xs @ ys) = clicks_all xs @ clicks_all ys"
  "clicks_all (if b then xs else ys) = (if b then clicks_all xs else clicks_all ys)"
  by (simp_all add: clicks_all_def)

lemma clicks_El: "clicks (El tag as ks) = (if is_disabled as then [] else attr_msgs as) @ clicks_all ks"
  by (simp add: clicks_all_def)

declare clicks.simps(2) [simp del] clicks_El [simp]

lemma clicks_all_map: "clicks_all (map f xs) = concat (map (\<lambda>x. clicks (f x)) xs)"
  by (simp add: clicks_all_def comp_def)

definition elements_all :: "string \<Rightarrow> 'm node list \<Rightarrow> ('m attr list \<times> 'm node list) list" where
  "elements_all t ks = concat (map (elements t) ks)"

lemma elements_all_simps [simp]:
  "elements_all t [] = []" "elements_all t (k # ks) = elements t k @ elements_all t ks"
  "elements_all t (xs @ ys) = elements_all t xs @ elements_all t ys"
  "elements_all t (if b then xs else ys) = (if b then elements_all t xs else elements_all t ys)"
  by (simp_all add: elements_all_def)

lemma elements_El:
  "elements t (El tag as ks) = (if tag = t then [(as, ks)] else []) @ elements_all t ks"
  by (simp add: elements_all_def)

declare elements.simps(2) [simp del] elements_El [simp]

lemma elements_all_map: "elements_all t (map f xs) = concat (map (\<lambda>x. elements t (f x)) xs)"
  by (simp add: elements_all_def comp_def)

definition texts_all :: "'m node list \<Rightarrow> string list" where
  "texts_all ks = concat (map texts ks)"

lemma texts_all_simps [simp]:
  "texts_all [] = []" "texts_all (k # ks) = texts k @ texts_all ks"
  "texts_all (xs @ ys) = texts_all xs @ texts_all ys"
  "texts_all (if b then xs else ys) = (if b then texts_all xs else texts_all ys)"
  by (simp_all add: texts_all_def)

lemma texts_El: "texts (El tag as ks) = texts_all ks"
  by (simp add: texts_all_def)

declare texts.simps(2) [simp del] texts_El [simp]

lemma texts_all_map: "texts_all (map f xs) = concat (map (\<lambda>x. texts (f x)) xs)"
  by (simp add: texts_all_def comp_def)

lemma text_of_option_clicks [simp]: "clicks_all (text_of_option s) = []"
  by (simp add: text_of_option_def split: option.split)

end
