(* ===== verification/UiTypes.thy ===== *)
theory UiTypes
  imports Http Dom
begin

text \<open>
  The wire types of \<open>frontend/src/types/index.ts\<close>: interfaces as records, string-literal unions
  as datatypes with their spelling, optional fields as options. \<open>Role\<close> is \<open>ui_role\<close> of the
  theory \<open>Users\<close>. Dates are the strings the server sends.
\<close>

datatype ui_status = Active | Inactive | Suspended

fun status_name :: "ui_status \<Rightarrow> string" where
  "status_name Active = ''active''"
| "status_name Inactive = ''inactive''"
| "status_name Suspended = ''suspended''"

record ui_user =
  uu_id :: string
  uu_username :: string
  uu_role :: ui_role
  uu_organization_id :: "string option"
  uu_status :: ui_status
  uu_mfa_enabled :: bool
  uu_created_at :: string

record register_response =
  rr_message :: string
  rr_user :: ui_user

datatype ui_decision = ALLOW | DENY | REQUIRE_MFA

fun decision_name :: "ui_decision \<Rightarrow> string" where
  "decision_name ALLOW = ''ALLOW''"
| "decision_name DENY = ''DENY''"
| "decision_name REQUIRE_MFA = ''REQUIRE_MFA''"

record ui_policy =
  up_id :: string
  up_name :: string
  up_role :: string
  up_application :: string
  up_require_mfa :: bool
  up_require_trusted_device :: bool
  up_max_risk_score :: int
  up_decision :: ui_decision
  up_enabled :: bool

record access_request =
  aq_application :: string
  aq_device_trusted :: bool
  aq_mfa_verified :: bool
  aq_risk_score :: "int option"   \<comment> \<open>\<open>None\<close> is NaN\<close>

record access_response =
  ap_decision :: ui_decision
  ap_reason :: string
  ap_policy_id :: "string option"

record audit_event =
  ae_id :: string
  ae_user_id :: "string option"
  ae_action :: string
  ae_resource :: "string option"
  ae_ip_address :: "string option"
  ae_user_agent :: "string option"
  ae_metadata :: "(string \<times> string) list option"
  ae_timestamp :: string

record audit_list_response =
  al_events :: "audit_event list option"   \<comment> \<open>\<open>None\<close> is null\<close>
  al_total :: nat
  al_page :: nat
  al_page_size :: nat

record mfa_setup_response =
  ms_secret :: string
  ms_totp_uri :: string
  ms_message :: string

record mfa_verify_response =
  mv_message :: string
  mv_verified :: bool
  mv_user_id :: string

text \<open>The client's decisions are spelled as the engine's.\<close>

lemma decision_names:
  "decision_name ALLOW = DecisionAllow" "decision_name DENY = DecisionDeny"
  "decision_name REQUIRE_MFA = DecisionRequireMFA"
  by (simp_all add: DecisionAllow_def DecisionDeny_def DecisionRequireMFA_def)

lemma status_names:
  "status_name Active = StatusActive" "status_name Inactive = StatusInactive"
  "status_name Suspended = StatusSuspended"
  by (simp_all add: status_defs)

end
