(* ===== verification/JsNumber.thy ===== *)
theory JsNumber
  imports Prelude
begin

text \<open>
  The whole numbers of the TypeScript code, which are doubles: the double nearest to an integer
  (what \<open>parseInt\<close> and \<open>JSON.parse\<close> yield) and the decimal text of \<open>Number::toString\<close>, which
  \<open>JSON.stringify\<close> prints: the shortest digits that read back as the same double. Below \<open>2^53\<close>
  both are the identity; above, the text can denote another integer than the double.
\<close>

subsection \<open>Doubles\<close>

fun bit_length :: "nat \<Rightarrow> nat" where
  "bit_length n = (if n = 0 then 0 else Suc (bit_length (n div 2)))"

declare bit_length.simps [simp del]

lemma bit_length_numeral:
  "bit_length (numeral k) = Suc (bit_length (numeral k div 2))" "bit_length (Suc 0) = 1" "bit_length 0 = 0"
  by (simp_all add: bit_length.simps [of "numeral k"] bit_length.simps [of "Suc 0"] bit_length.simps [of 0])

text \<open>53 bits of precision, ties to even.\<close>

definition js_double :: "nat \<Rightarrow> nat" where
  "js_double n =
     (if n < 2 ^ 53 then n
      else let e = bit_length n - 53; q = n div 2 ^ e; r = n mod 2 ^ e; half = 2 ^ (e - 1)
           in (if half < r \<or> r = half \<and> odd q then q + 1 else q) * 2 ^ e)"

subsection \<open>Printing\<close>

text \<open>The most trailing zeros first: the multiples of a power of ten on both sides are tried, and
  the closer one is taken (the even one of two equally close).\<close>

fun js_shortest :: "nat \<Rightarrow> nat \<Rightarrow> nat" where
  "js_shortest n 0 = n"
| "js_shortest n (Suc e) =
     (let unit = 10 ^ Suc e; d = n div unit; lo = d * unit; hi = lo + unit
      in if js_double lo = n \<and> (js_double hi \<noteq> n \<or> n - lo < hi - n \<or> n - lo = hi - n \<and> even d) then lo
         else if js_double hi = n then hi
         else js_shortest n e)"

definition js_decimal :: "nat \<Rightarrow> nat" where
  "js_decimal n = (let x = js_double n in js_shortest x (length (show_nat x)))"

text \<open>The integer the text of a whole number denotes.\<close>

definition js_printed :: "int \<Rightarrow> int" where
  "js_printed i = (if i < 0 then - int (js_decimal (nat (- i))) else int (js_decimal (nat i)))"

text \<open>From \<open>10^21\<close> on the text has an exponent, from \<open>2^1024\<close> on the number is infinite.\<close>

definition exponent_form :: "nat \<Rightarrow> string" where
  "exponent_form n =
     (let s = show_nat n; ds = rev (dropWhile (\<lambda>c. c = CHR ''0'') (rev s))
      in hd s # (if length ds < 2 then [] else CHR ''.'' # tl ds) @ ''e+'' @ show_nat (length s - 1))"

definition js_int_string :: "int \<Rightarrow> string" where
  "js_int_string i =
     (if \<bar>js_printed i\<bar> < 10 ^ 21 then show_int (js_printed i)
      else (if i < 0 then ''-'' else []) @
        (if 2 ^ 1024 \<le> js_double (nat \<bar>i\<bar>) then ''Infinity'' else exponent_form (nat \<bar>js_printed i\<bar>)))"

subsection \<open>Integers that are printed exactly\<close>

lemma bit_length_pos: "0 < n \<Longrightarrow> 2 ^ (bit_length n - 1) \<le> n \<and> 0 < bit_length n"
proof (induction n rule: bit_length.induct)
  case (1 n)
  show ?case
  proof (cases "n = 1")
    case True
    then show ?thesis by (simp add: bit_length_numeral)
  next
    case False
    with 1 have "2 ^ (bit_length (n div 2) - 1) \<le> n div 2" and "0 < bit_length (n div 2)"
      by auto
    then have "2 * 2 ^ (bit_length (n div 2) - 1) \<le> n" and "0 < bit_length (n div 2)" by auto
    then show ?thesis
      using False 1(2) by (cases "bit_length (n div 2)") (simp_all add: bit_length.simps [of n])
  qed
qed

lemma bit_length_less: "n < 2 ^ bit_length n"
proof (induction n rule: bit_length.induct)
  case (1 n)
  then show ?case by (cases "n = 0") (auto simp: bit_length.simps [of n])
qed

lemma js_double_small: "n < 2 ^ 53 \<Longrightarrow> js_double n = n"
  by (simp add: js_double_def)

lemma js_double_large:
  assumes "2 ^ 53 \<le> n"
  shows "2 ^ 53 \<le> js_double n"
proof -
  let ?e = "bit_length n - 53"
  have n: "0 < n" using assms by (rule order.strict_trans2 [rotated]) simp
  have "2 ^ 53 < (2 :: nat) ^ bit_length n" using assms bit_length_less [of n] by (rule le_less_trans)
  then have b: "53 < bit_length n" by (rule power_less_imp_less_exp [rotated]) simp
  have "(2 :: nat) ^ 52 * 2 ^ ?e = 2 ^ (bit_length n - 1)"
  proof -
    have "52 + ?e = bit_length n - 1" using b by linarith
    then show ?thesis by (metis power_add)
  qed
  also have "\<dots> \<le> n" using bit_length_pos [OF n] by blast
  finally have "2 ^ 52 \<le> n div 2 ^ ?e" by (simp add: less_eq_div_iff_mult_less_eq)
  moreover have "(2 :: nat) ^ 53 \<le> 2 ^ 52 * 2 ^ ?e"
  proof -
    have "(2 :: nat) ^ 1 \<le> 2 ^ ?e" using b by (intro power_increasing) simp_all
    then show ?thesis by simp
  qed
  ultimately have "2 ^ 53 \<le> q * 2 ^ ?e" if "n div 2 ^ ?e \<le> q" for q
    using that by (meson le_trans mult_le_mono1)
  then show ?thesis using assms by (simp add: js_double_def Let_def)
qed

lemma js_double_exact: "n < 2 ^ 53 \<Longrightarrow> js_double m = n \<Longrightarrow> m = n"
  using js_double_large [of m] js_double_small [of m] by (cases "m < 2 ^ 53") simp_all

lemma js_shortest_exact: "n < 2 ^ 53 \<Longrightarrow> js_shortest n e = n"
proof (induction e)
  case (Suc e)
  note exact = js_double_exact [OF Suc.prems]
  show ?case
    unfolding js_shortest.simps Let_def using Suc.IH [OF Suc.prems] exact by metis
qed simp

lemma js_printed_exact [simp]: "\<bar>i\<bar> < 2 ^ 53 \<Longrightarrow> js_printed i = i"
  by (auto simp: js_printed_def js_decimal_def Let_def js_double_small js_shortest_exact nat_less_iff)

lemma js_int_string_exact [simp]: "\<bar>i\<bar> < 2 ^ 53 \<Longrightarrow> js_int_string i = show_int i"
  by (simp add: js_int_string_def)

text \<open>\<open>2^62\<close> is a double, but not printed as itself.\<close>

lemma js_shortest_numeral:
  "js_shortest n (numeral k) =
     (let unit = 10 ^ numeral k; d = n div unit; lo = d * unit; hi = lo + unit
      in if js_double lo = n \<and> (js_double hi \<noteq> n \<or> n - lo < hi - n \<or> n - lo = hi - n \<and> even d) then lo
         else if js_double hi = n then hi
         else js_shortest n (pred_numeral k))"
  unfolding numeral_eq_Suc js_shortest.simps ..

lemma js_printed_2_62: "js_printed (2 ^ 62) = 4611686018427388000"
proof -
  have "js_double 4611686018427387904 = 4611686018427387904"
    by (simp add: js_double_def bit_length_numeral Let_def)
  moreover have "length (show_nat 4611686018427387904) = 19"
    by (simp add: show_nat.simps)
  moreover have "js_shortest 4611686018427387904 19 = 4611686018427388000"
    by (simp add: js_shortest_numeral js_double_def bit_length_numeral Let_def del: js_shortest.simps)
  ultimately show ?thesis by (simp add: js_printed_def js_decimal_def Let_def)
qed

end
