(* ===== verification/Api.thy ===== *)
theory Api
  imports UiTypes PolicyHandler JsNumber
begin

text \<open>
  The API client of \<open>frontend/src/services/api.ts\<close>: the token it keeps in memory and in session
  storage, the requests its methods send, and how a reply becomes a value or a thrown error.

  Network and server are outside the client: each awaited \<open>fetch\<close> is a request value and, at
  some later time, a \<open>fetch_result\<close>. The type argument of \<open>request\<close> is an unchecked cast, so an
  accepted reply is a value of the method's type; \<open>None\<close> is a reply whose body is not JSON,
  which the client turns into \<open>null\<close>. \<open>JSON.stringify\<close> and \<open>json()\<close> are the identity on the
  \<open>json\<close> value they print and read, but for numbers, which are doubles.
\<close>

subsection \<open>Thrown values and JavaScript truth\<close>

datatype thrown = ErrorObj string | OtherThrown

definition error_message :: "string \<Rightarrow> thrown \<Rightarrow> string" where
  "error_message fallback t = (case t of ErrorObj msg \<Rightarrow> msg | OtherThrown \<Rightarrow> fallback)"

text \<open>The message of the \<open>TypeError\<close> for reading a property of null (as V8 words it).\<close>

definition null_read :: "string \<Rightarrow> thrown" where
  "null_read p = ErrorObj (''Cannot read properties of null (reading '' @ quoted p @ '')'')"

definition truthy :: "string option \<Rightarrow> bool" where
  "truthy s \<longleftrightarrow> (case s of None \<Rightarrow> False | Some t \<Rightarrow> t \<noteq> [])"

text \<open>A number literal is falsy when all digits of its mantissa are zero (underflow apart).\<close>

fun js_truthy :: "json \<Rightarrow> bool" where
  "js_truthy JNull = False"
| "js_truthy (JBool b) = b"
| "js_truthy (JInt i) = (i \<noteq> 0)"
| "js_truthy (JFrac s) =
     (\<exists>c \<in> set (takeWhile (\<lambda>c. c \<noteq> CHR ''e'' \<and> c \<noteq> CHR ''E'') s). is_digit c \<and> c \<noteq> CHR ''0'')"
| "js_truthy (JStr s) = (s \<noteq> [])"
| "js_truthy (JArr xs) = True"
| "js_truthy (JObj ms) = True"

fun join_comma :: "string list \<Rightarrow> string" where
  "join_comma [] = []"
| "join_comma [x] = x"
| "join_comma (x # xs) = x @ '','' @ join_comma xs"

text \<open>\<open>String(v)\<close>; in an array, null prints as nothing.\<close>

fun js_string :: "json \<Rightarrow> string" where
  "js_string JNull = ''null''"
| "js_string (JBool b) = (if b then ''true'' else ''false'')"
| "js_string (JInt i) = js_int_string i"
| "js_string (JFrac s) = s"
| "js_string (JStr s) = s"
| "js_string (JArr xs) = join_comma (map (\<lambda>x. if x = JNull then [] else js_string x) xs)"
| "js_string (JObj ms) = ''[object Object]''"

text \<open>\<open>data?.k\<close> (\<open>None\<close> for undefined); for a repeated member JSON.parse keeps the last one.\<close>

definition js_member :: "json option \<Rightarrow> string \<Rightarrow> json option" where
  "js_member data k = (case data of Some (JObj ms) \<Rightarrow> map_of (rev ms) k | _ \<Rightarrow> None)"

subsection \<open>The client's state\<close>

record api_client =
  ac_token :: "string option"
  ac_session :: "string option"   \<comment> \<open>the item \<open>nexus_auth_token\<close> of session storage\<close>

definition new_ApiClient :: "string option \<Rightarrow> api_client" where
  "new_ApiClient stored = \<lparr>ac_token = stored, ac_session = stored\<rparr>"

definition api_setToken :: "string option \<Rightarrow> api_client \<Rightarrow> api_client" where
  "api_setToken token c =
     c\<lparr>ac_token := token, ac_session := (if truthy token then token else None)\<rparr>"

definition api_getToken :: "api_client \<Rightarrow> string option" where
  "api_getToken c = ac_token c"

subsection \<open>Requests and replies\<close>

record fetch_call =
  fc_url :: string
  fc_method :: string
  fc_headers :: "(string \<times> string) list"
  fc_body :: "json option"

definition API_BASE :: string where "API_BASE = ''/api/v1''"

definition api_request :: "api_client \<Rightarrow> string \<Rightarrow> string \<Rightarrow> json option \<Rightarrow> fetch_call" where
  "api_request c endpoint meth body =
     \<lparr>fc_url = API_BASE @ endpoint, fc_method = meth,
      fc_headers = [(''Content-Type'', ''application/json'')] @
        (case ac_token c of
           None \<Rightarrow> []
         | Some t \<Rightarrow> if t \<noteq> [] then [(''Authorization'', ''Bearer '' @ t)] else []),
      fc_body = body\<rparr>"

text \<open>\<open>NetworkError\<close>: \<open>fetch\<close> rejects. \<open>HttpError\<close>: a status outside 200 to 299 with its body.\<close>

datatype 'a fetch_result =
    NetworkError thrown
  | HttpError nat "json option"
  | HttpOk "'a option"

definition http_error_message :: "nat \<Rightarrow> json option \<Rightarrow> string" where
  "http_error_message st data =
     (case js_member data ''error'' of
        Some e \<Rightarrow> if js_truthy e then js_string e
          else (case js_member data ''message'' of
                  Some m \<Rightarrow> if js_truthy m then js_string m
                    else ''Request failed with status '' @ show_nat st
                | None \<Rightarrow> ''Request failed with status '' @ show_nat st)
      | None \<Rightarrow> (case js_member data ''message'' of
                  Some m \<Rightarrow> if js_truthy m then js_string m
                    else ''Request failed with status '' @ show_nat st
                | None \<Rightarrow> ''Request failed with status '' @ show_nat st))"

definition request_result :: "'a fetch_result \<Rightarrow> thrown + 'a option" where
  "request_result res =
     (case res of
        NetworkError t \<Rightarrow> Inl t
      | HttpError st data \<Rightarrow> Inl (ErrorObj (http_error_message st data))
      | HttpOk data \<Rightarrow> Inr data)"

text \<open>A caller that reads property \<open>p\<close> of the value: null makes it throw.\<close>

definition read_result :: "string \<Rightarrow> 'a fetch_result \<Rightarrow> thrown + 'a" where
  "read_result p res =
     (case request_result res of
        Inl t \<Rightarrow> Inl t
      | Inr None \<Rightarrow> Inl (null_read p)
      | Inr (Some v) \<Rightarrow> Inr v)"

declare request_result_def [reply_defs] read_result_def [reply_defs]

subsection \<open>Endpoints\<close>

definition api_register :: "api_client \<Rightarrow> string \<Rightarrow> string \<Rightarrow> string \<Rightarrow> fetch_call" where
  "api_register c username password role = api_request c ''/auth/register'' ''POST''
     (Some (JObj [(''username'', JStr username), (''password'', JStr password), (''role'', JStr role)]))"

definition api_login :: "api_client \<Rightarrow> string \<Rightarrow> string \<Rightarrow> fetch_call" where
  "api_login c username password = api_request c ''/auth/login'' ''POST''
     (Some (JObj [(''username'', JStr username), (''password'', JStr password)]))"

text \<open>The rest of \<open>login\<close> after its reply: the token is stored before the caller sees it.\<close>

definition api_login_reply :: "string fetch_result \<Rightarrow> api_client \<Rightarrow> thrown + (api_client \<times> string)" where
  "api_login_reply res c =
     (case read_result ''token'' res of
        Inl t \<Rightarrow> Inl t
      | Inr token \<Rightarrow> Inr (api_setToken (Some token) c, token))"

definition api_getMe :: "api_client \<Rightarrow> fetch_call" where
  "api_getMe c = api_request c ''/auth/me'' ''GET'' None"

definition api_getAdminOnly :: "api_client \<Rightarrow> fetch_call" where
  "api_getAdminOnly c = api_request c ''/admin-only'' ''GET'' None"

definition api_getUserOrAdmin :: "api_client \<Rightarrow> fetch_call" where
  "api_getUserOrAdmin c = api_request c ''/user-or-admin'' ''GET'' None"

definition api_listUsers :: "api_client \<Rightarrow> fetch_call" where
  "api_listUsers c = api_request c ''/users'' ''GET'' None"

definition api_listPolicies :: "api_client \<Rightarrow> fetch_call" where
  "api_listPolicies c = api_request c ''/policies'' ''GET'' None"

text \<open>A whole number as \<open>JSON.stringify\<close> prints it: NaN and the infinities are null, and from
  \<open>10^21\<close> on it has an exponent. The integer printed is the number itself below \<open>2^53\<close> only.\<close>

definition js_number :: "int option \<Rightarrow> json" where
  "js_number n =
     (case n of
        None \<Rightarrow> JNull
      | Some i \<Rightarrow> if \<bar>js_printed i\<bar> < 10 ^ 21 then JInt (js_printed i)
                 else if 2 ^ 1024 \<le> js_double (nat \<bar>i\<bar>) then JNull
                 else JFrac (js_int_string i))"

lemma js_number_exact [simp]: "\<bar>i\<bar> < 2 ^ 53 \<Longrightarrow> js_number (Some i) = JInt i"
  by (simp add: js_number_def)

lemma js_number_None [simp]: "js_number None = JNull"
  by (simp add: js_number_def)

text \<open>The numbers whose text is within the 64-bit range.\<close>

definition sends_int64 :: "int \<Rightarrow> bool" where
  "sends_int64 i \<longleftrightarrow> - (2 ^ 63) \<le> js_printed i \<and> js_printed i < 2 ^ 63"

lemma js_number_int64: "sends_int64 i \<Longrightarrow> js_number (Some i) = JInt (js_printed i)"
  by (auto simp: js_number_def sends_int64_def abs_if)

lemma sends_int64_exact [simp]: "\<bar>i\<bar> < 2 ^ 53 \<Longrightarrow> sends_int64 i"
  by (auto simp: sends_int64_def abs_if split: if_splits)

text \<open>A policy without its id, printed member by member.\<close>

definition api_createPolicy :: "api_client \<Rightarrow> ui_policy \<Rightarrow> fetch_call" where
  "api_createPolicy c p = api_request c ''/policies'' ''POST''
     (Some (JObj [(''name'', JStr (up_name p)), (''role'', JStr (up_role p)),
        (''application'', JStr (up_application p)), (''require_mfa'', JBool (up_require_mfa p)),
        (''require_trusted_device'', JBool (up_require_trusted_device p)),
        (''max_risk_score'', js_number (Some (up_max_risk_score p))),
        (''decision'', JStr (decision_name (up_decision p))), (''enabled'', JBool (up_enabled p))]))"

definition api_deletePolicy :: "api_client \<Rightarrow> string \<Rightarrow> fetch_call" where
  "api_deletePolicy c i = api_request c (''/policies/'' @ i) ''DELETE'' None"

definition api_checkAccess :: "api_client \<Rightarrow> access_request \<Rightarrow> fetch_call" where
  "api_checkAccess c q = api_request c ''/access/check'' ''POST''
     (Some (JObj [(''application'', JStr (aq_application q)),
        (''device_trusted'', JBool (aq_device_trusted q)),
        (''mfa_verified'', JBool (aq_mfa_verified q)), (''risk_score'', js_number (aq_risk_score q))]))"

definition api_setupMFA :: "api_client \<Rightarrow> fetch_call" where
  "api_setupMFA c = api_request c ''/mfa/setup'' ''POST'' None"

definition api_verifyMFA :: "api_client \<Rightarrow> string \<Rightarrow> fetch_call" where
  "api_verifyMFA c code = api_request c ''/mfa/verify'' ''POST'' (Some (JObj [(''code'', JStr code)]))"

definition api_listAuditLogs :: "api_client \<Rightarrow> nat \<Rightarrow> nat \<Rightarrow> fetch_call" where
  "api_listAuditLogs c page pageSize = api_request c
     (''/audit?page='' @ show_nat page @ ''&page_size='' @ show_nat pageSize) ''GET'' None"

text \<open>The health check bypasses \<open>request\<close>: no headers, any status, and a body that is not JSON
  rejects.\<close>

definition api_checkHealth :: fetch_call where
  "api_checkHealth = \<lparr>fc_url = ''/health'', fc_method = ''GET'', fc_headers = [], fc_body = None\<rparr>"

lemmas api_endpoint_defs = api_register_def api_login_def api_getMe_def api_getAdminOnly_def
  api_getUserOrAdmin_def api_listUsers_def api_listPolicies_def api_createPolicy_def
  api_deletePolicy_def api_checkAccess_def api_setupMFA_def api_verifyMFA_def api_listAuditLogs_def

subsection \<open>Client and server agree\<close>

lemma setToken_getToken [simp]: "api_getToken (api_setToken t c) = t"
  by (simp add: api_getToken_def api_setToken_def)

text \<open>A reload keeps the session: a client rebuilt from session storage sends the same
  authorization.\<close>

lemma reload_keeps_authorization:
  "api_request (new_ApiClient (ac_session (api_setToken t c))) e m b = api_request (api_setToken t c) e m b"
  by (simp add: api_request_def new_ApiClient_def api_setToken_def truthy_def split: option.split)

text \<open>The request as the server receives it.\<close>

definition authorization_of :: "fetch_call \<Rightarrow> string" where
  "authorization_of f = (case map_of (fc_headers f) ''Authorization'' of None \<Rightarrow> [] | Some v \<Rightarrow> v)"

lemma bearer_token_sent:
  assumes "hr_authorization r = authorization_of (api_request c e m b)"
    and "ac_token c = Some t" "t \<noteq> []" "trim_space t = t"
  shows "extractBearerToken r = Some t"
proof -
  have "hr_authorization r = ''Bearer '' @ t"
    using assms by (simp add: authorization_of_def api_request_def)
  moreover have "split_space (''Bearer '' @ t) = (''Bearer'', Some t)" by simp
  ultimately show ?thesis
    using assms by (simp add: extractBearerToken_def Let_def)
qed

text \<open>The bearer token survives the wire: whatever a client method sends with token \<open>t\<close> (not empty
  and without white space at its ends), the server's header parser reads exactly \<open>t\<close>, and
  without a token it finds none.\<close>

theorem bearer_roundtrip:
  assumes "hr_authorization r = authorization_of (api_request c e m b)"
    and "\<forall>t. ac_token c = Some t \<longrightarrow> trim_space t = t"
  shows "extractBearerToken r = (if truthy (ac_token c) then ac_token c else None)"
proof (cases "truthy (ac_token c)")
  case True
  then obtain t where t: "ac_token c = Some t" "t \<noteq> []"
    by (auto simp: truthy_def split: option.splits)
  with assms show ?thesis
    using bearer_token_sent [OF assms(1)] by (simp add: truthy_def)
next
  case False
  then have "hr_authorization r = []"
    using assms(1) by (auto simp: authorization_of_def api_request_def truthy_def split: option.splits)
  then show ?thesis using False by (simp add: extractBearerToken_def)
qed

definition demo_client :: api_client where
  "demo_client = new_ApiClient (Some ''a.b.c'')"

theorem bearer_roundtrip_witness:
  "extractBearerToken (demo_request\<lparr>hr_authorization := authorization_of (api_getMe demo_client)\<rparr>)
     = Some ''a.b.c''"
proof -
  have "\<forall>t. ac_token demo_client = Some t \<longrightarrow> trim_space t = t"
    by (simp add: demo_client_def new_ApiClient_def trim_space_ascii is_space_def char_code_def)
  from bearer_roundtrip [OF _ this, of "demo_request\<lparr>hr_authorization := authorization_of (api_getMe demo_client)\<rparr>"]
  show ?thesis by (simp add: api_getMe_def demo_client_def new_ApiClient_def truthy_def)
qed

lemma lower_members [simp]:
  "to_lower ''username'' = ''username''" "to_lower ''password'' = ''password''"
  "to_lower ''role'' = ''role''" "to_lower ''code'' = ''code''" "to_lower ''name'' = ''name''"
  "to_lower ''application'' = ''application''" "to_lower ''require_mfa'' = ''require_mfa''"
  "to_lower ''require_trusted_device'' = ''require_trusted_device''"
  "to_lower ''max_risk_score'' = ''max_risk_score''" "to_lower ''decision'' = ''decision''"
  "to_lower ''enabled'' = ''enabled''" "to_lower ''device_trusted'' = ''device_trusted''"
  "to_lower ''mfa_verified'' = ''mfa_verified''" "to_lower ''risk_score'' = ''risk_score''"
  by (simp_all add: to_lower_def lower_char_def char_code_def)

text \<open>The server's view of a policy the client describes: the risk limit is the one printed.\<close>

definition server_policy :: "ui_policy \<Rightarrow> policy" where
  "server_policy p = \<lparr>p_id = [], p_name = up_name p, p_role = up_role p,
     p_application = up_application p, p_require_mfa = up_require_mfa p,
     p_require_trusted = up_require_trusted_device p, p_max_risk_score = js_printed (up_max_risk_score p),
     p_decision = decision_name (up_decision p), p_enabled = up_enabled p\<rparr>"

lemma decode_createPolicy:
  assumes "sends_int64 (up_max_risk_score p)"
  shows "decode_create_policy (fc_body (api_createPolicy c p)) = Some (server_policy p)"
  using assms by (simp add: api_createPolicy_def api_request_def decode_create_policy_def js_number_int64
      set_policy_field_def server_policy_def) (simp add: sends_int64_def)

lemma decode_access:
  "aq_risk_score q = None \<Longrightarrow> decode_access_check (fc_body (api_checkAccess c q)) =
    Some \<lparr>ac_user_id = [], ac_application = aq_application q, ac_device_trusted = aq_device_trusted q,
      ac_mfa_verified = aq_mfa_verified q, ac_risk_score = 0\<rparr>"
  "aq_risk_score q = Some i \<Longrightarrow> sends_int64 i \<Longrightarrow> decode_access_check (fc_body (api_checkAccess c q)) =
    Some \<lparr>ac_user_id = [], ac_application = aq_application q, ac_device_trusted = aq_device_trusted q,
      ac_mfa_verified = aq_mfa_verified q, ac_risk_score = js_printed i\<rparr>"
  by (simp_all add: api_checkAccess_def api_request_def decode_access_check_def set_access_field_def
      js_number_int64) (simp add: sends_int64_def)

text \<open>C13: Request bodies survive the wire: for every method with a body, the server's struct decoder
  reads back exactly the fields the client was given. A number arrives as its decimal text reads, for texts within
  the 64-bit range: that is the number itself below \<open>2^53\<close>, but \<open>2^62\<close> arrives as 4611686018427388000.
  A risk score that is NaN arrives as 0.\<close>

theorem bodies_roundtrip:
  assumes "sends_int64 (up_max_risk_score p)" and "\<forall>i. aq_risk_score q = Some i \<longrightarrow> sends_int64 i"
  shows "decode_register (fc_body (api_register c u pw role)) =
      Some \<lparr>rb_username = u, rb_password = pw, rb_role = role\<rparr> \<and>
    decode_login (fc_body (api_login c u pw)) = Some \<lparr>li_username = u, li_password = pw\<rparr> \<and>
    decode_mfa (fc_body (api_verifyMFA c code)) = Some code \<and>
    decode_create_policy (fc_body (api_createPolicy c p)) = Some (server_policy p) \<and>
    decode_access_check (fc_body (api_checkAccess c q)) =
      Some \<lparr>ac_user_id = [], ac_application = aq_application q, ac_device_trusted = aq_device_trusted q,
        ac_mfa_verified = aq_mfa_verified q,
        ac_risk_score = (case aq_risk_score q of None \<Rightarrow> 0 | Some i \<Rightarrow> js_printed i)\<rparr> \<and>
    (\<forall>i. \<bar>i\<bar> < 2 ^ 53 \<longrightarrow> sends_int64 i \<and> js_printed i = i) \<and>
    sends_int64 (2 ^ 62) \<and> js_printed (2 ^ 62) = 4611686018427388000"
proof -
  have "decode_access_check (fc_body (api_checkAccess c q)) =
      Some \<lparr>ac_user_id = [], ac_application = aq_application q, ac_device_trusted = aq_device_trusted q,
        ac_mfa_verified = aq_mfa_verified q,
        ac_risk_score = (case aq_risk_score q of None \<Rightarrow> 0 | Some i \<Rightarrow> js_printed i)\<rparr>"
    using assms(2) by (cases "aq_risk_score q") (simp_all add: decode_access)
  moreover have "sends_int64 (2 ^ 62)" unfolding sends_int64_def js_printed_2_62 by simp
  ultimately show ?thesis
    using decode_createPolicy [OF assms(1)] js_printed_2_62
    by (simp add: api_register_def api_login_def api_verifyMFA_def api_request_def decode_register_def
        set_register_field_def decode_login_def set_login_field_def decode_mfa_def)
qed

definition sample_policy :: ui_policy where
  "sample_policy = \<lparr>up_id = [], up_name = ''Vault'', up_role = ''*'', up_application = ''secrets-vault'',
     up_require_mfa = True, up_require_trusted_device = False, up_max_risk_score = 40,
     up_decision = ALLOW, up_enabled = True\<rparr>"

theorem bodies_roundtrip_witness:
  "decode_create_policy (fc_body (api_createPolicy demo_client sample_policy)) = Some
     \<lparr>p_id = [], p_name = ''Vault'', p_role = ''*'', p_application = ''secrets-vault'',
      p_require_mfa = True, p_require_trusted = False, p_max_risk_score = 40,
      p_decision = DecisionAllow, p_enabled = True\<rparr>"
proof -
  have "sends_int64 (up_max_risk_score sample_policy)"
    by (simp add: sample_policy_def)
  from bodies_roundtrip [OF this, of "\<lparr>aq_application = [], aq_device_trusted = True,
      aq_mfa_verified = True, aq_risk_score = None\<rparr>"]
  show ?thesis by (simp add: sample_policy_def server_policy_def DecisionAllow_def)
qed

end
