(* ===== verification/Replies.thy ===== *)
theory Replies
  imports Api
begin

text \<open>
  Replies of requests in flight. A page that keeps the value of the last reply it saw has the
  interface \<open>last_reply_wins\<close>: \<open>shown\<close> is what the page displays, \<open>value\<close> what a reply brings
  (\<open>None\<close> for a failure). The pages' theories interpret it on their handlers.
\<close>

definition drop_nth :: "nat \<Rightarrow> 'a list \<Rightarrow> 'a list" where
  "drop_nth i xs = take i xs @ drop (Suc i) xs"

lemma drop_nth_0 [simp]: "drop_nth 0 xs = tl xs"
  by (simp add: drop_nth_def drop_Suc)

lemma set_drop_nth_subset: "set (drop_nth i xs) \<subseteq> set xs"
  by (auto simp: drop_nth_def dest: in_set_takeD in_set_dropD)

lemma set_drop_nth: "i < length xs \<Longrightarrow> xs ! i \<noteq> a \<Longrightarrow> a \<in> set xs \<Longrightarrow> a \<in> set (drop_nth i xs)"
proof -
  assume i: "i < length xs" and ne: "xs ! i \<noteq> a" and a: "a \<in> set xs"
  have "set xs = set (take i xs) \<union> {xs ! i} \<union> set (drop (Suc i) xs)"
    using arg_cong [OF id_take_nth_drop [OF i], of set] by simp
  with ne a show ?thesis by (auto simp: drop_nth_def)
qed

lemma drop_nth_work:
  "i < length xs \<Longrightarrow> sum_list (map f xs) = f (xs ! i) + sum_list (map f (drop_nth i xs))" for f :: "'a \<Rightarrow> nat"
  by (subst id_take_nth_drop [of i xs]) (simp_all add: drop_nth_def)

locale last_reply_wins =
  fixes reply :: "'r \<Rightarrow> 's \<Rightarrow> 's"
    and shown :: "'s \<Rightarrow> 'v"
    and value_of :: "'r \<Rightarrow> 'v option"
  assumes reply_shown: "shown (reply r s) = (case value_of r of None \<Rightarrow> shown s | Some v \<Rightarrow> v)"
begin

text \<open>After any sequence of replies the page shows the value of the last one that brought one, or
  what it showed before.\<close>

lemma shown_after:
  "shown (foldl (\<lambda>s r. reply r s) s rs) = last (shown s # List.map_filter value_of rs)"
proof (induction rs arbitrary: s)
  case Nil
  then show ?case by (simp add: List.map_filter_simps)
next
  case (Cons r rs)
  then show ?case
    by (cases "value_of r") (simp_all add: reply_shown List.map_filter_simps)
qed

text \<open>So the order of arrival decides, not the order of the requests.\<close>

lemma late_reply:
  assumes "value_of r1 = Some v"
  shows "shown (reply r1 (reply r2 s)) = v"
  using assms by (simp add: reply_shown)

end

end
