(* ===== verification/AuthProvider.thy ===== *)
theory AuthProvider
  imports Replies
begin

text \<open>
  The session of the client, \<open>frontend/src/hooks/useAuth.tsx\<close>: the provider's state with the API
  client it shares, and its operations. An \<open>async\<close> operation is split at its \<open>await\<close>s into a
  start, which yields the request, and one continuation per reply; a rejected operation is
  \<open>Inl\<close> of what it throws to its caller. \<open>sessions\<close> are the states that any interleaving of
  operations and replies can reach; the replies may arrive in any order.
\<close>

subsection \<open>State and operations\<close>

record auth_state =
  au_user :: "ui_user option"
  au_token :: "string option"
  au_loading :: bool
  au_api :: api_client

text \<open>\<open>useState\<close> initialisers of the provider over a client built from session storage.\<close>

definition auth_init :: "string option \<Rightarrow> auth_state" where
  "auth_init stored =
     (let c = new_ApiClient stored
      in \<lparr>au_user = None, au_token = api_getToken c, au_loading = True, au_api = c\<rparr>)"

definition fetchProfile :: "auth_state \<Rightarrow> auth_state \<times> fetch_call option" where
  "fetchProfile s =
     (if \<not> truthy (api_getToken (au_api s))
      then (s\<lparr>au_user := None, au_loading := False\<rparr>, None)
      else (s, Some (api_getMe (au_api s))))"

definition fetchProfile_reply :: "ui_user fetch_result \<Rightarrow> auth_state \<Rightarrow> auth_state" where
  "fetchProfile_reply res s =
     (case request_result res of
        Inr profile \<Rightarrow> s\<lparr>au_user := profile, au_loading := False\<rparr>
      | Inl _ \<Rightarrow> s\<lparr>au_api := api_setToken None (au_api s), au_token := None, au_user := None,
                  au_loading := False\<rparr>)"

definition login_start :: "string \<Rightarrow> string \<Rightarrow> auth_state \<Rightarrow> fetch_call" where
  "login_start username password s = api_login (au_api s) username password"

definition login_token_reply :: "string fetch_result \<Rightarrow> auth_state \<Rightarrow> thrown + (auth_state \<times> fetch_call)" where
  "login_token_reply res s =
     (case api_login_reply res (au_api s) of
        Inl t \<Rightarrow> Inl t
      | Inr (c, token) \<Rightarrow> Inr (s\<lparr>au_api := c, au_token := Some token\<rparr>, api_getMe c))"

definition login_profile_reply :: "ui_user fetch_result \<Rightarrow> auth_state \<Rightarrow> thrown + auth_state" where
  "login_profile_reply res s =
     (case request_result res of Inl t \<Rightarrow> Inl t | Inr profile \<Rightarrow> Inr (s\<lparr>au_user := profile\<rparr>))"

definition register_start :: "string \<Rightarrow> string \<Rightarrow> string \<Rightarrow> auth_state \<Rightarrow> fetch_call" where
  "register_start username password role s = api_register (au_api s) username password role"

definition register_reply ::
    "string \<Rightarrow> string \<Rightarrow> register_response fetch_result \<Rightarrow> auth_state \<Rightarrow> thrown + fetch_call" where
  "register_reply username password res s =
     (case request_result res of
        Inl t \<Rightarrow> Inl t
      | Inr _ \<Rightarrow> Inr (login_start username password s))"

definition logout :: "auth_state \<Rightarrow> auth_state" where
  "logout s = s\<lparr>au_api := api_setToken None (au_api s), au_token := None, au_user := None\<rparr>"

definition hasRole :: "auth_state \<Rightarrow> ui_role list \<Rightarrow> bool" where
  "hasRole s roles =
     (case au_user s of
        None \<Rightarrow> False
      | Some u \<Rightarrow> if uu_role u = SuperAdmin then True else uu_role u \<in> set roles)"

text \<open>\<open>user?.mfa_enabled\<close> as a condition.\<close>

definition mfa_on :: "auth_state \<Rightarrow> bool" where
  "mfa_on s = (case au_user s of None \<Rightarrow> False | Some u \<Rightarrow> uu_mfa_enabled u)"

definition refreshProfile :: "auth_state \<Rightarrow> auth_state \<times> fetch_call option" where
  "refreshProfile = fetchProfile"

text \<open>The value the provider publishes on each render: its state, and the operations closed over it
  (an asynchronous one up to its first request). \<open>useAuth\<close> reads the nearest provider's value, \<open>None\<close>
  outside of any.\<close>

record auth_context =
  cx_user :: "ui_user option"
  cx_token :: "string option"
  cx_isLoading :: bool
  cx_login :: "string \<Rightarrow> string \<Rightarrow> fetch_call"
  cx_register :: "string \<Rightarrow> string \<Rightarrow> string \<Rightarrow> fetch_call"
  cx_logout :: auth_state
  cx_hasRole :: "ui_role list \<Rightarrow> bool"
  cx_refreshProfile :: "auth_state \<times> fetch_call option"

definition provider_value :: "auth_state \<Rightarrow> auth_context" where
  "provider_value s =
     \<lparr>cx_user = au_user s, cx_token = au_token s, cx_isLoading = au_loading s,
      cx_login = (\<lambda>username password. login_start username password s),
      cx_register = (\<lambda>username password role. register_start username password role s),
      cx_logout = logout s, cx_hasRole = hasRole s, cx_refreshProfile = refreshProfile s\<rparr>"

definition useAuth :: "auth_context option \<Rightarrow> thrown + auth_context" where
  "useAuth context =
     (case context of
        None \<Rightarrow> Inl (ErrorObj ''useAuth must be used within an AuthProvider'')
      | Some c \<Rightarrow> Inr c)"

lemma useAuth_logout:
  "useAuth (Some (provider_value s)) = Inr c \<Longrightarrow>
   useAuth (Some (provider_value (cx_logout c))) = Inr c' \<Longrightarrow>
   cx_user c' = None \<and> cx_token c' = None \<and> \<not> cx_hasRole c' roles \<and> snd (cx_refreshProfile c') = None"
  by (auto simp: useAuth_def provider_value_def logout_def hasRole_def refreshProfile_def fetchProfile_def
      api_setToken_def api_getToken_def truthy_def split: option.splits)

lemmas auth_defs = auth_init_def fetchProfile_def fetchProfile_reply_def login_start_def
  login_token_reply_def login_profile_reply_def register_start_def register_reply_def logout_def
  hasRole_def

lemma role_name_super [simp]: "role_name u = RoleSuperAdmin \<longleftrightarrow> u = SuperAdmin"
  by (cases u) (simp_all add: RoleSuperAdmin_def)

lemma role_name_image [simp]: "role_name u \<in> role_name ` R \<longleftrightarrow> u \<in> R"
  by auto

text \<open>The client's role test is the server's: for a profile whose role is the token's role,
  \<open>hasRole\<close> with a list of roles holds exactly when the server's middleware for the same list
  lets the request through, and when it fails the server answers 403.\<close>

theorem hasRole_server:
  assumes "au_user s = Some u" and "hr_claims r = Some c" and "c_role c = role_name (uu_role u)"
  shows "RequireAnyRole (map role_name roles) next st r =
    (if hasRole s roles then next st r else respond st (writeError 403 ''insufficient permissions''))"
  using assms by (simp add: hasRole_def RequireAnyRole_def Let_def)

definition demo_profile :: ui_user where
  "demo_profile = \<lparr>uu_id = ''uuid-7'', uu_username = ''ann'', uu_role = Admin, uu_organization_id = None,
     uu_status = Active, uu_mfa_enabled = False, uu_created_at = ''2025-01-01T00:00:00Z''\<rparr>"

theorem hasRole_server_witness:
  "RequireAnyRole (map role_name [Developer]) AdminOnly () (demo_request\<lparr>hr_claims := Some demo_claims\<rparr>)
     = respond () (writeError 403 ''insufficient permissions'')"
proof -
  let ?s = "(auth_init None)\<lparr>au_user := Some demo_profile\<rparr>"
  let ?r = "demo_request\<lparr>hr_claims := Some demo_claims\<rparr>"
  have "au_user ?s = Some demo_profile" "hr_claims ?r = Some demo_claims"
    "c_role demo_claims = role_name (uu_role demo_profile)"
    by (simp_all add: demo_profile_def demo_claims_def RoleAdmin_def)
  from hasRole_server [OF this, of "[Developer]" AdminOnly "()"] show ?thesis
    by (simp add: hasRole_def demo_profile_def)
qed

subsection \<open>Interleavings\<close>

text \<open>Requests in flight, with what their continuation needs.\<close>

datatype pending = PProfile | PRegister string string | PToken | PMe

record session =
  ss_auth :: auth_state
  ss_pending :: "pending list"

definition start_profile :: "session \<Rightarrow> session" where
  "start_profile x =
     (case fetchProfile (ss_auth x) of
        (s, None) \<Rightarrow> x\<lparr>ss_auth := s\<rparr>
      | (s, Some _) \<Rightarrow> \<lparr>ss_auth = s, ss_pending = ss_pending x @ [PProfile]\<rparr>)"

text \<open>A reply arrives for one of the requests in flight.\<close>

inductive reply_step :: "session \<Rightarrow> session \<Rightarrow> bool" where
  profile_reply: "i < length (ss_pending x) \<Longrightarrow> ss_pending x ! i = PProfile \<Longrightarrow>
    reply_step x \<lparr>ss_auth = fetchProfile_reply res (ss_auth x),
      ss_pending = drop_nth i (ss_pending x)\<rparr>"
| register_ok: "i < length (ss_pending x) \<Longrightarrow> ss_pending x ! i = PRegister u p \<Longrightarrow>
    register_reply u p res (ss_auth x) = Inr call \<Longrightarrow>
    reply_step x (x\<lparr>ss_pending := drop_nth i (ss_pending x) @ [PToken]\<rparr>)"
| register_fails: "i < length (ss_pending x) \<Longrightarrow> ss_pending x ! i = PRegister u p \<Longrightarrow>
    register_reply u p res (ss_auth x) = Inl t \<Longrightarrow>
    reply_step x (x\<lparr>ss_pending := drop_nth i (ss_pending x)\<rparr>)"
| token_ok: "i < length (ss_pending x) \<Longrightarrow> ss_pending x ! i = PToken \<Longrightarrow>
    login_token_reply res (ss_auth x) = Inr (s, call) \<Longrightarrow>
    reply_step x \<lparr>ss_auth = s, ss_pending = drop_nth i (ss_pending x) @ [PMe]\<rparr>"
| token_fails: "i < length (ss_pending x) \<Longrightarrow> ss_pending x ! i = PToken \<Longrightarrow>
    login_token_reply res (ss_auth x) = Inl t \<Longrightarrow>
    reply_step x (x\<lparr>ss_pending := drop_nth i (ss_pending x)\<rparr>)"
| me_ok: "i < length (ss_pending x) \<Longrightarrow> ss_pending x ! i = PMe \<Longrightarrow>
    login_profile_reply res (ss_auth x) = Inr s \<Longrightarrow>
    reply_step x \<lparr>ss_auth = s, ss_pending = drop_nth i (ss_pending x)\<rparr>"
| me_fails: "i < length (ss_pending x) \<Longrightarrow> ss_pending x ! i = PMe \<Longrightarrow>
    login_profile_reply res (ss_auth x) = Inl t \<Longrightarrow>
    reply_step x (x\<lparr>ss_pending := drop_nth i (ss_pending x)\<rparr>)"

inductive session_step :: "session \<Rightarrow> session \<Rightarrow> bool" where
  refresh: "session_step x (start_profile x)"
| login: "session_step x (x\<lparr>ss_pending := ss_pending x @ [PToken]\<rparr>)"
| register: "session_step x (x\<lparr>ss_pending := ss_pending x @ [PRegister u p]\<rparr>)"
| logout: "session_step x (x\<lparr>ss_auth := logout (ss_auth x)\<rparr>)"
| reply: "reply_step x y \<Longrightarrow> session_step x y"

text \<open>The provider mounts: its effect starts the first profile request.\<close>

definition session_init :: "string option \<Rightarrow> session" where
  "session_init stored = start_profile \<lparr>ss_auth = auth_init stored, ss_pending = []\<rparr>"

inductive session_reachable :: "session \<Rightarrow> bool" where
  mount: "session_reachable (session_init stored)"
| step: "session_reachable x \<Longrightarrow> session_step x y \<Longrightarrow> session_reachable y"

subsection \<open>Invariants of the session\<close>

definition session_ok :: "session \<Rightarrow> bool" where
  "session_ok x \<longleftrightarrow>
     au_token (ss_auth x) = ac_token (au_api (ss_auth x)) \<and>
     (truthy (ac_token (au_api (ss_auth x))) \<longrightarrow>
        ac_session (au_api (ss_auth x)) = ac_token (au_api (ss_auth x))) \<and>
     (\<not> truthy (ac_token (au_api (ss_auth x))) \<longrightarrow> \<not> truthy (ac_session (au_api (ss_auth x)))) \<and>
     (au_loading (ss_auth x) \<longrightarrow> PProfile \<in> set (ss_pending x))"

lemma truthy_None [simp]: "\<not> truthy None"
  by (simp add: truthy_def)

lemma setToken_ok:
  "au_token s = ac_token (au_api s) \<Longrightarrow> ac_token (api_setToken t c) = t \<and>
   ac_session (api_setToken t c) = (if truthy t then t else None)"
  by (simp add: api_setToken_def)

lemma session_ok_profile: "session_ok x \<Longrightarrow> session_ok (start_profile x)"
  by (auto simp: session_ok_def start_profile_def fetchProfile_def api_getToken_def split: prod.splits option.splits if_splits)

lemma session_ok_init: "session_ok (session_init stored)"
  by (auto simp: session_ok_def session_init_def start_profile_def fetchProfile_def auth_init_def
      new_ApiClient_def api_getToken_def Let_def)

lemma session_ok_reply: "reply_step x y \<Longrightarrow> session_ok x \<Longrightarrow> session_ok y"
proof (induction rule: reply_step.induct)
  case (profile_reply i x res)
  then show ?case
    by (auto simp: session_ok_def fetchProfile_reply_def api_setToken_def split: sum.splits)
next
  case (register_ok i x u p res call)
  then show ?case by (auto simp: session_ok_def intro: set_drop_nth)
next
  case (register_fails i x u p res t)
  then show ?case by (auto simp: session_ok_def intro: set_drop_nth)
next
  case (token_ok i x res s call)
  then show ?case
    by (auto simp: session_ok_def login_token_reply_def api_login_reply_def api_setToken_def
        intro: set_drop_nth split: sum.splits)
next
  case (token_fails i x res t)
  then show ?case by (auto simp: session_ok_def intro: set_drop_nth)
next
  case (me_ok i x res s)
  then show ?case
    by (auto simp: session_ok_def login_profile_reply_def intro: set_drop_nth split: sum.splits)
next
  case (me_fails i x res t)
  then show ?case by (auto simp: session_ok_def intro: set_drop_nth)
qed

lemma session_ok_step: "session_step x y \<Longrightarrow> session_ok x \<Longrightarrow> session_ok y"
proof (induction rule: session_step.induct)
  case (refresh x)
  then show ?case by (rule session_ok_profile)
next
  case (logout x)
  then show ?case by (simp add: session_ok_def logout_def api_setToken_def)
next
  case (reply x y)
  then show ?case by (rule session_ok_reply)
qed (auto simp: session_ok_def)

lemma session_reachable_ok: "session_reachable x \<Longrightarrow> session_ok x"
  by (induction rule: session_reachable.induct) (simp_all add: session_ok_init session_ok_step)

text \<open>C5: In every reachable session, whatever the interleaving, the provider's token is the API
  client's, session storage holds that token whenever there is one and nothing else otherwise,
  and the loading screen is shown only while a profile request is in flight, so it always ends
  with that request's reply.\<close>

theorem session_invariant:
  assumes "session_reachable x"
  shows "au_token (ss_auth x) = ac_token (au_api (ss_auth x)) \<and>
    (if truthy (au_token (ss_auth x)) then ac_session (au_api (ss_auth x)) = au_token (ss_auth x)
     else \<not> truthy (ac_session (au_api (ss_auth x)))) \<and>
    (au_loading (ss_auth x) \<longrightarrow> PProfile \<in> set (ss_pending x)) \<and>
    \<not> au_loading (fetchProfile_reply res (ss_auth x))"
  using session_reachable_ok [OF assms]
  by (auto simp: session_ok_def fetchProfile_reply_def split: sum.split)

theorem session_invariant_witness:
  "PProfile \<in> set (ss_pending (session_init (Some ''tok'')))"
  using session_invariant [OF mount, of "Some ''tok''"]
  by (simp add: session_init_def start_profile_def fetchProfile_def auth_init_def new_ApiClient_def
      api_getToken_def truthy_def)

text \<open>The requests an operation still needs: a registration is followed by a login, a token by a
  profile.\<close>

fun pending_work :: "pending \<Rightarrow> nat" where
  "pending_work PProfile = 1"
| "pending_work (PRegister u p) = 3"
| "pending_work PToken = 2"
| "pending_work PMe = 1"

definition session_work :: "session \<Rightarrow> nat" where
  "session_work x = sum_list (map pending_work (ss_pending x))"

lemma reply_step_work: "reply_step x y \<Longrightarrow> session_work y < session_work x"
  by (induction rule: reply_step.induct) (simp_all add: session_work_def drop_nth_work)

lemma reply_step_possible: "ss_pending x \<noteq> [] \<Longrightarrow> \<exists>y. reply_step x y"
proof -
  assume ne: "ss_pending x \<noteq> []"
  then have i: "0 < length (ss_pending x)" by simp
  show ?thesis
  proof (cases "ss_pending x ! 0")
    case PProfile
    show ?thesis by (intro exI, rule profile_reply [OF i PProfile])
  next
    case (PRegister u p)
    show ?thesis
      by (intro exI, rule register_fails [OF i PRegister, of "NetworkError OtherThrown" OtherThrown])
        (simp add: register_reply_def request_result_def)
  next
    case PToken
    show ?thesis
      by (intro exI, rule token_fails [OF i PToken, of "NetworkError OtherThrown" OtherThrown])
        (simp add: login_token_reply_def api_login_reply_def reply_defs)
  next
    case PMe
    show ?thesis
      by (intro exI, rule me_fails [OF i PMe, of "NetworkError OtherThrown" OtherThrown])
        (simp add: login_profile_reply_def request_result_def)
  qed
qed

lemma replies_bounded: "(reply_step ^^ n) x y \<Longrightarrow> n + session_work y \<le> session_work x"
proof (induction n arbitrary: y)
  case (Suc n)
  then obtain z where z: "(reply_step ^^ n) x z" "reply_step z y" by auto
  with Suc.IH [OF z(1)] reply_step_work [OF z(2)] show ?case by simp
qed simp

lemma replies_reachable: "session_reachable x \<Longrightarrow> (reply_step ^^ n) x y \<Longrightarrow> session_reachable y"
  by (induction n arbitrary: y) (auto intro: session_reachable.step session_step.reply)

text \<open>C6: The session settles: from any reachable session, however the replies fall and in whatever
  order they arrive, at most \<open>session_work\<close> of them (three for a registration, two for a login,
  one for a profile) can follow without a new operation of the user, and when none is left to
  come no operation is unfinished and the loading screen is gone.\<close>

theorem session_settles:
  assumes "session_reachable x" and "(reply_step ^^ n) x y"
  shows "n \<le> session_work x \<and>
    ((\<nexists>z. reply_step y z) \<longrightarrow> ss_pending y = [] \<and> \<not> au_loading (ss_auth y))"
proof -
  have ok: "session_ok y" by (rule session_reachable_ok [OF replies_reachable [OF assms]])
  have "ss_pending y = [] \<and> \<not> au_loading (ss_auth y)" if "\<nexists>z. reply_step y z"
  proof -
    have "ss_pending y = []" using reply_step_possible [of y] that by blast
    with ok show ?thesis by (simp add: session_ok_def)
  qed
  then show ?thesis using replies_bounded [OF assms(2)] by simp
qed

lemma session_init_token: "ss_pending (session_init (Some ''tok'')) = [PProfile]"
  by (simp add: session_init_def start_profile_def fetchProfile_def auth_init_def
      new_ApiClient_def api_getToken_def truthy_def)

theorem session_settles_witness:
  "\<exists>y. (reply_step ^^ 1) (session_init (Some ''tok'')) y \<and> ss_pending y = [] \<and> \<not> au_loading (ss_auth y)"
proof -
  let ?x = "session_init (Some ''tok'')"
  let ?y = "\<lparr>ss_auth = fetchProfile_reply (NetworkError OtherThrown) (ss_auth ?x),
    ss_pending = drop_nth 0 (ss_pending ?x)\<rparr>"
  have "reply_step ?x ?y"
    by (rule reply_step.profile_reply) (simp_all add: session_init_token)
  then have run: "(reply_step ^^ 1) ?x ?y" by (auto simp: relcompp_apply)
  have "\<nexists>z. reply_step ?y z"
    by (auto simp: session_init_token drop_nth_def elim: reply_step.cases)
  with session_settles [OF session_reachable.mount run] run show ?thesis by blast
qed

text \<open>Logging out can be undone by a reply: from any stored token and for any profile, the session
  that mounts, logs out and then receives the reply of the mount's profile request shows that
  user as logged in, with no token in the provider, the client or session storage.\<close>

theorem logout_profile_race:
  assumes "truthy stored"
  shows "\<exists>x. session_reachable x \<and> ss_pending x = [] \<and> au_user (ss_auth x) = Some u \<and>
    au_token (ss_auth x) = None \<and> ac_token (au_api (ss_auth x)) = None \<and>
    ac_session (au_api (ss_auth x)) = None \<and> hasRole (ss_auth x) [uu_role u]"
proof -
  let ?x0 = "session_init stored"
  let ?x1 = "?x0\<lparr>ss_auth := logout (ss_auth ?x0)\<rparr>"
  let ?x2 = "\<lparr>ss_auth = fetchProfile_reply (HttpOk (Some u)) (ss_auth ?x1), ss_pending = drop_nth 0 (ss_pending ?x1)\<rparr>"
  have p: "ss_pending ?x0 = [PProfile]"
    using assms by (simp add: session_init_def start_profile_def fetchProfile_def auth_init_def
        new_ApiClient_def api_getToken_def)
  have "session_reachable ?x1"
    by (rule session_reachable.step [OF session_reachable.mount session_step.logout])
  moreover have "session_step ?x1 ?x2"
    by (rule session_step.reply [OF reply_step.profile_reply]) (simp_all add: p)
  ultimately have "session_reachable ?x2" by (rule session_reachable.step)
  then show ?thesis
    by (intro exI [of _ ?x2]) (simp add: p drop_nth_def fetchProfile_reply_def request_result_def logout_def
        api_setToken_def hasRole_def)
qed

theorem logout_profile_race_witness:
  "\<exists>x. session_reachable x \<and> au_user (ss_auth x) = Some demo_profile \<and> au_token (ss_auth x) = None"
proof -
  have "truthy (Some ''tok'')" by (simp add: truthy_def)
  from logout_profile_race [OF this, of demo_profile] show ?thesis by blast
qed

text \<open>The signed-in session used by the witnesses.\<close>

definition session_as :: "ui_role \<Rightarrow> auth_state" where
  "session_as r = (auth_init (Some ''tok''))
     \<lparr>au_loading := False, au_user := Some (demo_profile\<lparr>uu_role := r\<rparr>)\<rparr>"

lemma session_as_simps [simp]:
  "au_loading (session_as r) = False" "au_user (session_as r) = Some (demo_profile\<lparr>uu_role := r\<rparr>)"
  by (simp_all add: session_as_def)

lemma hasRole_session_as [simp]: "hasRole (session_as r) roles \<longleftrightarrow> r = SuperAdmin \<or> r \<in> set roles"
  by (simp add: hasRole_def)

end
