(* ===== verification/Routing.thy ===== *)
theory Routing
  imports AuthProvider Server
begin

text \<open>
  The shell of the client: \<open>components/Sidebar.tsx\<close>, \<open>Navbar.tsx\<close> and \<open>ProtectedRoute.tsx\<close> and
  the route table of \<open>App.tsx\<close>. Views are functions of the session; \<open>out\<close> is the message of
  the sign-out button. Which pattern the router matches to a path is a parameter \<open>matches\<close>.
\<close>

subsection \<open>Sidebar\<close>

record 'm nav_item =
  ni_name :: string
  ni_path :: string
  ni_icon :: "'m node"
  ni_allowedRoles :: "ui_role list option"

definition nav_icon :: "string \<Rightarrow> 'm node" where
  "nav_icon tag = El tag [Attr ''size'' ''16''] []"

definition mainNav :: "'m nav_item list" where
  "mainNav =
    [\<lparr>ni_name = ''Overview'', ni_path = ''/dashboard'', ni_icon = nav_icon ''LayoutDashboard'',
      ni_allowedRoles = None\<rparr>,
     \<lparr>ni_name = ''Applications'', ni_path = ''/applications'', ni_icon = nav_icon ''Grid'',
      ni_allowedRoles = None\<rparr>]"

definition adminNav :: "'m nav_item list" where
  "adminNav =
    [\<lparr>ni_name = ''Users'', ni_path = ''/users'', ni_icon = nav_icon ''Users'',
      ni_allowedRoles = Some [Admin, SuperAdmin]\<rparr>,
     \<lparr>ni_name = ''Roles & Matrix'', ni_path = ''/roles'', ni_icon = nav_icon ''KeyRound'',
      ni_allowedRoles = Some [Admin, SecurityManager, SuperAdmin]\<rparr>,
     \<lparr>ni_name = ''Policy Engine'', ni_path = ''/policies'', ni_icon = nav_icon ''FileCheck'',
      ni_allowedRoles = Some [Admin, SecurityManager, SuperAdmin, Developer, Analyst, Viewer, UserRole]\<rparr>,
     \<lparr>ni_name = ''Audit Logs'', ni_path = ''/audit'', ni_icon = nav_icon ''ScrollText'',
      ni_allowedRoles = Some [Admin, SecurityManager, Analyst, SuperAdmin]\<rparr>,
     \<lparr>ni_name = ''Security & MFA'', ni_path = ''/security'', ni_icon = nav_icon ''Lock'',
      ni_allowedRoles = None\<rparr>]"

definition settingsNav :: "'m nav_item list" where
  "settingsNav =
    [\<lparr>ni_name = ''Settings'', ni_path = ''/settings'', ni_icon = nav_icon ''Settings'',
      ni_allowedRoles = None\<rparr>]"

definition isAllowed :: "auth_state \<Rightarrow> 'm nav_item \<Rightarrow> bool" where
  "isAllowed s item =
     (case ni_allowedRoles item of None \<Rightarrow> True | Some roles \<Rightarrow> hasRole s roles)"

definition roleColors :: "(string \<times> string) list" where
  "roleColors = [(''admin'', ''#7c5ef6''), (''super_admin'', ''#ff3b5b''),
     (''security_manager'', ''#f5a623''), (''developer'', ''#1d6ff0''), (''analyst'', ''#00c2e0''),
     (''viewer'', ''#00d68f''), (''user'', ''#8ba3c4'')]"

definition roleColor :: "auth_state \<Rightarrow> string" where
  "roleColor s =
     (case au_user s of
        None \<Rightarrow> ''#8ba3c4''
      | Some u \<Rightarrow> (case map_of roleColors (role_name (uu_role u)) of
                     None \<Rightarrow> ''#8ba3c4'' | Some c \<Rightarrow> c))"

text \<open>\<open>replace\<close> with a string pattern of one character: its first occurrence only.\<close>

fun replace_first :: "char \<Rightarrow> char \<Rightarrow> string \<Rightarrow> string" where
  "replace_first a b [] = []"
| "replace_first a b (c # cs) = (if c = a then b # cs else c # replace_first a b cs)"

definition Sidebar_footer :: "auth_state \<Rightarrow> ui_user \<Rightarrow> 'm \<Rightarrow> 'm node" where
  "Sidebar_footer s u out =
    El ''div'' [Attr ''className'' ''sidebar-footer''] [
      El ''div'' [Attr ''className'' ''user-snippet''] [
        El ''div'' [
          Attr ''className'' ''user-avatar'',
          Style [(''borderColor'', (roleColor s @ ''40'')), (''color'', roleColor s)]] [
          Txt (to_upper (take 1 (uu_username u)))],
        El ''div'' [Attr ''className'' ''user-meta''] [
          El ''div'' [Attr ''className'' ''user-name''] [Txt (uu_username u)],
          El ''div'' [Attr ''className'' ''user-role-badge'', Style [(''color'', roleColor s)]] [
            Txt (replace_first CHR ''_'' CHR '' '' (role_name (uu_role u)))]],
        El ''button'' [
          Attr ''id'' ''sidebar-logout-btn'',
          OnClick out,
          Attr ''title'' ''Sign Out'',
          Attr ''className'' ''btn btn-ghost'',
          Style [
            (''padding'', ''6px''),
            (''borderRadius'', ''var(--radius-sm)''),
            (''flexShrink'', ''0'')]] [El ''LogOut'' [Attr ''size'' ''15''] []]]]"

definition nav_item_view :: "'m nav_item \<Rightarrow> 'm node" where
  "nav_item_view item =
    El ''li'' [] [
      El ''NavLink'' [
        Attr ''to'' (ni_path item),
        ClassOf (\<lambda>isActive. ''nav-item '' @ (if isActive then ''active'' else []))] [
        ni_icon item,
        El ''span'' [Style [(''flex'', ''1'')]] [Txt (ni_name item)],
        El ''ChevronRight'' [Attr ''size'' ''12'', Style [(''opacity'', ''0.3'')]] []]]"

definition Sidebar :: "auth_state \<Rightarrow> 'm \<Rightarrow> 'm node" where
  "Sidebar s out =
    El ''aside'' [Attr ''className'' ''sidebar''] ([
        El ''div'' [Attr ''className'' ''sidebar-header''] [
          El ''div'' [Attr ''className'' ''brand-logo''] [El ''Shield'' [Attr ''size'' ''20''] []],
          El ''div'' [] [
            El ''div'' [Attr ''className'' ''brand-name''] [Txt ''NEXUS''],
            El ''div'' [Attr ''className'' ''brand-badge''] [Txt ''Cloud IAM'']]],
        El ''nav'' [Style [(''flex'', ''1''), (''overflowY'', ''auto''), (''padding'', ''8px 0'')]] [
          El ''div'' [Attr ''className'' ''nav-section-title''] [Txt ''Navigation''],
          El ''ul'' [Attr ''className'' ''nav-links'', Style [(''marginBottom'', ''0'')]]
            (map (\<lambda>item. nav_item_view item) (filter (isAllowed s) mainNav)),
          El ''div'' [Attr ''className'' ''nav-section-title'', Style [(''marginTop'', ''8px'')]] [
            Txt ''Governance & Access''],
          El ''ul'' [Attr ''className'' ''nav-links'', Style [(''marginBottom'', ''0'')]]
            (map (\<lambda>item. nav_item_view item) (filter (isAllowed s) adminNav)),
          El ''div'' [Attr ''className'' ''nav-section-title'', Style [(''marginTop'', ''8px'')]] [
            Txt ''System''],
          El ''ul'' [Attr ''className'' ''nav-links''] (map (\<lambda>item. nav_item_view item)
              (filter (isAllowed s) settingsNav))]]
        @ (case au_user s of Some u \<Rightarrow> [Sidebar_footer s u out] | None \<Rightarrow> []))"

subsection \<open>Navbar\<close>

definition getPageTitle :: "string \<Rightarrow> string" where
  "getPageTitle path =
     (if path = ''/dashboard'' then ''Security Operations Center''
      else if path = ''/users'' then ''Identity & User Management''
      else if path = ''/roles'' then ''RBAC Permissions Matrix''
      else if path = ''/applications'' then ''Application Resource Catalog''
      else if path = ''/policies'' then ''Policy-Based Access Control (PBAC)''
      else if path = ''/audit'' then ''Security Audit Trail''
      else if path = ''/security'' then ''Multi-Factor Authentication & Controls''
      else if path = ''/settings'' then ''Session & Profile Settings''
      else ''NEXUS Security Platform'')"

text \<open>The continuation of \<open>checkBackend\<close>: what \<open>healthStatus\<close> becomes when the health request
  rejects or yields a JSON value. A value other than null without status \<open>ok\<close> changes nothing.\<close>

definition checkBackend_reply :: "thrown + json \<Rightarrow> string \<Rightarrow> string" where
  "checkBackend_reply res healthStatus =
     (case res of
        Inl _ \<Rightarrow> ''DEGRADED''
      | Inr JNull \<Rightarrow> ''DEGRADED''
      | Inr d \<Rightarrow> if js_member (Some d) ''status'' = Some (JStr ''ok'') then ''ONLINE'' else healthStatus)"

definition Navbar :: "string \<Rightarrow> string \<Rightarrow> 'm node" where
  "Navbar path healthStatus =
    El ''header'' [Attr ''className'' ''top-navbar''] [
      El ''div'' [Attr ''className'' ''nav-breadcrumbs''] [
        El ''ShieldCheck'' [Attr ''size'' ''18'', Attr ''color'' ''#3b82f6''] [],
        El ''span'' [Style [(''color'', ''var(--text-muted)'')]] [Txt ''/''],
        El ''span'' [Style [(''fontWeight'', ''600''), (''color'', ''var(--text-primary)'')]] [
          Txt (getPageTitle path)]],
      El ''div'' [Style [(''display'', ''flex''), (''alignItems'', ''center''), (''gap'', ''16px'')]] [
        El ''div'' [
          Attr ''className'' ''badge badge-purple'',
          Attr ''title'' ''Cryptographic Key Provider''] [
          El ''Key'' [Attr ''size'' ''12''] [],
          El ''span'' [] [Txt ''AWS Secrets Manager (Fallback: Env)'']],
        El ''div'' [
          Attr ''className'' (''badge '' @ (if healthStatus = ''ONLINE'' then ''badge-green''
                else ''badge-amber'')),
          Attr ''title'' ''Backend Cluster Health''] [
          El ''Activity'' [Attr ''size'' ''12''] [],
          El ''span'' [] [Txt ''API: '', Txt healthStatus]]]]"

subsection \<open>Protected routes\<close>

definition loading_view :: "'m node" where
  "loading_view =
    El ''div'' [Attr ''className'' ''auth-wrapper''] [
      El ''div'' [Style [(''textAlign'', ''center'')]] [
        El ''div'' [
          Style [
            (''width'', ''40px''),
            (''height'', ''40px''),
            (''border'', ''3px solid rgba(59, 130, 246, 0.2)''),
            (''borderTopColor'', ''#3b82f6''),
            (''borderRadius'', ''50%''),
            (''animation'', ''spin 1s linear infinite''),
            (''margin'', ''0 auto 16px'')]] [],
        El ''style'' [] [Txt ''@keyframes spin { 100% { transform: rotate(360deg); } }''],
        El ''div'' [Style [(''color'', ''var(--text-secondary)''), (''fontSize'', ''14px'')]] [
          Txt ''Verifying cryptographic token...'']]]"

definition forbidden_view :: "auth_state \<Rightarrow> ui_user \<Rightarrow> string \<Rightarrow> string \<Rightarrow> 'm \<Rightarrow> 'm node" where
  "forbidden_view s u path healthStatus out =
    El ''div'' [Attr ''className'' ''app-container''] [
      Sidebar s out,
      El ''div'' [Attr ''className'' ''main-wrapper''] [
        Navbar path healthStatus,
        El ''main'' [Attr ''className'' ''page-content''] [
          El ''div'' [
            Attr ''className'' ''card'',
            Style [(''maxWidth'', ''600px''), (''margin'', ''40px auto''), (''textAlign'', ''center'')]] [
            El ''div'' [Style [(''fontSize'', ''48px''), (''marginBottom'', ''16px'')]] [
              Txt ([CHR 0xF0, CHR 0x9F, CHR 0x9B, CHR 0xA1] @ [CHR 0xEF, CHR 0xB8, CHR 0x8F])],
            El ''h2'' [Style [(''fontSize'', ''20px''), (''marginBottom'', ''8px'')]] [
              Txt (''403 '' @ em_dash @ '' Access Forbidden'')],
            El ''p'' [Style [(''color'', ''var(--text-secondary)''), (''marginBottom'', ''20px'')]] [
              Txt ''Your current role ('',
              El ''span'' [Attr ''className'' ''code-inline''] [Txt (role_name (uu_role u))],
              Txt '') does not hold the permissions required to view this area.''],
            El ''a'' [Attr ''href'' ''/dashboard'', Attr ''className'' ''btn btn-primary''] [
              Txt ''Return to Overview'']]]]]"

definition page_frame :: "auth_state \<Rightarrow> string \<Rightarrow> string \<Rightarrow> 'm \<Rightarrow> 'm node \<Rightarrow> 'm node" where
  "page_frame s path healthStatus out outlet =
    El ''div'' [Attr ''className'' ''app-container''] [
      Sidebar s out,
      El ''div'' [Attr ''className'' ''main-wrapper''] [
        Navbar path healthStatus,
        El ''main'' [Attr ''className'' ''page-content''] [outlet]]]"

definition navigate_to :: "string \<Rightarrow> 'm node" where
  "navigate_to path = El ''Navigate'' [Attr ''to'' path, Flag ''replace'' True] []"

definition ProtectedRoute ::
    "ui_role list option \<Rightarrow> auth_state \<Rightarrow> string \<Rightarrow> string \<Rightarrow> 'm \<Rightarrow> 'm node \<Rightarrow> 'm node" where
  "ProtectedRoute allowedRoles s path healthStatus out outlet =
     (if au_loading s then loading_view
      else case au_user s of
        None \<Rightarrow> navigate_to ''/login''
      | Some u \<Rightarrow>
          (case allowedRoles of
             Some roles \<Rightarrow>
               if \<not> hasRole s roles then forbidden_view s u path healthStatus out
               else page_frame s path healthStatus out outlet
           | None \<Rightarrow> page_frame s path healthStatus out outlet))"

subsection \<open>Routes\<close>

datatype page = LoginP | RegisterP | DashboardP | ApplicationsP | PoliciesP | SecurityP | SettingsP
  | UsersP | RolesP | AuditP

datatype guard = PublicRoute | Guarded "ui_role list option"

definition app_routes :: "(string \<times> guard \<times> page) list" where
  "app_routes =
    [(''/login'', PublicRoute, LoginP),
     (''/register'', PublicRoute, RegisterP),
     (''/dashboard'', Guarded None, DashboardP),
     (''/applications'', Guarded None, ApplicationsP),
     (''/policies'', Guarded None, PoliciesP),
     (''/security'', Guarded None, SecurityP),
     (''/settings'', Guarded None, SettingsP),
     (''/users'', Guarded (Some [Admin, SuperAdmin]), UsersP),
     (''/roles'', Guarded (Some [Admin, SecurityManager, SuperAdmin]), RolesP),
     (''/audit'', Guarded (Some [Admin, SecurityManager, Analyst, SuperAdmin]), AuditP)]"

definition App ::
    "(string \<Rightarrow> string \<Rightarrow> bool) \<Rightarrow> (page \<Rightarrow> 'm node) \<Rightarrow> auth_state \<Rightarrow> string \<Rightarrow> string \<Rightarrow> 'm \<Rightarrow> 'm node" where
  "App matches page_view s path healthStatus out =
     (case find (\<lambda>(p, g, pg). matches p path) app_routes of
        None \<Rightarrow> navigate_to ''/dashboard''
      | Some (p, PublicRoute, pg) \<Rightarrow> page_view pg
      | Some (p, Guarded allowed, pg) \<Rightarrow> ProtectedRoute allowed s path healthStatus out (page_view pg))"

text \<open>Static patterns: each of the application's paths matches its own pattern only.\<close>

definition static_router :: "(string \<Rightarrow> string \<Rightarrow> bool) \<Rightarrow> bool" where
  "static_router matches \<longleftrightarrow>
     (\<forall>p \<in> fst ` set app_routes. \<forall>q \<in> fst ` set app_routes. matches p q \<longleftrightarrow> p = q)"

subsection \<open>Guards\<close>

text \<open>Whether a guard lets the session through.\<close>

definition passes :: "auth_state \<Rightarrow> ui_role list option \<Rightarrow> bool" where
  "passes s allowed \<longleftrightarrow> \<not> au_loading s \<and> au_user s \<noteq> None \<and>
     (case allowed of None \<Rightarrow> True | Some roles \<Rightarrow> hasRole s roles)"

lemma ProtectedRoute_passes:
  "passes s allowed \<Longrightarrow> ProtectedRoute allowed s path healthStatus out x = page_frame s path healthStatus out x"
  by (auto simp: passes_def ProtectedRoute_def split: option.splits)

lemma ProtectedRoute_blocks:
  "\<not> passes s allowed \<Longrightarrow> ProtectedRoute allowed s path healthStatus out x = ProtectedRoute allowed s path healthStatus out y"
  by (auto simp: passes_def ProtectedRoute_def split: option.splits)

text \<open>C14: A guarded page is rendered exactly when the session is loaded, a user is signed in and the
  guard's roles, if it names any, include the user's (or the user is super admin); then the page
  appears inside the frame, and otherwise nothing of the page reaches the screen: the view is
  the same whatever the page would render.\<close>

theorem guarded_page_shown_iff:
  "ProtectedRoute allowed s path healthStatus out x =
     (if passes s allowed then page_frame s path healthStatus out x
      else ProtectedRoute allowed s path healthStatus out y) \<and>
   (passes s allowed \<longleftrightarrow> \<not> au_loading s \<and>
      (\<exists>u. au_user s = Some u \<and>
         (allowed = None \<or> uu_role u = SuperAdmin \<or> uu_role u \<in> set (the allowed))))"
proof
  show "ProtectedRoute allowed s path healthStatus out x =
     (if passes s allowed then page_frame s path healthStatus out x
      else ProtectedRoute allowed s path healthStatus out y)"
    by (cases "passes s allowed") (simp_all add: ProtectedRoute_passes ProtectedRoute_blocks [of s allowed _ _ _ x y])
  show "passes s allowed \<longleftrightarrow> \<not> au_loading s \<and>
      (\<exists>u. au_user s = Some u \<and>
         (allowed = None \<or> uu_role u = SuperAdmin \<or> uu_role u \<in> set (the allowed)))"
    by (auto simp: passes_def hasRole_def split: option.splits)
qed

subsection \<open>The sidebar and the routes\<close>

lemma find_route:
  assumes "static_router matches" and "distinct (map fst rs)" and "set rs \<subseteq> set app_routes"
    and "(p, g, pg) \<in> set rs"
  shows "find (\<lambda>(q, _, _). matches q p) rs = Some (p, g, pg)"
  using assms(2-4)
proof (induction rs)
  case (Cons r rs)
  obtain q h ph where r: "r = (q, h, ph)" by (cases r)
  have "p \<in> fst ` set app_routes" "q \<in> fst ` set app_routes"
    using Cons.prems r by (force)+
  with assms(1) have m: "matches q p \<longleftrightarrow> q = p" unfolding static_router_def by blast
  show ?case
  proof (cases "q = p")
    case True
    with Cons.prems r have "(p, g, pg) = r" by (force)
    with m True r show ?thesis by simp
  next
    case False
    with Cons.prems r have "(p, g, pg) \<in> set rs" by auto
    with Cons m False r show ?thesis by simp
  qed
qed simp

lemma App_route:
  assumes "static_router matches" and "(p, g, pg) \<in> set app_routes"
  shows "App matches page_view s p healthStatus out =
    (case g of PublicRoute \<Rightarrow> page_view pg
     | Guarded allowed \<Rightarrow> ProtectedRoute allowed s p healthStatus out (page_view pg))"
proof -
  have "distinct (map fst app_routes)" by (simp add: app_routes_def)
  from find_route [OF assms(1) this subset_refl assms(2)] show ?thesis
    by (simp add: App_def split: guard.split)
qed

definition sidebar_items :: "auth_state \<Rightarrow> 'm nav_item list" where
  "sidebar_items s = filter (isAllowed s) (mainNav @ adminNav @ settingsNav)"

lemma link_targets_item:
  "concat (map (\<lambda>(as, ks). attr_value ''to'' as) (elements ''NavLink'' (nav_item_view item)))
   = ni_path item # concat (map (\<lambda>(as, ks). attr_value ''to'' as) (elements ''NavLink'' (ni_icon item)))"
  by (simp add: nav_item_view_def)

lemma icons_no_links: "item \<in> set (mainNav @ adminNav @ settingsNav) \<Longrightarrow> elements ''NavLink'' (ni_icon item) = []"
  by (auto simp: mainNav_def adminNav_def settingsNav_def nav_icon_def)

lemma items_links:
  assumes "set xs \<subseteq> set (mainNav @ adminNav @ settingsNav)"
  shows "concat (map (\<lambda>(as, ks). attr_value ''to'' as) (elements_all ''NavLink'' (map nav_item_view xs)))
    = map ni_path xs"
  using assms
proof (induction xs)
  case (Cons x xs)
  then show ?case using icons_no_links [of x] by (simp add: link_targets_item)
qed simp

lemma footer_no_links: "elements ''NavLink'' (Sidebar_footer s u out) = []"
  by (simp add: Sidebar_footer_def)

lemma sidebar_links:
  fixes out :: 'm
  shows "link_targets ''NavLink'' (Sidebar s out) = map ni_path (sidebar_items s :: 'm nav_item list)"
proof -
  have foot: "elements_all ''NavLink'' (case au_user s of Some u \<Rightarrow> [Sidebar_footer s u out] | None \<Rightarrow> []) = []"
    by (simp add: footer_no_links split: option.split)
  have "concat (map (\<lambda>(as, ks). attr_value ''to'' as)
      (elements_all ''NavLink'' (map nav_item_view (filter (isAllowed s) xs)))) = map ni_path (filter (isAllowed s) xs)"
    if "set xs \<subseteq> set (mainNav @ adminNav @ settingsNav)" for xs :: "'m nav_item list"
    using that by (intro items_links) auto
  from this [of mainNav] this [of adminNav] this [of settingsNav]
  have links: "concat (map (\<lambda>(as, ks). attr_value ''to'' as)
      (elements_all ''NavLink'' (map nav_item_view (filter (isAllowed s) (xs :: 'm nav_item list)))))
      = map ni_path (filter (isAllowed s) xs)" if "xs = mainNav \<or> xs = adminNav \<or> xs = settingsNav" for xs
    using that by auto
  show ?thesis
    by (simp add: link_targets_def Sidebar_def sidebar_items_def links foot)
qed

lemma route_exists:
  "(\<exists>allowed pg. (p, Guarded allowed, pg) \<in> set rs \<and> Q allowed) \<longleftrightarrow>
   list_ex (\<lambda>(q, g, _). case g of PublicRoute \<Rightarrow> False | Guarded allowed \<Rightarrow> q = p \<and> Q allowed) rs"
  by (force simp: list_ex_iff split: guard.splits)

lemma image_filter: "p \<in> f ` {x \<in> A. P x} \<longleftrightarrow> (\<exists>x \<in> A. P x \<and> p = f x)"
  by blast

text \<open>C15: The sidebar offers exactly what the user may open: for a signed-in user with a router that
  matches the static paths, a path is a link of the sidebar if and only if it is one of the
  application's guarded routes and its guard lets the user through, so no link leads to the
  forbidden page and no allowed page lacks a link.\<close>

theorem sidebar_matches_guards:
  fixes out :: 'a
  assumes "au_user s = Some u" and "\<not> au_loading s"
  shows "p \<in> set (link_targets ''NavLink'' (Sidebar s out)) \<longleftrightarrow>
    (\<exists>allowed pg. (p, Guarded allowed, pg) \<in> set app_routes \<and> passes s allowed)"
proof -
  have all: "hasRole s [Admin, SecurityManager, SuperAdmin, Developer, Analyst, Viewer, UserRole]"
    using assms(1) by (cases "uu_role u") (simp_all add: hasRole_def)
  have shown: "p \<in> set (link_targets ''NavLink'' (Sidebar s out)) \<longleftrightarrow>
      (\<exists>item \<in> set (mainNav @ adminNav @ settingsNav :: 'a nav_item list). isAllowed s item \<and> p = ni_path item)"
    unfolding sidebar_links sidebar_items_def set_map set_filter image_filter by (rule refl)
  have "p \<in> set (link_targets ''NavLink'' (Sidebar s out)) \<longleftrightarrow>
      p = ''/dashboard'' \<or> p = ''/applications'' \<or> p = ''/users'' \<and> hasRole s [Admin, SuperAdmin] \<or>
      p = ''/roles'' \<and> hasRole s [Admin, SecurityManager, SuperAdmin] \<or> p = ''/policies'' \<or>
      p = ''/audit'' \<and> hasRole s [Admin, SecurityManager, Analyst, SuperAdmin] \<or>
      p = ''/security'' \<or> p = ''/settings''"
    unfolding shown mainNav_def adminNav_def settingsNav_def
    by (simp add: isAllowed_def all conj_commute)
  also have "\<dots> \<longleftrightarrow> (\<exists>allowed pg. (p, Guarded allowed, pg) \<in> set app_routes \<and> passes s allowed)"
    unfolding route_exists by (simp add: app_routes_def passes_def assms eq_commute [of _ p] disj_ac)
  finally show ?thesis .
qed

theorem sidebar_matches_guards_witness:
  "''/users'' \<notin> set (link_targets ''NavLink'' (Sidebar (session_as Developer) ())) \<and>
   ''/dashboard'' \<in> set (link_targets ''NavLink'' (Sidebar (session_as Developer) ()))"
proof -
  have "au_user (session_as Developer) = Some (demo_profile\<lparr>uu_role := Developer\<rparr>)"
    "\<not> au_loading (session_as Developer)" by simp_all
  note iff = sidebar_matches_guards [OF this, of _ "()"]
  have "(''/dashboard'', Guarded None, DashboardP) \<in> set app_routes" "passes (session_as Developer) None"
    by (simp_all add: app_routes_def passes_def)
  moreover have "\<not> passes (session_as Developer) allowed"
    if "(''/users'', Guarded allowed, pg) \<in> set app_routes" for allowed pg
    using that by (auto simp: app_routes_def passes_def)
  ultimately show ?thesis using iff by blast
qed

subsection \<open>Page guards and the server's gates\<close>

lemma app_route_users: "(''/users'', Guarded a, pg) \<in> set app_routes \<longleftrightarrow> a = Some [Admin, SuperAdmin] \<and> pg = UsersP"
  by (simp add: app_routes_def)

lemma app_route_audit: "(''/audit'', Guarded a, pg) \<in> set app_routes \<longleftrightarrow>
    a = Some [Admin, SecurityManager, Analyst, SuperAdmin] \<and> pg = AuditP"
  by (simp add: app_routes_def)

text \<open>Page guards against the server's route table: the user directory's guard lets a role in
  exactly when the server's gate on the user list contains that role, whereas the audit trail's
  guard also lets analysts in, and analysts are exactly the roles for which the page opens and
  the server's audit route refuses the request with 403.\<close>

theorem page_guards_vs_server:
  "(''/users'', Guarded (Some [Admin, SuperAdmin]), UsersP) \<in> set app_routes \<and>
   (passes (session_as r) (Some [Admin, SuperAdmin]) \<longleftrightarrow> role_name r \<in> {RoleAdmin, RoleSuperAdmin}) \<and>
   (''/audit'', Guarded (Some [Admin, SecurityManager, Analyst, SuperAdmin]), AuditP) \<in> set app_routes \<and>
   (passes (session_as r) (Some [Admin, SecurityManager, Analyst, SuperAdmin]) \<and>
      RequireAnyRole [RoleAdmin, RoleSecurityManager] audit_list s
        (q\<lparr>hr_claims := Some (demo_claims\<lparr>c_role := role_name r\<rparr>)\<rparr>)
      = respond s (writeError 403 ''insufficient permissions'')
    \<longleftrightarrow> r = Analyst)"
proof -
  have "RequireAnyRole [RoleAdmin, RoleSecurityManager] audit_list s
        (q\<lparr>hr_claims := Some (demo_claims\<lparr>c_role := role_name r\<rparr>)\<rparr>)
      = respond s (writeError 403 ''insufficient permissions'')"
    if "r \<notin> {SuperAdmin, Admin, SecurityManager}"
    using that by (cases r) (simp_all add: RequireAnyRole_def Let_def role_defs)
  moreover have "RequireAnyRole [RoleAdmin, RoleSecurityManager] audit_list s
        (q\<lparr>hr_claims := Some (demo_claims\<lparr>c_role := role_name r\<rparr>)\<rparr>)
      \<noteq> respond s (writeError 403 ''insufficient permissions'')"
    if "r \<in> {SuperAdmin, Admin, SecurityManager}"
    using that by (auto simp: RequireAnyRole_def Let_def role_defs audit_list_def respond_def
        writeError_def writeJSON_def split: sum.split) (cases "List_handler (sv_log s) (hr_query q)"; simp)+
  ultimately show ?thesis
    by (cases r) (simp_all add: app_route_users app_route_audit passes_def role_defs)
qed

end
