(* ===== verification/LoginPage.thy ===== *)
theory LoginPage
  imports AuthProvider
begin

text \<open>
  \<open>frontend/src/pages/LoginPage.tsx\<close>: the form's state and handlers, its view, and a whole
  login through the session of \<open>AuthProvider\<close>.
\<close>

subsection \<open>State and handlers\<close>

definition FEATURES :: "(string \<times> string) list" where
  "FEATURES =
    [(''Zero-Trust policy engine with contextual PBAC'', []),
     (''RFC 6238 TOTP multi-factor authentication'', ''green''),
     (''AWS Secrets Manager key vault integration'', ''cyan''),
     (''Bcrypt-hashed credentials (cost 12)'', ''amber'')]"

record demo_account =
  da_label :: string
  da_username :: string
  da_password :: string
  da_color :: string

definition DEMO_ACCOUNTS :: "demo_account list" where
  "DEMO_ACCOUNTS =
    [\<lparr>da_label = ''Admin'', da_username = ''admin'', da_password = ''AdminPassword123!'',
      da_color = ''#7c5ef6''\<rparr>,
     \<lparr>da_label = ''Developer'', da_username = ''developer'', da_password = ''DevPassword123!'',
      da_color = ''#1d6ff0''\<rparr>,
     \<lparr>da_label = ''Sec Manager'', da_username = ''secmgr'', da_password = ''SecPassword123!'',
      da_color = ''#ff3b5b''\<rparr>,
     \<lparr>da_label = ''Viewer'', da_username = ''viewer'', da_password = ''ViewerPassword123!'',
      da_color = ''#00d68f''\<rparr>]"

record login_page =
  lp_username :: string
  lp_password :: string
  lp_error :: "string option"
  lp_submitting :: bool

definition login_page_init :: login_page where
  "login_page_init = \<lparr>lp_username = [], lp_password = [], lp_error = None, lp_submitting = False\<rparr>"

datatype login_msg = LoginUsername string | LoginPassword string | LoginSubmit | QuickLogin string string

text \<open>\<open>handleSubmit\<close> up to its \<open>await\<close>: the page, and the arguments of \<open>login\<close>.\<close>

definition login_handleSubmit :: "login_page \<Rightarrow> login_page \<times> (string \<times> string)" where
  "login_handleSubmit s = (s\<lparr>lp_error := None, lp_submitting := True\<rparr>, (lp_username s, lp_password s))"

text \<open>After \<open>login\<close> settles: the page, and where it navigates.\<close>

definition login_settled :: "thrown + unit \<Rightarrow> login_page \<Rightarrow> login_page \<times> string option" where
  "login_settled res s =
     (case res of
        Inr _ \<Rightarrow> (s\<lparr>lp_submitting := False\<rparr>, Some ''/dashboard'')
      | Inl t \<Rightarrow>
          (s\<lparr>lp_error := Some (error_message ''Authentication failed. Please try again.'' t),
             lp_submitting := False\<rparr>, None))"

definition handleQuickLogin :: "string \<Rightarrow> string \<Rightarrow> login_page \<Rightarrow> login_page" where
  "handleQuickLogin u p s = s\<lparr>lp_username := u, lp_password := p\<rparr>"

fun login_update :: "login_msg \<Rightarrow> login_page \<Rightarrow> login_page \<times> (string \<times> string) option" where
  "login_update (LoginUsername v) s = (s\<lparr>lp_username := v\<rparr>, None)"
| "login_update (LoginPassword v) s = (s\<lparr>lp_password := v\<rparr>, None)"
| "login_update LoginSubmit s = (case login_handleSubmit s of (s', c) \<Rightarrow> (s', Some c))"
| "login_update (QuickLogin u p) s = (handleQuickLogin u p s, None)"

subsection \<open>View\<close>

definition login_topology :: "login_msg node" where
  "login_topology =
    El ''svg'' [
      Attr ''className'' ''auth-topology'',
      Attr ''width'' ''320'',
      Attr ''height'' ''400'',
      Attr ''viewBox'' ''0 0 320 400'',
      Attr ''fill'' ''none'',
      Attr ''xmlns'' ''http://www.w3.org/2000/svg'',
      Style [
        (''position'', ''absolute''),
        (''right'', ''0''),
        (''bottom'', ''0''),
        (''opacity'', ''0.12'')]] [
      El ''circle'' [
        Attr ''cx'' ''160'',
        Attr ''cy'' ''200'',
        Attr ''r'' ''100'',
        Attr ''stroke'' ''#1d6ff0'',
        Attr ''strokeWidth'' ''1''] [],
      El ''circle'' [
        Attr ''cx'' ''160'',
        Attr ''cy'' ''200'',
        Attr ''r'' ''60'',
        Attr ''stroke'' ''#00c2e0'',
        Attr ''strokeWidth'' ''0.5''] [],
      El ''circle'' [
        Attr ''cx'' ''160'',
        Attr ''cy'' ''200'',
        Attr ''r'' ''20'',
        Attr ''fill'' ''#1d6ff0'',
        Attr ''opacity'' ''0.5''] [],
      El ''line'' [
        Attr ''x1'' ''160'',
        Attr ''y1'' ''100'',
        Attr ''x2'' ''80'',
        Attr ''y2'' ''300'',
        Attr ''stroke'' ''#1d6ff0'',
        Attr ''strokeWidth'' ''0.5''] [],
      El ''line'' [
        Attr ''x1'' ''160'',
        Attr ''y1'' ''100'',
        Attr ''x2'' ''240'',
        Attr ''y2'' ''300'',
        Attr ''stroke'' ''#00c2e0'',
        Attr ''strokeWidth'' ''0.5''] [],
      El ''line'' [
        Attr ''x1'' ''80'',
        Attr ''y1'' ''300'',
        Attr ''x2'' ''240'',
        Attr ''y2'' ''300'',
        Attr ''stroke'' ''#7c5ef6'',
        Attr ''strokeWidth'' ''0.5''] [],
      El ''circle'' [
        Attr ''cx'' ''160'',
        Attr ''cy'' ''100'',
        Attr ''r'' ''8'',
        Attr ''fill'' ''#1d6ff0''] [],
      El ''circle'' [Attr ''cx'' ''80'', Attr ''cy'' ''300'', Attr ''r'' ''8'', Attr ''fill'' ''#00c2e0'']
        [],
      El ''circle'' [
        Attr ''cx'' ''240'',
        Attr ''cy'' ''300'',
        Attr ''r'' ''8'',
        Attr ''fill'' ''#7c5ef6''] []]"

definition login_left_panel :: "login_msg node" where
  "login_left_panel =
    El ''div'' [Attr ''className'' ''auth-panel-left''] [
      El ''div'' [Attr ''className'' ''auth-left-content''] [
        El ''div'' [Attr ''className'' ''auth-brand''] [
          El ''div'' [Attr ''className'' ''auth-brand-icon''] [El ''Shield'' [Attr ''size'' ''22''] []],
          El ''span'' [Attr ''className'' ''auth-brand-text''] [Txt ''NEXUS'']],
        El ''h1'' [Attr ''className'' ''auth-headline''] [
          Txt ''Cloud Identity'',
          El ''br'' [] [],
          El ''span'' [] [Txt ''& Access''],
          El ''br'' [] [],
          Txt ''Governance''],
        El ''p'' [Attr ''className'' ''auth-description''] [
          Txt
            ''A production-grade Zero-Trust IAM platform with role-based access control, contextual policy evaluation, MFA, and live AWS Secrets Manager integration.''],
        El ''ul'' [Attr ''className'' ''auth-features''] (map (\<lambda>f. El ''li'' [
              Attr ''className'' ''auth-feature-item''] [
              El ''span'' [Attr ''className'' (''auth-feature-dot '' @ (snd f))] [],
              Txt (fst f)]) FEATURES)],
      login_topology]"

definition login_form :: "login_page \<Rightarrow> login_msg node" where
  "login_form s =
    El ''form'' [OnSubmit LoginSubmit, Attr ''id'' ''login-form''] [
      El ''div'' [Attr ''className'' ''form-group''] [
        El ''label'' [Attr ''className'' ''form-label'', Attr ''htmlFor'' ''username''] [Txt ''Username''],
        El ''div'' [Attr ''className'' ''input-wrapper''] [
          El ''UserIcon'' [Attr ''size'' ''15'', Attr ''className'' ''input-icon''] [],
          El ''input'' [
            Attr ''id'' ''username'',
            Attr ''type'' ''text'',
            Attr ''value'' (lp_username s),
            OnChange LoginUsername,
            Attr ''placeholder'' ''e.g. admin'',
            Flag ''required'' True,
            Attr ''autoComplete'' ''username''] []]],
      El ''div'' [Attr ''className'' ''form-group''] [
        El ''label'' [Attr ''className'' ''form-label'', Attr ''htmlFor'' ''password''] [Txt ''Password''],
        El ''div'' [Attr ''className'' ''input-wrapper''] [
          El ''Lock'' [Attr ''size'' ''15'', Attr ''className'' ''input-icon''] [],
          El ''input'' [
            Attr ''id'' ''password'',
            Attr ''type'' ''password'',
            Attr ''value'' (lp_password s),
            OnChange LoginPassword,
            Attr ''placeholder'' (bullet @ bullet @ bullet @ bullet @ bullet @ bullet @ bullet
                @ bullet @ bullet @ bullet @ bullet @ bullet),
            Flag ''required'' True,
            Attr ''autoComplete'' ''current-password''] []]],
      El ''button'' [
        Attr ''id'' ''login-submit-btn'',
        Attr ''type'' ''submit'',
        Attr ''className'' ''btn-auth'',
        Flag ''disabled'' (lp_submitting s)] ((if lp_submitting s
            then [
            El ''Activity'' [Attr ''size'' ''15'', Style [(''animation'', ''beacon 1s linear infinite'')]]
              [],
            Txt ''Authenticating...'']
            else [Txt ''Sign In'', El ''ArrowRight'' [Attr ''size'' ''15''] []]))]"

definition login_security_strip :: "login_msg node" where
  "login_security_strip =
    El ''div'' [Attr ''className'' ''auth-security-strip''] [
      El ''div'' [Attr ''className'' ''security-item''] [
        El ''span'' [Attr ''className'' ''security-item-dot''] [],
        Txt ''HS256 JWT''],
      El ''div'' [Attr ''className'' ''security-item''] [
        El ''span'' [Attr ''className'' ''security-item-dot''] [],
        Txt (''Bcrypt'' @ middle_dot @ ''12'')],
      El ''div'' [Attr ''className'' ''security-item''] [
        El ''span'' [Attr ''className'' ''security-item-dot''] [],
        Txt ''TOTP MFA''],
      El ''div'' [Attr ''className'' ''security-item''] [
        El ''span'' [Attr ''className'' ''security-item-dot''] [],
        Txt ''Rate Limited'']]"

definition login_demo_accounts :: "login_msg node" where
  "login_demo_accounts =
    El ''div'' [Attr ''className'' ''demo-accounts''] [
      El ''div'' [Attr ''className'' ''demo-label''] [Txt ''Quick Demo Accounts''],
      El ''div'' [Attr ''className'' ''demo-grid''] (map (\<lambda>acc. El ''button'' [
            Attr ''type'' ''button'',
            Attr ''id'' (''demo-'' @ (da_username acc)),
            Attr ''className'' ''demo-btn'',
            OnClick (QuickLogin (da_username acc) (da_password acc))] [
            El ''Cpu'' [
              Attr ''size'' ''12'',
              Style [(''color'', (da_color acc)), (''flexShrink'', ''0'')]] [],
            El ''div'' [] [
              El ''div'' [] [Txt (da_label acc)],
              El ''div'' [Attr ''className'' ''demo-role''] [Txt (da_username acc)]],
            El ''span'' [Attr ''className'' ''demo-indicator''] []]) DEMO_ACCOUNTS)]"

definition LoginPage_view :: "login_page \<Rightarrow> login_msg node" where
  "LoginPage_view s =
    El ''div'' [Attr ''className'' ''auth-wrapper''] [
      login_left_panel,
      El ''div'' [Attr ''className'' ''auth-panel-right''] [
        El ''div'' [Attr ''className'' ''auth-aws-badge''] [
          El ''span'' [Attr ''className'' ''aws-dot''] [],
          Txt ''AWS LIVE''],
        El ''div'' [Attr ''className'' ''auth-box''] ([
            El ''div'' [Attr ''className'' ''auth-form-header''] [
              El ''div'' [Attr ''className'' ''auth-form-eyebrow''] [
                El ''Cloud'' [Attr ''size'' ''12''] [],
                Txt '' Secure Authentication''],
              El ''h2'' [Attr ''className'' ''auth-form-title''] [Txt ''Sign in to NEXUS''],
              El ''p'' [Attr ''className'' ''auth-form-subtitle''] [
                Txt ''Enter your credentials to access the platform.'']]]
            @ (if truthy (lp_error s)
              then [
              El ''div'' [Attr ''className'' ''alert alert-danger''] [
                El ''AlertCircle'' [Attr ''size'' ''16''] [],
                El ''span'' [] [Txt (the (lp_error s))]]]
              else [])
            @ [
            login_form s,
            login_security_strip,
            login_demo_accounts,
            El ''div'' [Attr ''className'' ''auth-footer-link''] [
              Txt ''New to NEXUS?'',
              Txt '' '',
              El ''Link'' [Attr ''to'' ''/register'', Style [(''fontWeight'', ''700'')]] [
                Txt (''Provision an Identity '' @ right_arrow)]]])]]"

subsection \<open>A whole login\<close>

text \<open>\<open>login\<close> of the provider, with the replies to its two requests; \<open>Inl\<close> of the session and
  what is thrown.\<close>

definition login_run ::
    "string fetch_result \<Rightarrow> ui_user fetch_result \<Rightarrow> auth_state \<Rightarrow> auth_state \<times> (thrown + unit)" where
  "login_run r1 r2 a =
     (case login_token_reply r1 a of
        Inl t \<Rightarrow> (a, Inl t)
      | Inr (a', _) \<Rightarrow>
          (case login_profile_reply r2 a' of
             Inl t \<Rightarrow> (a', Inl t)
           | Inr a'' \<Rightarrow> (a'', Inr ())))"

definition submit_login ::
    "string fetch_result \<Rightarrow> ui_user fetch_result \<Rightarrow> login_page \<Rightarrow> auth_state \<Rightarrow>
     login_page \<times> auth_state \<times> string option" where
  "submit_login r1 r2 s a =
     (case login_run r1 r2 a of
        (a', res) \<Rightarrow> (case login_settled res (fst (login_handleSubmit s)) of (s', nav) \<Rightarrow> (s', a', nav)))"

lemma submit_login_enabled: "\<not> lp_submitting (fst (submit_login r1 r2 s a))"
  by (auto simp: submit_login_def login_settled_def split: prod.split sum.split)

text \<open>A login ends in one of three ways. When the token request fails, the page shows the
  server's message and the session is unchanged. When the token arrives but the profile request
  fails, the page shows that error and does not navigate, yet the token stays stored, so the
  session is left with a token and no user. When both succeed, the page navigates to the
  dashboard with the user, the token and session storage set. In each case the button is
  enabled again.\<close>

theorem login_outcomes:
  assumes "submit_login r1 r2 s a = (s', a', nav)"
  shows "\<not> lp_submitting s' \<and>
    (case read_result ''token'' r1 of
       Inl t \<Rightarrow> a' = a \<and> nav = None \<and>
         lp_error s' = Some (error_message ''Authentication failed. Please try again.'' t)
     | Inr tok \<Rightarrow>
         au_token a' = Some tok \<and> ac_token (au_api a') = Some tok \<and>
         ac_session (au_api a') = (if tok = [] then None else Some tok) \<and>
         (case request_result r2 of
            Inl t \<Rightarrow> nav = None \<and> au_user a' = au_user a \<and>
              lp_error s' = Some (error_message ''Authentication failed. Please try again.'' t)
          | Inr profile \<Rightarrow> nav = Some ''/dashboard'' \<and> au_user a' = profile \<and> lp_error s' = None))"
proof -
  show ?thesis
    by (cases "read_result ''token'' r1"; cases "request_result r2")
      (use assms in \<open>auto simp: submit_login_def login_run_def login_token_reply_def api_login_reply_def
        login_profile_reply_def login_settled_def login_handleSubmit_def api_setToken_def truthy_def\<close>)
qed

theorem login_outcomes_witness:
  "\<exists>s' a' nav. submit_login (HttpOk (Some ''tok'')) (NetworkError (ErrorObj ''Failed to fetch''))
       login_page_init (auth_init None) = (s', a', nav) \<and>
     nav = None \<and> ac_session (au_api a') = Some ''tok'' \<and> au_user a' = None \<and>
     lp_error s' = Some ''Failed to fetch''"
proof -
  obtain s' a' nav where run: "submit_login (HttpOk (Some ''tok''))
      (NetworkError (ErrorObj ''Failed to fetch'')) login_page_init (auth_init None) = (s', a', nav)"
    by (cases "submit_login (HttpOk (Some ''tok''))
      (NetworkError (ErrorObj ''Failed to fetch'')) login_page_init (auth_init None)")
  from login_outcomes [OF run] run show ?thesis
    by (simp add: reply_defs error_message_def auth_init_def Let_def)
qed

text \<open>What the view offers: submitting (twice while idle, as the form and its button belong
  together) and the four demo accounts, whose credentials are the server's seeded accounts.\<close>

lemma LoginPage_clicks:
  "clicks (LoginPage_view s) =
     LoginSubmit # map (\<lambda>acc. QuickLogin (da_username acc) (da_password acc)) DEMO_ACCOUNTS"
  by (simp add: LoginPage_view_def login_left_panel_def login_topology_def login_form_def
      login_security_strip_def login_demo_accounts_def clicks_all_map FEATURES_def DEMO_ACCOUNTS_def)

end
