(* ===== verification/RegisterPage.thy ===== *)
theory RegisterPage
  imports LoginPage
begin

text \<open>
  \<open>frontend/src/pages/RegisterPage.tsx\<close>: the form's state and handlers, its view, and a whole
  registration, which logs in afterwards. The role is kept as the selected option's value, since
  the source casts it without a check.
\<close>

subsection \<open>State and handlers\<close>

record role_option =
  ro_value :: ui_role
  ro_label :: string
  ro_desc :: string
  ro_color :: string

definition ROLES :: "role_option list" where
  "ROLES =
    [\<lparr>ro_value = Viewer, ro_label = ''Viewer'', ro_desc = ''Read-only catalog access'',
      ro_color = ''#00d68f''\<rparr>,
     \<lparr>ro_value = Developer, ro_label = ''Developer'', ro_desc = ''Application manage + AWS console'',
      ro_color = ''#1d6ff0''\<rparr>,
     \<lparr>ro_value = Analyst, ro_label = ''Analyst'', ro_desc = ''Audit logs + reports access'',
      ro_color = ''#00c2e0''\<rparr>,
     \<lparr>ro_value = SecurityManager, ro_label = ''Security Manager'', ro_desc = ''Policy & MFA governance'',
      ro_color = ''#f5a623''\<rparr>,
     \<lparr>ro_value = Admin, ro_label = ''Administrator'', ro_desc = ''Full org management'',
      ro_color = ''#7c5ef6''\<rparr>]"

record register_page =
  rp_username :: string
  rp_password :: string
  rp_role :: string
  rp_error :: "string option"
  rp_submitting :: bool

definition register_page_init :: register_page where
  "register_page_init = \<lparr>rp_username = [], rp_password = [], rp_role = ''viewer'', rp_error = None,
     rp_submitting = False\<rparr>"

datatype register_msg = RegUsername string | RegPassword string | RegRole string | RegSubmit

definition selectedRole :: "register_page \<Rightarrow> role_option" where
  "selectedRole s = the (find (\<lambda>r. role_name (ro_value r) = rp_role s) ROLES)"

text \<open>\<open>handleSubmit\<close> up to its \<open>await\<close>: the page, and the arguments of \<open>register\<close> unless it
  returned early.\<close>

definition register_handleSubmit ::
    "register_page \<Rightarrow> register_page \<times> (string \<times> string \<times> string) option" where
  "register_handleSubmit s =
     (let s1 = s\<lparr>rp_error := None\<rparr>
      in if js_length (rp_password s) < 8
         then (s1\<lparr>rp_error := Some ''Password must be at least 8 characters.''\<rparr>, None)
         else (s1\<lparr>rp_submitting := True\<rparr>, Some (rp_username s, rp_password s, rp_role s)))"

definition register_settled :: "thrown + unit \<Rightarrow> register_page \<Rightarrow> register_page \<times> string option" where
  "register_settled res s =
     (case res of
        Inr _ \<Rightarrow> (s\<lparr>rp_submitting := False\<rparr>, Some ''/dashboard'')
      | Inl t \<Rightarrow>
          (s\<lparr>rp_error := Some (error_message ''Registration failed. Please try again.'' t),
             rp_submitting := False\<rparr>, None))"

fun register_update ::
    "register_msg \<Rightarrow> register_page \<Rightarrow> register_page \<times> (string \<times> string \<times> string) option" where
  "register_update (RegUsername v) s = (s\<lparr>rp_username := v\<rparr>, None)"
| "register_update (RegPassword v) s = (s\<lparr>rp_password := v\<rparr>, None)"
| "register_update (RegRole v) s = (s\<lparr>rp_role := v\<rparr>, None)"
| "register_update RegSubmit s = register_handleSubmit s"

subsection \<open>View\<close>

definition register_left_panel :: "register_page \<Rightarrow> register_msg node" where
  "register_left_panel s =
    El ''div'' [Attr ''className'' ''auth-panel-left''] [
      El ''div'' [Attr ''className'' ''auth-left-content''] [
        El ''div'' [Attr ''className'' ''auth-brand''] [
          El ''div'' [Attr ''className'' ''auth-brand-icon''] [El ''Shield'' [Attr ''size'' ''22''] []],
          El ''span'' [Attr ''className'' ''auth-brand-text''] [Txt ''NEXUS'']],
        El ''h1'' [Attr ''className'' ''auth-headline''] [
          Txt ''Provision'',
          El ''br'' [] [],
          El ''span'' [] [Txt ''Your Cloud''],
          El ''br'' [] [],
          Txt ''Identity''],
        El ''p'' [Attr ''className'' ''auth-description''] [
          Txt
            ''Create a role-governed user identity within the NEXUS organization. Roles determine RBAC permissions and contextual PBAC policy evaluation across all applications.''],
        El ''div'' [
          Style [
            (''display'', ''flex''),
            (''flexDirection'', ''column''),
            (''gap'', ''10px''),
            (''marginTop'', ''8px'')]] (map (\<lambda>r. El ''div'' [
              Style [
                (''display'', ''flex''),
                (''alignItems'', ''center''),
                (''gap'', ''12px''),
                (''padding'', ''10px 14px''),
                (''background'',
                  (if rp_role s = role_name (ro_value r) then ''rgba(29,111,240,0.08)''
                      else ''rgba(255,255,255,0.02)'')),
                (''border'',
                  (''1px solid ''
                      @ (if rp_role s = role_name (ro_value r) then ''rgba(29,111,240,0.3)''
                        else ''var(--border-dim)''))),
                (''borderRadius'', ''var(--radius-sm)''),
                (''cursor'', ''default''),
                (''transition'', ''all 0.15s'')]] [
              El ''div'' [
                Style [
                  (''width'', ''8px''),
                  (''height'', ''8px''),
                  (''borderRadius'', ''50%''),
                  (''background'', (ro_color r)),
                  (''flexShrink'', ''0'')]] [],
              El ''div'' [] [
                El ''div'' [
                  Style [
                    (''fontSize'', ''13px''),
                    (''fontWeight'', ''700''),
                    (''color'', ''var(--text-primary)'')]] [Txt (ro_label r)],
                El ''div'' [Style [(''fontSize'', ''11px''), (''color'', ''var(--text-muted)'')]] [
                  Txt (ro_desc r)]]]) ROLES)]]"

definition register_role_group :: "register_page \<Rightarrow> register_msg node" where
  "register_role_group s =
    El ''div'' [Attr ''className'' ''form-group''] [
      El ''label'' [Attr ''className'' ''form-label'', Attr ''htmlFor'' ''reg-role''] [
        Txt ''Assigned Role''],
      El ''div'' [Style [(''position'', ''relative'')]] [
        El ''select'' [Attr ''id'' ''reg-role'', Attr ''value'' (rp_role s), OnChange RegRole]
          (map (\<lambda>r. El ''option'' [Attr ''value'' (role_name (ro_value r))] [
              Txt (ro_label r),
              Txt ('' '' @ em_dash @ '' ''),
              Txt (ro_desc r)]) ROLES),
        El ''ChevronDown'' [
          Attr ''size'' ''14'',
          Style [
            (''position'', ''absolute''),
            (''right'', ''12px''),
            (''top'', ''50%''),
            (''transform'', ''translateY(-50%)''),
            (''color'', ''var(--text-muted)''),
            (''pointerEvents'', ''none'')]] []],
      El ''div'' [
        Style [
          (''marginTop'', ''8px''),
          (''display'', ''flex''),
          (''alignItems'', ''center''),
          (''gap'', ''8px''),
          (''padding'', ''7px 12px''),
          (''background'', ''var(--bg-tertiary)''),
          (''border'', ''1px solid var(--border-dim)''),
          (''borderRadius'', ''var(--radius-sm)''),
          (''fontSize'', ''12px''),
          (''color'', ''var(--text-muted)'')]] [
        El ''span'' [
          Style [
            (''width'', ''7px''),
            (''height'', ''7px''),
            (''borderRadius'', ''50%''),
            (''background'', (ro_color (selectedRole s))),
            (''flexShrink'', ''0'')]] [],
        El ''span'' [Style [(''color'', ''var(--text-primary)''), (''fontWeight'', ''600'')]] [
          Txt (ro_label (selectedRole s))],
        El ''span'' [] [Txt (em_dash @ '' ''), Txt (ro_desc (selectedRole s))],
        El ''UserCheck'' [
          Attr ''size'' ''12'',
          Style [(''marginLeft'', ''auto''), (''color'', (ro_color (selectedRole s)))]] []],
      El ''div'' [Attr ''className'' ''form-help''] [
        Txt ''Determines RBAC permissions and PBAC policy evaluation.'']]"

definition register_form :: "register_page \<Rightarrow> register_msg node" where
  "register_form s =
    El ''form'' [OnSubmit RegSubmit, Attr ''id'' ''register-form''] [
      El ''div'' [Attr ''className'' ''form-group''] [
        El ''label'' [Attr ''className'' ''form-label'', Attr ''htmlFor'' ''reg-username''] [
          Txt ''Username''],
        El ''div'' [Attr ''className'' ''input-wrapper''] [
          El ''UserIcon'' [Attr ''size'' ''15'', Attr ''className'' ''input-icon''] [],
          El ''input'' [
            Attr ''id'' ''reg-username'',
            Attr ''type'' ''text'',
            Attr ''value'' (rp_username s),
            OnChange RegUsername,
            Attr ''placeholder'' ''Choose a unique username'',
            Flag ''required'' True,
            Attr ''autoComplete'' ''username''] []],
        El ''div'' [Attr ''className'' ''form-help''] [Txt ''Minimum 3 characters, alphanumeric.'']],
      El ''div'' [Attr ''className'' ''form-group''] [
        El ''label'' [Attr ''className'' ''form-label'', Attr ''htmlFor'' ''reg-password''] [
          Txt ''Password''],
        El ''div'' [Attr ''className'' ''input-wrapper''] [
          El ''Lock'' [Attr ''size'' ''15'', Attr ''className'' ''input-icon''] [],
          El ''input'' [
            Attr ''id'' ''reg-password'',
            Attr ''type'' ''password'',
            Attr ''value'' (rp_password s),
            OnChange RegPassword,
            Attr ''placeholder'' (bullet @ bullet @ bullet @ bullet @ bullet @ bullet @ bullet
                @ bullet @ bullet @ bullet @ bullet @ bullet),
            Flag ''required'' True,
            Attr ''autoComplete'' ''new-password''] []],
        El ''div'' [Attr ''className'' ''form-help''] [
          Txt ''Minimum 8 characters. Stored as Bcrypt hash (cost 12).'']],
      register_role_group s,
      El ''button'' [
        Attr ''id'' ''register-submit-btn'',
        Attr ''type'' ''submit'',
        Attr ''className'' ''btn-auth'',
        Flag ''disabled'' (rp_submitting s),
        Style [(''marginTop'', ''4px'')]] ((if rp_submitting s
            then [Txt ''Provisioning Identity...'']
            else [Txt ''Create Identity'', El ''ArrowRight'' [Attr ''size'' ''15''] []]))]"

definition register_security_strip :: "register_msg node" where
  "register_security_strip =
    El ''div'' [Attr ''className'' ''auth-security-strip''] [
      El ''div'' [Attr ''className'' ''security-item''] [
        El ''span'' [Attr ''className'' ''security-item-dot''] [],
        Txt ''RBAC Governed''],
      El ''div'' [Attr ''className'' ''security-item''] [
        El ''span'' [Attr ''className'' ''security-item-dot''] [],
        Txt ''PBAC Policy''],
      El ''div'' [Attr ''className'' ''security-item''] [
        El ''span'' [Attr ''className'' ''security-item-dot''] [],
        Txt (''Bcrypt'' @ middle_dot @ ''12'')]]"

definition RegisterPage_view :: "register_page \<Rightarrow> register_msg node" where
  "RegisterPage_view s =
    El ''div'' [Attr ''className'' ''auth-wrapper''] [
      register_left_panel s,
      El ''div'' [Attr ''className'' ''auth-panel-right''] [
        El ''div'' [Attr ''className'' ''auth-aws-badge''] [
          El ''span'' [Attr ''className'' ''aws-dot''] [],
          Txt ''AWS LIVE''],
        El ''div'' [Attr ''className'' ''auth-box''] ([
            El ''div'' [Attr ''className'' ''auth-form-header''] [
              El ''div'' [Attr ''className'' ''auth-form-eyebrow''] [
                El ''Cloud'' [Attr ''size'' ''12''] [],
                Txt '' Identity Provisioning''],
              El ''h2'' [Attr ''className'' ''auth-form-title''] [Txt ''Create NEXUS Identity''],
              El ''p'' [Attr ''className'' ''auth-form-subtitle''] [
                Txt ''Provision a new role-governed user in the organization.'']]]
            @ (if truthy (rp_error s)
              then [
              El ''div'' [Attr ''className'' ''alert alert-danger''] [
                El ''AlertCircle'' [Attr ''size'' ''16''] [],
                El ''span'' [] [Txt (the (rp_error s))]]]
              else [])
            @ [
            register_form s,
            register_security_strip,
            El ''div'' [Attr ''className'' ''auth-footer-link''] [
              Txt ''Already provisioned?'',
              Txt '' '',
              El ''Link'' [Attr ''to'' ''/login'', Style [(''fontWeight'', ''700'')]] [
                Txt (''Sign In '' @ right_arrow)]]])]]"

lemmas register_view_defs = RegisterPage_view_def register_left_panel_def register_form_def
  register_role_group_def register_security_strip_def

subsection \<open>A whole registration\<close>

text \<open>\<open>register\<close> of the provider: the account, then \<open>login\<close> with the same name and password.\<close>

definition register_run ::
    "string \<Rightarrow> string \<Rightarrow> register_response fetch_result \<Rightarrow> string fetch_result \<Rightarrow>
     ui_user fetch_result \<Rightarrow> auth_state \<Rightarrow> auth_state \<times> (thrown + unit)" where
  "register_run u p r0 r1 r2 a =
     (case register_reply u p r0 a of
        Inl t \<Rightarrow> (a, Inl t)
      | Inr _ \<Rightarrow> login_run r1 r2 a)"

lemma ROLES_roles: "(\<lambda>r. role_name (ro_value r)) ` set ROLES = set ValidRoles - {RoleSuperAdmin, RoleUser}"
  by (auto simp: ROLES_def ValidRoles_def role_defs)

text \<open>The form's password check and the server's: submitting sends a registration exactly when the
  password has at least 8 UTF-16 units, and otherwise sends nothing and shows an error; for an
  ASCII password that is exactly the server's minimum, so the form then refuses what the server
  would refuse as weak and nothing else. Every role on offer is a role the server accepts, and
  \<open>super_admin\<close> is not on offer.\<close>

theorem register_form_matches_server:
  assumes "\<forall>c \<in> set (rp_password s). char_code c < 128"
  shows "snd (register_handleSubmit s) =
      (if minPasswordLength \<le> length (rp_password s)
       then Some (rp_username s, rp_password s, rp_role s) else None) \<and>
    (if minPasswordLength \<le> length (rp_password s)
     then rp_submitting (fst (register_handleSubmit s)) \<and> rp_error (fst (register_handleSubmit s)) = None
     else rp_submitting (fst (register_handleSubmit s)) = rp_submitting s \<and>
       rp_error (fst (register_handleSubmit s)) = Some ''Password must be at least 8 characters.'') \<and>
    (\<lambda>r. role_name (ro_value r)) ` set ROLES = set ValidRoles - {RoleSuperAdmin, RoleUser}"
  using ROLES_roles js_length_ascii [OF assms]
  by (simp add: register_handleSubmit_def Let_def minPasswordLength_def)

theorem register_form_matches_server_witness:
  "snd (register_handleSubmit (register_page_init\<lparr>rp_password := ''secret''\<rparr>)) = None"
proof -
  have "\<forall>c \<in> set (rp_password (register_page_init\<lparr>rp_password := ''secret''\<rparr>)). char_code c < 128"
    by (simp add: char_code_def)
  from register_form_matches_server [OF this] show ?thesis
    by (simp add: minPasswordLength_def)
qed

text \<open>Beyond ASCII the form is stricter: four two-byte characters are eight bytes for the server
  and four units for the form.\<close>

lemma register_form_stricter:
  "let e = [CHR 0xC3, CHR 0xA9]; p = e @ e @ e @ e
   in minPasswordLength \<le> length p \<and> snd (register_handleSubmit (register_page_init\<lparr>rp_password := p\<rparr>)) = None"
  by (simp add: Let_def minPasswordLength_def register_handleSubmit_def js_length_def char_code_def)

text \<open>The select offers the values of \<open>ROLES\<close> only, so the selected role is always found.\<close>

lemma selectedRole_found:
  "rp_role s \<in> (\<lambda>r. role_name (ro_value r)) ` set ROLES \<Longrightarrow>
   selectedRole s \<in> set ROLES \<and> role_name (ro_value (selectedRole s)) = rp_role s"
  by (auto simp: selectedRole_def ROLES_def)

lemma select_options:
  "concat (map (\<lambda>(as, ks). attr_value ''value'' as) (elements ''option'' (RegisterPage_view s))) =
   map (\<lambda>r. role_name (ro_value r)) ROLES"
  by (simp add: register_view_defs elements_all_map ROLES_def)

end
