(* ===== verification/Url.thy ===== *)
theory Url
  imports Prelude
begin

text \<open>
  How the server takes a request URL apart (\<open>net/url\<close>, on the part after the host): the path before
  the first question mark and the query after it, a list of unescaped keys and values.
\<close>

subsection \<open>Escapes\<close>

definition hex_value :: "char \<Rightarrow> nat option" where
  "hex_value c =
     (let n = char_code c
      in if is_digit c then Some (n - 48)
         else if 65 \<le> n \<and> n \<le> 70 then Some (n - 55)
         else if 97 \<le> n \<and> n \<le> 102 then Some (n - 87)
         else None)"

text \<open>In a query a plus sign is a space; a percent sign needs two hexadecimal digits.\<close>

fun unescape :: "bool \<Rightarrow> string \<Rightarrow> string option" where
  "unescape query [] = Some []"
| "unescape query (c # s) =
     (if c = CHR ''%''
      then (case s of
              a # b # r \<Rightarrow>
                (case (hex_value a, hex_value b) of
                   (Some x, Some y) \<Rightarrow> map_option ((#) (char_of (16 * x + y))) (unescape query r)
                 | _ \<Rightarrow> None)
            | _ \<Rightarrow> None)
      else map_option ((#) (if query \<and> c = CHR ''+'' then CHR '' '' else c)) (unescape query s))"

subsection \<open>Path and query\<close>

fun split_at :: "char \<Rightarrow> string \<Rightarrow> string list" where
  "split_at d [] = [[]]"
| "split_at d (c # s) =
     (if c = d then [] # split_at d s
      else (case split_at d s of [] \<Rightarrow> [[c]] | x # xs \<Rightarrow> (c # x) # xs))"

text \<open>A pair of \<open>ParseQuery\<close>: empty ones, those with a semicolon and ill-escaped ones are skipped.\<close>

definition query_pair :: "string \<Rightarrow> (string \<times> string) option" where
  "query_pair s =
     (if s = [] \<or> CHR '';'' \<in> set s then None
      else case (unescape True (takeWhile (\<lambda>c. c \<noteq> CHR ''='') s),
                 unescape True (tl (dropWhile (\<lambda>c. c \<noteq> CHR ''='') s))) of
             (Some k, Some v) \<Rightarrow> Some (k, v)
           | _ \<Rightarrow> None)"

definition url_path :: "string \<Rightarrow> string option" where
  "url_path u = unescape False (takeWhile (\<lambda>c. c \<noteq> CHR ''?'') u)"

definition url_query :: "string \<Rightarrow> (string \<times> string) list" where
  "url_query u = List.map_filter query_pair (split_at (CHR ''&'') (tl (dropWhile (\<lambda>c. c \<noteq> CHR ''?'') u)))"

subsection \<open>Plain text\<close>

text \<open>Characters that stand for themselves in a query.\<close>

definition plain_char :: "char \<Rightarrow> bool" where
  "plain_char c \<longleftrightarrow> c \<notin> set ''%+&=;?''"

lemma unescape_plain: "list_all plain_char s \<Longrightarrow> unescape q s = Some s"
  by (induction s) (auto simp: plain_char_def)

lemma split_at_plain:
  assumes "list_all plain_char s"
  shows "split_at (CHR ''&'') s = [s]" "split_at (CHR ''&'') (s @ CHR ''&'' # t) = s # split_at (CHR ''&'') t"
  using assms by (induction s) (auto simp: plain_char_def)

lemma query_pair_plain:
  assumes "list_all plain_char k" "list_all plain_char v"
  shows "query_pair (k @ CHR ''='' # v) = Some (k, v)"
proof -
  have "\<forall>c \<in> set k. c \<noteq> CHR ''=''" "CHR '';'' \<notin> set (k @ CHR ''='' # v)"
    using assms by (auto simp: list_all_iff plain_char_def)
  then show ?thesis
    using assms by (simp add: query_pair_def unescape_plain takeWhile_append dropWhile_append)
qed

lemma split_at_pair:
  assumes "list_all plain_char k" "list_all plain_char v"
  shows "split_at (CHR ''&'') (k @ CHR ''='' # v) = [k @ CHR ''='' # v]"
    "split_at (CHR ''&'') (k @ CHR ''='' # v @ CHR ''&'' # t) = (k @ CHR ''='' # v) # split_at (CHR ''&'') t"
  using assms by (induction k) (auto simp: plain_char_def split_at_plain)

text \<open>The query of a URL with two plain pairs.\<close>

lemma url_query_two:
  assumes "list_all plain_char p" "list_all plain_char k" "list_all plain_char v"
    and "list_all plain_char k'" "list_all plain_char v'"
  shows "url_query (p @ CHR ''?'' # k @ CHR ''='' # v @ CHR ''&'' # k' @ CHR ''='' # v') = [(k, v), (k', v')]"
proof -
  have "\<forall>c \<in> set p. c \<noteq> CHR ''?''" using assms(1) by (auto simp: list_all_iff plain_char_def)
  then have "url_query (p @ CHR ''?'' # t) = List.map_filter query_pair (split_at (CHR ''&'') t)" for t
    by (simp add: url_query_def dropWhile_append)
  then show ?thesis
    using assms(2-) by (simp add: split_at_pair query_pair_plain List.map_filter_simps)
qed

lemma plain_digits: "list_all plain_char (show_nat n)"
  using show_nat_digits [of n] by (auto simp: list_all_iff plain_char_def is_digit_def char_code_def)

text \<open>A URL that is a plain path has no query.\<close>

lemma url_plain:
  assumes "list_all plain_char u"
  shows "url_path u = Some u" "url_query u = []"
proof -
  have "\<forall>c \<in> set u. c \<noteq> CHR ''?''" using assms by (auto simp: list_all_iff plain_char_def)
  then have "takeWhile (\<lambda>c. c \<noteq> CHR ''?'') u = u" "dropWhile (\<lambda>c. c \<noteq> CHR ''?'') u = []" by simp_all
  from this assms show "url_path u = Some u" "url_query u = []"
    by (simp_all only: url_path_def url_query_def unescape_plain) (simp add: query_pair_def List.map_filter_simps)
qed

end
