(* ===== verification/Wire.thy ===== *)
theory Wire
  imports ServerProps Routing LoginPage RegisterPage Url
begin

text \<open>
  The wire between the client and the server: when a request of the client is the request the
  server sees, and what an answer of the server is for the client that awaits it.
\<close>

subsection \<open>Between the browser and the server\<close>

text \<open>A request of the client as the server receives it, and an answer of the server as the client's
  \<open>request\<close> receives it: \<open>read\<close> is the cast of the answer's body to the method's type. A panic
  closes the connection, so \<open>fetch\<close> rejects with the browser's error.\<close>

definition delivered :: "fetch_call \<Rightarrow> http_request \<Rightarrow> bool" where
  "delivered call r \<longleftrightarrow> hr_method r = fc_method call \<and> url_path (fc_url call) = Some (hr_path r) \<and>
     hr_query r = url_query (fc_url call) \<and> hr_body r = fc_body call \<and> hr_authorization r = authorization_of call"

text \<open>The plain URLs of the client.\<close>

lemma api_urls [simp]:
  "url_path ''/api/v1/auth/login'' = Some ''/api/v1/auth/login''" "url_query ''/api/v1/auth/login'' = []"
  "url_path ''/api/v1/auth/register'' = Some ''/api/v1/auth/register''" "url_query ''/api/v1/auth/register'' = []"
  "url_path ''/api/v1/auth/me'' = Some ''/api/v1/auth/me''" "url_query ''/api/v1/auth/me'' = []"
  "url_path ''/api/v1/mfa/verify'' = Some ''/api/v1/mfa/verify''" "url_query ''/api/v1/mfa/verify'' = []"
  by (rule url_plain; simp add: plain_char_def)+

definition payload_json :: "payload \<Rightarrow> json option" where
  "payload_json p = (case p of ErrorBody msg \<Rightarrow> Some (JObj [(''error'', JStr msg)]) | _ \<Rightarrow> None)"

definition answer :: "(payload \<Rightarrow> 'a option) \<Rightarrow> string + http_response \<Rightarrow> 'a fetch_result" where
  "answer read out =
     (case out of
        Inl e \<Rightarrow> NetworkError (ErrorObj ''Failed to fetch'')
      | Inr rsp \<Rightarrow> if 200 \<le> rsp_status rsp \<and> rsp_status rsp < 300 then HttpOk (read (rsp_payload rsp))
                   else HttpError (rsp_status rsp) (payload_json (rsp_payload rsp)))"

definition read_token :: "payload \<Rightarrow> string option" where
  "read_token p = (case p of TokenBody t \<Rightarrow> Some t | _ \<Rightarrow> None)"

definition read_verified :: "payload \<Rightarrow> mfa_verify_response option" where
  "read_verified p = (case p of
     MfaVerifiedBody m v u \<Rightarrow> Some \<lparr>mv_message = m, mv_verified = v, mv_user_id = u\<rparr> | _ \<Rightarrow> None)"

lemma http_error_message_error [simp]:
  "msg \<noteq> [] \<Longrightarrow> http_error_message st (payload_json (ErrorBody msg)) = msg"
  by (simp add: http_error_message_def payload_json_def js_member_def)

text \<open>The client shows the server's own message for every error the server writes.\<close>

lemma answer_error:
  "msg \<noteq> [] \<Longrightarrow> 300 \<le> st \<Longrightarrow> request_result (answer read (Inr (writeError st msg))) = Inl (ErrorObj msg)"
  by (simp add: answer_def request_result_def)

lemma read_answer_error:
  "msg \<noteq> [] \<Longrightarrow> 300 \<le> st \<Longrightarrow> read_result p (answer read (Inr (writeError st msg))) = Inl (ErrorObj msg)"
  by (simp add: read_result_def answer_error)

text \<open>An account of the server as the client reads it: \<open>stamp\<close> is the JSON spelling of a time, an
  empty organization is omitted from the JSON.\<close>

definition read_user :: "(int \<Rightarrow> string) \<Rightarrow> public_user \<Rightarrow> ui_user option" where
  "read_user stamp pu =
     (case (List.find (\<lambda>x. role_name x = pu_role pu) enum_class.enum,
            List.find (\<lambda>x. status_name x = pu_status pu) [Active, Inactive, Suspended]) of
        (Some ro, Some st) \<Rightarrow> Some \<lparr>uu_id = pu_id pu, uu_username = pu_username pu, uu_role = ro,
          uu_organization_id = (if pu_organization_id pu = [] then None else Some (pu_organization_id pu)),
          uu_status = st, uu_mfa_enabled = pu_mfa_enabled pu, uu_created_at = stamp (pu_created_at pu)\<rparr>
      | _ \<Rightarrow> None)"

lemma find_role_name: "r \<in> set ValidRoles \<Longrightarrow> \<exists>ro. List.find (\<lambda>x. role_name x = r) enum_class.enum = Some ro \<and> role_name ro = r"
  by (auto simp: ValidRoles_def role_defs enum_ui_role_def)

text \<open>Every account that the invariant allows is read, with its own fields.\<close>

lemma read_user_account:
  assumes "account_ok u"
  shows "\<exists>x. read_user stamp (to_public u) = Some x \<and> uu_id x = u_id u \<and> uu_username x = u_username u \<and>
    role_name (uu_role x) = u_role u \<and> status_name (uu_status x) = u_status u"
proof -
  from assms have ok: "u_role u \<in> set ValidRoles" "u_status u = StatusActive"
    by (simp_all add: account_ok_def)
  from find_role_name [OF ok(1)] obtain ro where
    "List.find (\<lambda>x. role_name x = u_role u) enum_class.enum = Some ro" "role_name ro = u_role u" by blast
  with ok(2) show ?thesis by (simp add: read_user_def StatusActive_def)
qed

end
