(* ===== verification/ServerAnswers.thy ===== *)
theory ServerAnswers
  imports ServerProps
begin

text \<open>
  What the server's answers say about its accounts: a profile is the public view of a stored
  account, a token is signed for one, and accounts are never changed or removed afterwards.
\<close>

subsection \<open>Accounts are permanent\<close>

definition accounts_kept :: "mem_store \<Rightarrow> mem_store \<Rightarrow> bool" where
  "accounts_kept s s' \<longleftrightarrow> byID s \<subseteq>\<^sub>m byID s' \<and> byUsername s \<subseteq>\<^sub>m byUsername s'"

lemma accounts_kept_refl [simp]: "accounts_kept s s"
  by (simp add: accounts_kept_def)

lemma accounts_kept_trans: "accounts_kept a b \<Longrightarrow> accounts_kept b c \<Longrightarrow> accounts_kept a c"
  unfolding accounts_kept_def using map_le_trans by blast

lemma accounts_keptD:
  "accounts_kept s s' \<Longrightarrow> byID s i = Some u \<Longrightarrow> byID s' i = Some u"
  "accounts_kept s s' \<Longrightarrow> byUsername s n = Some u \<Longrightarrow> byUsername s' n = Some u"
  by (auto simp: accounts_kept_def map_le_def dom_def)

lemma Register_keeps:
  assumes "Register mem_ops lib env s input = Inr (s', u)"
    and "byID s (en_uuid env) = None" "en_uuid env \<noteq> []"
  shows "accounts_kept s s'"
proof -
  obtain h where "CreateUser mem_ops s (en_uuid env) (en_now env)
       \<lparr>u_id = en_uuid env, u_username = trim_space (ri_username input), u_password_hash = h,
        u_role = ri_role input, u_organization_id = [], u_status = StatusActive,
        u_mfa_secret = [], u_mfa_enabled = False, u_created_at = 0, u_updated_at = 0\<rparr> = Inr (s', u)"
    using assms(1) by (rule Register_Inr)
  then show ?thesis
    using assms(2,3)
    by (auto simp: accounts_kept_def map_le_def mem_ops_def mem_CreateUser_def created_user_def
        Let_def dom_def split: option.splits)
qed

lemma serve_keeps_accounts:
  assumes "fresh_env env s"
  shows "accounts_kept (sv_users s) (sv_users (fst (serve cfg env s r)))"
proof -
  obtain s1 evs out where e: "effect cfg env r s s1"
    "serve cfg env s r = (log_events env evs s1, out)" by (rule serve_shape)
  from e(1) have "accounts_kept (sv_users s) (sv_users s1)"
    using assms by cases (auto simp: fresh_env_def intro: Register_keeps)
  with e(2) show ?thesis by simp
qed

subsection \<open>Profiles and tokens in answers\<close>

text \<open>The claims the server signs for an account at some time.\<close>

definition issued :: "auth_lib \<Rightarrow> string \<Rightarrow> mem_store \<Rightarrow> string \<Rightarrow> bool" where
  "issued lib key s tok \<longleftrightarrow> (\<exists>env u. byID s (u_id u) = Some u \<and> generateJWT lib key env u = Some tok)"

definition honest :: "'r config \<Rightarrow> 'r server \<Rightarrow> http_response \<Rightarrow> bool" where
  "honest cfg s rsp \<longleftrightarrow> (case rsp_payload rsp of
      UserBody pu \<Rightarrow> (\<exists>u. byID (sv_users s) (u_id u) = Some u \<and> pu = to_public u)
    | TokenBody tok \<Rightarrow> issued (cf_lib cfg) (cf_key cfg) (sv_users s) tok
    | _ \<Rightarrow> True)"

definition honest_out :: "'r config \<Rightarrow> 'r server \<Rightarrow> 's \<times> event list \<times> (string + http_response) \<Rightarrow> bool" where
  "honest_out cfg s res \<longleftrightarrow> (\<forall>rsp. snd (snd res) = Inr rsp \<longrightarrow> honest cfg s rsp)"

lemma honest_error [simp]: "honest cfg s (writeError st msg)"
  by (simp add: honest_def writeError_def writeJSON_def)

lemma honest_error_body [simp]: "rsp_payload rsp = ErrorBody msg \<Longrightarrow> honest cfg s rsp"
  by (simp add: honest_def)

lemma honest_payload [simp]: "honest cfg s (writeJSON st p) \<longleftrightarrow> honest cfg s \<lparr>rsp_status = 200, rsp_headers = [], rsp_payload = p\<rparr>"
  by (simp add: honest_def writeJSON_def)

lemma honest_out_simps [simp]:
  "honest_out cfg s (respond t rsp) \<longleftrightarrow> honest cfg s rsp"
  "honest_out cfg s (t, evs, Inr rsp) \<longleftrightarrow> honest cfg s rsp"
  "honest_out cfg s (t, evs, Inl e)"
  by (simp_all add: honest_out_def respond_def)

lemma honest_on [simp]:
  "honest_out cfg s (on_users h s r) \<longleftrightarrow> honest_out cfg s (h (sv_users s) r)"
  "honest_out cfg s (on_engine g s r) \<longleftrightarrow> honest_out cfg s (g (sv_engine s) r)"
  by (simp_all add: honest_out_def on_users_def on_engine_def split: prod.split)

lemma honest_Login:
  assumes "store_consistent (sv_users s)"
  shows "honest_out cfg s (Login_handler mem_ops (cf_lib cfg) (cf_key cfg) env (sv_users s) r)"
proof -
  have "issued (cf_lib cfg) (cf_key cfg) (sv_users s) tok"
    if "Login mem_ops (cf_lib cfg) (cf_key cfg) env (sv_users s) req = Inr (tok, u)" for req tok u
    using that store_consistentD(4) [OF assms]
    by (auto simp: Login_def issued_def mem_ops_def mem_GetUserByUsername_def
        split: option.splits if_splits)
  then show ?thesis
    by (auto simp: Login_handler_def honest_def split: option.splits sum.splits)
qed

lemma honest_Me:
  assumes "store_consistent (sv_users s)"
  shows "honest_out cfg s (Me mem_ops (sv_users s) r)"
proof -
  have "\<exists>v. byID (sv_users s) (u_id v) = Some v \<and> to_public u = to_public v"
    if "byID (sv_users s) i = Some u" for i u
    using that store_consistentD(1) [OF assms that] by auto
  then show ?thesis
    by (auto simp: Me_def honest_def mem_ops_def mem_GetUserByID_def split: option.splits sum.splits)
qed

lemma honest_others [simp]:
  "honest_out cfg s (Register_handler ops lib env us r)" "honest_out cfg s (MFASetup env us r)"
  "honest_out cfg s (MFAVerify ops env us r)" "honest_out cfg s (AdminOnly us r)"
  "honest_out cfg s (UserOrAdmin us r)" "honest_out cfg s (ListUsers_handler ops env us r)"
  by (auto simp: Register_handler_def register_error_def auth_handler_defs honest_def Let_def
      split: option.splits sum.splits)

lemma honest_policies [simp]:
  "honest_out cfg s (ListPolicies_handler env e r)" "honest_out cfg s (CreatePolicy_handler env e r)"
  "honest_out cfg s (DeletePolicy_handler e r)" "honest_out cfg s (CheckAccess env e r)"
  "honest_out cfg s (health s r)"
  by (auto simp: policy_handler_defs health_def honest_def honest_out_def respond_def Let_def
      split: option.splits sum.splits prod.splits)

lemma honest_audit [simp]: "honest_out cfg s (audit_list s r)"
  by (cases "List_handler (sv_log s) (hr_query r)")
    (simp_all add: audit_list_def honest_out_def honest_def writeJSON_def)

lemma honest_table:
  assumes "store_consistent (sv_users s)" and "(m, p, k) \<in> set (route_table cfg env)"
  shows "case k of Public g \<Rightarrow> honest_out cfg s (g s r) | Gated R g \<Rightarrow> honest_out cfg s (g s r)"
  using assms(2) honest_Me [OF assms(1), of cfg r] honest_Login [OF assms(1), of cfg env r]
  unfolding route_table_on_def
  by (simp only: list.set insert_iff empty_iff prod.inject simp_thms)
    (elim disjE conjE; simp add: withRateLimit_def split: option.split)

lemma honest_same:
  "honest_out cfg s (t, evs, out) \<Longrightarrow> same_answer out (Inr rsp) \<Longrightarrow> honest cfg s rsp"
  by (cases out) (simp_all add: honest_def same_answer_Inr(2), simp only: same_answer_Inr(1))

text \<open>Whatever the request, a profile in the answer is the public view of a stored account, and a
  token in the answer was signed for one.\<close>

lemma serve_honest:
  assumes ok: "store_consistent (sv_users s)" and sv: "serve cfg env s r = (s', Inr rsp)"
    and "rsp_status rsp < 300" "hr_method r \<noteq> ''OPTIONS''"
  shows "honest cfg s rsp"
proof (cases rule: serve_table [of memory_stores cfg env s r])
  case (plain rsp')
  with assms(2-4) show ?thesis by auto
next
  case (public m p g i s1 evs out out')
  have "honest_out cfg s (s1, evs, out)"
    using honest_table [OF ok public(1), of "routed_request r i"] public(4) by simp
  with public(5,6) sv show ?thesis
    by (intro honest_same) auto
next
  case (gated m p R g i c s1 evs out out')
  have "honest_out cfg s (s1, evs, out)"
    using honest_table [OF ok gated(1), of "(routed_request r i)\<lparr>hr_claims := Some c\<rparr>"] gated(6) by simp
  with gated(7,8) sv show ?thesis
    by (intro honest_same) auto
qed

end
