(* ===== verification/System.thy ===== *)
theory System
  imports Wire ServerAnswers
begin

text \<open>
  The client and the server together. A state holds the session provider, its requests in
  flight and the server; a request in flight is served at some point, by a server that also
  serves any other traffic, and its answer reaches the provider at some later point or is lost.
\<close>

subsection \<open>States and steps\<close>

text \<open>What reaches the client for a request: the server's answer, or a failure on the way (the
  browser rejects, or an intermediary answers with an error status).\<close>

datatype delivery = FromServer "string + http_response" | Lost thrown | Refused nat "json option"

fun received :: "(payload \<Rightarrow> 'a option) \<Rightarrow> delivery \<Rightarrow> 'a fetch_result" where
  "received read (FromServer out) = answer read out"
| "received read (Lost t) = NetworkError t"
| "received read (Refused st data) = HttpError st data"

datatype flight = Sent pending fetch_call | Answered pending "string + http_response"

fun flight_kind :: "flight \<Rightarrow> pending" where
  "flight_kind (Sent k call) = k"
| "flight_kind (Answered k out) = k"

record 'r system =
  sy_auth :: auth_state
  sy_flights :: "flight list"
  sy_server :: "'r server"

definition read_profile :: "(int \<Rightarrow> string) \<Rightarrow> payload \<Rightarrow> ui_user option" where
  "read_profile stamp p = (case p of UserBody pu \<Rightarrow> read_user stamp pu | _ \<Rightarrow> None)"

definition read_registered :: "(int \<Rightarrow> string) \<Rightarrow> payload \<Rightarrow> register_response option" where
  "read_registered stamp p = (case p of
     RegisteredBody msg pu \<Rightarrow> map_option (\<lambda>u. \<lparr>rr_message = msg, rr_user = u\<rparr>) (read_user stamp pu)
   | _ \<Rightarrow> None)"

text \<open>The continuation of an awaited request: the new session and the request it sends next.\<close>

fun continue_with :: "(int \<Rightarrow> string) \<Rightarrow> pending \<Rightarrow> delivery \<Rightarrow> auth_state \<Rightarrow> auth_state \<times> flight list" where
  "continue_with stamp PProfile d s = (fetchProfile_reply (received (read_profile stamp) d) s, [])"
| "continue_with stamp (PRegister u p) d s =
     (case register_reply u p (received (read_registered stamp) d) s of
        Inl t \<Rightarrow> (s, []) | Inr call \<Rightarrow> (s, [Sent PToken call]))"
| "continue_with stamp PToken d s =
     (case login_token_reply (received read_token d) s of
        Inl t \<Rightarrow> (s, []) | Inr (s', call) \<Rightarrow> (s', [Sent PMe call]))"
| "continue_with stamp PMe d s =
     (case login_profile_reply (received (read_profile stamp) d) s of
        Inl t \<Rightarrow> (s, []) | Inr s' \<Rightarrow> (s', []))"

definition refresh_system :: "'r system \<Rightarrow> 'r system" where
  "refresh_system x = (case fetchProfile (sy_auth x) of (s, call) \<Rightarrow>
     x\<lparr>sy_auth := s,
       sy_flights := sy_flights x @ (case call of None \<Rightarrow> [] | Some c \<Rightarrow> [Sent PProfile c])\<rparr>)"

definition settle :: "(int \<Rightarrow> string) \<Rightarrow> nat \<Rightarrow> delivery \<Rightarrow> 'r system \<Rightarrow> 'r system" where
  "settle stamp i d x = (case continue_with stamp (flight_kind (sy_flights x ! i)) d (sy_auth x) of
     (s, new) \<Rightarrow> x\<lparr>sy_auth := s, sy_flights := drop_nth i (sy_flights x) @ new\<rparr>)"

inductive system_step :: "'r config \<Rightarrow> (int \<Rightarrow> string) \<Rightarrow> 'r system \<Rightarrow> 'r system \<Rightarrow> bool"
  for cfg stamp where
  refresh: "system_step cfg stamp x (refresh_system x)"
| login: "system_step cfg stamp x
    (x\<lparr>sy_flights := sy_flights x @ [Sent PToken (login_start u p (sy_auth x))]\<rparr>)"
| register: "system_step cfg stamp x
    (x\<lparr>sy_flights := sy_flights x @ [Sent (PRegister u p) (register_start u p ro (sy_auth x))]\<rparr>)"
| logout: "system_step cfg stamp x (x\<lparr>sy_auth := logout (sy_auth x)\<rparr>)"
| serve: "i < length (sy_flights x) \<Longrightarrow> sy_flights x ! i = Sent k call \<Longrightarrow> delivered call r \<Longrightarrow>
    fresh_env env (sy_server x) \<Longrightarrow> serve cfg env (sy_server x) r = (srv, out) \<Longrightarrow>
    system_step cfg stamp x (x\<lparr>sy_flights := (sy_flights x)[i := Answered k out], sy_server := srv\<rparr>)"
| traffic: "fresh_env env (sy_server x) \<Longrightarrow>
    system_step cfg stamp x (x\<lparr>sy_server := fst (serve cfg env (sy_server x) r)\<rparr>)"
| reply: "i < length (sy_flights x) \<Longrightarrow> sy_flights x ! i = Answered k out \<Longrightarrow>
    system_step cfg stamp x (settle stamp i (FromServer out) x)"
| loss: "i < length (sy_flights x) \<Longrightarrow> d = Lost t \<or> d = Refused st data \<Longrightarrow>
    system_step cfg stamp x (settle stamp i d x)"

text \<open>The provider mounts over any state of the server.\<close>

definition system_init :: "string option \<Rightarrow> 'r server \<Rightarrow> 'r system" where
  "system_init stored srv = refresh_system \<lparr>sy_auth = auth_init stored, sy_flights = [], sy_server = srv\<rparr>"

inductive system_reachable ::
    "'r config \<Rightarrow> 'r \<Rightarrow> (int \<Rightarrow> string) \<Rightarrow> string option \<Rightarrow> 'r system \<Rightarrow> bool"
  for cfg r0 stamp stored where
  mount: "reachable cfg r0 srv \<Longrightarrow> system_reachable cfg r0 stamp stored (system_init stored srv)"
| step: "system_reachable cfg r0 stamp stored x \<Longrightarrow> system_step cfg stamp x y \<Longrightarrow>
    system_reachable cfg r0 stamp stored y"

subsection \<open>The session provider inside the system\<close>

definition session_of :: "'r system \<Rightarrow> session" where
  "session_of x = \<lparr>ss_auth = sy_auth x, ss_pending = map flight_kind (sy_flights x)\<rparr>"

lemma map_drop_nth: "map f (drop_nth i xs) = drop_nth i (map f xs)"
  by (simp add: drop_nth_def take_map drop_map)

lemma session_of_refresh: "session_of (refresh_system x) = start_profile (session_of x)"
  by (auto simp: session_of_def refresh_system_def start_profile_def split: prod.split option.split)

lemma session_of_settle:
  assumes "i < length (sy_flights x)"
  shows "reply_step (session_of x) (session_of (settle stamp i d x))"
proof -
  let ?s = "session_of x"
  have i: "i < length (ss_pending ?s)" using assms by (simp add: session_of_def)
  have k: "ss_pending ?s ! i = flight_kind (sy_flights x ! i)" using assms by (simp add: session_of_def)
  have shape: "session_of (settle stamp i d x) =
    (case continue_with stamp (flight_kind (sy_flights x ! i)) d (sy_auth x) of
       (s, new) \<Rightarrow> \<lparr>ss_auth = s, ss_pending = drop_nth i (ss_pending ?s) @ map flight_kind new\<rparr>)"
    by (simp add: settle_def session_of_def map_drop_nth split: prod.split)
  have self: "?s\<lparr>ss_pending := p\<rparr> = \<lparr>ss_auth = sy_auth x, ss_pending = p\<rparr>" for p
    by (simp add: session_of_def)
  have auth [simp]: "ss_auth ?s = sy_auth x" by (simp add: session_of_def)
  note rules = profile_reply [OF i] register_ok [OF i] register_fails [OF i] token_ok [OF i]
    token_fails [OF i] me_ok [OF i] me_fails [OF i]
  show ?thesis
  proof (cases "flight_kind (sy_flights x ! i)")
    case PProfile
    with rules(1) k show ?thesis unfolding shape by simp
  next
    case (PRegister u p)
    with rules(2,3) [where u = u and p = p] k show ?thesis
      unfolding shape self by (cases "register_reply u p (received (read_registered stamp) d) (sy_auth x)") simp_all
  next
    case PToken
    with rules(4,5) k show ?thesis
      unfolding shape self by (cases "login_token_reply (received read_token d) (sy_auth x)") (auto split: prod.split)
  next
    case PMe
    with rules(6,7) k show ?thesis
      unfolding shape self by (cases "login_profile_reply (received (read_profile stamp) d) (sy_auth x)") simp_all
  qed
qed

lemma map_flight_kind_answered:
  "i < length fs \<Longrightarrow> fs ! i = Sent k call \<Longrightarrow> map flight_kind (fs[i := Answered k out]) = map flight_kind fs"
  by (auto simp: list_eq_iff_nth_eq nth_list_update)

text \<open>Every step of the system is a step of its session or invisible to it.\<close>

lemma session_of_step:
  "system_step cfg stamp x y \<Longrightarrow> session_step (session_of x) (session_of y) \<or> session_of y = session_of x"
proof (induction rule: system_step.induct)
  case (refresh x)
  show ?case using session_step.refresh [of "session_of x"] by (simp add: session_of_refresh)
next
  case (login x u p)
  show ?case using session_step.login [of "session_of x"] by (simp add: session_of_def)
next
  case (register x u p ro)
  show ?case using session_step.register [of "session_of x" u p] by (simp add: session_of_def)
next
  case (logout x)
  show ?case using session_step.logout [of "session_of x"] by (simp add: session_of_def)
next
  case (serve i x k call r env srv out)
  then show ?case by (simp add: session_of_def map_flight_kind_answered)
next
  case (traffic env x r)
  show ?case by (simp add: session_of_def)
next
  case (reply i x k out)
  then show ?case by (blast intro: session_step.reply session_of_settle)
next
  case (loss i x d t st data)
  then show ?case by (blast intro: session_step.reply session_of_settle)
qed

lemma session_of_init: "session_of (system_init stored srv) = session_init stored"
  by (simp add: system_init_def session_of_refresh session_init_def) (simp add: session_of_def)

text \<open>The system refines the session of the theory \<open>AuthProvider\<close>: whatever the server and the
  network do, the session is in one of that model's reachable states.\<close>

lemma system_session: "system_reachable cfg r0 stamp stored x \<Longrightarrow> session_reachable (session_of x)"
proof (induction rule: system_reachable.induct)
  case (mount srv)
  show ?case by (simp add: session_of_init session_reachable.mount)
next
  case (step x y)
  then show ?case using session_of_step [of cfg stamp x y] session_reachable.step by metis
qed

subsection \<open>The client's user is an account of the server\<close>

text \<open>A profile is genuine when the server has the account, with the same name, role and status.\<close>

definition genuine :: "mem_store \<Rightarrow> ui_user \<Rightarrow> bool" where
  "genuine s u \<longleftrightarrow> (\<exists>a. byID s (uu_id u) = Some a \<and> byUsername s (uu_username u) = Some a \<and>
     u_role a = role_name (uu_role u) \<and> u_status a = status_name (uu_status u))"

lemma genuine_kept: "accounts_kept s s' \<Longrightarrow> genuine s u \<Longrightarrow> genuine s' u"
  unfolding genuine_def using accounts_keptD by metis

lemma issued_kept: "accounts_kept s s' \<Longrightarrow> issued lib key s tok \<Longrightarrow> issued lib key s' tok"
  unfolding issued_def using accounts_keptD(1) by metis

lemma find_SomeD: "List.find P xs = Some x \<Longrightarrow> P x"
  by (induction xs) (auto split: if_splits)

lemma read_user_genuine:
  assumes "store_consistent s" and "byID s (u_id a) = Some a" and "read_user stamp (to_public a) = Some u"
  shows "genuine s u"
  using assms(3) store_consistentD(2) [OF assms(1,2)] assms(2)
  by (auto simp: read_user_def genuine_def simp del: find.simps dest!: find_SomeD split: option.splits)

text \<open>What the invariant says of a body the client receives with status 2xx.\<close>

definition body_ok :: "(int \<Rightarrow> string) \<Rightarrow> 'r config \<Rightarrow> mem_store \<Rightarrow> payload \<Rightarrow> bool" where
  "body_ok stamp cfg s p \<longleftrightarrow> (\<forall>u. read_profile stamp p = Some u \<longrightarrow> genuine s u) \<and>
     (\<forall>t. read_token p = Some t \<longrightarrow> issued (cf_lib cfg) (cf_key cfg) s t)"

fun delivery_ok :: "(int \<Rightarrow> string) \<Rightarrow> 'r config \<Rightarrow> mem_store \<Rightarrow> delivery \<Rightarrow> bool" where
  "delivery_ok stamp cfg s (FromServer (Inr rsp)) \<longleftrightarrow>
     rsp_status rsp < 300 \<longrightarrow> body_ok stamp cfg s (rsp_payload rsp)"
| "delivery_ok stamp cfg s d \<longleftrightarrow> True"

fun flight_ok :: "(int \<Rightarrow> string) \<Rightarrow> 'r config \<Rightarrow> mem_store \<Rightarrow> flight \<Rightarrow> bool" where
  "flight_ok stamp cfg s (Sent k call) \<longleftrightarrow> fc_method call \<noteq> ''OPTIONS''"
| "flight_ok stamp cfg s (Answered k out) \<longleftrightarrow> delivery_ok stamp cfg s (FromServer out)"

definition auth_ok :: "'r config \<Rightarrow> string option \<Rightarrow> mem_store \<Rightarrow> auth_state \<Rightarrow> bool" where
  "auth_ok cfg stored s a \<longleftrightarrow> (\<forall>u. au_user a = Some u \<longrightarrow> genuine s u) \<and>
     (\<forall>t. ac_token (au_api a) = Some t \<longrightarrow> Some t = stored \<or> issued (cf_lib cfg) (cf_key cfg) s t)"

definition system_ok :: "'r config \<Rightarrow> 'r \<Rightarrow> (int \<Rightarrow> string) \<Rightarrow> string option \<Rightarrow> 'r system \<Rightarrow> bool" where
  "system_ok cfg r0 stamp stored x \<longleftrightarrow> reachable cfg r0 (sy_server x) \<and>
     auth_ok cfg stored (sv_users (sy_server x)) (sy_auth x) \<and>
     (\<forall>f \<in> set (sy_flights x). flight_ok stamp cfg (sv_users (sy_server x)) f)"

lemma ok_kept:
  assumes "accounts_kept s s'"
  shows "auth_ok cfg stored s a \<Longrightarrow> auth_ok cfg stored s' a"
    and "flight_ok stamp cfg s f \<Longrightarrow> flight_ok stamp cfg s' f"
proof -
  note kept = genuine_kept [OF assms] issued_kept [OF assms]
  show "auth_ok cfg stored s a \<Longrightarrow> auth_ok cfg stored s' a"
    using kept unfolding auth_ok_def by blast
  show "flight_ok stamp cfg s f \<Longrightarrow> flight_ok stamp cfg s' f"
  proof (cases f)
    case (Answered k out)
    then show "flight_ok stamp cfg s f \<Longrightarrow> flight_ok stamp cfg s' f"
      using kept by (cases out) (auto simp: body_ok_def)
  qed simp
qed

lemma delivery_values:
  assumes "delivery_ok stamp cfg s d"
  shows "request_result (received (read_profile stamp) d) = Inr (Some u) \<Longrightarrow> genuine s u"
    and "request_result (received read_token d) = Inr (Some t) \<Longrightarrow> issued (cf_lib cfg) (cf_key cfg) s t"
proof -
  have body: "body_ok stamp cfg s (rsp_payload rsp)"
    if "d = FromServer (Inr rsp)" "rsp_status rsp < 300" for rsp
    using assms that by simp
  have shape: "\<exists>rsp. d = FromServer (Inr rsp) \<and> rsp_status rsp < 300 \<and> read (rsp_payload rsp) = Some v"
    if "request_result (received read d) = Inr (Some v)" for read :: "payload \<Rightarrow> 'b option" and v
    using that by (cases d) (auto simp: request_result_def answer_def split: sum.splits if_splits)
  show "request_result (received (read_profile stamp) d) = Inr (Some u) \<Longrightarrow> genuine s u"
    using shape [of "read_profile stamp" u] body unfolding body_ok_def by blast
  show "request_result (received read_token d) = Inr (Some t) \<Longrightarrow> issued (cf_lib cfg) (cf_key cfg) s t"
    using shape [of read_token t] body unfolding body_ok_def by blast
qed

lemma client_methods [simp]:
  "fc_method (login_start u p a) = ''POST''" "fc_method (register_start u p ro a) = ''POST''"
  "fc_method (api_getMe c) = ''GET''"
  by (simp_all add: login_start_def register_start_def api_login_def api_register_def api_getMe_def
      api_request_def)

lemma auth_ok_continue:
  assumes "delivery_ok stamp cfg s d" and "auth_ok cfg stored s a"
    and "continue_with stamp k d a = (a', new)"
  shows "auth_ok cfg stored s a' \<and> (\<forall>f \<in> set new. flight_ok stamp cfg s f)"
proof (cases k)
  case PProfile
  then show ?thesis
    using assms(2,3) delivery_values(1) [OF assms(1)]
    by (auto simp: auth_ok_def fetchProfile_reply_def api_setToken_def split: sum.splits)
next
  case (PRegister u p)
  then show ?thesis
    using assms(2,3) by (auto simp: register_reply_def split: sum.splits)
next
  case PToken
  then show ?thesis
    using assms(2,3) delivery_values(2) [OF assms(1)]
    by (auto simp: auth_ok_def login_token_reply_def api_login_reply_def read_result_def api_setToken_def
        split: sum.splits option.splits prod.splits)
next
  case PMe
  then show ?thesis
    using assms(2,3) delivery_values(1) [OF assms(1)]
    by (auto simp: auth_ok_def login_profile_reply_def split: sum.splits)
qed

lemma system_ok_settle:
  assumes "system_ok cfg r0 stamp stored x" and "i < length (sy_flights x)"
    and "delivery_ok stamp cfg (sv_users (sy_server x)) d"
  shows "system_ok cfg r0 stamp stored (settle stamp i d x)"
proof -
  obtain a new where c: "continue_with stamp (flight_kind (sy_flights x ! i)) d (sy_auth x) = (a, new)"
    by (cases "continue_with stamp (flight_kind (sy_flights x ! i)) d (sy_auth x)")
  from auth_ok_continue [OF assms(3) _ c, of stored] assms(1) show ?thesis
    using set_drop_nth_subset [of i "sy_flights x"]
    by (auto simp: system_ok_def settle_def c)
qed

lemma system_ok_refresh: "system_ok cfg r0 stamp stored x \<Longrightarrow> system_ok cfg r0 stamp stored (refresh_system x)"
  by (auto simp: system_ok_def refresh_system_def fetchProfile_def auth_ok_def split: if_splits)

lemma system_ok_served:
  assumes "system_ok cfg r0 stamp stored x" and "fresh_env env (sy_server x)"
    and "serve cfg env (sy_server x) r = (srv, out)"
  shows "reachable cfg r0 srv" "accounts_kept (sv_users (sy_server x)) (sv_users srv)"
proof -
  show "reachable cfg r0 srv"
    using reachable.request [OF _ assms(2), of cfg r0 r] assms(1,3) by (simp add: system_ok_def)
  show "accounts_kept (sv_users (sy_server x)) (sv_users srv)"
    using serve_keeps_accounts [OF assms(2), of cfg r] assms(3) by simp
qed

lemma served_delivery_ok:
  assumes "store_consistent (sv_users s)" and "serve cfg env s r = (s', out)" and "hr_method r \<noteq> ''OPTIONS''"
  shows "delivery_ok stamp cfg (sv_users s) (FromServer out)"
proof (cases out)
  case (Inr rsp)
  have "body_ok stamp cfg (sv_users s) (rsp_payload rsp)" if "rsp_status rsp < 300"
  proof -
    have h: "honest cfg s rsp"
      using serve_honest [OF assms(1) _ that assms(3)] assms(2) Inr by simp
    then show ?thesis
      using read_user_genuine [OF assms(1)]
      by (auto simp: honest_def body_ok_def read_profile_def read_token_def split: payload.splits)
  qed
  with Inr show ?thesis by simp
qed simp

lemma reachable_consistent: "reachable cfg r0 s \<Longrightarrow> store_consistent (sv_users s)"
  by (drule reachable_server_ok) (simp add: server_ok_def users_ok_def)

lemma system_ok_step:
  assumes "system_step cfg stamp x y" and ok: "system_ok cfg r0 stamp stored x"
  shows "system_ok cfg r0 stamp stored y"
  using assms(1)
proof cases
  case refresh
  with ok show ?thesis by (simp add: system_ok_refresh)
next
  case (login u p)
  with ok show ?thesis by (simp add: system_ok_def)
next
  case (register u p ro)
  with ok show ?thesis by (simp add: system_ok_def)
next
  case logout
  with ok show ?thesis by (simp add: system_ok_def auth_ok_def logout_def api_setToken_def)
next
  case (serve i k call r env srv out)
  note kept = system_ok_served [OF ok serve(5,6)]
  have "flight_ok stamp cfg (sv_users (sy_server x)) (Sent k call)"
    using ok serve(2,3) nth_mem [OF serve(2)] by (auto simp: system_ok_def)
  then have "hr_method r \<noteq> ''OPTIONS''" using serve(4) by (simp add: delivered_def)
  from served_delivery_ok [OF _ serve(6) this] ok
  have "delivery_ok stamp cfg (sv_users (sy_server x)) (FromServer out)"
    by (auto simp: system_ok_def intro: reachable_consistent)
  then have "flight_ok stamp cfg (sv_users srv) (Answered k out)"
    using ok_kept(2) [OF kept(2), of stamp cfg "Answered k out"] by simp
  then show ?thesis
    using ok kept ok_kept [OF kept(2)] serve(1) set_update_subset_insert [of "sy_flights x" i]
    by (fastforce simp: system_ok_def)
next
  case (traffic env r)
  obtain srv out where sv: "serve cfg env (sy_server x) r = (srv, out)" by (cases "serve cfg env (sy_server x) r")
  note kept = system_ok_served [OF ok traffic(2) sv]
  then show ?thesis
    using ok ok_kept [OF kept(2)] unfolding traffic(1) system_ok_def sv by simp blast
next
  case (reply i k out)
  have "flight_ok stamp cfg (sv_users (sy_server x)) (Answered k out)"
    using ok reply(2,3) nth_mem [OF reply(2)] by (auto simp: system_ok_def)
  then show ?thesis using system_ok_settle [OF ok reply(2)] reply(1) by simp
next
  case (loss i d t st data)
  have "delivery_ok stamp cfg (sv_users (sy_server x)) d" using loss(3) by auto
  then show ?thesis using system_ok_settle [OF ok loss(2)] loss(1) by simp
qed

lemma system_reachable_ok: "system_reachable cfg r0 stamp stored x \<Longrightarrow> system_ok cfg r0 stamp stored x"
proof (induction rule: system_reachable.induct)
  case (mount srv)
  have "system_ok cfg r0 stamp stored \<lparr>sy_auth = auth_init stored, sy_flights = [], sy_server = srv\<rparr>"
    using mount by (simp add: system_ok_def auth_ok_def auth_init_def new_ApiClient_def Let_def)
  then show ?case unfolding system_init_def by (rule system_ok_refresh)
qed (rule system_ok_step)

end
