(* ===== verification/SignIn.thy ===== *)
theory SignIn
  imports System
begin

text \<open>
  Signing in across the stack: the login form, the provider's two requests, the server's token
  and profile routes.
\<close>

subsection \<open>The routes of a login\<close>

lemma serve_mux_answer:
  assumes "hr_method r \<noteq> ''OPTIONS''" "hr_body_bytes r \<le> 2 ^ 20"
    and "serve_mux (registerRoutes memory_stores cfg env) False s (r\<lparr>hr_claims := None\<rparr>) = (s', evs, out)"
  shows "\<exists>out'. serve cfg env s r = (log_events env evs s', out') \<and> same_answer out out'"
proof -
  let ?r = "r\<lparr>hr_claims := None\<rparr>"
  have lim: "limited_request ?r = ?r" using assms(2) by (simp add: limited_request_def)
  have "serve_mux (registerRoutes memory_stores cfg env) False s (limited_request ?r) = (s', evs, out)"
    using assms(3) by (simp only: lim)
  from global_handler_answer [OF _ this] assms(1) obtain out' where
    "global_handler memory_stores cfg env s ?r = (s', evs, out')" "same_answer out out'" by auto
  then show ?thesis by (simp add: serve_on_def log_events_on_def)
qed

lemma mux_login:
  assumes "hr_method r = ''POST''" "hr_path r = ''/api/v1/auth/login''"
  shows "serve_mux (registerRoutes memory_stores cfg env) False s r =
    withRateLimit (cf_limiter cfg) (sv_redis s) (en_now env)
      (on_users (Login_handler mem_ops (cf_lib cfg) (cf_key cfg) env)) s (r\<lparr>hr_path_id := []\<rparr>)"
  by (simp add: registerRoutes_def Let_def assms method_match_def)

lemma mux_me:
  assumes "hr_method r = ''GET''" "hr_path r = ''/api/v1/auth/me''"
  shows "serve_mux (registerRoutes memory_stores cfg env) False s r =
    RequireAuth (cf_lib cfg) (cf_key cfg) (en_now env) (on_users (Me mem_ops)) s (r\<lparr>hr_path_id := []\<rparr>)"
  by (simp add: registerRoutes_def Let_def assms method_match_def)

text \<open>What a JWT looks like: it is not empty and has no white space at its ends.\<close>

definition jwt_text :: "auth_lib \<Rightarrow> bool" where
  "jwt_text lib \<longleftrightarrow> (\<forall>c key tok. jwt_sign lib c key = Some tok \<longrightarrow> tok \<noteq> [] \<and> trim_space tok = tok)"

definition not_locked :: "'r config \<Rightarrow> env \<Rightarrow> 'r server \<Rightarrow> http_request \<Rightarrow> bool" where
  "not_locked cfg env s r \<longleftrightarrow> \<not> fst (IsRateLimited (cf_limiter cfg) (sv_redis s) (en_now env) (hr_remote_addr r))"

lemma decode_login_object:
  "decode_login (Some (JObj [(''username'', JStr n), (''password'', JStr pw)])) =
   Some \<lparr>li_username = n, li_password = pw\<rparr>"
  by (simp add: decode_login_def set_login_field_def)

lemma serve_login:
  assumes "delivered (login_start n pw a) r" "hr_body_bytes r \<le> 2 ^ 20" "not_locked cfg env s r"
    and "byUsername (sv_users s) n = Some acc" "bcrypt_compare (cf_lib cfg) (u_password_hash acc) pw"
    and "u_status acc = StatusActive" "generateJWT (cf_lib cfg) (cf_key cfg) env acc = Some tok"
  shows "\<exists>evs rsp. serve cfg env s r = (log_events env evs s, Inr rsp) \<and> rsp_status rsp = 200 \<and>
    rsp_payload rsp = TokenBody tok"
proof -
  let ?r = "r\<lparr>hr_claims := None\<rparr>"
  have req: "hr_method r = ''POST''" "hr_path r = ''/api/v1/auth/login''"
    "hr_body r = Some (JObj [(''username'', JStr n), (''password'', JStr pw)])"
    using assms(1) by (simp_all add: delivered_def login_start_def api_login_def api_request_def API_BASE_def)
  have "Login mem_ops (cf_lib cfg) (cf_key cfg) env (sv_users s) \<lparr>li_username = n, li_password = pw\<rparr> = Inr (tok, acc)"
    using assms(4-7) by (simp add: Login_def mem_ops_def mem_GetUserByUsername_def)
  then obtain evs where h: "Login_handler mem_ops (cf_lib cfg) (cf_key cfg) env (sv_users s)
      (?r\<lparr>hr_path_id := []\<rparr>) = (sv_users s, evs, Inr (writeJSON 200 (TokenBody tok)))"
    by (simp add: Login_handler_def req decode_login_object)
  have "serve_mux (registerRoutes memory_stores cfg env) False s ?r = (s, evs, Inr (writeJSON 200 (TokenBody tok)))"
    using mux_login [of ?r cfg env s] req assms(3) h
    by (simp add: withRateLimit_def not_locked_def on_users_def)
  from serve_mux_answer [OF _ assms(2) this] req(1) obtain out' where
    "serve cfg env s r = (log_events env evs s, out')"
    "same_answer (Inr (writeJSON 200 (TokenBody tok))) out'" by auto
  then show ?thesis
    by (cases out') (auto simp: same_answer_def)
qed

text \<open>A login whose credentials are wrong.\<close>

lemma serve_login_refused:
  assumes "delivered (login_start n pw a) r" "hr_body_bytes r \<le> 2 ^ 20" "not_locked cfg env s r"
    and "Login mem_ops (cf_lib cfg) (cf_key cfg) env (sv_users s) \<lparr>li_username = n, li_password = pw\<rparr> =
      Inl ErrInvalidCredentials"
  shows "\<exists>evs rsp. serve cfg env s r = (log_events env evs s, Inr rsp) \<and> rsp_status rsp = 401 \<and>
    rsp_payload rsp = ErrorBody ''invalid credentials''"
proof -
  let ?r = "r\<lparr>hr_claims := None\<rparr>" and ?out = "Inr (writeError 401 ''invalid credentials'')"
  have req: "hr_method r = ''POST''" "hr_path r = ''/api/v1/auth/login''"
    "hr_body r = Some (JObj [(''username'', JStr n), (''password'', JStr pw)])"
    using assms(1) by (simp_all add: delivered_def login_start_def api_login_def api_request_def API_BASE_def)
  obtain evs where h: "Login_handler mem_ops (cf_lib cfg) (cf_key cfg) env (sv_users s)
      (?r\<lparr>hr_path_id := []\<rparr>) = (sv_users s, evs, ?out)"
    using assms(4) by (simp add: Login_handler_def req decode_login_object)
  have "serve_mux (registerRoutes memory_stores cfg env) False s ?r = (s, evs, ?out)"
    using mux_login [of ?r cfg env s] req assms(3) h
    by (simp add: withRateLimit_def not_locked_def on_users_def)
  from serve_mux_answer [OF _ assms(2) this] req(1) obtain out' where
    "serve cfg env s r = (log_events env evs s, out')" "same_answer ?out out'" by auto
  then show ?thesis
    by (cases out') (auto simp: same_answer_def)
qed

lemma serve_me:
  assumes "delivered (api_getMe c) r" "hr_body_bytes r \<le> 2 ^ 20" "ac_token c = Some tok"
    and "tok \<noteq> []" "trim_space tok = tok"
    and "ValidateToken (cf_lib cfg) (cf_key cfg) (en_now env) tok = Inr cl"
    and "byID (sv_users s) (c_user_id cl) = Some acc"
  shows "\<exists>rsp. serve cfg env s r = (s, Inr rsp) \<and> rsp_status rsp = 200 \<and>
    rsp_payload rsp = UserBody (to_public acc)"
proof -
  let ?r = "r\<lparr>hr_claims := None\<rparr>"
  have req: "hr_method r = ''GET''" "hr_path r = ''/api/v1/auth/me''"
    using assms(1) by (simp_all add: delivered_def api_getMe_def api_request_def API_BASE_def)
  have "extractBearerToken (?r\<lparr>hr_path_id := []\<rparr>) = extractBearerToken r"
    by (rule extractBearerToken_cong) simp
  also have "\<dots> = Some tok"
    using assms(1,3,4,5) by (intro bearer_token_sent) (simp_all add: delivered_def api_getMe_def)
  finally have "serve_mux (registerRoutes memory_stores cfg env) False s ?r =
      (s, [], Inr (writeJSON 200 (UserBody (to_public acc))))"
    using mux_me [of ?r cfg env s] req assms(6,7)
    by (simp add: RequireAuth_def on_users_def Me_def mem_ops_def mem_GetUserByID_def respond_def)
  from serve_mux_answer [OF _ assms(2) this] req(1) obtain out' where
    "serve cfg env s r = (log_events env [] s, out')"
    "same_answer (Inr (writeJSON 200 (UserBody (to_public acc)))) out'" by auto
  then show ?thesis
    by (cases out') (auto simp: same_answer_def)
qed


subsection \<open>Signing in\<close>

text \<open>A login whose two requests reach the server: the first with the credentials of a stored
  account, the second while the token is valid. The session then holds that account's profile
  and a token signed for it.\<close>

lemma login_across:
  assumes ok: "store_consistent (sv_users srv)" "account_ok acc" and lib: "jwt_ok (cf_lib cfg)" "jwt_text (cf_lib cfg)"
    and acc: "byUsername (sv_users srv) n = Some acc" "bcrypt_compare (cf_lib cfg) (u_password_hash acc) pw"
    and r1: "delivered (login_start n pw a) r1" "hr_body_bytes r1 \<le> 2 ^ 20"
      "not_locked cfg env1 srv r1" "serve cfg env1 srv r1 = (srv1, out1)"
    and r2: "\<forall>a1 call. login_token_reply (answer read_token out1) a = Inr (a1, call) \<longrightarrow> delivered call r2"
      "hr_body_bytes r2 \<le> 2 ^ 20" "en_now env2 < en_now env1 + tokenExpiry"
      "serve cfg env2 srv1 r2 = (srv2, out2)"
  shows "\<exists>u tok. login_run (answer read_token out1) (answer (read_profile stamp) out2) a =
      (a\<lparr>au_api := api_setToken (Some tok) (au_api a), au_token := Some tok, au_user := Some u\<rparr>, Inr ()) \<and>
    tok \<noteq> [] \<and> uu_username u = n \<and> uu_id u = u_id acc \<and> role_name (uu_role u) = u_role acc \<and>
    (\<forall>now. ValidateToken (cf_lib cfg) (cf_key cfg) now tok =
       (if now < en_now env1 + tokenExpiry then Inr (token_claims env1 acc) else Inl ''token is not valid''))"
proof -
  let ?s = "sv_users srv" and ?lib = "cf_lib cfg" and ?key = "cf_key cfg"
  note at = store_consistentD(3,4) [OF ok(1) acc(1)]
  obtain tok where tok: "generateJWT ?lib ?key env1 acc = Some tok"
    using jwt_ok_sign [OF lib(1)] by (auto simp: generateJWT_def)
  have shape: "tok \<noteq> []" "trim_space tok = tok"
    using lib(2) tok by (auto simp: jwt_text_def generateJWT_def)
  note valid = ValidateToken_generated [OF lib(1) tok]
  from serve_login [OF r1(1-3) acc _ tok] ok(2) r1(4) obtain evs rsp1 where
    out1: "srv1 = log_events env1 evs srv" "out1 = Inr rsp1" "rsp_status rsp1 = 200" "rsp_payload rsp1 = TokenBody tok"
    by (auto simp: account_ok_def)
  let ?c = "api_setToken (Some tok) (au_api a)"
  let ?a1 = "a\<lparr>au_api := ?c, au_token := Some tok\<rparr>"
  have reply1: "login_token_reply (answer read_token out1) a = Inr (?a1, api_getMe ?c)"
    by (simp add: out1 answer_def read_token_def login_token_reply_def api_login_reply_def reply_defs)
  from read_user_account [OF ok(2), of stamp] obtain u where
    u: "read_user stamp (to_public acc) = Some u" "uu_id u = u_id acc" "uu_username u = u_username acc"
      "role_name (uu_role u) = u_role acc" by blast
  have "ValidateToken ?lib ?key (en_now env2) tok = Inr (token_claims env1 acc)"
    using valid r2(3) by simp
  moreover have "byID (sv_users srv1) (c_user_id (token_claims env1 acc)) = Some acc"
    using at(2) by (simp add: out1(1) token_claims_def)
  ultimately have "\<exists>rsp. serve cfg env2 srv1 r2 = (srv1, Inr rsp) \<and> rsp_status rsp = 200 \<and>
      rsp_payload rsp = UserBody (to_public acc)"
    by (intro serve_me [OF r2(1) [rule_format, OF reply1] r2(2) _ shape]) (simp add: api_setToken_def)
  then obtain rsp2 where "out2 = Inr rsp2" "rsp_status rsp2 = 200" "rsp_payload rsp2 = UserBody (to_public acc)"
    using r2(4) by auto
  then have "login_profile_reply (answer (read_profile stamp) out2) ?a1 = Inr (?a1\<lparr>au_user := Some u\<rparr>)"
    by (simp add: answer_def read_profile_def u(1) login_profile_reply_def reply_defs)
  with reply1 show ?thesis
    using u at(1) valid shape(1) by (intro exI [of _ u] exI [of _ tok]) (simp add: login_run_def)
qed

text \<open>C11: Signing in works from the form to the server and back: on any reachable server, submitting
  the login form with the name and password of an account signs that account in, provided the
  address is not locked out, both requests reach the server and the second one does so within the
  token's day. The page goes to the dashboard without an error, the user shown is the account
  with its id and role, and the stored token is accepted by the server with the account's claims
  until 24 hours after the login and refused from then on.\<close>

theorem sign_in:
  assumes "reachable cfg r0 srv" and "jwt_ok (cf_lib cfg)" and "jwt_text (cf_lib cfg)"
    and "byUsername (sv_users srv) (lp_username p) = Some acc"
    and "bcrypt_compare (cf_lib cfg) (u_password_hash acc) (lp_password p)"
    and "delivered (login_start (lp_username p) (lp_password p) a) r1" "hr_body_bytes r1 \<le> 2 ^ 20"
    and "not_locked cfg env1 srv r1" "serve cfg env1 srv r1 = (srv1, out1)"
    and "\<forall>a1 call. login_token_reply (answer read_token out1) a = Inr (a1, call) \<longrightarrow> delivered call r2"
    and "hr_body_bytes r2 \<le> 2 ^ 20" "en_now env2 < en_now env1 + tokenExpiry"
    and "serve cfg env2 srv1 r2 = (srv2, out2)"
  shows "\<exists>p' a' u tok. submit_login (answer read_token out1) (answer (read_profile stamp) out2) p a =
      (p', a', Some ''/dashboard'') \<and> lp_error p' = None \<and>
    au_user a' = Some u \<and> uu_username u = lp_username p \<and> uu_id u = u_id acc \<and>
    role_name (uu_role u) = u_role acc \<and> au_token a' = Some tok \<and> ac_session (au_api a') = Some tok \<and>
    (\<forall>now. ValidateToken (cf_lib cfg) (cf_key cfg) now tok =
       (if now < en_now env1 + tokenExpiry then Inr (token_claims env1 acc) else Inl ''token is not valid''))"
proof -
  have ok: "store_consistent (sv_users srv)" "account_ok acc"
    using reachable_server_ok [OF assms(1)] store_consistentD(4) [OF _ assms(4)]
    by (auto simp: server_ok_def users_ok_def)
  from login_across [OF ok assms(2-13), of stamp] obtain u tok where
    "login_run (answer read_token out1) (answer (read_profile stamp) out2) a =
      (a\<lparr>au_api := api_setToken (Some tok) (au_api a), au_token := Some tok, au_user := Some u\<rparr>, Inr ())"
    and rest: "tok \<noteq> []" "uu_username u = lp_username p" "uu_id u = u_id acc" "role_name (uu_role u) = u_role acc"
    "\<forall>now. ValidateToken (cf_lib cfg) (cf_key cfg) now tok =
       (if now < en_now env1 + tokenExpiry then Inr (token_claims env1 acc) else Inl ''token is not valid'')"
    by blast
  then show ?thesis
    by (auto simp: submit_login_def login_settled_def login_handleSubmit_def api_setToken_def truthy_def)
qed

subsection \<open>Registering and being signed in\<close>

lemma form_role:
  "role \<in> (\<lambda>x. role_name (ro_value x)) ` set ROLES \<Longrightarrow>
   to_lower (trim_space role) = role \<and> role \<in> set ValidRoles"
proof -
  have same: "to_lower (trim_space RoleAdmin) = RoleAdmin" "to_lower (trim_space RoleViewer) = RoleViewer"
    "to_lower (trim_space RoleSecurityManager) = RoleSecurityManager"
    "to_lower (trim_space RoleDeveloper) = RoleDeveloper" "to_lower (trim_space RoleAnalyst) = RoleAnalyst"
    by (simp_all add: to_lower_def lower_char_def trim_space_ascii is_space_def char_code_def role_defs)
  assume "role \<in> (\<lambda>x. role_name (ro_value x)) ` set ROLES"
  then have "role \<in> {RoleAdmin, RoleSecurityManager, RoleDeveloper, RoleAnalyst, RoleViewer}"
    unfolding ROLES_roles by (auto simp: ValidRoles_def)
  with same show ?thesis by (auto simp: ValidRoles_def)
qed

text \<open>A registration that reaches the server: the account has the trimmed name, the role and a hash of the
  password.\<close>

lemma register_across:
  assumes "delivered (register_start n pw role a) r" "hr_body_bytes r \<le> 2 ^ 20"
    and "3 \<le> length (trim_space n)" "length (trim_space n) \<le> 50" "8 \<le> length pw"
    and "to_lower (trim_space role) = role" "role \<in> set ValidRoles"
    and "bcrypt_generate (cf_lib cfg) pw bcryptCost (en_salt env) = Some h"
    and "byUsername (sv_users s) (trim_space n) = None" "en_uuid env \<noteq> []" and "serve cfg env s r = (s', out)"
  shows "\<exists>u rsp. byUsername (sv_users s') (trim_space n) = Some u \<and> u_role u = role \<and> u_password_hash u = h \<and>
    out = Inr rsp \<and> rsp_status rsp = 201 \<and> rsp_payload rsp = RegisteredBody ''user registered successfully'' (to_public u)"
proof -
  let ?r = "r\<lparr>hr_claims := None, hr_path_id := []\<rparr>"
  have req: "hr_method r = ''POST''" "hr_path r = ''/api/v1/auth/register''"
    "hr_body r = Some (JObj [(''username'', JStr n), (''password'', JStr pw), (''role'', JStr role)])"
    using assms(1) by (simp_all add: delivered_def register_start_def api_register_def api_request_def API_BASE_def)
  have dec: "decode_register (hr_body ?r) = Some \<lparr>rb_username = n, rb_password = pw, rb_role = role\<rparr>"
    by (simp add: req decode_register_object)
  obtain us u where reg: "Register mem_ops (cf_lib cfg) env (sv_users s)
      \<lparr>ri_username = n, ri_password = pw, ri_role = role\<rparr> = Inr (us, u)"
    "byUsername us (trim_space n) = Some u" "u_role u = role" "u_password_hash u = h"
    using assms(3-10) by (simp add: Register_def Let_def minPasswordLength_def mem_ops_def mem_CreateUser_def)
  obtain evs rsp where h: "Register_handler mem_ops (cf_lib cfg) env (sv_users s) ?r = (us, evs, Inr rsp)"
    "rsp_status rsp = 201" "rsp_payload rsp = RegisteredBody ''user registered successfully'' (to_public u)"
    using assms(6) reg(1) dec by (simp add: Register_handler_def Let_def)
  from serve_register [OF req(1,2) assms(2) h(1)] assms(11) have
    sv: "s' = log_events env evs (s\<lparr>sv_users := us\<rparr>)" "same_answer (Inr rsp) out"
    by auto
  with h(2,3) reg show ?thesis by (auto simp: same_answer_def)
qed

text \<open>C10: Registering works from the form to the dashboard: on any reachable server, submitting the
  registration form with an ASCII password, one of the form's roles and a free name of 3 to 50
  characters without surrounding white space ends, when its three requests reach the server one
  after the other, with the new account signed in under the chosen role and the page on its way
  to the dashboard.\<close>

theorem registration_signs_in:
  assumes "register_handleSubmit p = (p', Some (n, pw, role))" and "\<forall>c \<in> set (rp_password p). char_code c < 128"
    and "rp_role p \<in> (\<lambda>x. role_name (ro_value x)) ` set ROLES"
    and "trim_space n = n" "3 \<le> length n" "length n \<le> 50"
    and "reachable cfg r0 srv" "byUsername (sv_users srv) n = None"
    and "bcrypt_ok (cf_lib cfg)" "jwt_ok (cf_lib cfg)" "jwt_text (cf_lib cfg)"
    and "bcrypt_generate (cf_lib cfg) pw bcryptCost (en_salt env0) = Some h" "fresh_env env0 srv"
    and "delivered (register_start n pw role a) q0" "hr_body_bytes q0 \<le> 2 ^ 20"
    and "serve cfg env0 srv q0 = (srv0, out0)"
    and "delivered (login_start n pw a) q1" "hr_body_bytes q1 \<le> 2 ^ 20"
    and "not_locked cfg env1 srv0 q1" "serve cfg env1 srv0 q1 = (srv1, out1)"
    and "\<forall>a1 call. login_token_reply (answer read_token out1) a = Inr (a1, call) \<longrightarrow> delivered call q2"
    and "hr_body_bytes q2 \<le> 2 ^ 20" "en_now env2 < en_now env1 + tokenExpiry"
    and "serve cfg env2 srv1 q2 = (srv2, out2)"
  shows "\<exists>a' u tok. register_run n pw (answer (read_registered stamp) out0) (answer read_token out1)
      (answer (read_profile stamp) out2) a = (a', Inr ()) \<and>
    register_settled (Inr ()) p' = (p'\<lparr>rp_submitting := False\<rparr>, Some ''/dashboard'') \<and> rp_error p' = None \<and>
    au_user a' = Some u \<and> uu_username u = n \<and> role_name (uu_role u) = rp_role p \<and>
    au_token a' = Some tok \<and> ac_session (au_api a') = Some tok"
proof -
  have sent: "n = rp_username p" "pw = rp_password p" "role = rp_role p" "8 \<le> length pw" "rp_error p' = None"
    using assms(1) js_length_ascii [OF assms(2)]
    by (auto simp: register_handleSubmit_def Let_def split: if_splits)
  have role: "to_lower (trim_space role) = role" "role \<in> set ValidRoles"
    using form_role [OF assms(3)] sent(3) by simp_all
  have uuid: "en_uuid env0 \<noteq> []" using assms(13) by (simp add: fresh_env_def)
  from register_across [of n, unfolded assms(4), OF assms(14,15,5,6) sent(4) role assms(12,8) uuid assms(16)]
  obtain acc rsp where
    acc: "byUsername (sv_users srv0) n = Some acc" "u_role acc = role" "u_password_hash acc = h"
    and out0: "out0 = Inr rsp" "rsp_status rsp = 201"
    by blast
  have "reachable cfg r0 srv0" using reachable.request [OF assms(7,13), of q0] assms(16) by simp
  then have ok: "store_consistent (sv_users srv0)" "account_ok acc"
    using reachable_server_ok [of cfg r0 srv0] store_consistentD(4) [OF _ acc(1)]
    by (auto simp: server_ok_def users_ok_def)
  have "bcrypt_compare (cf_lib cfg) (u_password_hash acc) pw"
    using assms(9,12) acc(3) by (auto simp: bcrypt_ok_def)
  from login_across [OF ok assms(10,11) acc(1) this assms(17-24), of stamp] obtain u tok where
    run: "login_run (answer read_token out1) (answer (read_profile stamp) out2) a =
      (a\<lparr>au_api := api_setToken (Some tok) (au_api a), au_token := Some tok, au_user := Some u\<rparr>, Inr ())"
    and u: "tok \<noteq> []" "uu_username u = n" "role_name (uu_role u) = u_role acc" by blast
  have "register_run n pw (answer (read_registered stamp) out0) (answer read_token out1)
      (answer (read_profile stamp) out2) a = login_run (answer read_token out1) (answer (read_profile stamp) out2) a"
    by (simp add: register_run_def register_reply_def out0 answer_def request_result_def)
  with run u acc(2) sent show ?thesis
    by (intro exI [of _ u] exI [of _ tok] exI) (auto simp: register_settled_def api_setToken_def truthy_def)
qed

subsection \<open>On the demonstration server\<close>

text \<open>The server after its start-up has the four development accounts.\<close>

definition demo_account :: "string \<Rightarrow> string \<Rightarrow> string \<Rightarrow> role \<Rightarrow> user" where
  "demo_account i n h ro = \<lparr>u_id = i, u_username = n, u_password_hash = ''$2a$'' @ h, u_role = ro,
     u_organization_id = [], u_status = StatusActive, u_mfa_secret = [], u_mfa_enabled = False,
     u_created_at = 0, u_updated_at = 0\<rparr>"

lemma demo_users:
  "byID (sv_users demo_server) =
     [''a'' \<mapsto> demo_account ''a'' ''admin'' ''AdminPassword123!'' RoleAdmin,
      ''b'' \<mapsto> demo_account ''b'' ''developer'' ''DevPassword123!'' RoleDeveloper,
      ''c'' \<mapsto> demo_account ''c'' ''viewer'' ''ViewerPassword123!'' RoleViewer,
      ''d'' \<mapsto> demo_account ''d'' ''secmgr'' ''SecPassword123!'' RoleSecurityManager]"
  "byUsername (sv_users demo_server) =
     [''admin'' \<mapsto> demo_account ''a'' ''admin'' ''AdminPassword123!'' RoleAdmin,
      ''developer'' \<mapsto> demo_account ''b'' ''developer'' ''DevPassword123!'' RoleDeveloper,
      ''viewer'' \<mapsto> demo_account ''c'' ''viewer'' ''ViewerPassword123!'' RoleViewer,
      ''secmgr'' \<mapsto> demo_account ''d'' ''secmgr'' ''SecPassword123!'' RoleSecurityManager]"
  by (simp_all add: demo_server_def start_server_def demo_config_def seedDevUsers_def seed_one_def
      dev_seeds_def demo_lib_def mem_defs NewMemoryUserStore_def demo_account_def created_user_def Let_def)

text \<open>A request as the server sees it when it arrives unchanged.\<close>

definition request_of :: "fetch_call \<Rightarrow> http_request" where
  "request_of call = demo_request\<lparr>hr_method := fc_method call, hr_path := the (url_path (fc_url call)),
     hr_query := url_query (fc_url call),
     hr_body := fc_body call, hr_authorization := authorization_of call\<rparr>"

lemma plain_calls:
  "list_all plain_char (fc_url (login_start n pw a))" "list_all plain_char (fc_url (api_getMe c))"
  "list_all plain_char (fc_url (register_start n pw role a))"
  by (simp_all add: login_start_def api_login_def register_start_def api_register_def api_getMe_def
      api_request_def API_BASE_def plain_char_def)

lemma request_of_delivered [simp]:
  "delivered (login_start n pw a) (request_of (login_start n pw a))" "hr_body_bytes (request_of call) \<le> 1048576"
  "delivered (api_getMe c) (request_of (api_getMe c))"
  "delivered (register_start n pw role a) (request_of (register_start n pw role a))"
  by (simp_all add: request_of_def delivered_def demo_request_def url_plain plain_calls)

definition second_request :: "auth_state \<Rightarrow> string + http_response \<Rightarrow> http_request" where
  "second_request a out = (case login_token_reply (answer read_token out) a of
     Inl t \<Rightarrow> demo_request | Inr (a1, call) \<Rightarrow> request_of call)"

lemma second_request_delivered:
  "\<forall>a1 call. login_token_reply (answer read_token out) a = Inr (a1, call) \<longrightarrow>
     delivered call (second_request a out)" "hr_body_bytes (second_request a out) \<le> 1048576"
proof -
  show "\<forall>a1 call. login_token_reply (answer read_token out) a = Inr (a1, call) \<longrightarrow>
     delivered call (second_request a out)"
    by (auto simp: second_request_def login_token_reply_def split: sum.splits prod.splits)
  have "hr_body_bytes demo_request \<le> 1048576" by (simp add: demo_request_def)
  then show "hr_body_bytes (second_request a out) \<le> 1048576"
    by (auto simp: second_request_def split: sum.split)
qed

lemma enc_str_ends [simp]: "enc_str s \<noteq> []" "last (enc_str s) = CHR ''.''" "\<not> is_space (hd (enc_str s))"
    "char_code (hd (enc_str s)) < 128"
  by (induction s) (auto simp: is_space_def char_code_def)

lemma demo_jwt_text: "jwt_text demo_lib"
proof -
  have "trim_space (enc_claims c @ enc_str key) = enc_claims c @ enc_str key" for c key
    by (rule trim_space_id) (simp_all add: enc_claims_def hd_append, simp_all add: is_space_def char_code_def)
  then show ?thesis by (simp add: jwt_text_def demo_lib_def)
qed

lemma demo_not_locked: "reachable demo_config [] s \<Longrightarrow> not_locked demo_config env s r"
  by (drule reachable_server_ok)
    (simp add: server_ok_def not_locked_def demo_config_def limiter_defs kv_ops_def kv_get_def)

lemma demo_config_sel [simp]: "cf_lib demo_config = demo_lib" "cf_key demo_config = ''k''"
  by (simp_all add: demo_config_def)

theorem sign_in_witness:
  "\<exists>p' a' u. submit_login
      (answer read_token (snd (serve demo_config demo_env demo_server
        (request_of (login_start ''viewer'' ''ViewerPassword123!'' (auth_init None))))))
      (answer (read_profile (\<lambda>_. ''now'')) (snd (serve demo_config demo_env
        (fst (serve demo_config demo_env demo_server
          (request_of (login_start ''viewer'' ''ViewerPassword123!'' (auth_init None)))))
        (second_request (auth_init None) (snd (serve demo_config demo_env demo_server
          (request_of (login_start ''viewer'' ''ViewerPassword123!'' (auth_init None)))))))))
      (login_page_init\<lparr>lp_username := ''viewer'', lp_password := ''ViewerPassword123!''\<rparr>) (auth_init None) =
      (p', a', Some ''/dashboard'') \<and> au_user a' = Some u \<and> uu_role u = Viewer"
proof -
  let ?p = "login_page_init\<lparr>lp_username := ''viewer'', lp_password := ''ViewerPassword123!''\<rparr>"
  let ?r1 = "request_of (login_start (lp_username ?p) (lp_password ?p) (auth_init None))"
  let ?o1 = "snd (serve demo_config demo_env demo_server ?r1)"
  let ?acc = "demo_account ''c'' ''viewer'' ''ViewerPassword123!'' RoleViewer"
  have acc: "byUsername (sv_users demo_server) (lp_username ?p) = Some ?acc"
    by (simp add: demo_users)
  have cmp: "bcrypt_compare (cf_lib demo_config) (u_password_hash ?acc) (lp_password ?p)"
    by (simp add: demo_lib_def demo_account_def)
  have lib: "jwt_ok (cf_lib demo_config)" "jwt_text (cf_lib demo_config)"
    using demo_jwt_ok demo_jwt_text by simp_all
  have lim: "hr_body_bytes ?r1 \<le> 2 ^ 20" "hr_body_bytes (second_request (auth_init None) ?o1) \<le> 2 ^ 20"
    "en_now demo_env < en_now demo_env + tokenExpiry"
    using request_of_delivered(2) second_request_delivered(2) by (simp_all add: tokenExpiry_def)
  have role: "role_name x = u_role ?acc \<longleftrightarrow> x = Viewer" for x
    by (cases x) (simp_all add: demo_account_def RoleViewer_def)
  show ?thesis
    using sign_in [OF demo_reachable lib acc cmp request_of_delivered(1) lim(1) demo_not_locked [OF demo_reachable]
        prod.collapse [symmetric] second_request_delivered(1) lim(2,3) prod.collapse [symmetric], of "\<lambda>_. ''now''"]
    by (simp add: role) metis
qed

lemma demo_fresh: "fresh_env demo_env demo_server"
  by (simp add: fresh_env_def demo_env_def demo_users)
    (simp add: demo_server_def start_server_def NewEngine_def seed_policies_def)

definition demo_registration :: register_page where
  "demo_registration = register_page_init\<lparr>rp_username := ''mallory'', rp_password := ''Secret-123''\<rparr>"

theorem registration_signs_in_witness:
  "\<exists>q0 q1 q2 srv0 srv1 srv2 out0 out1 out2 a' u.
     serve demo_config demo_env demo_server q0 = (srv0, out0) \<and>
     serve demo_config demo_env srv0 q1 = (srv1, out1) \<and> serve demo_config demo_env srv1 q2 = (srv2, out2) \<and>
     register_run ''mallory'' ''Secret-123'' (answer (read_registered (\<lambda>_. ''now'')) out0) (answer read_token out1)
       (answer (read_profile (\<lambda>_. ''now'')) out2) (auth_init None) = (a', Inr ()) \<and>
     au_user a' = Some u \<and> uu_role u = Viewer"
proof -
  let ?a = "auth_init None"
  let ?p' = "demo_registration\<lparr>rp_error := None, rp_submitting := True\<rparr>"
  let ?q0 = "request_of (register_start ''mallory'' ''Secret-123'' ''viewer'' ?a)"
  let ?q1 = "request_of (login_start ''mallory'' ''Secret-123'' ?a)"
  obtain srv0 out0 where s0: "serve demo_config demo_env demo_server ?q0 = (srv0, out0)" by fastforce
  obtain srv1 out1 where s1: "serve demo_config demo_env srv0 ?q1 = (srv1, out1)" by fastforce
  let ?q2 = "second_request ?a out1"
  obtain srv2 out2 where s2: "serve demo_config demo_env srv1 ?q2 = (srv2, out2)" by fastforce
  have form: "register_handleSubmit demo_registration = (?p', Some (''mallory'', ''Secret-123'', ''viewer''))"
    "\<forall>c \<in> set (rp_password demo_registration). char_code c < 128"
    "rp_role demo_registration \<in> (\<lambda>x. role_name (ro_value x)) ` set ROLES"
    by (simp_all add: demo_registration_def register_page_init_def register_handleSubmit_def js_length_def
        char_code_def ROLES_def)
  have free: "byUsername (sv_users demo_server) ''mallory'' = None" by (simp add: demo_users)
  have lib: "bcrypt_ok (cf_lib demo_config)" "jwt_ok (cf_lib demo_config)" "jwt_text (cf_lib demo_config)"
    "bcrypt_generate (cf_lib demo_config) ''Secret-123'' bcryptCost (en_salt demo_env) = Some ''$2a$Secret-123''"
    using demo_bcrypt_ok demo_jwt_ok demo_jwt_text by (simp_all add: demo_lib_def)
  have "reachable demo_config [] srv0"
    using reachable.request [OF demo_reachable demo_fresh, of ?q0] s0 by simp
  then have lock: "not_locked demo_config demo_env srv0 ?q1" by (rule demo_not_locked)
  have lim: "hr_body_bytes ?q0 \<le> 2 ^ 20" "hr_body_bytes ?q1 \<le> 2 ^ 20" "hr_body_bytes ?q2 \<le> 2 ^ 20"
    "en_now demo_env < en_now demo_env + tokenExpiry" "3 \<le> length ''mallory''" "length ''mallory'' \<le> 50"
    using request_of_delivered(2) second_request_delivered(2) by (simp_all add: tokenExpiry_def)
  have role: "role_name x = rp_role demo_registration \<longleftrightarrow> x = Viewer" for x
    by (cases x) (simp_all add: demo_registration_def register_page_init_def)
  from registration_signs_in [OF form trim_mallory lim(5,6) demo_reachable free lib demo_fresh
      request_of_delivered(4) lim(1) s0 request_of_delivered(1) lim(2) lock s1 second_request_delivered(1)
      lim(3,4) s2, of "\<lambda>_. ''now''"]
  show ?thesis using s0 s1 s2 unfolding role by blast
qed

end
