(* ===== verification/SystemProps.thy ===== *)
theory SystemProps
  imports SignIn
begin

text \<open>
  Properties of the client and the server together, in every interleaving of the user's actions,
  the network and other traffic.
\<close>

subsection \<open>A login as steps of the system\<close>

lemma drop_nth_last [simp]: "drop_nth (length xs) (xs @ [y]) = xs"
  by (simp add: drop_nth_def)

lemma serve_last:
  assumes "sy_flights x = fs @ [Sent k call]" "delivered call r" "fresh_env env (sy_server x)"
    and "serve cfg env (sy_server x) r = (srv, out)"
  shows "system_step cfg stamp x (x\<lparr>sy_flights := fs @ [Answered k out], sy_server := srv\<rparr>)"
  using system_step.serve [of "length fs" x k call r env cfg srv out stamp] assms by simp

lemma reply_last:
  assumes "sy_flights x = fs @ [Answered k out]" "continue_with stamp k (FromServer out) (sy_auth x) = (a, new)"
  shows "system_step cfg stamp x (x\<lparr>sy_auth := a, sy_flights := fs @ new\<rparr>)"
  using system_step.reply [of "length fs" x k out cfg stamp] assms by (simp add: settle_def)

text \<open>A login that is served and answered without interruption, whatever else is in flight.\<close>

lemma login_steps:
  assumes x: "system_reachable cfg r0 stamp stored x"
    and r1: "delivered (login_start n pw (sy_auth x)) r1" "fresh_env env1 (sy_server x)"
      "serve cfg env1 (sy_server x) r1 = (srv1, out1)"
    and t: "login_token_reply (answer read_token out1) (sy_auth x) = Inr (a1, call)"
    and r2: "delivered call r2" "fresh_env env2 srv1" "serve cfg env2 srv1 r2 = (srv2, out2)"
    and m: "login_profile_reply (answer (read_profile stamp) out2) a1 = Inr a2"
  shows "system_reachable cfg r0 stamp stored (x\<lparr>sy_server := srv2, sy_auth := a2\<rparr>)"
proof -
  let ?fs = "sy_flights x"
  let ?x1 = "x\<lparr>sy_flights := ?fs @ [Sent PToken (login_start n pw (sy_auth x))]\<rparr>"
  let ?x2 = "?x1\<lparr>sy_flights := ?fs @ [Answered PToken out1], sy_server := srv1\<rparr>"
  let ?x3 = "?x2\<lparr>sy_auth := a1, sy_flights := ?fs @ [Sent PMe call]\<rparr>"
  let ?x4 = "?x3\<lparr>sy_flights := ?fs @ [Answered PMe out2], sy_server := srv2\<rparr>"
  note go = system_reachable.step
  have "system_reachable cfg r0 stamp stored ?x1"
    by (rule go [OF x]) (rule system_step.login)
  then have "system_reachable cfg r0 stamp stored ?x2"
    by (rule go) (rule serve_last [OF _ r1(1)], use r1 in simp_all)
  then have "system_reachable cfg r0 stamp stored ?x3"
    by (rule go) (rule reply_last [where k = PToken and out = out1], use t in simp_all)
  then have "system_reachable cfg r0 stamp stored ?x4"
    by (rule go) (rule serve_last [OF _ r2(1)], use r2 in simp_all)
  then have "system_reachable cfg r0 stamp stored (?x4\<lparr>sy_auth := a2, sy_flights := ?fs @ []\<rparr>)"
    by (rule go) (rule reply_last [where k = PMe and out = out2], use m in simp_all)
  then show ?thesis by simp
qed

text \<open>Logins and profile requests leave the accounts, the policies and the counters alone.\<close>

definition same_state :: "'r server \<Rightarrow> 'r server \<Rightarrow> bool" where
  "same_state s s' \<longleftrightarrow> sv_users s' = sv_users s \<and> sv_engine s' = sv_engine s \<and> sv_redis s' = sv_redis s"

lemma same_state_simps [simp]:
  "same_state s s" "same_state s (log_events env evs s') \<longleftrightarrow> same_state s s'"
  by (simp_all add: same_state_def)

lemma same_state_cong:
  assumes "same_state s s'"
  shows "fresh_env env s' \<longleftrightarrow> fresh_env env s" "not_locked cfg env s' r \<longleftrightarrow> not_locked cfg env s r"
  using assms by (simp_all add: same_state_def fresh_env_def not_locked_def)

text \<open>Signing in to an account, in any state of the system.\<close>

lemma system_login:
  assumes x: "system_reachable cfg r0 stamp stored x" and lib: "jwt_ok (cf_lib cfg)" "jwt_text (cf_lib cfg)"
    and acc: "byUsername (sv_users (sy_server x)) n = Some acc"
      "bcrypt_compare (cf_lib cfg) (u_password_hash acc) pw"
    and env: "fresh_env env (sy_server x)" "\<forall>r. not_locked cfg env (sy_server x) r"
  shows "\<exists>u tok srv. system_reachable cfg r0 stamp stored (x\<lparr>sy_server := srv, sy_auth :=
      (sy_auth x)\<lparr>au_api := api_setToken (Some tok) (au_api (sy_auth x)), au_token := Some tok, au_user := Some u\<rparr>\<rparr>) \<and>
    same_state (sy_server x) srv \<and> tok \<noteq> [] \<and> trim_space tok = tok \<and>
    uu_id u = u_id acc \<and> role_name (uu_role u) = u_role acc \<and>
    ValidateToken (cf_lib cfg) (cf_key cfg) (en_now env) tok = Inr (token_claims env acc)"
proof -
  let ?s = "sy_server x" and ?a = "sy_auth x"
  have ok: "store_consistent (sv_users ?s)" "account_ok acc"
    using system_reachable_ok [OF x] reachable_server_ok [of cfg r0 ?s] store_consistentD(4) [OF _ acc(1)]
    by (auto simp: system_ok_def server_ok_def users_ok_def)
  obtain tok where tok: "generateJWT (cf_lib cfg) (cf_key cfg) env acc = Some tok"
    using jwt_ok_sign [OF lib(1)] by (auto simp: generateJWT_def)
  have shape: "tok \<noteq> []" "trim_space tok = tok"
    using lib(2) tok by (auto simp: jwt_text_def generateJWT_def)
  have active: "u_status acc = StatusActive" using ok(2) by (simp add: account_ok_def)
  have valid: "ValidateToken (cf_lib cfg) (cf_key cfg) (en_now env) tok = Inr (token_claims env acc)"
    using ValidateToken_generated [OF lib(1) tok] by (simp add: tokenExpiry_def)
  let ?r1 = "request_of (login_start n pw ?a)"
  have bytes: "hr_body_bytes (request_of call) \<le> 2 ^ 20" for call by simp
  from serve_login [OF request_of_delivered(1) bytes env(2) [rule_format] acc active tok, of ?a] obtain evs rsp1 where
    s1: "serve cfg env ?s ?r1 = (log_events env evs ?s, Inr rsp1)" "rsp_status rsp1 = 200"
      "rsp_payload rsp1 = TokenBody tok" by blast
  let ?c = "api_setToken (Some tok) (au_api ?a)"
  let ?a1 = "?a\<lparr>au_api := ?c, au_token := Some tok\<rparr>"
  let ?srv = "log_events env evs ?s"
  have reply1: "login_token_reply (answer read_token (Inr rsp1)) ?a = Inr (?a1, api_getMe ?c)"
    by (simp add: s1 answer_def read_token_def login_token_reply_def api_login_reply_def reply_defs)
  have "byID (sv_users ?srv) (c_user_id (token_claims env acc)) = Some acc"
    using store_consistentD(4) [OF ok(1) acc(1)] by (simp add: token_claims_def)
  moreover have "ac_token ?c = Some tok" by (simp add: api_setToken_def)
  ultimately obtain rsp2 where
    s2: "serve cfg env ?srv (request_of (api_getMe ?c)) = (?srv, Inr rsp2)" "rsp_status rsp2 = 200"
      "rsp_payload rsp2 = UserBody (to_public acc)"
    using serve_me [OF request_of_delivered(3) bytes _ shape valid] by blast
  from read_user_account [OF ok(2), of stamp] obtain u where
    u: "read_user stamp (to_public acc) = Some u" "uu_id u = u_id acc" "role_name (uu_role u) = u_role acc" by blast
  have reply2: "login_profile_reply (answer (read_profile stamp) (Inr rsp2)) ?a1 = Inr (?a1\<lparr>au_user := Some u\<rparr>)"
    by (simp add: s2 answer_def read_profile_def u(1) login_profile_reply_def reply_defs)
  have "same_state ?s ?srv" by simp
  then have "fresh_env env ?srv" using env(1) same_state_cong(1) by blast
  from login_steps [OF x request_of_delivered(1) env(1) s1(1) reply1 request_of_delivered(3) this s2(1) reply2]
  show ?thesis using shape u valid by (intro exI [of _ u] exI [of _ tok] exI [of _ ?srv]) simp
qed

text \<open>A profile request served but not yet answered: its reply, whenever it comes, makes the account
  of its token the user.\<close>

lemma profile_in_flight:
  assumes x: "system_reachable cfg r0 stamp stored x" and fs: "sy_flights x = []"
    and tok: "ac_token (au_api (sy_auth x)) = Some tok" "tok \<noteq> []" "trim_space tok = tok"
      "ValidateToken (cf_lib cfg) (cf_key cfg) (en_now env) tok = Inr cl"
    and acc: "byID (sv_users (sy_server x)) (c_user_id cl) = Some acc" and env: "fresh_env env (sy_server x)"
  shows "\<exists>out u. system_reachable cfg r0 stamp stored (x\<lparr>sy_flights := [Answered PProfile out]\<rparr>) \<and>
    uu_id u = u_id acc \<and> role_name (uu_role u) = u_role acc \<and>
    (\<forall>s. fetchProfile_reply (answer (read_profile stamp) out) s = s\<lparr>au_user := Some u, au_loading := False\<rparr>)"
proof -
  let ?call = "api_getMe (au_api (sy_auth x))" and ?srv = "sy_server x"
  let ?x1 = "x\<lparr>sy_flights := [] @ [Sent PProfile ?call]\<rparr>"
  have good: "account_ok acc"
    using system_reachable_ok [OF x] reachable_server_ok [of cfg r0 ?srv] acc
    by (auto simp: system_ok_def server_ok_def users_ok_def)
  have "refresh_system x = ?x1"
    using tok fs by (simp add: refresh_system_def fetchProfile_def api_getToken_def truthy_def)
  with system_reachable.step [OF x system_step.refresh] have x1: "system_reachable cfg r0 stamp stored ?x1"
    by simp
  have "hr_body_bytes (request_of ?call) \<le> 2 ^ 20" by simp
  from serve_me [OF request_of_delivered(3) this tok acc] obtain rsp where
    rsp: "serve cfg env ?srv (request_of ?call) = (?srv, Inr rsp)" "rsp_status rsp = 200"
      "rsp_payload rsp = UserBody (to_public acc)" by blast
  have "system_step cfg stamp ?x1 (?x1\<lparr>sy_flights := [] @ [Answered PProfile (Inr rsp)], sy_server := ?srv\<rparr>)"
    by (rule serve_last [OF _ request_of_delivered(3)]) (use env rsp(1) in simp_all)
  from system_reachable.step [OF x1 this]
  have "system_reachable cfg r0 stamp stored (x\<lparr>sy_flights := [Answered PProfile (Inr rsp)]\<rparr>)" by simp
  moreover obtain u where "read_user stamp (to_public acc) = Some u" "uu_id u = u_id acc"
    "role_name (uu_role u) = u_role acc" using read_user_account [OF good, of stamp] by blast
  ultimately show ?thesis
    using rsp(2,3) by (intro exI [of _ "Inr rsp"] exI [of _ u])
      (simp add: fetchProfile_reply_def answer_def read_profile_def reply_defs)
qed

subsection \<open>Properties\<close>

text \<open>C2: The user the client shows is always an account of the server: in every state that any order
  of logins, registrations, refreshes, logouts, served requests, other traffic, replies and losses
  can reach, the signed-in profile has the id, name, role and status of an account the server
  holds at that moment.\<close>

theorem signed_in_user_is_account:
  assumes "system_reachable cfg r0 stamp stored x"
  shows "\<forall>u. au_user (sy_auth x) = Some u \<longrightarrow> (\<exists>acc. byID (sv_users (sy_server x)) (uu_id u) = Some acc \<and>
    byUsername (sv_users (sy_server x)) (uu_username u) = Some acc \<and>
    u_role acc = role_name (uu_role u) \<and> u_status acc = status_name (uu_status u))"
  using system_reachable_ok [OF assms] by (simp add: system_ok_def auth_ok_def genuine_def)

text \<open>C30: The token the client holds is the server's word for an account: in every reachable state of
  the system, a token other than the one found in session storage at start-up was signed for an
  account the server still holds, and for as long as it is valid the server reads that account's
  id and current role from it.\<close>

theorem session_token_genuine:
  assumes "system_reachable cfg r0 stamp stored x" and "jwt_ok (cf_lib cfg)"
    and "au_token (sy_auth x) = Some tok" "stored \<noteq> Some tok"
  shows "\<exists>acc env. byID (sv_users (sy_server x)) (u_id acc) = Some acc \<and>
    (\<forall>now. ValidateToken (cf_lib cfg) (cf_key cfg) now tok =
       (if now < en_now env + tokenExpiry then Inr (token_claims env acc) else Inl ''token is not valid'')) \<and>
    c_user_id (token_claims env acc) = u_id acc \<and> c_role (token_claims env acc) = u_role acc"
proof -
  have "ac_token (au_api (sy_auth x)) = Some tok"
    using session_reachable_ok [OF system_session [OF assms(1)]] assms(3)
    by (simp add: session_ok_def session_of_def)
  with system_reachable_ok [OF assms(1)] assms(4)
  have "issued (cf_lib cfg) (cf_key cfg) (sv_users (sy_server x)) tok"
    by (auto simp: system_ok_def auth_ok_def)
  then obtain env acc where acc: "byID (sv_users (sy_server x)) (u_id acc) = Some acc"
    "generateJWT (cf_lib cfg) (cf_key cfg) env acc = Some tok" by (auto simp: issued_def)
  from ValidateToken_generated [OF assms(2) acc(2)] acc(1) show ?thesis
    by (intro exI [of _ acc] exI [of _ env]) (simp add: token_claims_def)
qed

text \<open>C3: A guarded page is shown to real accounts only: in every reachable state of the system, at a
  guarded path either nothing of the page reaches the screen, whatever it would render, or the
  signed-in user is an account of the server whose role, as the server stores it, is super admin
  or one the route's guard names.\<close>

theorem guarded_page_needs_account:
  assumes "system_reachable cfg r0 stamp stored x" and "static_router matches"
    and "(p, Guarded allowed, pg) \<in> set app_routes"
  shows "(\<forall>view view'. App matches view (sy_auth x) p status out = App matches view' (sy_auth x) p status out) \<or>
    (\<exists>u acc. au_user (sy_auth x) = Some u \<and> byID (sv_users (sy_server x)) (uu_id u) = Some acc \<and>
       u_username acc = uu_username u \<and>
       (\<forall>roles. allowed = Some roles \<longrightarrow> u_role acc = RoleSuperAdmin \<or> u_role acc \<in> role_name ` set roles))"
proof (cases "passes (sy_auth x) allowed")
  case True
  then obtain u where u: "au_user (sy_auth x) = Some u"
    "\<forall>roles. allowed = Some roles \<longrightarrow> uu_role u = SuperAdmin \<or> uu_role u \<in> set roles"
    by (auto simp: passes_def hasRole_def split: option.splits if_splits)
  have ok: "genuine (sv_users (sy_server x)) u" "store_consistent (sv_users (sy_server x))"
    using system_reachable_ok [OF assms(1)] u(1)
    by (auto simp: system_ok_def auth_ok_def intro: reachable_consistent)
  then obtain acc where "byID (sv_users (sy_server x)) (uu_id u) = Some acc" "u_username acc = uu_username u"
    "u_role acc = role_name (uu_role u)"
    unfolding genuine_def using store_consistentD(3) by metis
  with u show ?thesis by auto
next
  case False
  have "App matches view (sy_auth x) p status out = App matches view' (sy_auth x) p status out" for view view'
    using App_route [OF assms(2,3), of view] App_route [OF assms(2,3), of view']
      ProtectedRoute_blocks [OF False, of p status out "view pg" "view' pg"] by simp
  then show ?thesis by blast
qed

text \<open>C29: The user and the token can belong to different accounts: a profile request sent before a
  logout and answered after the next login replaces the new user by the old one. So for any two
  accounts whose passwords are known, a reachable state of the system shows the first one as
  signed in, with its role deciding the pages, while the stored token is the second one's.\<close>

theorem stale_profile_wrong_account:
  assumes "reachable cfg r0 srv" and "jwt_ok (cf_lib cfg)" "jwt_text (cf_lib cfg)"
    and "byUsername (sv_users srv) n1 = Some a1" "bcrypt_compare (cf_lib cfg) (u_password_hash a1) pw1"
    and "byUsername (sv_users srv) n2 = Some a2" "bcrypt_compare (cf_lib cfg) (u_password_hash a2) pw2"
    and "fresh_env env srv" "\<forall>r. not_locked cfg env srv r"
  shows "\<exists>x u tok. system_reachable cfg r0 stamp None x \<and> \<not> au_loading (sy_auth x) \<and>
    au_user (sy_auth x) = Some u \<and> uu_id u = u_id a1 \<and> role_name (uu_role u) = u_role a1 \<and>
    au_token (sy_auth x) = Some tok \<and>
    ValidateToken (cf_lib cfg) (cf_key cfg) (en_now env) tok = Inr (token_claims env a2)"
proof -
  let ?x0 = "system_init None srv"
  have x0: "system_reachable cfg r0 stamp None ?x0" by (rule system_reachable.mount [OF assms(1)])
  have init: "sy_server ?x0 = srv" "sy_flights ?x0 = []" "\<not> au_loading (sy_auth ?x0)"
    by (simp_all add: system_init_def refresh_system_def fetchProfile_def auth_init_def new_ApiClient_def
        api_getToken_def Let_def)
  obtain u1 tok1 srv1 where
    x1: "system_reachable cfg r0 stamp None (?x0\<lparr>sy_server := srv1, sy_auth := (sy_auth ?x0)
      \<lparr>au_api := api_setToken (Some tok1) (au_api (sy_auth ?x0)), au_token := Some tok1, au_user := Some u1\<rparr>\<rparr>)"
    and s1: "same_state srv srv1" and t1: "tok1 \<noteq> []" "trim_space tok1 = tok1"
    and u1: "uu_id u1 = u_id a1" "role_name (uu_role u1) = u_role a1"
    and v1: "ValidateToken (cf_lib cfg) (cf_key cfg) (en_now env) tok1 = Inr (token_claims env a1)"
    using system_login [OF x0 assms(2,3), of n1 a1 pw1 env] assms(4,5,8,9) init(1) by auto
  define y where "y = ?x0\<lparr>sy_server := srv1, sy_auth := (sy_auth ?x0)
    \<lparr>au_api := api_setToken (Some tok1) (au_api (sy_auth ?x0)), au_token := Some tok1, au_user := Some u1\<rparr>\<rparr>"
  have y: "system_reachable cfg r0 stamp None y" "sy_flights y = []" "sy_server y = srv1"
    "ac_token (au_api (sy_auth y)) = Some tok1" "\<not> au_loading (sy_auth y)"
    using x1 init by (simp_all add: y_def api_setToken_def)
  have at1: "byID (sv_users srv1) (c_user_id (token_claims env a1)) = Some a1" "fresh_env env srv1"
    "\<forall>r. not_locked cfg env srv1 r" "byUsername (sv_users srv1) n2 = Some a2"
    using store_consistentD(4) [OF reachable_consistent [OF assms(1)] assms(4)] s1 assms(6,8,9)
      same_state_cong [OF s1] by (simp_all add: token_claims_def same_state_def)
  from profile_in_flight [OF y(1,2,4) t1 v1, of a1] at1 y(3) obtain out u where
    z: "system_reachable cfg r0 stamp None (y\<lparr>sy_flights := [Answered PProfile out]\<rparr>)"
    and u: "uu_id u = u_id a1" "role_name (uu_role u) = u_role a1"
    and late: "\<And>s. fetchProfile_reply (answer (read_profile stamp) out) s = s\<lparr>au_user := Some u, au_loading := False\<rparr>"
    by auto
  define z where "z = y\<lparr>sy_flights := [Answered PProfile out], sy_auth := logout (sy_auth y)\<rparr>"
  have z: "system_reachable cfg r0 stamp None z" "sy_server z = srv1" "sy_flights z = [] @ [Answered PProfile out]"
    using system_reachable.step [OF z system_step.logout] y(3) by (simp_all add: z_def)
  obtain u2 tok2 srv2 where
    w: "system_reachable cfg r0 stamp None (z\<lparr>sy_server := srv2, sy_auth := (sy_auth z)
      \<lparr>au_api := api_setToken (Some tok2) (au_api (sy_auth z)), au_token := Some tok2, au_user := Some u2\<rparr>\<rparr>)"
    and v2: "ValidateToken (cf_lib cfg) (cf_key cfg) (en_now env) tok2 = Inr (token_claims env a2)"
    using system_login [OF z(1) assms(2,3), of n2 a2 pw2 env] at1 assms(7) z(2) by auto
  define w where "w = z\<lparr>sy_server := srv2, sy_auth := (sy_auth z)
      \<lparr>au_api := api_setToken (Some tok2) (au_api (sy_auth z)), au_token := Some tok2, au_user := Some u2\<rparr>\<rparr>"
  have "system_step cfg stamp w (w\<lparr>sy_auth := (sy_auth w)\<lparr>au_user := Some u, au_loading := False\<rparr>, sy_flights := [] @ []\<rparr>)"
    by (rule reply_last [where k = PProfile and out = out]) (use z(3) late in \<open>simp_all add: w_def\<close>)
  from system_reachable.step [OF w [folded w_def] this] show ?thesis
    using u v2 by (intro exI conjI) (assumption, simp_all add: w_def)
qed

subsection \<open>On the demonstration server\<close>

lemma demo_system_init: "system_reachable demo_config [] stamp None (system_init None demo_server)"
  by (rule system_reachable.mount [OF demo_reachable])

lemma system_init_None [simp]:
  "sy_server (system_init None srv) = srv" "sy_flights (system_init None srv) = []"
  "au_user (sy_auth (system_init None srv)) = None"
  by (simp_all add: system_init_def refresh_system_def fetchProfile_def auth_init_def new_ApiClient_def
      api_getToken_def Let_def)

text \<open>The viewer of the development accounts, signed in.\<close>

lemma demo_signed_in:
  "\<exists>x u tok. system_reachable demo_config [] stamp None x \<and> au_user (sy_auth x) = Some u \<and>
    uu_role u = Viewer \<and> au_token (sy_auth x) = Some tok"
proof -
  let ?acc = "demo_account ''c'' ''viewer'' ''ViewerPassword123!'' RoleViewer"
  have acc: "byUsername (sv_users (sy_server (system_init None demo_server))) ''viewer'' = Some ?acc"
    "bcrypt_compare (cf_lib demo_config) (u_password_hash ?acc) ''ViewerPassword123!''"
    by (simp_all add: demo_users demo_lib_def demo_account_def)
  have lib: "jwt_ok (cf_lib demo_config)" "jwt_text (cf_lib demo_config)"
    using demo_jwt_ok demo_jwt_text by simp_all
  have env: "fresh_env demo_env (sy_server (system_init None demo_server))"
    "\<forall>r. not_locked demo_config demo_env (sy_server (system_init None demo_server)) r"
    using demo_fresh demo_not_locked [OF demo_reachable] by simp_all
  have role: "role_name r = u_role ?acc \<longleftrightarrow> r = Viewer" for r
    by (cases r) (simp_all add: demo_account_def RoleViewer_def)
  from system_login [OF demo_system_init lib acc env, of stamp] obtain u tok srv where
    "system_reachable demo_config [] stamp None ((system_init None demo_server)\<lparr>sy_server := srv, sy_auth :=
      (sy_auth (system_init None demo_server))\<lparr>au_api := api_setToken (Some tok)
        (au_api (sy_auth (system_init None demo_server))), au_token := Some tok, au_user := Some u\<rparr>\<rparr>)"
    "role_name (uu_role u) = u_role ?acc" by blast
  then show ?thesis unfolding role by (intro exI conjI) (assumption, simp_all)
qed

theorem signed_in_user_is_account_witness:
  "\<exists>x u acc. system_reachable demo_config [] (\<lambda>_. ''now'') None x \<and> au_user (sy_auth x) = Some u \<and>
     byID (sv_users (sy_server x)) (uu_id u) = Some acc \<and> u_role acc = ''viewer''"
proof -
  obtain x u tok where x: "system_reachable demo_config [] (\<lambda>_. ''now'') None x" "au_user (sy_auth x) = Some u"
    "uu_role u = Viewer" using demo_signed_in by blast
  with signed_in_user_is_account [OF x(1)] show ?thesis by fastforce
qed

theorem session_token_genuine_witness:
  "\<exists>x tok acc env. system_reachable demo_config [] (\<lambda>_. ''now'') None x \<and> au_token (sy_auth x) = Some tok \<and>
     byID (sv_users (sy_server x)) (u_id acc) = Some acc \<and>
     ValidateToken demo_lib ''k'' (en_now env) tok = Inr (token_claims env acc)"
proof -
  obtain x u tok where x: "system_reachable demo_config [] (\<lambda>_. ''now'') None x" "au_user (sy_auth x) = Some u"
    "uu_role u = Viewer" "au_token (sy_auth x) = Some tok" using demo_signed_in by blast
  have "jwt_ok (cf_lib demo_config)" using demo_jwt_ok by simp
  from session_token_genuine [OF x(1) this x(4)] obtain acc env where
    acc: "byID (sv_users (sy_server x)) (u_id acc) = Some acc"
    and v: "\<forall>now. ValidateToken (cf_lib demo_config) (cf_key demo_config) now tok =
       (if now < en_now env + tokenExpiry then Inr (token_claims env acc) else Inl ''token is not valid'')"
    by auto
  have "ValidateToken demo_lib ''k'' (en_now env) tok = Inr (token_claims env acc)"
    using v [rule_format, of "en_now env"] by (simp add: tokenExpiry_def)
  with x acc show ?thesis by blast
qed

theorem guarded_page_needs_account_witness:
  "\<forall>view view'. App (=) view (sy_auth (system_init None demo_server)) ''/users'' ''online'' () =
     App (=) view' (sy_auth (system_init None demo_server)) ''/users'' ''online'' ()"
proof -
  have "static_router (=)" by (simp add: static_router_def)
  moreover have "(''/users'', Guarded (Some [Admin, SuperAdmin]), UsersP) \<in> set app_routes"
    by (simp add: app_routes_def)
  ultimately show ?thesis
    using guarded_page_needs_account [OF demo_system_init, of "(=)" "''/users''" "Some [Admin, SuperAdmin]" UsersP "''online''" "()"]
    by simp
qed

theorem stale_profile_wrong_account_witness:
  "\<exists>x u tok. system_reachable demo_config [] (\<lambda>_. ''now'') None x \<and> au_user (sy_auth x) = Some u \<and>
     hasRole (sy_auth x) [Admin] \<and> au_token (sy_auth x) = Some tok \<and>
     (\<exists>cl. ValidateToken demo_lib ''k'' 1000 tok = Inr cl \<and> c_role cl = ''viewer'')"
proof -
  let ?a1 = "demo_account ''a'' ''admin'' ''AdminPassword123!'' RoleAdmin"
  let ?a2 = "demo_account ''c'' ''viewer'' ''ViewerPassword123!'' RoleViewer"
  have acc: "byUsername (sv_users demo_server) ''admin'' = Some ?a1"
    "bcrypt_compare (cf_lib demo_config) (u_password_hash ?a1) ''AdminPassword123!''"
    "byUsername (sv_users demo_server) ''viewer'' = Some ?a2"
    "bcrypt_compare (cf_lib demo_config) (u_password_hash ?a2) ''ViewerPassword123!''"
    by (simp_all add: demo_users demo_lib_def demo_account_def)
  have lib: "jwt_ok (cf_lib demo_config)" "jwt_text (cf_lib demo_config)"
    using demo_jwt_ok demo_jwt_text by simp_all
  have lock: "\<forall>r. not_locked demo_config demo_env demo_server r"
    using demo_not_locked [OF demo_reachable] by simp
  have role: "role_name r = u_role ?a1 \<longleftrightarrow> r = Admin" for r
    by (cases r) (simp_all add: demo_account_def RoleAdmin_def)
  have "en_now demo_env = 1000" "c_role (token_claims demo_env ?a2) = ''viewer''"
    by (simp_all add: demo_env_def token_claims_def demo_account_def RoleViewer_def)
  with stale_profile_wrong_account [OF demo_reachable lib acc demo_fresh lock, of "\<lambda>_. ''now''"]
  show ?thesis unfolding role by (fastforce simp: hasRole_def)
qed

end
