(* ===== verification/Postgres.thy ===== *)
theory Postgres
  imports Prelude
begin

text \<open>
  What the SQL of the repository needs of PostgreSQL: text values, the column type
  \<open>VARCHAR(n)\<close> and the error codes. A value of a text parameter has to be valid UTF-8 without
  the zero byte; \<open>VARCHAR(n)\<close> holds at most \<open>n\<close> characters, and a longer value is an error unless
  all characters beyond the limit are spaces, which are dropped.
\<close>

subsection \<open>Text\<close>

definition cont_byte :: "nat \<Rightarrow> bool" where
  "cont_byte b \<longleftrightarrow> 128 \<le> b \<and> b < 192"

text \<open>The size of the character a byte sequence starts with, 0 when it is not UTF-8.\<close>

fun rune_size :: "nat list \<Rightarrow> nat" where
  "rune_size [] = 0"
| "rune_size (a # bs) =
     (if a < 128 then 1
      else if 194 \<le> a \<and> a < 224
      then (case bs of b # r \<Rightarrow> if cont_byte b then 2 else 0 | _ \<Rightarrow> 0)
      else if 224 \<le> a \<and> a < 240
      then (case bs of b # c # r \<Rightarrow>
              if cont_byte b \<and> cont_byte c \<and> (a = 224 \<longrightarrow> 160 \<le> b) \<and> (a = 237 \<longrightarrow> b < 160) then 3 else 0
            | _ \<Rightarrow> 0)
      else if 240 \<le> a \<and> a < 245
      then (case bs of b # c # d # r \<Rightarrow>
              if cont_byte b \<and> cont_byte c \<and> cont_byte d \<and> (a = 240 \<longrightarrow> 144 \<le> b) \<and> (a = 244 \<longrightarrow> b < 144)
              then 4 else 0
            | _ \<Rightarrow> 0)
      else 0)"

lemma rune_size_le: "rune_size bs \<le> length bs"
  by (cases bs) (auto split: list.split)

text \<open>The number of characters of a byte sequence, \<open>None\<close> when it is not UTF-8.\<close>

function utf8_chars :: "nat list \<Rightarrow> nat option" where
  "utf8_chars bs =
     (if bs = [] then Some 0
      else let k = rune_size bs
           in if k = 0 then None else map_option Suc (utf8_chars (drop k bs)))"
  by pat_completeness auto
termination
  by (relation "measure length") auto

declare utf8_chars.simps [simp del]

lemma utf8_chars_Nil [simp]: "utf8_chars [] = Some 0"
  by (subst utf8_chars.simps) simp

text \<open>Go's JSON encoder writes every byte that is not part of a character as U+FFFD.\<close>

function coerce_utf8 :: "string \<Rightarrow> string" where
  "coerce_utf8 s =
     (if s = [] then []
      else let k = rune_size (map char_code s)
           in if k = 0 then map char_of [239, 191, 189 :: nat] @ coerce_utf8 (tl s)
              else take k s @ coerce_utf8 (drop k s))"
  by pat_completeness auto
termination
  by (relation "measure length") auto

declare coerce_utf8.simps [simp del]

definition pg_chars :: "string \<Rightarrow> nat option" where
  "pg_chars s = (if 0 \<in> set (map char_code s) then None else utf8_chars (map char_code s))"

definition pg_text :: "string \<Rightarrow> bool" where
  "pg_text s \<longleftrightarrow> pg_chars s \<noteq> None"

lemma utf8_chars_le: "utf8_chars bs = Some n \<Longrightarrow> n \<le> length bs"
proof (induction bs arbitrary: n rule: utf8_chars.induct)
  case (1 bs)
  show ?case
  proof (cases "bs = []")
    case True
    with "1.prems" show ?thesis by simp
  next
    case False
    with "1.prems" obtain m where m: "rune_size bs \<noteq> 0" "n = Suc m"
      "utf8_chars (drop (rune_size bs) bs) = Some m"
      by (subst (asm) utf8_chars.simps) (auto simp: Let_def split: if_splits)
    from "1.IH" [OF False refl m(1,3)] m(1,2) False show ?thesis by (cases bs) auto
  qed
qed

lemma coerce_utf8_valid: "utf8_chars (map char_code s) \<noteq> None \<Longrightarrow> coerce_utf8 s = s"
proof (induction s rule: coerce_utf8.induct)
  case (1 s)
  from "1.prems" have "s = [] \<or> rune_size (map char_code s) \<noteq> 0 \<and>
      utf8_chars (map char_code (drop (rune_size (map char_code s)) s)) \<noteq> None"
    by (subst (asm) utf8_chars.simps) (auto simp: Let_def drop_map split: if_splits)
  with "1.IH" show ?case by (subst coerce_utf8.simps) (auto simp: Let_def)
qed

lemma pg_chars_le: "pg_chars s = Some n \<Longrightarrow> n \<le> length s"
  using utf8_chars_le [of "map char_code s" n] by (simp add: pg_chars_def split: if_splits)

lemma utf8_chars_ascii: "\<forall>b \<in> set bs. b < 128 \<Longrightarrow> utf8_chars bs = Some (length bs)"
  by (induction bs) (simp, subst utf8_chars.simps, simp)

lemma pg_chars_ascii: "\<forall>c \<in> set s. 0 < char_code c \<and> char_code c < 128 \<Longrightarrow> pg_chars s = Some (length s)"
  unfolding pg_chars_def by (subst utf8_chars_ascii) auto

subsection \<open>Columns and errors\<close>

text \<open>A statement fails with the \<open>SQLSTATE\<close> of the server or because it is not reached.\<close>

datatype sql_error = PqError string | ConnError

definition unique_violation :: string where "unique_violation = ''23505''"
definition foreign_key_violation :: string where "foreign_key_violation = ''23503''"
definition string_truncation :: string where "string_truncation = ''22001''"
definition bad_encoding :: string where "bad_encoding = ''22021''"
definition bad_row_count :: string where "bad_row_count = ''2201X''"
definition bad_limit_count :: string where "bad_limit_count = ''2201W''"

lemmas sqlstates = unique_violation_def foreign_key_violation_def string_truncation_def
  bad_encoding_def bad_row_count_def bad_limit_count_def

function varchar :: "nat \<Rightarrow> string \<Rightarrow> string option" where
  "varchar n s =
     (case pg_chars s of
        None \<Rightarrow> None
      | Some k \<Rightarrow>
          if k \<le> n then Some s
          else if s \<noteq> [] \<and> last s = CHR '' '' then varchar n (butlast s)
          else None)"
  by pat_completeness auto
termination
  by (relation "measure (\<lambda>(n, s). length s)") auto

declare varchar.simps [simp del]

text \<open>Values a column keeps as they are.\<close>

definition fits_varchar :: "nat \<Rightarrow> string \<Rightarrow> bool" where
  "fits_varchar n s \<longleftrightarrow> (case pg_chars s of None \<Rightarrow> False | Some k \<Rightarrow> k \<le> n)"

lemma varchar_fits: "fits_varchar n s \<Longrightarrow> varchar n s = Some s"
  by (subst varchar.simps) (auto simp: fits_varchar_def split: option.splits)

lemma fits_varchar_short: "pg_text s \<Longrightarrow> length s \<le> n \<Longrightarrow> fits_varchar n s"
  using pg_chars_le [of s] by (auto simp: pg_text_def fits_varchar_def split: option.splits)

lemma fits_varchar_text: "fits_varchar n s \<Longrightarrow> pg_text s"
  by (auto simp: fits_varchar_def pg_text_def split: option.splits)

text \<open>What a column holds satisfies its limit.\<close>

lemma varchar_holds: "varchar n s = Some t \<Longrightarrow> fits_varchar n t"
proof (induction n s rule: varchar.induct)
  case (1 n s)
  then show ?case
    by (subst (asm) varchar.simps) (auto simp: fits_varchar_def split: option.splits if_splits)
qed

text \<open>How \<open>lib/pq\<close> errors print.\<close>

fun sql_error_text :: "sql_error \<Rightarrow> string" where
  "sql_error_text (PqError code) = ''pq: '' @ code"
| "sql_error_text ConnError = ''connection refused''"

text \<open>\<open>NULLIF(x, '')\<close> and \<open>COALESCE(x, '')\<close>.\<close>

definition nullif_empty :: "string \<Rightarrow> string option" where
  "nullif_empty s = (if s = [] then None else Some s)"

definition coalesce_empty :: "string option \<Rightarrow> string" where
  "coalesce_empty v = (case v of None \<Rightarrow> [] | Some s \<Rightarrow> s)"

lemma coalesce_nullif [simp]: "coalesce_empty (nullif_empty s) = s"
  by (simp add: coalesce_empty_def nullif_empty_def)

lemma pg_text_Nil [simp]: "pg_text []"
  by (simp add: pg_text_def pg_chars_def)

lemma fits_varchar_Nil [simp]: "fits_varchar n []"
  by (simp add: fits_varchar_def pg_chars_def)

end
