(* ===== verification/UserStorePg.thy ===== *)
theory UserStorePg
  imports Postgres DemoLib
begin

text \<open>
  The PostgreSQL user store of \<open>backend/internal/auth/store_postgres.go\<close> over the \<open>users\<close> table
  of migration 002: rows in a list, the constraints of the table, and what each statement does.
  The database is reachable or not (\<open>db_up\<close>); a statement is atomic. Times are whole seconds,
  which the timestamp columns keep exactly. The refinement lemmas compare it with the in-memory
  store.
\<close>

subsection \<open>The table\<close>

record user_row =
  ur_id :: string
  ur_username :: string
  ur_password_hash :: string
  ur_role :: string
  ur_organization_id :: "string option"
  ur_status :: string
  ur_mfa_secret :: "string option"
  ur_mfa_enabled :: bool
  ur_created_at :: int
  ur_updated_at :: int

record user_db =
  db_users :: "user_row list"
  db_organizations :: "string list"
  db_up :: bool

text \<open>The values of a row as the columns take them: each coerced to its type, in column order.\<close>

definition column_values :: "user \<Rightarrow> user_row option" where
  "column_values u =
     Option.bind (varchar 64 (u_id u)) (\<lambda>i.
     Option.bind (varchar 64 (u_username u)) (\<lambda>n.
     Option.bind (varchar 255 (u_password_hash u)) (\<lambda>h.
     Option.bind (varchar 32 (u_role u)) (\<lambda>ro.
     Option.bind (varchar 64 (u_organization_id u)) (\<lambda>org.
     Option.bind (varchar 32 (u_status u)) (\<lambda>st.
     Option.bind (varchar 64 (u_mfa_secret u)) (\<lambda>sec.
       Some \<lparr>ur_id = i, ur_username = n, ur_password_hash = h, ur_role = ro,
         ur_organization_id = nullif_empty org, ur_status = st, ur_mfa_secret = Some sec,
         ur_mfa_enabled = u_mfa_enabled u, ur_created_at = u_created_at u,
         ur_updated_at = u_updated_at u\<rparr>)))))))"

definition text_params :: "user \<Rightarrow> string list" where
  "text_params u = [u_id u, u_username u, u_password_hash u, u_role u, u_organization_id u,
     u_status u, u_mfa_secret u]"

definition organization_exists :: "user_db \<Rightarrow> user_row \<Rightarrow> bool" where
  "organization_exists db row \<longleftrightarrow>
     (case ur_organization_id row of None \<Rightarrow> True | Some org \<Rightarrow> org \<in> set (db_organizations db))"

text \<open>\<open>INSERT\<close>: parameters, columns, the unique indexes, the foreign key.\<close>

definition insert_users :: "user_db \<Rightarrow> user \<Rightarrow> sql_error + user_db" where
  "insert_users db u =
     (if \<not> db_up db then Inl ConnError
      else if \<not> list_all pg_text (text_params u) then Inl (PqError bad_encoding)
      else case column_values u of
          None \<Rightarrow> Inl (PqError string_truncation)
        | Some row \<Rightarrow>
            if \<exists>r \<in> set (db_users db). ur_id r = ur_id row \<or> ur_username r = ur_username row
            then Inl (PqError unique_violation)
            else if \<not> organization_exists db row then Inl (PqError foreign_key_violation)
            else Inr (db\<lparr>db_users := db_users db @ [row]\<rparr>))"

definition scan_user :: "user_row \<Rightarrow> user" where
  "scan_user r = \<lparr>u_id = ur_id r, u_username = ur_username r, u_password_hash = ur_password_hash r,
     u_role = ur_role r, u_organization_id = coalesce_empty (ur_organization_id r),
     u_status = ur_status r, u_mfa_secret = coalesce_empty (ur_mfa_secret r),
     u_mfa_enabled = ur_mfa_enabled r, u_created_at = ur_created_at r, u_updated_at = ur_updated_at r\<rparr>"

text \<open>\<open>SELECT ... WHERE column = $1\<close>, of which \<open>QueryRow\<close> takes the first row.\<close>

definition select_user :: "user_db \<Rightarrow> (user_row \<Rightarrow> string) \<Rightarrow> string \<Rightarrow> sql_error + user_row option" where
  "select_user db column v =
     (if \<not> db_up db then Inl ConnError
      else if \<not> pg_text v then Inl (PqError bad_encoding)
      else Inr (List.find (\<lambda>r. column r = v) (db_users db)))"

text \<open>\<open>UPDATE ... WHERE id = $9\<close>: every column but the id and the creation time; the number of rows.\<close>

definition written :: "user_row \<Rightarrow> user_row \<Rightarrow> user_row" where
  "written row r = row\<lparr>ur_id := ur_id r, ur_created_at := ur_created_at r\<rparr>"

definition update_users :: "user_db \<Rightarrow> user \<Rightarrow> sql_error + (user_db \<times> nat)" where
  "update_users db u =
     (if \<not> db_up db then Inl ConnError
      else if \<not> list_all pg_text (text_params u) then Inl (PqError bad_encoding)
      else case column_values (u\<lparr>u_id := []\<rparr>) of
          None \<Rightarrow> Inl (PqError string_truncation)
        | Some row \<Rightarrow>
            if \<not> (\<exists>r \<in> set (db_users db). ur_id r = u_id u) then Inr (db, 0)
            else if \<exists>r \<in> set (db_users db). ur_id r \<noteq> u_id u \<and> ur_username r = ur_username row
            then Inl (PqError unique_violation)
            else if \<not> organization_exists db row then Inl (PqError foreign_key_violation)
            else Inr (db\<lparr>db_users := map (\<lambda>r. if ur_id r = u_id u then written row r else r) (db_users db)\<rparr>,
                      length (filter (\<lambda>r. ur_id r = u_id u) (db_users db))))"

subsection \<open>The store\<close>

definition wrap :: "string \<Rightarrow> sql_error \<Rightarrow> auth_error" where
  "wrap what e = OtherError (what @ '': '' @ sql_error_text e)"

definition pg_CreateUser :: "user_db \<Rightarrow> string \<Rightarrow> int \<Rightarrow> user \<Rightarrow> auth_error + (user_db \<times> user)" where
  "pg_CreateUser db new_id now u =
     (let u' = created_user new_id now u
      in case insert_users db u' of
           Inl e \<Rightarrow> if e = PqError unique_violation then Inl ErrUserAlreadyExists
                    else Inl (wrap ''postgres create user'' e)
         | Inr db' \<Rightarrow> Inr (db', u'))"

definition pg_get :: "string \<Rightarrow> sql_error + user_row option \<Rightarrow> auth_error + user" where
  "pg_get what res =
     (case res of
        Inl e \<Rightarrow> Inl (wrap what e)
      | Inr None \<Rightarrow> Inl ErrUserNotFound
      | Inr (Some r) \<Rightarrow> Inr (scan_user r))"

definition pg_GetUserByUsername :: "user_db \<Rightarrow> string \<Rightarrow> auth_error + user" where
  "pg_GetUserByUsername db n = pg_get ''postgres get user by username'' (select_user db ur_username n)"

definition pg_GetUserByID :: "user_db \<Rightarrow> string \<Rightarrow> auth_error + user" where
  "pg_GetUserByID db i = pg_get ''postgres get user by id'' (select_user db ur_id i)"

text \<open>\<open>ORDER BY created_at DESC\<close>; the database may return rows of the same time in any order, here
  the one of \<open>order\<close>, a list of the ids.\<close>

definition pg_ListUsers :: "user_db \<Rightarrow> string list \<Rightarrow> auth_error + user list" where
  "pg_ListUsers db order =
     (if \<not> db_up db then Inl (wrap ''postgres list users'' ConnError)
      else Inr (map scan_user (sort_key (\<lambda>r. - ur_created_at r)
             (List.map_filter (\<lambda>i. List.find (\<lambda>r. ur_id r = i) (db_users db)) order))))"

definition pg_UpdateUser :: "user_db \<Rightarrow> int \<Rightarrow> user \<Rightarrow> auth_error + user_db" where
  "pg_UpdateUser db now u =
     (case update_users db (u\<lparr>u_updated_at := now\<rparr>) of
        Inl e \<Rightarrow> Inl (wrap ''postgres update user'' e)
      | Inr (db', n) \<Rightarrow> if n = 0 then Inl ErrUserNotFound else Inr db')"

definition pg_ops :: "user_db user_store_ops" where
  "pg_ops = \<lparr>CreateUser = pg_CreateUser, GetUserByUsername = pg_GetUserByUsername,
     GetUserByID = pg_GetUserByID, ListUsers = pg_ListUsers, UpdateUser = pg_UpdateUser\<rparr>"

lemma pg_ops_sel [simp]:
  "CreateUser pg_ops = pg_CreateUser" "GetUserByUsername pg_ops = pg_GetUserByUsername"
  "GetUserByID pg_ops = pg_GetUserByID" "ListUsers pg_ops = pg_ListUsers" "UpdateUser pg_ops = pg_UpdateUser"
  by (simp_all add: pg_ops_def)

subsection \<open>Well-formed tables\<close>

definition fits_row :: "user \<Rightarrow> bool" where
  "fits_row u \<longleftrightarrow> fits_varchar 64 (u_id u) \<and> fits_varchar 64 (u_username u) \<and>
     fits_varchar 255 (u_password_hash u) \<and> fits_varchar 32 (u_role u) \<and>
     fits_varchar 64 (u_organization_id u) \<and> fits_varchar 32 (u_status u) \<and> fits_varchar 64 (u_mfa_secret u)"

definition row_of :: "user \<Rightarrow> user_row" where
  "row_of u = \<lparr>ur_id = u_id u, ur_username = u_username u, ur_password_hash = u_password_hash u,
     ur_role = u_role u, ur_organization_id = nullif_empty (u_organization_id u),
     ur_status = u_status u, ur_mfa_secret = Some (u_mfa_secret u), ur_mfa_enabled = u_mfa_enabled u,
     ur_created_at = u_created_at u, ur_updated_at = u_updated_at u\<rparr>"

lemma scan_row_of [simp]: "scan_user (row_of u) = u"
  by (simp add: scan_user_def row_of_def) (simp add: coalesce_empty_def)

lemma scan_user_sel [simp]: "u_id (scan_user r) = ur_id r" "u_username (scan_user r) = ur_username r"
  by (simp_all add: scan_user_def)

lemma column_values_fits: "fits_row u \<Longrightarrow> column_values u = Some (row_of u)"
  by (simp add: fits_row_def column_values_def row_of_def varchar_fits)

lemma column_values_holds:
  assumes "column_values u = Some row"
  shows "fits_row (scan_user row)"
proof -
  from assms obtain a b c d e f g where
    "varchar 64 (u_id u) = Some a" "varchar 64 (u_username u) = Some b" "varchar 255 (u_password_hash u) = Some c"
    "varchar 32 (u_role u) = Some d" "varchar 64 (u_organization_id u) = Some e" "varchar 32 (u_status u) = Some f"
    "varchar 64 (u_mfa_secret u) = Some g" and row: "scan_user row = \<lparr>u_id = a, u_username = b, u_password_hash = c,
      u_role = d, u_organization_id = e, u_status = f, u_mfa_secret = g, u_mfa_enabled = u_mfa_enabled u,
      u_created_at = u_created_at u, u_updated_at = u_updated_at u\<rparr>"
    unfolding column_values_def
    by (auto simp: bind_eq_Some_conv scan_user_def coalesce_empty_def nullif_empty_def)
  then show ?thesis by (simp add: fits_row_def varchar_holds)
qed

text \<open>The constraints of the table: the primary key, the unique name, the column types, the foreign key.\<close>

definition db_ok :: "user_db \<Rightarrow> bool" where
  "db_ok db \<longleftrightarrow> distinct (map ur_id (db_users db)) \<and> distinct (map ur_username (db_users db)) \<and>
     (\<forall>r \<in> set (db_users db). fits_row (scan_user r) \<and> organization_exists db r)"

lemma insert_users_Inr:
  assumes "insert_users db u = Inr db'"
  obtains row where "column_values u = Some row" "db' = db\<lparr>db_users := db_users db @ [row]\<rparr>" "db_up db"
    "\<forall>r \<in> set (db_users db). ur_id r \<noteq> ur_id row \<and> ur_username r \<noteq> ur_username row"
    "organization_exists db row" "list_all pg_text (text_params u)"
  using assms by (auto simp: insert_users_def split: if_splits option.splits)

lemma organization_exists_users [simp]:
  "organization_exists (db\<lparr>db_users := rs\<rparr>) r = organization_exists db r"
  by (simp add: organization_exists_def split: option.split)

lemma db_ok_insert: "db_ok db \<Longrightarrow> insert_users db u = Inr db' \<Longrightarrow> db_ok db'"
  by (erule insert_users_Inr) (auto simp: db_ok_def column_values_holds)

lemma find_unique:
  "distinct (map f xs) \<Longrightarrow> x \<in> set xs \<Longrightarrow> List.find (\<lambda>y. f y = f x) xs = Some x"
  by (induction xs) auto

lemma find_snoc:
  "List.find P (xs @ [x]) = (case List.find P xs of None \<Rightarrow> if P x then Some x else None | Some y \<Rightarrow> Some y)"
  by (induction xs) auto

lemma find_None: "List.find P xs = None \<longleftrightarrow> (\<forall>x \<in> set xs. \<not> P x)"
  by (induction xs) auto

lemma find_mem: "List.find P xs = Some x \<Longrightarrow> x \<in> set xs \<and> P x"
  by (induction xs) (auto split: if_splits)

lemma pg_CreateUser_Inr:
  assumes "pg_CreateUser db i t u = Inr (db', v)"
  shows "v = created_user i t u" "insert_users db v = Inr db'"
  using assms by (auto simp: pg_CreateUser_def Let_def split: sum.splits if_splits)

lemma pg_created_row:
  assumes "pg_CreateUser db i t u = Inr (db', v)" and "fits_row v"
  shows "db' = db\<lparr>db_users := db_users db @ [row_of v]\<rparr>" "db_up db"
    "\<forall>r \<in> set (db_users db). ur_id r \<noteq> u_id v \<and> ur_username r \<noteq> u_username v"
proof -
  from insert_users_Inr [OF pg_CreateUser_Inr(2) [OF assms(1)]] column_values_fits [OF assms(2)]
  show "db' = db\<lparr>db_users := db_users db @ [row_of v]\<rparr>" "db_up db"
    "\<forall>r \<in> set (db_users db). ur_id r \<noteq> u_id v \<and> ur_username r \<noteq> u_username v"
    by (auto simp: row_of_def)
qed

lemma fits_row_text: "fits_row u \<Longrightarrow> pg_text (u_id u) \<and> pg_text (u_username u)"
  by (auto simp: fits_row_def dest: fits_varchar_text)

lemma select_created:
  assumes "pg_CreateUser db i t u = Inr (db', v)" and "fits_row v" and "f = ur_id \<or> f = ur_username"
  shows "select_user db' f k = (if k = f (row_of v) then Inr (Some (row_of v)) else select_user db f k)"
proof -
  note row = pg_created_row [OF assms(1,2)]
  have "pg_text (f (row_of v))" using fits_row_text [OF assms(2)] assms(3) by (auto simp: row_of_def)
  moreover have "List.find (\<lambda>r. f r = f (row_of v)) (db_users db) = None"
    using row(3) assms(3) by (auto simp: find_None row_of_def)
  ultimately show ?thesis
    using row by (auto simp: select_user_def find_snoc split: option.split)
qed

interpretation pg: user_store pg_ops db_ok fits_row
proof
  fix s u v i t s' e n j
  assume c: "CreateUser pg_ops s i t u = Inr (s', v)"
  then have c': "pg_CreateUser s i t u = Inr (s', v)" by simp
  show v: "v = created_user i t u" using pg_CreateUser_Inr(1) [OF c'] .
  show "db_ok s \<Longrightarrow> GetUserByID pg_ops s (u_id v) = Inl e \<Longrightarrow> db_ok s'"
    using db_ok_insert pg_CreateUser_Inr(2) [OF c'] by blast
  assume fit: "fits_row v"
  have name: "ur_username (row_of v) = u_username u" "ur_id (row_of v) = u_id v" "u_username v = u_username u"
    by (simp_all add: row_of_def v)
  note sel = select_created [OF c' fit]
  have "List.find (\<lambda>r. ur_username r = u_username u) (db_users s) = None"
    using pg_created_row(3) [OF c' fit] name(3) by (auto simp: find_None)
  then show "\<exists>e. GetUserByUsername pg_ops s (u_username u) = Inl e"
    by (simp add: pg_GetUserByUsername_def select_user_def pg_get_def)
  show "GetUserByUsername pg_ops s' n = (if n = u_username u then Inr v else GetUserByUsername pg_ops s n)"
    using sel [of ur_username n] name by (simp add: pg_GetUserByUsername_def pg_get_def)
  show "GetUserByID pg_ops s' j = (if j = u_id v then Inr v else GetUserByID pg_ops s j)"
    using sel [of ur_id j] name by (simp add: pg_GetUserByID_def pg_get_def)
next
  fix s n v
  assume ok: "db_ok s" and g: "GetUserByUsername pg_ops s n = Inr v"
  then obtain r where r: "List.find (\<lambda>r. ur_username r = n) (db_users s) = Some r" "v = scan_user r" "db_up s"
    by (auto simp: pg_GetUserByUsername_def pg_get_def select_user_def split: sum.splits option.splits if_splits)
  note mem = find_mem [OF r(1)]
  show "u_username v = n" using mem r(2) by simp
  have "pg_text (ur_id r)" using ok mem fits_row_text [of "scan_user r"] by (auto simp: db_ok_def)
  then show "GetUserByID pg_ops s (u_id v) = Inr v"
    using find_unique [of ur_id "db_users s" r] ok mem r
    by (simp add: db_ok_def pg_GetUserByID_def pg_get_def select_user_def)
qed

subsection \<open>Updates\<close>

lemma written_sel [simp]: "ur_id (written row r) = ur_id r" "ur_username (written row r) = ur_username row"
  "ur_created_at (written row r) = ur_created_at r" "ur_organization_id (written row r) = ur_organization_id row"
  by (simp_all add: written_def)

lemma update_users_Inr:
  assumes "update_users db u = Inr (db', n)" and "n \<noteq> 0"
  obtains row where "column_values (u\<lparr>u_id := []\<rparr>) = Some row"
    "db' = db\<lparr>db_users := map (\<lambda>r. if ur_id r = u_id u then written row r else r) (db_users db)\<rparr>"
    "\<forall>r \<in> set (db_users db). ur_id r \<noteq> u_id u \<longrightarrow> ur_username r \<noteq> ur_username row"
    "organization_exists db row" "\<exists>r \<in> set (db_users db). ur_id r = u_id u"
  using assms by (simp add: update_users_def split: if_splits option.splits) blast

lemma distinct_overwrite:
  assumes "distinct (map f xs)" and "distinct (map g xs)"
    and "\<forall>x \<in> set xs. f x \<noteq> k \<longrightarrow> g x \<noteq> v" and "\<forall>x. g (w x) = v"
  shows "distinct (map (\<lambda>x. g (if f x = k then w x else x)) xs)"
  using assms(1-3) by (induction xs) (auto simp: assms(4) image_iff)

text \<open>A successful update keeps the table well-typed, gives the account its new values (its id and
  creation time stay) and changes no other account.\<close>

lemma pg_UpdateUser_ok:
  assumes ok: "db_ok db" and upd: "pg_UpdateUser db t u = Inr db'"
  shows "db_ok db'" and "i \<noteq> u_id u \<Longrightarrow> pg_GetUserByID db' i = pg_GetUserByID db i"
    and "fits_row u \<Longrightarrow> \<exists>c. pg_GetUserByID db' (u_id u) = Inr (u\<lparr>u_updated_at := t, u_created_at := c\<rparr>)"
proof -
  let ?u = "u\<lparr>u_updated_at := t\<rparr>"
  obtain n where "update_users db ?u = Inr (db', n)" "n \<noteq> 0"
    using upd by (auto simp: pg_UpdateUser_def split: sum.splits if_splits)
  then obtain row where cols: "column_values (?u\<lparr>u_id := []\<rparr>) = Some row"
    and db': "db' = db\<lparr>db_users := map (\<lambda>r. if ur_id r = u_id u then written row r else r) (db_users db)\<rparr>"
    and name: "\<forall>r \<in> set (db_users db). ur_id r \<noteq> u_id u \<longrightarrow> ur_username r \<noteq> ur_username row"
    and org: "organization_exists db row" and ex: "\<exists>r \<in> set (db_users db). ur_id r = u_id u"
    by (rule update_users_Inr) auto
  have fit: "fits_row (scan_user row)" using column_values_holds [OF cols] .
  have "distinct (map ur_id (db_users db'))"
    using ok by (simp add: db' db_ok_def o_def if_distrib cong: if_cong map_cong)
  moreover have "distinct (map ur_username (db_users db'))"
    using ok distinct_overwrite [of ur_id "db_users db" ur_username "u_id u" "ur_username row" "written row"] name
    by (simp add: db' db_ok_def o_def)
  moreover have "fits_row (scan_user (written row r)) \<and> organization_exists db (written row r)"
    if "r \<in> set (db_users db)" for r
    using ok that fit org by (auto simp: db_ok_def fits_row_def scan_user_def written_def organization_exists_def)
  ultimately show "db_ok db'" using ok by (auto simp: db' db_ok_def)
  have find: "List.find (\<lambda>r. ur_id r = i) (map (\<lambda>r. if ur_id r = k then w r else r) rs) =
      map_option (\<lambda>r. if ur_id r = k then w r else r) (List.find (\<lambda>r. ur_id r = i) rs)"
    if "\<forall>r. ur_id (w r) = ur_id r" for i k w and rs :: "user_row list"
    using that by (induction rs) auto
  show "i \<noteq> u_id u \<Longrightarrow> pg_GetUserByID db' i = pg_GetUserByID db i"
    by (auto simp: pg_GetUserByID_def pg_get_def select_user_def db' find split: option.split dest!: find_mem)
  assume u: "fits_row u"
  have up: "db_up db" using upd by (auto simp: pg_UpdateUser_def update_users_def split: if_splits)
  have row: "row = row_of (?u\<lparr>u_id := []\<rparr>)" using u column_values_fits cols by (simp add: fits_row_def)
  obtain r where r: "List.find (\<lambda>r. ur_id r = u_id u) (db_users db) = Some r"
    using ex by (cases "List.find (\<lambda>r. ur_id r = u_id u) (db_users db)") (auto simp: find_None)
  have "ur_id r = u_id u" using find_mem [OF r] by simp
  then have "scan_user (written row r) = ?u\<lparr>u_created_at := ur_created_at r\<rparr>"
    by (simp add: row written_def scan_user_def row_of_def) (simp add: coalesce_empty_def)
  then show "\<exists>c. pg_GetUserByID db' (u_id u) = Inr (u\<lparr>u_updated_at := t, u_created_at := c\<rparr>)"
    using r up fits_row_text [OF u] \<open>ur_id r = u_id u\<close>
    by (auto simp: pg_GetUserByID_def pg_get_def select_user_def db' find)
qed

text \<open>Unlike the in-memory store, the table refuses a name in use.\<close>

lemma pg_UpdateUser_taken:
  assumes "v \<in> set (db_users db)" "ur_username v = u_username u" "ur_id v \<noteq> u_id u" "fits_varchar 64 (u_username u)"
  shows "\<exists>e. pg_UpdateUser db t u = Inl e"
proof (cases "pg_UpdateUser db t u")
  case (Inr db')
  then obtain n where "update_users db (u\<lparr>u_updated_at := t\<rparr>) = Inr (db', n)" "n \<noteq> 0"
    by (auto simp: pg_UpdateUser_def split: sum.splits if_splits)
  then obtain row where row: "column_values (u\<lparr>u_updated_at := t, u_id := []\<rparr>) = Some row"
    and name: "\<forall>r \<in> set (db_users db). ur_id r \<noteq> u_id u \<longrightarrow> ur_username r \<noteq> ur_username row"
    by (rule update_users_Inr) simp
  from row have "ur_username row = u_username u"
    using assms(4) by (auto simp: column_values_def bind_eq_Some_conv varchar_fits)
  with name assms(1-3) show ?thesis by simp
qed simp

subsection \<open>Refinement of the in-memory store\<close>

definition abs_store :: "user_db \<Rightarrow> mem_store" where
  "abs_store db = \<lparr>
     byID = (\<lambda>i. map_option scan_user (List.find (\<lambda>r. ur_id r = i) (db_users db))),
     byUsername = (\<lambda>n. map_option scan_user (List.find (\<lambda>r. ur_username r = n) (db_users db)))\<rparr>"

lemma abs_store_consistent:
  assumes "db_ok db"
  shows "store_consistent (abs_store db)"
  using assms find_unique [of ur_id "db_users db"] find_unique [of ur_username "db_users db"]
  by (auto simp: store_consistent_def abs_store_def db_ok_def dest!: find_mem)

lemma pg_get_refines:
  assumes "db_ok db" "db_up db"
  shows "pg_text n \<Longrightarrow> pg_GetUserByUsername db n = mem_GetUserByUsername (abs_store db) n"
    and "\<not> pg_text n \<Longrightarrow> (\<exists>e. pg_GetUserByUsername db n = Inl e) \<and>
      mem_GetUserByUsername (abs_store db) n = Inl ErrUserNotFound"
    and "pg_text i \<Longrightarrow> pg_GetUserByID db i = mem_GetUserByID (abs_store db) i"
    and "\<not> pg_text i \<Longrightarrow> (\<exists>e. pg_GetUserByID db i = Inl e) \<and>
      mem_GetUserByID (abs_store db) i = Inl ErrUserNotFound"
proof -
  have none: "List.find (\<lambda>r. ur_username r = n) (db_users db) = None" if "\<not> pg_text n"
    using assms(1) that fits_row_text by (fastforce simp: find_None db_ok_def)
  have none': "List.find (\<lambda>r. ur_id r = i) (db_users db) = None" if "\<not> pg_text i"
    using assms(1) that fits_row_text by (fastforce simp: find_None db_ok_def)
  note defs = pg_GetUserByUsername_def pg_GetUserByID_def mem_GetUserByUsername_def mem_GetUserByID_def
    pg_get_def select_user_def abs_store_def
  show "pg_text n \<Longrightarrow> pg_GetUserByUsername db n = mem_GetUserByUsername (abs_store db) n"
    "pg_text i \<Longrightarrow> pg_GetUserByID db i = mem_GetUserByID (abs_store db) i"
    using assms(2) by (auto simp: defs split: option.split)
  show "\<not> pg_text n \<Longrightarrow> (\<exists>e. pg_GetUserByUsername db n = Inl e) \<and>
      mem_GetUserByUsername (abs_store db) n = Inl ErrUserNotFound"
    "\<not> pg_text i \<Longrightarrow> (\<exists>e. pg_GetUserByID db i = Inl e) \<and>
      mem_GetUserByID (abs_store db) i = Inl ErrUserNotFound"
    using assms(2) none none' by (simp_all add: defs)
qed

lemma pg_create_refines:
  assumes ok: "db_ok db" "db_up db" and fit: "fits_row (created_user i t u)"
    and org: "u_organization_id u = [] \<or> u_organization_id u \<in> set (db_organizations db)"
    and fresh: "byID (abs_store db) (u_id (created_user i t u)) = None"
  shows "mem_CreateUser (abs_store db) i t u =
    map_sum id (\<lambda>(db', v). (abs_store db', v)) (pg_CreateUser db i t u)"
proof -
  let ?v = "created_user i t u"
  have v: "u_username ?v = u_username u" "u_organization_id ?v = u_organization_id u"
    by (simp_all add: created_user_def)
  have cols: "list_all pg_text (text_params ?v)" "column_values ?v = Some (row_of ?v)"
    using fit column_values_fits by (auto simp: fits_row_def text_params_def dest: fits_varchar_text)
  have "organization_exists db (row_of ?v)"
    using org v(2) by (auto simp: organization_exists_def row_of_def nullif_empty_def)
  moreover have "\<forall>r \<in> set (db_users db). ur_id r \<noteq> u_id ?v"
    using fresh by (simp add: abs_store_def find_None)
  moreover have row: "ur_id (row_of ?v) = u_id ?v" "ur_username (row_of ?v) = u_username u"
    by (simp_all add: row_of_def v)
  ultimately have ins: "insert_users db ?v =
    (if \<exists>r \<in> set (db_users db). ur_username r = u_username u then Inl (PqError unique_violation)
     else Inr (db\<lparr>db_users := db_users db @ [row_of ?v]\<rparr>))"
    using ok(2) cols by (auto simp: insert_users_def)
  show ?thesis
  proof (cases "List.find (\<lambda>r. ur_username r = u_username u) (db_users db)")
    case None
    let ?db = "db\<lparr>db_users := db_users db @ [row_of ?v]\<rparr>"
    have "byID (abs_store ?db) = (byID (abs_store db))(u_id ?v \<mapsto> ?v)"
      "byUsername (abs_store ?db) = (byUsername (abs_store db))(u_username u \<mapsto> ?v)"
      using None fresh row by (auto simp: abs_store_def find_snoc fun_eq_iff split: option.split)
    then have "abs_store ?db = (abs_store db)\<lparr>byID := (byID (abs_store db))(u_id ?v \<mapsto> ?v),
        byUsername := (byUsername (abs_store db))(u_username u \<mapsto> ?v)\<rparr>" by simp
    moreover have "byUsername (abs_store db) (u_username u) = None" using None by (simp add: abs_store_def)
    moreover have "insert_users db ?v = Inr ?db" using ins None by (auto simp: find_None)
    ultimately show ?thesis
      by (simp add: mem_CreateUser_def pg_CreateUser_def Let_def v)
  next
    case (Some r)
    with ins show ?thesis
      by (auto simp: mem_CreateUser_def pg_CreateUser_def Let_def abs_store_def dest!: find_mem)
  qed
qed

end
