(* ===== verification/AuditLogPg.thy ===== *)
theory AuditLogPg
  imports Postgres AuditLog "HOL-Library.Multiset"
begin

text \<open>
  The PostgreSQL audit logger of \<open>backend/internal/audit/logger_postgres.go\<close> over the \<open>audit_logs\<close>
  table of migration 006. \<open>Log\<close> starts a goroutine per event, which writes its row some time
  later: the events whose goroutine has not run are \<open>pl_pending\<close>, and the goroutines run in any order.
  \<open>List\<close> is on Go's 64-bit \<open>int\<close>; no goroutine runs between its two statements.
\<close>

subsection \<open>The table\<close>

record audit_row =
  lr_id :: string
  lr_user_id :: "string option"
  lr_action :: string
  lr_resource :: string
  lr_ip_address :: string
  lr_user_agent :: string
  lr_metadata :: "(string \<times> string) list"
  lr_timestamp :: int

record pg_logger =
  pl_rows :: "audit_row list"
  pl_pending :: "event list"
  pl_up :: bool

text \<open>The metadata as \<open>json.Marshal\<close> writes it; \<open>JSONB\<close> cannot hold the escaped zero byte.\<close>

definition marshal_metadata :: "(string \<times> string) list \<Rightarrow> (string \<times> string) list" where
  "marshal_metadata = map (\<lambda>(k, v). (coerce_utf8 k, coerce_utf8 v))"

definition jsonb_ok :: "(string \<times> string) list \<Rightarrow> bool" where
  "jsonb_ok m \<longleftrightarrow> (\<forall>(k, v) \<in> set m. 0 \<notin> set (map char_code (k @ v)))"

text \<open>The row of an event, \<open>None\<close> when a parameter is not text or a column is too short.\<close>

definition audit_columns :: "event \<Rightarrow> audit_row option" where
  "audit_columns e =
     (let meta = marshal_metadata (ev_metadata e)
      in if \<not> list_all pg_text [ev_id e, ev_user_id e, ev_action e, ev_resource e, ev_ip_address e,
             ev_user_agent e] \<or> \<not> jsonb_ok meta then None
         else
           Option.bind (varchar 64 (ev_id e)) (\<lambda>i.
           Option.bind (varchar 64 (ev_user_id e)) (\<lambda>u.
           Option.bind (varchar 64 (ev_action e)) (\<lambda>a.
           Option.bind (varchar 128 (ev_resource e)) (\<lambda>res.
           Option.bind (varchar 64 (ev_ip_address e)) (\<lambda>ip.
           Option.bind (ev_timestamp e) (\<lambda>t.
             Some \<lparr>lr_id = i, lr_user_id = nullif_empty u, lr_action = a, lr_resource = res,
               lr_ip_address = ip, lr_user_agent = ev_user_agent e, lr_metadata = meta,
               lr_timestamp = t\<rparr>)))))))"

definition insert_audit :: "audit_row list \<Rightarrow> event \<Rightarrow> audit_row list option" where
  "insert_audit rows e =
     (case audit_columns e of
        None \<Rightarrow> None
      | Some row \<Rightarrow> if \<exists>r \<in> set rows. lr_id r = lr_id row then None else Some (rows @ [row]))"

subsection \<open>Logging\<close>

definition pg_Log :: "pg_logger \<Rightarrow> string \<Rightarrow> int \<Rightarrow> event \<Rightarrow> pg_logger" where
  "pg_Log l new_id now e = l\<lparr>pl_pending := pl_pending l @ [stamp_event new_id now e]\<rparr>"

text \<open>The goroutine of the \<open>n\<close>-th pending event runs: a failed statement is only printed.\<close>

definition pg_flush :: "nat \<Rightarrow> pg_logger \<Rightarrow> pg_logger" where
  "pg_flush n l =
     (let rest = take n (pl_pending l) @ drop (Suc n) (pl_pending l)
      in case (if pl_up l then insert_audit (pl_rows l) (pl_pending l ! n) else None) of
           None \<Rightarrow> l\<lparr>pl_pending := rest\<rparr>
         | Some rows \<Rightarrow> l\<lparr>pl_rows := rows, pl_pending := rest\<rparr>)"

definition scan_event :: "audit_row \<Rightarrow> event" where
  "scan_event r = \<lparr>ev_id = lr_id r, ev_user_id = coalesce_empty (lr_user_id r), ev_action = lr_action r,
     ev_resource = lr_resource r, ev_ip_address = lr_ip_address r, ev_user_agent = lr_user_agent r,
     ev_metadata = lr_metadata r, ev_timestamp = Some (lr_timestamp r)\<rparr>"

subsection \<open>Listing\<close>

text \<open>\<open>ORDER BY timestamp DESC LIMIT $1 OFFSET $2\<close>; rows of the same time stay in table order here.\<close>

definition select_audit :: "audit_row list \<Rightarrow> int \<Rightarrow> int \<Rightarrow> sql_error + audit_row list" where
  "select_audit rows limit offset =
     (if limit < 0 then Inl (PqError bad_limit_count)
      else if offset < 0 then Inl (PqError bad_row_count)
      else Inr (take (nat limit) (drop (nat offset) (sort_key (\<lambda>r. - lr_timestamp r) rows))))"

text \<open>\<open>var events []Event\<close> with one \<open>append\<close> per row: an empty page stays nil.\<close>

definition nil_slice :: "'a list \<Rightarrow> 'a list option" where
  "nil_slice xs = (if xs = [] then None else Some xs)"

definition pg_List :: "pg_logger \<Rightarrow> 64 word \<Rightarrow> 64 word \<Rightarrow> string + string + event list option \<times> nat" where
  "pg_List l page pageSize =
     (if \<not> pl_up l then Inr (Inl (''postgres count audit logs: '' @ sql_error_text ConnError))
      else let total = length (pl_rows l); offset = (page - 1) * pageSize
           in case select_audit (pl_rows l) (sint pageSize) (sint offset) of
                Inl e \<Rightarrow> Inr (Inl (''postgres query audit logs: '' @ sql_error_text e))
              | Inr rows \<Rightarrow> Inr (Inr (nil_slice (map scan_event rows), total)))"

definition pg_log_ops :: "pg_logger logger_ops" where
  "pg_log_ops = \<lparr>lg_Log = pg_Log, lg_List = pg_List\<rparr>"

lemma pg_log_ops_sel [simp]: "lg_Log pg_log_ops = pg_Log" "lg_List pg_log_ops = pg_List"
  by (simp_all add: pg_log_ops_def)

subsection \<open>Runs of the logger\<close>

text \<open>\<open>pg_log_run outages h l\<close>: the events logged so far are \<open>h\<close>, in that order, while the goroutines
  and, if \<open>outages\<close>, losses of the database interleave freely.\<close>

inductive pg_log_run :: "bool \<Rightarrow> event list \<Rightarrow> pg_logger \<Rightarrow> bool" for outages where
  start: "pg_log_run outages [] \<lparr>pl_rows = [], pl_pending = [], pl_up = True\<rparr>"
| log: "pg_log_run outages h l \<Longrightarrow> pg_log_run outages (h @ [stamp_event i t e]) (pg_Log l i t e)"
| flush: "pg_log_run outages h l \<Longrightarrow> n < length (pl_pending l) \<Longrightarrow> pg_log_run outages h (pg_flush n l)"
| outage: "outages \<Longrightarrow> pg_log_run outages h l \<Longrightarrow> pg_log_run outages h (l\<lparr>pl_up := b\<rparr>)"

definition stored_rows :: "event list \<Rightarrow> audit_row list" where
  "stored_rows es = List.map_filter audit_columns es"

lemma stored_rows_simps [simp]:
  "stored_rows [] = []" "stored_rows (es @ fs) = stored_rows es @ stored_rows fs"
  "stored_rows (e # es) = (case audit_columns e of None \<Rightarrow> [] | Some r \<Rightarrow> [r]) @ stored_rows es"
  by (simp_all add: stored_rows_def map_filter_def split: option.split)

lemma split_nth: "n < length xs \<Longrightarrow> xs = take n xs @ xs ! n # drop (Suc n) xs"
  by (simp add: id_take_nth_drop)

lemma stored_rows_nth:
  "n < length es \<Longrightarrow> mset (stored_rows es) =
     mset (stored_rows (take n es @ drop (Suc n) es)) +
     (case audit_columns (es ! n) of None \<Rightarrow> {#} | Some r \<Rightarrow> {#r#})"
  by (subst split_nth [of n es]) (simp_all split: option.split)

text \<open>Rows come from logged events, each at most once.\<close>

lemma pg_log_run_rows:
  "pg_log_run outages h l \<Longrightarrow> mset (pl_rows l) + mset (stored_rows (pl_pending l)) \<subseteq># mset (stored_rows h)"
proof (induction rule: pg_log_run.induct)
  case start
  show ?case by simp
next
  case (log h l i t e)
  then show ?case
    by (auto simp: pg_Log_def add.assoc [symmetric] simp del: mset_append stored_rows_simps(3)
        intro: subset_mset.add_right_mono) (simp add: subset_mset.add_right_mono)
next
  case (flush h l n)
  have "mset (pl_rows (pg_flush n l)) + mset (stored_rows (pl_pending (pg_flush n l))) \<subseteq>#
      mset (pl_rows l) + mset (stored_rows (pl_pending l))"
    using stored_rows_nth [OF flush.hyps(2)]
    by (auto simp: pg_flush_def insert_audit_def Let_def split: option.split)
  from this flush.IH show ?case by (rule subset_mset.order_trans)
next
  case (outage h l b)
  then show ?case by simp
qed


text \<open>Without outages and with distinct ids no row is lost: each goroutine that has run has written
  its row, if the event has one.\<close>

lemma distinct_map_append: "distinct (map f (xs @ ys)) \<Longrightarrow> x \<in> set xs \<Longrightarrow> y \<in> set ys \<Longrightarrow> f x \<noteq> f y"
  by auto

lemma pg_log_run_complete:
  assumes "pg_log_run False h l" and "distinct (map lr_id (stored_rows h))"
  shows "pl_up l \<and> mset (pl_rows l) + mset (stored_rows (pl_pending l)) = mset (stored_rows h)"
  using assms
proof (induction rule: pg_log_run.induct)
  case start
  show ?case by simp
next
  case (log h l i t e)
  then show ?case by (simp add: pg_Log_def del: stored_rows_simps(3))
next
  case (flush h l n)
  then have IH: "pl_up l" "mset (pl_rows l @ stored_rows (pl_pending l)) = mset (stored_rows h)" by simp_all
  then have d: "distinct (map lr_id (pl_rows l @ stored_rows (pl_pending l)))"
    using flush.prems by (metis mset_eq_imp_distinct_iff mset_map)
  have m: "row \<in> set (stored_rows (pl_pending l))" if "audit_columns (pl_pending l ! n) = Some row" for row
  proof -
    have "row \<in># mset (stored_rows (pl_pending l))"
      unfolding stored_rows_nth [OF flush.hyps(2)] using that by simp
    then show ?thesis by simp
  qed
  have "lr_id r \<noteq> lr_id row"
    if "audit_columns (pl_pending l ! n) = Some row" "r \<in> set (pl_rows l)" for r row
    using distinct_map_append [OF d that(2) m [OF that(1)]] .
  then show ?case
    using IH stored_rows_nth [OF flush.hyps(2)]
    by (auto simp: pg_flush_def insert_audit_def Let_def split: option.splits)
qed simp

text \<open>Events the table keeps as they are.\<close>

definition fits_event :: "event \<Rightarrow> bool" where
  "fits_event e \<longleftrightarrow> fits_varchar 64 (ev_id e) \<and> fits_varchar 64 (ev_user_id e) \<and> fits_varchar 64 (ev_action e) \<and>
     fits_varchar 128 (ev_resource e) \<and> fits_varchar 64 (ev_ip_address e) \<and> pg_text (ev_user_agent e) \<and>
     (\<forall>(k, v) \<in> set (ev_metadata e). pg_text k \<and> pg_text v) \<and> ev_timestamp e \<noteq> None"

lemma pg_text_coerce: "pg_text s \<Longrightarrow> coerce_utf8 s = s" "pg_text s \<Longrightarrow> 0 \<notin> set (map char_code s)"
  by (auto simp: pg_text_def pg_chars_def intro!: coerce_utf8_valid split: if_splits)

lemma marshal_text: "\<forall>(k, v) \<in> set m. pg_text k \<and> pg_text v \<Longrightarrow> marshal_metadata m = m \<and> jsonb_ok m"
  by (induction m) (use pg_text_coerce(2) in \<open>auto simp: marshal_metadata_def jsonb_ok_def pg_text_coerce(1)\<close>)

lemma audit_columns_fits:
  assumes "fits_event e"
  shows "\<exists>row. audit_columns e = Some row \<and> scan_event row = e"
proof -
  from assms obtain t where t: "ev_timestamp e = Some t" by (auto simp: fits_event_def)
  have m: "marshal_metadata (ev_metadata e) = ev_metadata e" "jsonb_ok (ev_metadata e)"
    using assms marshal_text [of "ev_metadata e"] by (simp_all add: fits_event_def)
  show ?thesis
    using assms t by (auto simp: audit_columns_def m Let_def fits_event_def varchar_fits scan_event_def
        dest: fits_varchar_text)
qed

lemma stored_rows_scan: "\<forall>e \<in> set es. fits_event e \<Longrightarrow> map scan_event (stored_rows es) = es"
  by (induction es) (use audit_columns_fits in \<open>fastforce split: option.split\<close>)+

subsection \<open>The listing at rest\<close>

definition in_time_order :: "event list \<Rightarrow> bool" where
  "in_time_order es \<longleftrightarrow> sorted_wrt (\<lambda>a b. the (ev_timestamp a) < the (ev_timestamp b)) es"

lemma stored_ids: "\<forall>e \<in> set es. fits_event e \<Longrightarrow> map lr_id (stored_rows es) = map ev_id es"
  using stored_rows_scan [of es]
  by (metis (no_types, lifting) comp_apply event.select_convs(1) list.map_comp map_cong scan_event_def)

lemma time_order_rows:
  assumes "in_time_order es" and "\<forall>e \<in> set es. fits_event e"
    and that: "mset rows = mset (stored_rows es)"
  shows "sort_key (\<lambda>r. - lr_timestamp r) rows = rev (stored_rows es)"
proof -
  have "sorted_wrt (\<lambda>a b. the (ev_timestamp a) < the (ev_timestamp b)) (map scan_event (stored_rows es))"
    using assms by (simp add: stored_rows_scan in_time_order_def)
  then have ts: "sorted_wrt (\<lambda>a b. lr_timestamp a < lr_timestamp b) (stored_rows es)"
    by (simp add: sorted_wrt_map scan_event_def)
  then have "sorted_wrt (<) (map lr_timestamp (stored_rows es))" by (simp add: sorted_wrt_map)
  then have "inj_on lr_timestamp (set (stored_rows es))"
    by (simp add: strict_sorted_iff distinct_map)
  then have "inj_on (\<lambda>r. - lr_timestamp r) (set rows)"
    using that by (auto simp: inj_on_def dest: mset_eq_setD)
  moreover have "sorted (map (\<lambda>r. - lr_timestamp r) (rev (stored_rows es)))"
    using ts by (simp add: sorted_wrt_map sorted_wrt_rev) (erule sorted_wrt_mono_rel [rotated], simp)
  ultimately show ?thesis
    using that by (intro sort_key_inj_key_eq) simp_all
qed

lemma pg_List_page:
  assumes up: "pl_up l" and p: "1 \<le> p" and bound: "int (p * n) < 2 ^ 63"
    and rows: "sort_key (\<lambda>r. - lr_timestamp r) (pl_rows l) = rev rs"
  shows "pg_List l (of_nat p) (of_nat n) =
    Inr (Inr (nil_slice (map scan_event (take n (drop ((p - 1) * n) (rev rs)))), length rs))"
proof -
  have "length rs = length (pl_rows l)" using rows by (metis length_rev length_sort)
  moreover have "sint (of_nat ((p - 1) * n) :: 64 word) = int ((p - 1) * n)"
  proof (rule sint_of_nat64)
    have "(p - 1) * n \<le> p * n" by simp
    with bound show "int ((p - 1) * n) < 2 ^ 63" by linarith
  qed
  moreover have "sint (of_nat n :: 64 word) = int n"
  proof (rule sint_of_nat64)
    have "n \<le> p * n" using p by simp
    with bound show "int n < 2 ^ 63" by linarith
  qed
  ultimately show ?thesis
    unfolding pg_List_def Let_def page_start [OF p]
    by (simp add: up select_audit_def rows nat_int del: of_nat_mult)
qed

text \<open>Once every goroutine has run, with no outage on the way, the listing over PostgreSQL is the
  listing of the in-memory logger: for events with fresh ids and increasing times that fit the
  columns, the same pages in the same order and the same total, whatever order the goroutines ran in,
  save that an empty page is a nil slice.\<close>

lemma pg_listing_at_rest:
  assumes "pg_log_run False h l" and "pl_pending l = []"
    and "\<forall>e \<in> set h. fits_event e" and "distinct (map ev_id h)" and "in_time_order h"
    and "1 \<le> p" and "int (p * n) < 2 ^ 63"
  shows "pg_List l (of_nat p) (of_nat n) =
    map_sum id (map_sum id (apfst (\<lambda>es. Option.bind es nil_slice)))
      (lg_List mem_log_ops \<lparr>ml_events = h\<rparr> (of_nat p) (of_nat n))"
proof -
  have "distinct (map lr_id (stored_rows h))" using assms(3,4) by (simp add: stored_ids)
  from pg_log_run_complete [OF assms(1) this] assms(2)
  have l: "pl_up l" "mset (pl_rows l) = mset (stored_rows h)" by simp_all
  have len: "length (stored_rows h) = length h"
    using stored_rows_scan [OF assms(3)] by (metis length_map)
  have "pg_List l (of_nat p) (of_nat n) =
      Inr (Inr (nil_slice (map scan_event (take n (drop ((p - 1) * n) (rev (stored_rows h))))), length h))"
    using pg_List_page [OF l(1) assms(6,7) time_order_rows [OF assms(5,3) l(2)]] len by simp
  also have "map scan_event (take n (drop ((p - 1) * n) (rev (stored_rows h)))) = page_of h p n"
    using stored_rows_scan [OF assms(3)] by (simp add: page_of_def flip: take_map drop_map rev_map)
  finally show ?thesis
    using List_page_spec [OF assms(6,7), of "\<lparr>ml_events = h\<rparr>"] by simp
qed

text \<open>The page whose offset overflows makes the in-memory listing panic; PostgreSQL refuses its negative
  offset with an error, which the endpoint answers with 500.\<close>

lemma pg_List_overflow:
  "\<exists>msg. List_handler_on (lg_List pg_log_ops l) [(''page'', ''4611686018427387905'')] = Inr (Inl msg)"
proof -
  have "page_param [(''page'', ''4611686018427387905'')] = 4611686018427387905"
    by (simp add: page_param_def Let_def atoi_def nat_of_digits_def is_digit_def char_code_def)
  moreover have "page_size_param [(''page'', ''4611686018427387905'')] = 50"
    by (simp add: page_size_param_def)
  ultimately show ?thesis by (simp add: List_handler_on_def pg_List_def select_audit_def Let_def)
qed

end
