(* ===== verification/Migrations.thy ===== *)
theory Migrations
  imports UserStorePg AuditLogPg PolicyEngine Rbac "HOL-Library.Char_ord" "HOL-Library.List_Lexorder"
begin

text \<open>
  The database connection of \<open>backend/internal/database/postgres.go\<close> and the six migrations it embeds:
  the tables they create and the rows they insert. A migration is one \<open>Exec\<close> without arguments, which
  PostgreSQL runs as one transaction. Columns with a time stamp of their own row are left out.
\<close>

subsection \<open>The database\<close>

record app_row =
  ar_id :: string
  ar_name :: string
  ar_slug :: string
  ar_description :: string
  ar_icon :: string
  ar_status :: string

text \<open>\<open>None\<close> is a table that does not exist.\<close>

record nexus_db =
  nd_organizations :: "(string \<times> string) list option"
  nd_users :: "user_row list option"
  nd_roles :: "(string \<times> string) list option"
  nd_permissions :: "(string \<times> string) list option"
  nd_role_permissions :: "(string \<times> string) list option"
  nd_applications :: "app_row list option"
  nd_policies :: "policy list option"
  nd_audit_logs :: "audit_row list option"
  nd_up :: bool

type_synonym sql = "nexus_db \<Rightarrow> sql_error + nexus_db"

definition undefined_table :: string where "undefined_table = ''42P01''"

fun run_sql :: "sql list \<Rightarrow> sql" where
  "run_sql [] db = Inr db"
| "run_sql (stmt # stmts) db = (case stmt db of Inl e \<Rightarrow> Inl e | Inr db' \<Rightarrow> run_sql stmts db')"

text \<open>\<open>CREATE TABLE IF NOT EXISTS\<close>, with the tables its foreign keys reference.\<close>

definition create_table ::
    "(nexus_db \<Rightarrow> 'a list option) \<Rightarrow> (nexus_db \<Rightarrow> 'a list option \<Rightarrow> nexus_db) \<Rightarrow> (nexus_db \<Rightarrow> bool) \<Rightarrow> sql" where
  "create_table tbl upd refs db =
     (if tbl db \<noteq> None then Inr db
      else if refs db then Inr (upd db (Some []))
      else Inl (PqError undefined_table))"

text \<open>An index has no effect on the rows.\<close>

definition create_index :: "(nexus_db \<Rightarrow> 'a list option) \<Rightarrow> sql" where
  "create_index tbl db = (if tbl db = None then Inl (PqError undefined_table) else Inr db)"

text \<open>\<open>INSERT ... ON CONFLICT (key) DO NOTHING\<close>; a row that meets another one in a further unique
  column is an error.\<close>

fun insert_rows :: "('a \<Rightarrow> string) \<Rightarrow> ('a \<Rightarrow> 'a \<Rightarrow> bool) \<Rightarrow> 'a list \<Rightarrow> 'a list \<Rightarrow> 'a list option" where
  "insert_rows key meets [] rows = Some rows"
| "insert_rows key meets (x # xs) rows =
     (if \<exists>r \<in> set rows. key r = key x then insert_rows key meets xs rows
      else if \<exists>r \<in> set rows. meets r x then None
      else insert_rows key meets xs (rows @ [x]))"

definition insert_into ::
    "(nexus_db \<Rightarrow> 'a list option) \<Rightarrow> (nexus_db \<Rightarrow> 'a list option \<Rightarrow> nexus_db) \<Rightarrow>
     ('a \<Rightarrow> string) \<Rightarrow> ('a \<Rightarrow> 'a \<Rightarrow> bool) \<Rightarrow> 'a list \<Rightarrow> sql" where
  "insert_into tbl upd key meets xs db =
     (case tbl db of
        None \<Rightarrow> Inl (PqError undefined_table)
      | Some rows \<Rightarrow>
          (case insert_rows key meets xs rows of
             None \<Rightarrow> Inl (PqError unique_violation)
           | Some rows' \<Rightarrow> Inr (upd db (Some rows'))))"

subsection \<open>The migrations\<close>

definition default_organizations :: "(string \<times> string) list" where
  "default_organizations = [(''org-default'', ''Default Organization'')]"

definition create_organizations :: "sql list" where
  "create_organizations =
    [create_table nd_organizations (\<lambda>db t. db\<lparr>nd_organizations := t\<rparr>) (\<lambda>db. True),
     insert_into nd_organizations (\<lambda>db t. db\<lparr>nd_organizations := t\<rparr>) fst (\<lambda>r x. snd r = snd x)
       default_organizations]"

definition create_users :: "sql list" where
  "create_users =
    [create_table nd_users (\<lambda>db t. db\<lparr>nd_users := t\<rparr>) (\<lambda>db. nd_organizations db \<noteq> None),
     create_index nd_users, create_index nd_users, create_index nd_users]"

definition standard_roles :: "(string \<times> string) list" where
  "standard_roles =
    [(''super_admin'', ''Full system access across all tenants and subsystems''),
     (''admin'', ''Organization administrator with user and app management''),
     (''security_manager'', ''Security officer managing policies, audits, and security controls''),
     (''developer'', ''Software engineer with application manage and deployment rights''),
     (''analyst'', ''Security and data analyst with read permissions and audit view''),
     (''viewer'', ''Read-only access to assigned resources''),
     (''user'', ''Standard user with basic viewer access'')]"

definition standard_permissions :: "(string \<times> string) list" where
  "standard_permissions =
    [(''users.read'', ''Read user profiles and lists''),
     (''users.create'', ''Create new user accounts''),
     (''users.update'', ''Update existing user profiles and status''),
     (''users.delete'', ''Permanently delete user accounts''),
     (''applications.read'', ''View registered applications''),
     (''applications.manage'', ''Create, update, and delete applications''),
     (''policies.read'', ''View access control policies''),
     (''policies.manage'', ''Create, modify, and delete access policies''),
     (''audit.read'', ''View security audit logs and events''),
     (''security.manage'', ''Manage security settings, rate limits, and MFA''),
     (''organizations.read'', ''View organization details''),
     (''organizations.manage'', ''Manage organization settings''),
     (''roles.read'', ''View roles and permission matrices''),
     (''roles.manage'', ''Assign and customize role permissions'')]"

definition create_roles_and_permissions :: "sql list" where
  "create_roles_and_permissions =
    [create_table nd_roles (\<lambda>db t. db\<lparr>nd_roles := t\<rparr>) (\<lambda>db. True),
     create_table nd_permissions (\<lambda>db t. db\<lparr>nd_permissions := t\<rparr>) (\<lambda>db. True),
     create_table nd_role_permissions (\<lambda>db t. db\<lparr>nd_role_permissions := t\<rparr>)
       (\<lambda>db. nd_roles db \<noteq> None \<and> nd_permissions db \<noteq> None),
     insert_into nd_roles (\<lambda>db t. db\<lparr>nd_roles := t\<rparr>) fst (\<lambda>r x. False) standard_roles,
     insert_into nd_permissions (\<lambda>db t. db\<lparr>nd_permissions := t\<rparr>) fst (\<lambda>r x. False) standard_permissions]"

definition catalog_row :: "string \<Rightarrow> string \<Rightarrow> string \<Rightarrow> string \<Rightarrow> string \<Rightarrow> app_row" where
  "catalog_row i n sl d ic = \<lparr>ar_id = i, ar_name = n, ar_slug = sl, ar_description = d, ar_icon = ic,
     ar_status = ''active''\<rparr>"

definition catalog_rows :: "app_row list" where
  "catalog_rows =
    [catalog_row ''app-aws-console'' ''AWS Management Console'' ''aws-console''
       ''Core cloud infrastructure console'' ''aws'',
     catalog_row ''app-prod-db'' ''Production PostgreSQL Database'' ''prod-db''
       ''Customer data & transaction storage'' ''database'',
     catalog_row ''app-reporting'' ''Executive Reporting Dashboard'' ''reporting-dashboard''
       ''Business analytics & intelligence portal'' ''chart'',
     catalog_row ''app-vault'' ''Cloud Secrets Vault'' ''secrets-vault''
       ''Production secrets & encryption keys'' ''key'']"

definition create_applications :: "sql list" where
  "create_applications =
    [create_table nd_applications (\<lambda>db t. db\<lparr>nd_applications := t\<rparr>) (\<lambda>db. True),
     insert_into nd_applications (\<lambda>db t. db\<lparr>nd_applications := t\<rparr>) ar_id
       (\<lambda>r x. ar_name r = ar_name x \<or> ar_slug r = ar_slug x) catalog_rows]"

definition policy_row ::
    "string \<Rightarrow> string \<Rightarrow> string \<Rightarrow> string \<Rightarrow> bool \<Rightarrow> bool \<Rightarrow> int \<Rightarrow> string \<Rightarrow> bool \<Rightarrow> policy" where
  "policy_row i n ro app mfa dev risk dec en = \<lparr>p_id = i, p_name = n, p_role = ro, p_application = app,
     p_require_mfa = mfa, p_require_trusted = dev, p_max_risk_score = risk, p_decision = dec, p_enabled = en\<rparr>"

definition policy_rows :: "policy list" where
  "policy_rows =
    [policy_row ''pol-dev-aws'' ''Developer AWS Console Access'' ''developer'' ''aws-console'' True True 70 ''ALLOW'' True,
     policy_row ''pol-admin-all'' ''Admin Full Access'' ''admin'' ''*'' True False 50 ''ALLOW'' True,
     policy_row ''pol-viewer-read'' ''Viewer Read-Only'' ''viewer'' ''*'' False False 0 ''ALLOW'' True,
     policy_row ''pol-sec-vault'' ''Security Manager Vault Access'' ''security_manager'' ''secrets-vault'' True True 40
       ''ALLOW'' True]"

definition create_policies :: "sql list" where
  "create_policies =
    [create_table nd_policies (\<lambda>db t. db\<lparr>nd_policies := t\<rparr>) (\<lambda>db. True),
     insert_into nd_policies (\<lambda>db t. db\<lparr>nd_policies := t\<rparr>) p_id (\<lambda>r x. False) policy_rows]"

definition create_audit_logs :: "sql list" where
  "create_audit_logs =
    [create_table nd_audit_logs (\<lambda>db t. db\<lparr>nd_audit_logs := t\<rparr>) (\<lambda>db. True),
     create_index nd_audit_logs, create_index nd_audit_logs, create_index nd_audit_logs]"

text \<open>The embedded directory: its entries, and what reading a file of it gives.\<close>

definition migration_files :: "(string \<times> sql list) list" where
  "migration_files =
    [(''001_create_organizations.sql'', create_organizations),
     (''002_create_users.sql'', create_users),
     (''003_create_roles_and_permissions.sql'', create_roles_and_permissions),
     (''004_create_applications.sql'', create_applications),
     (''005_create_policies.sql'', create_policies),
     (''006_create_audit_logs.sql'', create_audit_logs)]"

subsection \<open>The runner\<close>

text \<open>An entry is a name and whether it is a directory.\<close>

definition migration_names :: "(string \<times> bool) list \<Rightarrow> string list" where
  "migration_names entries =
     sort (map fst (filter (\<lambda>(name, is_dir). \<not> is_dir \<and> length name > 4 \<and>
       drop (length name - 4) name = ''.sql'') entries))"

definition exec_migration :: "sql list \<Rightarrow> sql" where
  "exec_migration stmts db = (if nd_up db then run_sql stmts db else Inl ConnError)"

text \<open>The files run one after the other; an error leaves the effects of those before it.\<close>

fun run_migrations :: "(string \<Rightarrow> string + sql list) \<Rightarrow> string list \<Rightarrow> nexus_db \<Rightarrow> nexus_db \<times> string option" where
  "run_migrations read [] db = (db, None)"
| "run_migrations read (name # names) db =
     (case read name of
        Inl e \<Rightarrow> (db, Some (''failed to read migration '' @ name @ '': '' @ e))
      | Inr content \<Rightarrow>
          (case exec_migration content db of
             Inl e \<Rightarrow> (db, Some (''failed to execute migration '' @ name @ '': '' @ sql_error_text e))
           | Inr db' \<Rightarrow> run_migrations read names db'))"

definition read_migration :: "string \<Rightarrow> string + sql list" where
  "read_migration name =
     (case map_of migration_files name of None \<Rightarrow> Inl ''file does not exist'' | Some c \<Rightarrow> Inr c)"

definition RunMigrations :: "nexus_db \<Rightarrow> nexus_db \<times> string option" where
  "RunMigrations db =
     run_migrations read_migration (migration_names (map (\<lambda>(name, c). (name, False)) migration_files)) db"

subsection \<open>Connecting\<close>

record db_config =
  dc_url :: string
  dc_max_open :: int
  dc_max_idle :: int
  dc_idle_time :: int

record pool =
  po_max_open :: int
  po_max_idle :: int
  po_idle_time :: int

text \<open>\<open>open_url\<close> is the error of \<open>sql.Open\<close> for a URL, if any; times are seconds.\<close>

definition ConnectPostgres ::
    "(string \<Rightarrow> string option) \<Rightarrow> db_config \<Rightarrow> nexus_db \<Rightarrow> nexus_db \<times> (string + pool)" where
  "ConnectPostgres open_url cfg db =
     (if dc_url cfg = [] then (db, Inl ''database: empty connection URL'')
      else case open_url (dc_url cfg) of
          Some e \<Rightarrow> (db, Inl (''database: failed to open postgres connection: '' @ e))
        | None \<Rightarrow>
            let limits = \<lparr>po_max_open = (if dc_max_open cfg \<le> 0 then 25 else dc_max_open cfg),
                  po_max_idle = (if dc_max_idle cfg \<le> 0 then 5 else dc_max_idle cfg),
                  po_idle_time = (if dc_idle_time cfg \<le> 0 then 15 * 60 else dc_idle_time cfg)\<rparr>
            in if \<not> nd_up db then (db, Inl (''database: ping failed: '' @ sql_error_text ConnError))
               else case RunMigrations db of
                   (db', Some e) \<Rightarrow> (db', Inl (''database: migrations failed: '' @ e))
                 | (db', None) \<Rightarrow> (db', Inr limits))"


subsection \<open>What the migrations leave\<close>

lemma migration_order: "migration_names (map (\<lambda>(name, c). (name, False)) migration_files) = map fst migration_files"
  unfolding migration_names_def migration_files_def by code_simp

lemma read_migration_files:
  "(name, c) \<in> set migration_files \<Longrightarrow> read_migration name = Inr c"
proof -
  assume mem: "(name, c) \<in> set migration_files"
  have "distinct (map fst migration_files)" unfolding migration_files_def by simp
  with mem show ?thesis by (simp add: read_migration_def)
qed

lemma insert_rows_known:
  "\<forall>x \<in> set xs. \<exists>r \<in> set rows. key r = key x \<Longrightarrow> insert_rows key meets xs rows = Some rows"
  by (induction xs) auto

lemma insert_rows_new:
  assumes "distinct (map key (rows @ xs))" and "\<forall>x \<in> set xs. \<forall>r \<in> set (rows @ xs). r \<noteq> x \<longrightarrow> \<not> meets r x"
  shows "insert_rows key meets xs rows = Some (rows @ xs)"
  using assms
proof (induction xs arbitrary: rows)
  case (Cons x xs)
  have "\<not> (\<exists>r \<in> set rows. key r = key x)" "\<not> (\<exists>r \<in> set rows. meets r x)"
    using Cons.prems by (auto simp: image_iff)
  then show ?case using Cons.IH [of "rows @ [x]"] Cons.prems by simp
qed simp

text \<open>The rows a migration inserts, into a table it has just created or filled before.\<close>

definition seeds :: "('a \<Rightarrow> string) \<Rightarrow> ('a \<Rightarrow> 'a \<Rightarrow> bool) \<Rightarrow> 'a list \<Rightarrow> bool" where
  "seeds key meets xs \<longleftrightarrow> insert_rows key meets xs [] = Some xs \<and> insert_rows key meets xs xs = Some xs"

lemma seedsI:
  assumes "distinct (map key xs)" "\<forall>x \<in> set xs. \<forall>r \<in> set xs. r \<noteq> x \<longrightarrow> \<not> meets r x"
  shows "seeds key meets xs"
  using insert_rows_new [of key "[]" xs meets] insert_rows_known [of xs xs key meets] assms
  by (auto simp: seeds_def)

lemma insert_into_seeds:
  assumes "seeds key meets xs" and "tbl db = Some [] \<or> tbl db = Some xs"
  shows "insert_into tbl upd key meets xs db = Inr (upd db (Some xs))"
  using assms by (auto simp: insert_into_def seeds_def)

lemma seeded_tables:
  "seeds fst (\<lambda>r x. snd r = snd x) default_organizations"
  "seeds fst (\<lambda>r x. False) standard_roles" "seeds fst (\<lambda>r x. False) standard_permissions"
  "seeds ar_id (\<lambda>r x. ar_name r = ar_name x \<or> ar_slug r = ar_slug x) catalog_rows"
  "seeds p_id (\<lambda>r x. False) policy_rows"
  by (rule seedsI; simp add: default_organizations_def standard_roles_def standard_permissions_def
      catalog_rows_def catalog_row_def policy_rows_def policy_row_def)+

text \<open>The databases the program leaves behind: only the migrations write the tables other than the
  users and the audit log, and any of them may be missing.\<close>

definition seeded :: "'a list \<Rightarrow> 'a list option \<Rightarrow> bool" where
  "seeded xs t \<longleftrightarrow> t = None \<or> t = Some xs"

definition tables_ok :: "nexus_db \<Rightarrow> bool" where
  "tables_ok db \<longleftrightarrow> seeded default_organizations (nd_organizations db) \<and>
     seeded standard_roles (nd_roles db) \<and> seeded standard_permissions (nd_permissions db) \<and>
     seeded [] (nd_role_permissions db) \<and> seeded catalog_rows (nd_applications db) \<and>
     seeded policy_rows (nd_policies db)"

definition rows_of :: "'a list option \<Rightarrow> 'a list" where
  "rows_of t = (case t of None \<Rightarrow> [] | Some rows \<Rightarrow> rows)"

definition migrated :: "nexus_db \<Rightarrow> nexus_db" where
  "migrated db = db\<lparr>nd_organizations := Some default_organizations, nd_users := Some (rows_of (nd_users db)),
     nd_roles := Some standard_roles, nd_permissions := Some standard_permissions,
     nd_role_permissions := Some [], nd_applications := Some catalog_rows,
     nd_policies := Some policy_rows, nd_audit_logs := Some (rows_of (nd_audit_logs db))\<rparr>"

lemma rows_of_Some [simp]: "rows_of (Some rows) = rows"
  by (simp add: rows_of_def)

lemmas table_statements = create_table_def create_index_def exec_migration_def insert_into_seeds

lemma run_create_organizations:
  assumes "nd_up db" "seeded default_organizations (nd_organizations db)"
  shows "exec_migration create_organizations db = Inr (db\<lparr>nd_organizations := Some default_organizations\<rparr>)"
  using assms seeded_tables(1) by (auto simp: create_organizations_def table_statements seeded_def)

lemma run_create_users:
  assumes "nd_up db" "nd_organizations db \<noteq> None"
  shows "exec_migration create_users db = Inr (db\<lparr>nd_users := Some (rows_of (nd_users db))\<rparr>)"
  using assms by (cases "nd_users db") (auto simp: create_users_def table_statements rows_of_def)

lemma run_create_roles:
  assumes "nd_up db" "seeded standard_roles (nd_roles db)" "seeded standard_permissions (nd_permissions db)"
    "seeded [] (nd_role_permissions db)"
  shows "exec_migration create_roles_and_permissions db = Inr (db\<lparr>nd_roles := Some standard_roles,
    nd_permissions := Some standard_permissions, nd_role_permissions := Some []\<rparr>)"
  using assms seeded_tables(2,3)
  by (auto simp: create_roles_and_permissions_def table_statements seeded_def)

lemma run_create_applications:
  assumes "nd_up db" "seeded catalog_rows (nd_applications db)"
  shows "exec_migration create_applications db = Inr (db\<lparr>nd_applications := Some catalog_rows\<rparr>)"
  using assms seeded_tables(4) by (auto simp: create_applications_def table_statements seeded_def)

lemma run_create_policies:
  assumes "nd_up db" "seeded policy_rows (nd_policies db)"
  shows "exec_migration create_policies db = Inr (db\<lparr>nd_policies := Some policy_rows\<rparr>)"
  using assms seeded_tables(5) by (auto simp: create_policies_def table_statements seeded_def)

lemma run_create_audit_logs:
  assumes "nd_up db"
  shows "exec_migration create_audit_logs db = Inr (db\<lparr>nd_audit_logs := Some (rows_of (nd_audit_logs db))\<rparr>)"
  using assms by (cases "nd_audit_logs db") (auto simp: create_audit_logs_def table_statements rows_of_def)

lemma RunMigrations_files:
  "RunMigrations db = run_migrations read_migration (map fst migration_files) db"
  by (simp add: RunMigrations_def migration_order)

lemma read_files:
  "read_migration ''001_create_organizations.sql'' = Inr create_organizations"
  "read_migration ''002_create_users.sql'' = Inr create_users"
  "read_migration ''003_create_roles_and_permissions.sql'' = Inr create_roles_and_permissions"
  "read_migration ''004_create_applications.sql'' = Inr create_applications"
  "read_migration ''005_create_policies.sql'' = Inr create_policies"
  "read_migration ''006_create_audit_logs.sql'' = Inr create_audit_logs"
  by (rule read_migration_files; simp add: migration_files_def)+

text \<open>The migrations complete every such database, whatever was done before, and keep its users and
  its audit log; on a complete database they change nothing.\<close>

lemma migrations_complete:
  assumes "tables_ok db" and "nd_up db"
  shows "RunMigrations db = (migrated db, None)"
  using assms unfolding RunMigrations_files tables_ok_def
  by (simp add: migration_files_def read_files run_create_organizations run_create_users run_create_roles
      run_create_applications run_create_policies run_create_audit_logs migrated_def)

lemma migrated_ok: "tables_ok (migrated db)" "migrated (migrated db) = migrated db"
  by (simp_all add: tables_ok_def seeded_def migrated_def)

lemma migrated_iff:
  "migrated db = db \<longleftrightarrow> nd_organizations db = Some default_organizations \<and> nd_users db \<noteq> None \<and>
     nd_roles db = Some standard_roles \<and> nd_permissions db = Some standard_permissions \<and>
     nd_role_permissions db = Some [] \<and> nd_applications db = Some catalog_rows \<and>
     nd_policies db = Some policy_rows \<and> nd_audit_logs db \<noteq> None"
  by (cases db) (auto simp: migrated_def rows_of_def split: option.splits)

text \<open>The tables against the server's own: the roles and permissions are those of \<open>rbac/permissions.go\<close>;
  of the policies the first three are the engine's, the fourth one the engine does not have.\<close>

lemma seeded_roles: "set (map fst standard_roles) = set ValidRoles"
  by (auto simp: standard_roles_def ValidRoles_def role_defs)

lemma seeded_permissions: "map fst standard_permissions = PermissionsForRole RoleSuperAdmin"
  by (simp add: standard_permissions_def PermissionsForRole_def rolePermissions_def perm_defs)

lemma seeded_policies:
  "take 3 policy_rows = seed_policies ''pol-dev-aws'' ''pol-admin-all'' ''pol-viewer-read''"
  "map p_role (drop 3 policy_rows) = [RoleSecurityManager]"
  by (simp_all add: policy_rows_def policy_row_def seed_policies_def role_defs decision_defs)

end
