(* ===== verification/ServerPg.thy ===== *)
theory ServerPg
  imports UserStorePg AuditLogPg ServerRoutes
begin

text \<open>
  The PostgreSQL deployment of the server of \<open>backend/cmd/server/main.go\<close> (\<open>DATABASE_URL\<close> set), as a
  refinement of its in-memory deployment: every handler that does not list the audit log does on
  the tables what its in-memory instance does on the store the tables represent.
\<close>

definition postgres_stores :: "(user_db, pg_logger) stores" where
  "postgres_stores = \<lparr>st_users = pg_ops, st_log = pg_log_ops\<rparr>"

lemma postgres_stores_sel [simp]: "st_users postgres_stores = pg_ops" "st_log postgres_stores = pg_log_ops"
  by (simp_all add: postgres_stores_def)

type_synonym 'r pg_server = "(user_db, pg_logger, 'r) server_state"

text \<open>The in-memory server with the same accounts and policies and the log \<open>h\<close>.\<close>

definition mem_view :: "event list \<Rightarrow> 'r pg_server \<Rightarrow> 'r server" where
  "mem_view h s = \<lparr>sv_users = abs_store (sv_users s), sv_engine = sv_engine s,
     sv_log = \<lparr>ml_events = h\<rparr>, sv_redis = sv_redis s\<rparr>"

lemma mem_view_sel [simp]:
  "sv_users (mem_view h s) = abs_store (sv_users s)" "sv_engine (mem_view h s) = sv_engine s"
  "sv_redis (mem_view h s) = sv_redis s" "sv_log (mem_view h s) = \<lparr>ml_events = h\<rparr>"
  by (simp_all add: mem_view_def)

subsection \<open>The service\<close>

text \<open>What the libraries promise: bcrypt's hashes and the ids of \<open>uuid\<close> are short ASCII text.\<close>

definition hashes_fit :: "auth_lib \<Rightarrow> bool" where
  "hashes_fit lib \<longleftrightarrow> (\<forall>p cost salt h. bcrypt_generate lib p cost salt = Some h \<longrightarrow> fits_varchar 255 h)"

definition pg_fresh :: "env \<Rightarrow> user_db \<Rightarrow> bool" where
  "pg_fresh env db \<longleftrightarrow> en_uuid env \<noteq> [] \<and> fits_varchar 64 (en_uuid env) \<and>
     (\<forall>r \<in> set (db_users db). ur_id r \<noteq> en_uuid env)"

definition live :: "user_db \<Rightarrow> bool" where
  "live db \<longleftrightarrow> db_ok db \<and> db_up db"

lemma role_fits: "role \<in> set ValidRoles \<Longrightarrow> fits_varchar 32 role"
  by (auto simp: ValidRoles_def role_defs fits_varchar_def char_code_def pg_chars_ascii)

lemma active_fits: "fits_varchar 32 StatusActive"
  by (simp add: StatusActive_def fits_varchar_def char_code_def pg_chars_ascii)

lemma pg_lookup_name:
  assumes "live db"
  shows "pg_GetUserByUsername db n = mem_GetUserByUsername (abs_store db) n \<or>
    (\<exists>e. pg_GetUserByUsername db n = Inl e) \<and> mem_GetUserByUsername (abs_store db) n = Inl ErrUserNotFound"
  using pg_get_refines(1,2) [of db n] assms unfolding live_def by blast

lemma pg_lookup_id:
  assumes "live db"
  shows "pg_GetUserByID db i = mem_GetUserByID (abs_store db) i \<or>
    (\<exists>e. pg_GetUserByID db i = Inl e) \<and> mem_GetUserByID (abs_store db) i = Inl ErrUserNotFound"
  using pg_get_refines(3,4) [of db i] assms unfolding live_def by blast

lemma Login_refines: "live db \<Longrightarrow> Login mem_ops lib key env (abs_store db) input = Login pg_ops lib key env db input"
  using pg_lookup_name [of db "li_username input"] by (auto simp: Login_def mem_ops_def)

lemma pg_Register_refines:
  assumes "live db" "hashes_fit lib" "pg_fresh env db" "pg_text (trim_space (ri_username input))"
  shows "Register mem_ops lib env (abs_store db) input =
    map_sum id (\<lambda>(db', u). (abs_store db', u)) (Register pg_ops lib env db input)"
proof (cases "valid_registration input \<and> bcrypt_generate lib (ri_password input) bcryptCost (en_salt env) \<noteq> None")
  case True
  then obtain h where h: "bcrypt_generate lib (ri_password input) bcryptCost (en_salt env) = Some h" by blast
  let ?u = "\<lparr>u_id = en_uuid env, u_username = trim_space (ri_username input), u_password_hash = h,
    u_role = ri_role input, u_organization_id = [], u_status = StatusActive,
    u_mfa_secret = [], u_mfa_enabled = False, u_created_at = 0, u_updated_at = 0\<rparr>"
  have eq: "Register ops lib env s input = CreateUser ops s (en_uuid env) (en_now env) ?u"
    for ops :: "'s user_store_ops" and s
    using True h by (simp add: Register_def valid_registration_def Let_def minPasswordLength_def)
  have id: "u_id (created_user (en_uuid env) (en_now env) ?u) = en_uuid env" by (simp add: created_user_def)
  have len: "length (trim_space (ri_username input)) \<le> 64"
    using True by (simp add: valid_registration_def)
  have "fits_row (created_user (en_uuid env) (en_now env) ?u)"
    using assms True h fits_varchar_short [OF assms(4) len] role_fits active_fits
    by (auto simp: fits_row_def id created_user_def hashes_fit_def pg_fresh_def valid_registration_def)
  moreover have "byID (abs_store db) (en_uuid env) = None"
    using assms(3) by (auto simp: pg_fresh_def abs_store_def find_None)
  ultimately show ?thesis
    using pg_create_refines [of db "en_uuid env" "en_now env" ?u] assms(1)
    by (simp add: eq live_def id) (simp add: mem_ops_def)
next
  case False
  then show ?thesis
    by (auto simp: Register_def valid_registration_def Let_def minPasswordLength_def split: option.split)
qed

subsection \<open>The handlers\<close>

text \<open>\<open>does_as view P h h'\<close>: on the requests and states of \<open>P\<close>, \<open>h'\<close> does on the abstract state what \<open>h\<close>
  does on the concrete one, with the same events and the same answer.\<close>

definition does_as ::
    "('s \<Rightarrow> 't) \<Rightarrow> ('s \<Rightarrow> http_request \<Rightarrow> bool) \<Rightarrow> 's handler \<Rightarrow> 't handler \<Rightarrow> bool" where
  "does_as view P h h' \<longleftrightarrow>
     (\<forall>s r. P s r \<longrightarrow> h' (view s) r = (case h s r of (s', evs, out) \<Rightarrow> (view s', evs, out)))"

definition registers_text :: "http_request \<Rightarrow> bool" where
  "registers_text r \<longleftrightarrow> (\<forall>req. decode_register (hr_body r) = Some req \<longrightarrow> pg_text (trim_space (rb_username req)))"

lemma does_asD:
  "does_as view P h h' \<Longrightarrow> P s r \<Longrightarrow> h s r = (s', evs, out) \<Longrightarrow> h' (view s) r = (view s', evs, out)"
  by (simp add: does_as_def)

lemma does_as_read:
  assumes "\<And>s r. P s r \<Longrightarrow> fst (h s r) = s" and "\<And>s r. P s r \<Longrightarrow> h' (view s) r = (view s, snd (h s r))"
  shows "does_as view P h h'"
  unfolding does_as_def using assms by (metis (no_types, lifting) case_prod_beta prod.collapse)

lemma Register_does_as:
  assumes "hashes_fit lib"
  shows "does_as abs_store (\<lambda>db r. live db \<and> pg_fresh env db \<and> registers_text r)
    (Register_handler pg_ops lib env) (Register_handler mem_ops lib env)"
  unfolding does_as_def
proof (intro allI impI)
  fix db r assume P: "live db \<and> pg_fresh env db \<and> registers_text r"
  show "Register_handler mem_ops lib env (abs_store db) r =
    (case Register_handler pg_ops lib env db r of (s', evs, out) \<Rightarrow> (abs_store s', evs, out))"
  proof (cases "decode_register (hr_body r)")
    case None
    then show ?thesis by (simp add: Register_handler_def respond_def)
  next
    case (Some req)
    let ?in = "\<lparr>ri_username = rb_username req, ri_password = rb_password req,
      ri_role = to_lower (trim_space (rb_role req))\<rparr>"
    have "pg_text (trim_space (rb_username req))" using P Some by (simp add: registers_text_def)
    with P assms have "Register mem_ops lib env (abs_store db) ?in =
        map_sum id (\<lambda>(db', u). (abs_store db', u)) (Register pg_ops lib env db ?in)"
      by (intro pg_Register_refines) simp_all
    with Some show ?thesis
      by (cases "Register pg_ops lib env db ?in") (auto simp: Register_handler_def Let_def)
  qed
qed

lemma Login_does_as:
  "does_as abs_store (\<lambda>db r. live db) (Login_handler pg_ops lib key env) (Login_handler mem_ops lib key env)"
  by (rule does_as_read) (auto simp: Login_handler_def Login_refines respond_def split: option.splits sum.splits)

lemma Me_does_as: "does_as abs_store (\<lambda>db r. live db) (Me pg_ops) (Me mem_ops)"
proof (rule does_as_read)
  fix db r assume "live db"
  show "Me mem_ops (abs_store db) r = (abs_store db, snd (Me pg_ops db r))"
  proof (cases "hr_claims r")
    case (Some c)
    with pg_lookup_id [OF \<open>live db\<close>, of "c_user_id c"] show ?thesis
      by (auto simp: Me_def mem_ops_def respond_def split: sum.splits)
  qed (simp add: Me_def respond_def)
qed simp

lemma MFAVerify_does_as: "does_as abs_store (\<lambda>db r. live db) (MFAVerify pg_ops env) (MFAVerify mem_ops env)"
proof (rule does_as_read)
  fix db r assume "live db"
  show "MFAVerify mem_ops env (abs_store db) r = (abs_store db, snd (MFAVerify pg_ops env db r))"
  proof (cases "hr_claims r")
    case (Some c)
    with pg_lookup_id [OF \<open>live db\<close>, of "c_user_id c"] show ?thesis
      by (auto simp: MFAVerify_def mem_ops_def respond_def split: sum.splits option.splits)
  qed (simp add: MFAVerify_def respond_def)
qed simp

lemma MFASetup_does_as: "does_as view P (MFASetup env) (MFASetup env)"
  by (rule does_as_read) (auto simp: MFASetup_def respond_def split: option.splits)

lemma AdminOnly_does_as: "does_as view P AdminOnly AdminOnly"
  by (rule does_as_read) (auto simp: AdminOnly_def respond_def split: option.splits)

lemma UserOrAdmin_does_as: "does_as view P UserOrAdmin UserOrAdmin"
  by (rule does_as_read) (auto simp: UserOrAdmin_def respond_def split: option.splits)

text \<open>The rows of the listing, newest first, are an order the in-memory listing may take.\<close>

definition newest_first :: "user_db \<Rightarrow> string list \<Rightarrow> string list" where
  "newest_first db order = map ur_id (sort_key (\<lambda>r. - ur_created_at r)
     (List.map_filter (\<lambda>i. List.find (\<lambda>r. ur_id r = i) (db_users db)) order))"

lemma map_filter_known:
  "\<forall>x \<in> set xs. f (g x) = Some (k x) \<Longrightarrow> List.map_filter f (map g xs) = map k xs"
  by (induction xs) (simp_all add: map_filter_simps)

lemma map_filter_mem: "x \<in> set (List.map_filter f xs) \<Longrightarrow> \<exists>y \<in> set xs. f y = Some x"
  by (induction xs) (auto simp: map_filter_simps split: option.splits)

lemma pg_ListUsers_refines:
  assumes "live db"
  shows "mem_ListUsers (abs_store db) (newest_first db order) = pg_ListUsers db order"
proof -
  let ?rs = "sort_key (\<lambda>r. - ur_created_at r)
     (List.map_filter (\<lambda>i. List.find (\<lambda>r. ur_id r = i) (db_users db)) order)"
  have "byID (abs_store db) (ur_id r) = Some (scan_user r)" if "r \<in> set ?rs" for r
  proof -
    from that have "r \<in> set (db_users db)"
      by (auto dest!: map_filter_mem find_mem)
    with assms show ?thesis
      using find_unique [of ur_id "db_users db" r] by (simp add: live_def db_ok_def abs_store_def)
  qed
  then show ?thesis
    using assms map_filter_known [of ?rs "byID (abs_store db)" ur_id scan_user]
    by (simp add: mem_ListUsers_def pg_ListUsers_def newest_first_def live_def)
qed

lemma ListUsers_does_as:
  "does_as abs_store (\<lambda>db' r. db' = db \<and> live db) (ListUsers_handler pg_ops env)
     (ListUsers_handler mem_ops (env\<lparr>en_user_order := newest_first db (en_user_order env)\<rparr>))"
  using pg_ListUsers_refines [of db "en_user_order env"]
  by (intro does_as_read) (auto simp: ListUsers_handler_def mem_ops_def respond_def Let_def split: sum.split)

subsection \<open>The middleware\<close>

lemma on_users_does_as:
  "does_as abs_store Q h h' \<Longrightarrow> does_as (mem_view hist) (\<lambda>s r. Q (sv_users s) r) (on_users h) (on_users h')"
  by (auto simp: does_as_def on_users_def mem_view_def split: prod.split)

lemma on_engine_does_as: "does_as (mem_view hist) P (on_engine h) (on_engine h)"
  by (auto simp: does_as_def on_engine_def mem_view_def split: prod.split)

lemma does_as_weaken: "does_as view Q h h' \<Longrightarrow> (\<And>s r. P s r \<Longrightarrow> Q s r) \<Longrightarrow> does_as view P h h'"
  by (simp add: does_as_def)

lemma RequireAuth_does_as:
  assumes "does_as view P h h'" and "\<And>s r c. P s r \<Longrightarrow> P s (r\<lparr>hr_claims := Some c\<rparr>)"
  shows "does_as view P (RequireAuth lib key now h) (RequireAuth lib key now h')"
  using assms by (auto simp: does_as_def RequireAuth_def respond_def split: option.split sum.split)

lemma RequireRole_does_as: "does_as view P h h' \<Longrightarrow> does_as view P (RequireRole ro h) (RequireRole ro h')"
  by (auto simp: does_as_def RequireRole_def respond_def split: option.split)

lemma RequireAnyRole_does_as:
  "does_as view P h h' \<Longrightarrow> does_as view P (RequireAnyRole ros h) (RequireAnyRole ros h')"
  by (auto simp: does_as_def RequireAnyRole_def respond_def Let_def split: option.split)

lemma withRateLimit_does_as:
  "does_as (mem_view hist) P h h' \<Longrightarrow> does_as (mem_view hist) P
     (\<lambda>s. withRateLimit rl (sv_redis s) now h s) (\<lambda>s. withRateLimit rl (sv_redis s) now h' s)"
  by (auto simp: does_as_def withRateLimit_def Let_def)

lemma add_headers_does_as:
  "does_as view P h h' \<Longrightarrow> does_as view P (\<lambda>s r. add_headers (hs r) (h s r)) (\<lambda>s r. add_headers (hs r) (h' s r))"
  by (auto simp: does_as_def add_headers_def split: prod.split)

lemma SecurityHeaders_does_as: "does_as view P h h' \<Longrightarrow> does_as view P (SecurityHeaders h) (SecurityHeaders h')"
  unfolding SecurityHeaders_def by (rule add_headers_does_as)

lemma CORS_does_as: "does_as view P h h' \<Longrightarrow> does_as view P (CORS origins h) (CORS origins h')"
  by (auto simp: does_as_def CORS_def add_headers_def Let_def split: prod.split)

lemma BodyLimit_does_as:
  assumes "does_as view P h h'" and "\<And>s r. P s r \<Longrightarrow> P s (r\<lparr>hr_body := None\<rparr>)"
  shows "does_as view P (BodyLimit n h) (BodyLimit n h')"
  using assms by (auto simp: does_as_def BodyLimit_def)

text \<open>The router: route by route, each on the requests its pattern matches.\<close>

lemma serve_mux_does_as:
  assumes "list_all2 (\<lambda>(m, p, h) (m', p', h'). m = m' \<and> p = p' \<and>
      does_as view (\<lambda>s r. P s r \<and> pattern_match p (hr_path r) \<noteq> None) h h') rs rs'"
    and "\<And>s r i. P s r \<Longrightarrow> P s (r\<lparr>hr_path_id := i\<rparr>)"
  shows "does_as view P (serve_mux rs seen) (serve_mux rs' seen)"
  using assms(1)
proof (induction rs rs' arbitrary: seen rule: list_all2_induct)
  case Nil
  show ?case by (simp add: does_as_def respond_def)
next
  case (Cons x rs y rs')
  obtain m p h h' where x: "x = (m, p, h)" "y = (m, p, h')"
    and d: "does_as view (\<lambda>s r. P s r \<and> pattern_match p (hr_path r) \<noteq> None) h h'"
    using Cons.hyps(1) by (cases x; cases y) auto
  show ?case
    unfolding does_as_def
  proof (intro allI impI)
    fix s r assume "P s r"
    then show "serve_mux (y # rs') seen (view s) r =
        (case serve_mux (x # rs) seen s r of (s', evs, out) \<Rightarrow> (view s', evs, out))"
      using d assms(2) Cons.IH unfolding does_as_def
      by (simp add: x del: pattern_match.simps split: option.split)
  qed
qed

subsection \<open>The server\<close>

definition audit_path :: string where "audit_path = ''/api/v1/audit''"

text \<open>The in-memory server takes the listing order the database gives.\<close>

definition pg_env :: "env \<Rightarrow> user_db \<Rightarrow> env" where
  "pg_env env db = env\<lparr>en_user_order := newest_first db (en_user_order env)\<rparr>"

lemma user_order_service [simp]:
  "Register ops lib (env\<lparr>en_user_order := os\<rparr>) = Register ops lib env"
  "Login ops lib key (env\<lparr>en_user_order := os\<rparr>) = Login ops lib key env"
  by (intro ext; simp add: Register_def Let_def Login_def generateJWT_def token_claims_def
      split: option.split sum.split)+

lemma pg_env_handlers [simp]:
  "Register_handler ops lib (pg_env env db) = Register_handler ops lib env"
  "Login_handler ops lib key (pg_env env db) = Login_handler ops lib key env"
  "MFAVerify ops (pg_env env db) = MFAVerify ops env" "MFASetup (pg_env env db) = MFASetup env"
  "ListPolicies_handler (pg_env env db) = ListPolicies_handler env"
  "CreatePolicy_handler (pg_env env db) = CreatePolicy_handler env"
  "CheckAccess (pg_env env db) = CheckAccess env"
  by (intro ext; simp add: pg_env_def Register_handler_def Login_handler_def MFAVerify_def MFASetup_def
      ListPolicies_handler_def CreatePolicy_handler_def CheckAccess_def Let_def split: option.split sum.split)+

lemma pg_env_sel [simp]: "en_now (pg_env env db) = en_now env" "en_event_id (pg_env env db) = en_event_id env"
  by (simp_all add: pg_env_def)

definition pg_request :: "user_db \<Rightarrow> 'r pg_server \<Rightarrow> http_request \<Rightarrow> bool" where
  "pg_request db s r \<longleftrightarrow> sv_users s = db \<and> registers_text r \<and> hr_path r \<noteq> audit_path"

lemma pg_request_update [simp]:
  "pg_request db s (r\<lparr>hr_claims := c\<rparr>) = pg_request db s r"
  "pg_request db s (r\<lparr>hr_path_id := i\<rparr>) = pg_request db s r"
  "pg_request db s r \<Longrightarrow> pg_request db s (r\<lparr>hr_body := None\<rparr>)"
  by (simp_all add: pg_request_def registers_text_def decode_register_def)

lemma on_users_request:
  assumes "does_as abs_store (\<lambda>db' r. db' = db \<and> registers_text r) h h'"
  shows "does_as (mem_view hist) (\<lambda>s r. pg_request db s r \<and> R s r) (on_users h) (on_users h')"
  by (rule does_as_weaken [OF on_users_does_as [OF assms]]) (simp add: pg_request_def)

lemma audit_unmatched:
  "does_as view (\<lambda>s r. pg_request db s r \<and> pattern_match (Exact audit_path) (hr_path r) \<noteq> None) h h'"
  by (simp add: does_as_def pg_request_def)

lemma routes_do_as:
  assumes db: "live db" "pg_fresh env db" and lib: "hashes_fit (cf_lib cfg)"
  shows "list_all2 (\<lambda>(m, p, h) (m', p', h'). m = m' \<and> p = p' \<and>
      does_as (mem_view hist) (\<lambda>s r. pg_request db s r \<and> pattern_match p (hr_path r) \<noteq> None) h h')
    (registerRoutes postgres_stores cfg env) (registerRoutes memory_stores cfg (pg_env env db))"
proof -
  have here: "does_as abs_store (\<lambda>db' r. db' = db \<and> registers_text r) h h'"
    if "does_as abs_store Q h h'" "\<And>r. registers_text r \<Longrightarrow> Q db r" for Q h h'
    by (rule does_as_weaken [OF that(1)]) (use that(2) in blast)
  note users = here [OF Register_does_as [OF lib]] here [OF Login_does_as] here [OF Me_does_as]
    here [OF MFAVerify_does_as] here [OF MFASetup_does_as [where P = "\<lambda>_ _. True"]] here [OF AdminOnly_does_as [where P = "\<lambda>_ _. True"]]
    here [OF UserOrAdmin_does_as [where P = "\<lambda>_ _. True"]] here [OF ListUsers_does_as, folded pg_env_def]
  note ok = users [THEN on_users_request]
  have health: "does_as (mem_view hist) P health health" for P :: "'b pg_server \<Rightarrow> http_request \<Rightarrow> bool"
    by (rule does_as_read) (simp_all add: health_def respond_def)
  have auth: "does_as (mem_view hist) (\<lambda>s r. pg_request db s r \<and> pattern_match p (hr_path r) \<noteq> None) h h' \<Longrightarrow>
      does_as (mem_view hist) (\<lambda>s r. pg_request db s r \<and> pattern_match p (hr_path r) \<noteq> None)
        (RequireAuth lib key now h) (RequireAuth lib key now h')" for p lib key now
      and h :: "'b pg_server handler" and h'
    by (erule RequireAuth_does_as) simp
  show ?thesis
    unfolding registerRoutes_def Let_def postgres_stores_sel memory_stores_sel pg_env_handlers pg_env_sel
      list_all2_Cons list_all2_Nil split_conv simp_thms audit_path_def [symmetric]
    by (intro conjI; (rule auth)?; (rule RequireRole_does_as RequireAnyRole_does_as)?;
        (rule health | rule on_engine_does_as | rule audit_unmatched
         | ((rule withRateLimit_does_as)?, rule ok, simp add: db)))
qed

subsection \<open>What every request keeps\<close>

text \<open>\<open>keeps I h\<close>: the handler relates the states before and after by the reflexive \<open>I\<close>.\<close>

definition keeps :: "('s \<Rightarrow> 's \<Rightarrow> bool) \<Rightarrow> 's handler \<Rightarrow> bool" where
  "keeps I h \<longleftrightarrow> (\<forall>s r. I s (fst (h s r)))"

lemma keeps_same: "(\<And>s. I s s) \<Longrightarrow> (\<And>s r. fst (h s r) = s) \<Longrightarrow> keeps I h"
  by (simp add: keeps_def)

lemma keeps_gates:
  assumes "\<And>s. I s s" and "keeps I h"
  shows "keeps I (RequireAuth lib key now h)" "keeps I (RequireRole ro h)" "keeps I (RequireAnyRole ros h)"
    "keeps I (SecurityHeaders h)" "keeps I (CORS origins h)" "keeps I (BodyLimit n h)"
    "keeps I (\<lambda>s. withRateLimit rl (red s) now h s)"
  using assms by (auto simp: keeps_def RequireAuth_def RequireRole_def RequireAnyRole_def respond_def Let_def
      SecurityHeaders_def CORS_def BodyLimit_def withRateLimit_def split: option.split sum.split)

lemma keeps_serve_mux:
  assumes "\<And>s. I s s" and "\<And>m p h. (m, p, h) \<in> set rs \<Longrightarrow> keeps I h"
  shows "keeps I (serve_mux rs seen)"
proof -
  have "I s (fst (serve_mux rs seen s r))" for s r
    using serve_mux_cases [of rs seen s r] assms by (cases rule: serve_mux_cases [of rs seen s r])
      (auto simp: respond_def keeps_def)
  then show ?thesis by (simp add: keeps_def)
qed

text \<open>No request writes the log itself, the users table stays well-formed and rows are only added to it.\<close>

definition pg_kept :: "'r pg_server \<Rightarrow> 'r pg_server \<Rightarrow> bool" where
  "pg_kept s s' \<longleftrightarrow> sv_log s' = sv_log s \<and> db_up (sv_users s') = db_up (sv_users s) \<and>
     db_organizations (sv_users s') = db_organizations (sv_users s) \<and>
     prefix (db_users (sv_users s)) (db_users (sv_users s')) \<and>
     (db_ok (sv_users s) \<longrightarrow> db_ok (sv_users s'))"

lemma pg_kept_refl [simp]: "pg_kept s s"
  by (simp add: pg_kept_def)

lemma insert_users_kept:
  "insert_users db u = Inr db' \<Longrightarrow> db_up db' = db_up db \<and> db_organizations db' = db_organizations db \<and>
     prefix (db_users db) (db_users db') \<and> (db_ok db \<longrightarrow> db_ok db')"
  using db_ok_insert by (auto elim!: insert_users_Inr)

lemma Register_kept: "keeps pg_kept (on_users (Register_handler pg_ops lib env))"
  unfolding keeps_def
proof (intro allI)
  fix s :: "'b pg_server" and r
  show "pg_kept s (fst (on_users (Register_handler pg_ops lib env) s r))"
  proof (cases rule: Register_handler_cases [of pg_ops lib env "sv_users s" r])
    case fail
    then show ?thesis by (auto simp: on_users_def pg_kept_def split: prod.split)
  next
    case (success input db' u)
    from success(1) obtain w where "pg_CreateUser (sv_users s) (en_uuid env) (en_now env) w = Inr (db', u)"
      by (rule Register_Inr) simp
    from insert_users_kept [OF pg_CreateUser_Inr(2) [OF this]] success(2) show ?thesis
      by (auto simp: on_users_def pg_kept_def split: prod.split)
  qed
qed

lemma on_users_same: "(\<And>u r. fst (h u r) = u) \<Longrightarrow> fst (on_users h s r) = s"
  by (auto simp: on_users_def split: prod.split) (metis fst_conv server_state.surjective server_state.update_convs(1))

lemma pg_routes_kept: "(m, p, h) \<in> set (registerRoutes postgres_stores cfg env) \<Longrightarrow> keeps pg_kept h"
proof -
  have eng: "keeps pg_kept (on_engine h)" for h
    by (auto simp: keeps_def on_engine_def pg_kept_def split: prod.split)
  have us: "keeps pg_kept (on_users h)" if "\<And>u r. fst (h u r) = u" for h
    by (rule keeps_same) (simp_all add: on_users_same that)
  note read = us [OF handlers_keep_store(1)] us [OF handlers_keep_store(2)] us [OF handlers_keep_store(3)]
    us [OF handlers_keep_store(4)] us [OF handlers_keep_store(5)] us [OF handlers_keep_store(6)]
    us [OF handlers_keep_store(7)]
  have other: "keeps pg_kept health" "keeps pg_kept (audit_list_on postgres_stores)"
    by (auto simp: keeps_def health_def respond_def audit_list_on_def)
  note gates = keeps_gates [OF pg_kept_refl]
  have "list_all (\<lambda>(m, p, h). keeps pg_kept h) (registerRoutes postgres_stores cfg env)"
    unfolding registerRoutes_def Let_def postgres_stores_sel list.pred_inject split_conv simp_thms
    by (intro conjI; (rule gates(1))?; (rule gates(2,3))?; (rule gates(7))?; rule other read eng Register_kept list.pred_inject(1))
  then show "(m, p, h) \<in> set (registerRoutes postgres_stores cfg env) \<Longrightarrow> keeps pg_kept h"
    by (auto simp: list_all_iff)
qed

lemma pg_global_kept: "keeps pg_kept (global_handler postgres_stores cfg env)"
  unfolding global_handler_def
  by (intro keeps_gates(4-6) keeps_serve_mux pg_kept_refl pg_routes_kept)

lemma foldl_pg_Log:
  "foldl (\<lambda>l e. pg_Log l i t e) l evs = l\<lparr>pl_pending := pl_pending l @ map (stamp_event i t) evs\<rparr>"
  by (induction evs arbitrary: l) (simp_all add: pg_Log_def)

lemma serve_pg:
  assumes "global_handler postgres_stores cfg env s (r\<lparr>hr_claims := None\<rparr>) = (s1, evs, out)"
  shows "serve_on postgres_stores cfg env s r =
      (s1\<lparr>sv_log := (sv_log s)\<lparr>pl_pending := pl_pending (sv_log s) @
         map (stamp_event (en_event_id env) (en_now env)) evs\<rparr>\<rparr>, out)"
    and "pg_kept s s1"
proof -
  from pg_global_kept [of cfg env] assms show "pg_kept s s1" unfolding keeps_def by (metis fst_conv)
  then show "serve_on postgres_stores cfg env s r =
      (s1\<lparr>sv_log := (sv_log s)\<lparr>pl_pending := pl_pending (sv_log s) @
         map (stamp_event (en_event_id env) (en_now env)) evs\<rparr>\<rparr>, out)"
    using assms by (simp add: serve_on_def foldl_pg_Log pg_kept_def)
qed

text \<open>C25: Whatever is requested, the users table stays well-typed: distinct ids, distinct names, every
  value within its column's type and every organization present.\<close>

theorem pg_tables_well_typed:
  assumes "db_ok (sv_users s)"
  shows "db_ok (sv_users (fst (serve_on postgres_stores cfg env s r)))"
  using serve_pg [of cfg env s r] assms
  by (cases "global_handler postgres_stores cfg env s (r\<lparr>hr_claims := None\<rparr>)") (auto simp: pg_kept_def)

text \<open>With the database up, every request but a listing of the audit log is answered as the in-memory
  server answers it on the accounts the tables hold, changes the accounts and policies in the same
  way, and logs the same events.\<close>

lemma pg_serve_refines:
  assumes "db_ok (sv_users s)" and "db_up (sv_users s)" and "pg_fresh env (sv_users s)"
    and "hashes_fit (cf_lib cfg)" and "registers_text r" and "hr_path r \<noteq> audit_path"
    and "serve_on postgres_stores cfg env s r = (s', out)"
  shows "\<exists>evs. pl_pending (sv_log s') = pl_pending (sv_log s) @ evs \<and> pl_rows (sv_log s') = pl_rows (sv_log s) \<and>
    serve_on memory_stores cfg (pg_env env (sv_users s)) (mem_view h s) r = (mem_view (h @ evs) s', out)"
proof -
  let ?db = "sv_users s" and ?r = "r\<lparr>hr_claims := None\<rparr>"
  obtain s1 evs out1 where g: "global_handler postgres_stores cfg env s ?r = (s1, evs, out1)"
    by (cases "global_handler postgres_stores cfg env s ?r")
  note sv = serve_pg [OF g]
  have "does_as (mem_view h) (pg_request ?db) (global_handler postgres_stores cfg env)
      (global_handler memory_stores cfg (pg_env env ?db))"
    unfolding global_handler_def using assms(1-4)
    by (intro CORS_does_as SecurityHeaders_does_as BodyLimit_does_as serve_mux_does_as routes_do_as)
      (simp_all add: live_def)
  moreover have "pg_request ?db s ?r" using assms(5,6) by (simp add: pg_request_def registers_text_def)
  ultimately have m: "global_handler memory_stores cfg (pg_env env ?db) (mem_view h s) ?r = (mem_view h s1, evs, out1)"
    using g by (rule does_asD)
  let ?evs = "map (stamp_event (en_event_id env) (en_now env)) evs"
  have "foldl (\<lambda>l e. Log l (en_event_id env) (en_now env) e) \<lparr>ml_events = h\<rparr> evs = \<lparr>ml_events = h @ ?evs\<rparr>"
    by (rule memory_logger.equality) (simp_all add: foldl_Log_events)
  then show ?thesis
    using m sv assms(7) by (intro exI [of _ ?evs]) (auto simp: serve_on_def mem_view_def pg_kept_def)
qed

subsection \<open>Runs\<close>

text \<open>\<open>pg_run cfg s m\<close>: the PostgreSQL server reaches \<open>s\<close> by requests and goroutines of its logger in any
  interleaving, with no outage, and the in-memory server reaches \<open>m\<close> by the same requests. Ids are
  fresh, and the names registered are text.\<close>

inductive pg_run :: "'r config \<Rightarrow> 'r pg_server \<Rightarrow> 'r server \<Rightarrow> bool" for cfg where
  start: "db_ok (sv_users s) \<Longrightarrow> db_up (sv_users s) \<Longrightarrow> sv_log s = \<lparr>pl_rows = [], pl_pending = [], pl_up = True\<rparr> \<Longrightarrow>
    pg_run cfg s (mem_view [] s)"
| request: "pg_run cfg s m \<Longrightarrow> pg_fresh env (sv_users s) \<Longrightarrow> registers_text r \<Longrightarrow> hr_path r \<noteq> audit_path \<Longrightarrow>
    pg_run cfg (fst (serve_on postgres_stores cfg env s r))
      (fst (serve_on memory_stores cfg (pg_env env (sv_users s)) m r))"
| listing: "pg_run cfg s m \<Longrightarrow> hr_path r = audit_path \<Longrightarrow>
    pg_run cfg (fst (serve_on postgres_stores cfg env s r)) (fst (serve_on memory_stores cfg env m r))"
| flush: "pg_run cfg s m \<Longrightarrow> n < length (pl_pending (sv_log s)) \<Longrightarrow>
    pg_run cfg (s\<lparr>sv_log := pg_flush n (sv_log s)\<rparr>) m"

text \<open>Asking for the audit log changes nothing.\<close>

lemma table_audit:
  assumes "(m, p, k) \<in> set (route_table_on st cfg env)" "pattern_match p audit_path = Some i"
  shows "k = Gated policy_managers (audit_list_on st)"
  using assms unfolding route_table_on_def audit_path_def
  by (auto simp: starts_with_iff prefix_def Let_def split: if_splits)

lemma audit_request_keeps: "hr_path r = audit_path \<Longrightarrow> fst (serve_on st cfg env s r) = s"
  by (cases rule: serve_table [of st cfg env s r]) (auto dest: table_audit simp: audit_list_on_def)

lemma mem_view_log [simp]: "mem_view h (s\<lparr>sv_log := l\<rparr>) = mem_view h s"
  by (simp add: mem_view_def)

lemma pg_log_run_events:
  "pg_log_run b h l \<Longrightarrow> pg_log_run b (h @ map (stamp_event i t) es) (foldl (\<lambda>l e. pg_Log l i t e) l es)"
proof (induction es arbitrary: h l)
  case (Cons e es)
  from Cons.IH [OF pg_log_run.log [OF Cons.prems]] show ?case by simp
qed simp

lemma pg_run_view:
  assumes "pg_run cfg s m" and "hashes_fit (cf_lib cfg)"
  shows "db_ok (sv_users s) \<and> db_up (sv_users s) \<and>
    (\<exists>h. m = mem_view h s \<and> pg_log_run False h (sv_log s))"
  using assms
proof (induction rule: pg_run.induct)
  case (start s)
  then show ?case by (auto intro: pg_log_run.start)
next
  case (request s m env r)
  then obtain h where IH: "db_ok (sv_users s)" "db_up (sv_users s)" "m = mem_view h s" "pg_log_run False h (sv_log s)"
    by blast
  obtain s' out where sv: "serve_on postgres_stores cfg env s r = (s', out)"
    by (cases "serve_on postgres_stores cfg env s r")
  obtain s1 evs out1 where g: "global_handler postgres_stores cfg env s (r\<lparr>hr_claims := None\<rparr>) = (s1, evs, out1)"
    by (cases "global_handler postgres_stores cfg env s (r\<lparr>hr_claims := None\<rparr>)")
  note sv1 = serve_pg [OF g]
  have log: "sv_log s' = foldl (\<lambda>l e. pg_Log l (en_event_id env) (en_now env) e) (sv_log s) evs"
    using sv1 sv by (simp add: foldl_pg_Log)
  from pg_serve_refines [OF IH(1,2) request.hyps(2) request.prems request.hyps(3,4) sv, of h] obtain evs' where
    evs': "pl_pending (sv_log s') = pl_pending (sv_log s) @ evs'"
      "serve_on memory_stores cfg (pg_env env (sv_users s)) m r = (mem_view (h @ evs') s', out)"
    by (auto simp: IH(3))
  then have "evs' = map (stamp_event (en_event_id env) (en_now env)) evs"
    using log by (simp add: foldl_pg_Log)
  with pg_log_run_events [OF IH(4)] log have "pg_log_run False (h @ evs') (sv_log s')" by simp
  moreover have "db_ok (sv_users s') \<and> db_up (sv_users s')"
    using sv1 sv IH(1,2) by (auto simp: pg_kept_def)
  ultimately show ?case using evs'(2) sv by auto
next
  case (listing s m r env)
  then show ?case by (simp add: audit_request_keeps)
next
  case (flush s m n)
  then show ?case by (auto intro: pg_log_run.flush)
qed

text \<open>At rest the audit listing is the in-memory one, with \<open>null\<close> for an empty page.\<close>

definition nil_events :: "audit_reply \<Rightarrow> audit_reply" where
  "nil_events a = a\<lparr>ar_events := Option.bind (ar_events a) nil_slice\<rparr>"

definition nil_page :: "http_response \<Rightarrow> http_response" where
  "nil_page rsp = (case rsp_payload rsp of
       AuditBody a \<Rightarrow> rsp\<lparr>rsp_payload := AuditBody (nil_events a)\<rparr>
     | _ \<Rightarrow> rsp)"

lemma nil_page_answer:
  "nil_page (case res of Inl _ \<Rightarrow> writeError 500 msg | Inr a \<Rightarrow> writeJSON 200 (AuditBody a)) =
   (case map_sum id nil_events res of Inl _ \<Rightarrow> writeError 500 msg | Inr a \<Rightarrow> writeJSON 200 (AuditBody a))"
  by (cases res) (simp_all add: nil_page_def writeJSON_def writeError_def)

lemma pg_audit_at_rest:
  assumes "pg_log_run False h l" and "pl_pending l = []" and "\<forall>e \<in> set h. fits_event e"
    and "distinct (map ev_id h)" and "in_time_order h" and "page_param q < 2 ^ 55"
  shows "List_handler_on (pg_List l) q =
    map_sum id (map_sum id nil_events) (List_handler_on (lg_List mem_log_ops \<lparr>ml_events = h\<rparr>) q)"
proof -
  let ?p = "nat (page_param q)" and ?n = "nat (page_size_param q)"
  have p: "page_param q = int ?p" "1 \<le> ?p" and n: "page_size_param q = int ?n"
    using page_param_bounds(1) [of q] page_size_param_bounds(1) [of q] by simp_all
  have "page_param q * page_size_param q \<le> 2 ^ 55 * 200"
    using assms(6) page_param_bounds(1) [of q] page_size_param_bounds [of q] by (intro mult_mono) auto
  then have "int (?p * ?n) < 2 ^ 63"
    using page_param_bounds(1) [of q] page_size_param_bounds(1) [of q] by simp
  from pg_listing_at_rest [OF assms(1-5) p(2) this]
  have "pg_List l (word_of_int (page_param q)) (word_of_int (page_size_param q)) =
      map_sum id (map_sum id (apfst (\<lambda>es. Option.bind es nil_slice)))
        (lg_List mem_log_ops \<lparr>ml_events = h\<rparr> (word_of_int (page_param q)) (word_of_int (page_size_param q)))"
    using page_param_bounds(1) [of q] page_size_param_bounds(1) [of q] by (simp add: of_nat_nat)
  then show ?thesis
    by (simp add: List_handler_on_def Let_def nil_events_def sum.map_comp o_def split_def)
qed

text \<open>C7: A server on PostgreSQL refines the in-memory server. However its requests and the goroutines of
  its audit logger interleave, in any state it reaches: the in-memory server that got the same
  requests has the same accounts, policies and rate limits; it gives the next request (other
  than a listing of the audit log) the same answer; and once no goroutine is pending the audit endpoint
  answers every page query with the same events, total and page, for events that fit the table, with
  fresh ids, at increasing times: the answers are equal but for an empty page, which is \<open>null\<close> on
  PostgreSQL and \<open>[]\<close> in memory.\<close>

theorem pg_server_refines:
  assumes "pg_run cfg s m" and "hashes_fit (cf_lib cfg)"
  shows "sv_users m = abs_store (sv_users s) \<and> sv_engine m = sv_engine s \<and> sv_redis m = sv_redis s \<and>
    (\<forall>env r. pg_fresh env (sv_users s) \<and> registers_text r \<and> hr_path r \<noteq> audit_path \<longrightarrow>
       snd (serve_on postgres_stores cfg env s r) =
       snd (serve_on memory_stores cfg (pg_env env (sv_users s)) m r)) \<and>
    (\<forall>r. pl_pending (sv_log s) = [] \<and> (\<forall>e \<in> set (ml_events (sv_log m)). fits_event e) \<and>
       distinct (map ev_id (ml_events (sv_log m))) \<and> in_time_order (ml_events (sv_log m)) \<and>
       page_param (hr_query r) < 2 ^ 55 \<longrightarrow>
       snd (snd (audit_list_on postgres_stores s r)) =
       map_sum id nil_page (snd (snd (audit_list_on memory_stores m r))))"
proof -
  from pg_run_view [OF assms] obtain h where s: "db_ok (sv_users s)" "db_up (sv_users s)"
    and m: "m = mem_view h s" and run: "pg_log_run False h (sv_log s)" by blast
  have "snd (serve_on postgres_stores cfg env s r) = snd (serve_on memory_stores cfg (pg_env env (sv_users s)) m r)"
    if "pg_fresh env (sv_users s)" "registers_text r" "hr_path r \<noteq> audit_path" for env r
    using pg_serve_refines [OF s that(1) assms(2) that(2,3), of "fst (serve_on postgres_stores cfg env s r)"
        "snd (serve_on postgres_stores cfg env s r)" h] m by auto
  then show ?thesis
    using pg_audit_at_rest [OF run]
    by (simp add: m audit_list_on_def sum.map_comp o_def nil_page_answer)
qed

end
