(* ===== verification/ServerPgProps.thy ===== *)
theory ServerPgProps
  imports ServerPg ServerProps
begin

text \<open>
  What running on PostgreSQL changes: which events the audit table cannot hold, what an outage looks like
  to a client, updates of an account, and pages whose offset overflows; each with its instance on a small database.
\<close>

subsection \<open>Events a table cannot hold\<close>

text \<open>The events of a request carry its user agent, except for those of the two policy changes.\<close>

definition agent_event :: "http_request \<Rightarrow> event \<Rightarrow> bool" where
  "agent_event r e \<longleftrightarrow> ev_user_agent e = hr_user_agent r \<or> ev_action e \<in> {ActionPolicyCreated, ActionPolicyDeleted}"

definition emits_agent :: "'s handler \<Rightarrow> bool" where
  "emits_agent h \<longleftrightarrow> (\<forall>s r. list_all (agent_event r) (fst (snd (h s r))))"

lemma agent_event_update [simp]:
  "agent_event (r\<lparr>hr_claims := c\<rparr>) = agent_event r" "agent_event (r\<lparr>hr_path_id := i\<rparr>) = agent_event r"
  "agent_event (r\<lparr>hr_body := b\<rparr>) = agent_event r"
  by (simp_all add: agent_event_def fun_eq_iff)

lemma agent_events [simp]:
  "agent_event r ((request_event a r)\<lparr>ev_metadata := m\<rparr>)" "agent_event r (request_event a r)"
  "agent_event r ((request_event a r)\<lparr>ev_user_id := u\<rparr>)"
  "agent_event r ((request_event a r)\<lparr>ev_user_id := u, ev_metadata := m\<rparr>)"
  "agent_event r ((new_event ActionPolicyCreated)\<lparr>ev_user_id := u, ev_resource := p, ev_metadata := m\<rparr>)"
  "agent_event r ((new_event ActionPolicyDeleted)\<lparr>ev_user_id := u, ev_resource := p\<rparr>)"
  "agent_event r (access_event c q r res)"
  by (simp_all add: agent_event_def request_event_def new_event_def access_event_def)

lemma emits_agent_handlers:
  "emits_agent (Register_handler ops lib env)" "emits_agent (Login_handler ops lib key env)"
  "emits_agent (Me ops)" "emits_agent (MFASetup env)" "emits_agent (MFAVerify ops env)"
  "emits_agent AdminOnly" "emits_agent UserOrAdmin" "emits_agent (ListUsers_handler ops env)"
  "emits_agent (ListPolicies_handler env)" "emits_agent (CreatePolicy_handler env)"
  "emits_agent DeletePolicy_handler" "emits_agent (CheckAccess env)"
  by (auto simp: emits_agent_def auth_handler_defs policy_handler_defs Let_def
      split: option.split sum.split prod.split)

lemma emits_agent_gates:
  assumes "emits_agent h"
  shows "emits_agent (RequireAuth lib key now h)" "emits_agent (RequireRole ro h)" "emits_agent (RequireAnyRole ros h)"
    "emits_agent (SecurityHeaders h)" "emits_agent (CORS origins h)" "emits_agent (BodyLimit n h)"
    "emits_agent (\<lambda>s. withRateLimit rl (red s) now h s)"
  using assms agent_event_update unfolding emits_agent_def
  by (auto simp: RequireAuth_def RequireRole_def RequireAnyRole_def respond_def Let_def
      SecurityHeaders_def CORS_def add_headers_def BodyLimit_def withRateLimit_def
      split: option.split sum.split prod.split) (metis agent_event_update fst_conv snd_conv)+

lemma emits_agent_lift:
  assumes "emits_agent h"
  shows "emits_agent (on_users h)"
  using assms by (auto simp: emits_agent_def on_users_def split: prod.split) (metis fst_conv snd_conv)

lemma emits_agent_engine:
  assumes "emits_agent h"
  shows "emits_agent (on_engine h)"
  using assms by (auto simp: emits_agent_def on_engine_def split: prod.split) (metis fst_conv snd_conv)

lemma emits_agent_routes: "(m, p, h) \<in> set (registerRoutes st cfg env) \<Longrightarrow> emits_agent h"
proof -
  have other: "emits_agent health" "emits_agent (audit_list_on st)"
    by (simp_all add: emits_agent_def health_def respond_def audit_list_on_def)
  have "list_all (\<lambda>(m, p, h). emits_agent h) (registerRoutes st cfg env)"
    unfolding registerRoutes_def Let_def list.pred_inject split_conv simp_thms
    by (intro conjI; (rule emits_agent_gates(1))?; (rule emits_agent_gates(2,3))?; (rule emits_agent_gates(7))?;
        (rule emits_agent_lift emits_agent_engine)?; rule other emits_agent_handlers list.pred_inject(1))
  then show "(m, p, h) \<in> set (registerRoutes st cfg env) \<Longrightarrow> emits_agent h"
    by (auto simp: list_all_iff)
qed

lemma emits_agent_server: "emits_agent (global_handler st cfg env)"
proof -
  have "list_all (agent_event r) (fst (snd (serve_mux (registerRoutes st cfg env) False s r)))" for s r
  proof (cases rule: serve_mux_cases [of "registerRoutes st cfg env" False s r])
    case (unrouted x msg)
    then show ?thesis by (simp add: respond_def)
  next
    case (routed m p h i)
    from emits_agent_routes [OF routed(1)] show ?thesis
      unfolding routed(4) emits_agent_def by (metis agent_event_update(2))
  qed
  then show ?thesis
    unfolding global_handler_def by (intro emits_agent_gates(4-6)) (simp add: emits_agent_def)
qed

lemma audit_columns_agent: "\<not> pg_text (ev_user_agent e) \<Longrightarrow> insert_audit rows e = None"
  by (simp add: insert_audit_def audit_columns_def Let_def)

subsection \<open>A small database\<close>

text \<open>A library whose hashes are text, and a server whose table has one account.\<close>

definition hex_text :: "string \<Rightarrow> string" where
  "hex_text s = concat (map (\<lambda>c. [char_of (65 + char_code c div 16), char_of (65 + char_code c mod 16)]) s)"

definition hex_lib :: auth_lib where
  "hex_lib = demo_lib\<lparr>
     bcrypt_generate := (\<lambda>p cost salt. if length p \<le> 72 then Some (hex_text p) else None),
     bcrypt_compare := (\<lambda>h p. h = hex_text p)\<rparr>"

lemma hex_text_ascii: "\<forall>c \<in> set (hex_text s). 0 < char_code c \<and> char_code c < 128"
proof -
  have "char_code (char_of (65 + n)) = 65 + n" if "n < 16" for n :: nat
    using that by (simp add: char_code_def)
  moreover have "char_code c div 16 < 16" "char_code c div 16 < 63" for c
    using char_code_less [of c] by linarith+
  ultimately show ?thesis by (auto simp: hex_text_def)
qed

lemma hex_lib_fits: "hashes_fit hex_lib"
proof -
  have "length (hex_text p) = 2 * length p" for p
    by (simp add: hex_text_def length_concat o_def sum_list_triv)
  then show ?thesis
    using hex_text_ascii by (auto simp: hashes_fit_def hex_lib_def fits_varchar_def pg_chars_ascii)
qed

definition ann_user :: user where
  "ann_user = \<lparr>u_id = ''u1'', u_username = ''ann'', u_password_hash = hex_text ''AnnPassword1'', u_role = RoleAdmin,
     u_organization_id = [], u_status = StatusActive, u_mfa_secret = [], u_mfa_enabled = False,
     u_created_at = 5, u_updated_at = 5\<rparr>"

definition bob_user :: user where
  "bob_user = ann_user\<lparr>u_id := ''u2'', u_username := ''bob'', u_role := RoleViewer\<rparr>"

definition ann_db :: user_db where
  "ann_db = \<lparr>db_users = [row_of ann_user, row_of bob_user], db_organizations = [], db_up = True\<rparr>"

lemma ann_fits: "fits_row ann_user" "fits_row bob_user"
proof -
  have "fits_varchar 255 (hex_text ''AnnPassword1'')"
    using hex_lib_fits unfolding hashes_fit_def hex_lib_def by (simp split: if_splits)
  then show "fits_row ann_user" "fits_row bob_user"
    by (simp_all add: fits_row_def ann_user_def bob_user_def StatusActive_def fits_varchar_def char_code_def
        pg_chars_ascii RoleAdmin_def RoleViewer_def)
qed

lemma ann_db_ok: "db_ok ann_db" "db_up ann_db"
  using ann_fits
  by (simp_all add: db_ok_def ann_db_def organization_exists_def row_of_def nullif_empty_def ann_user_def bob_user_def
      scan_user_def coalesce_empty_def)

definition pg_config :: "kv_redis config" where
  "pg_config = demo_config\<lparr>cf_lib := hex_lib\<rparr>"

definition ann_server :: "kv_redis pg_server" where
  "ann_server = \<lparr>sv_users = ann_db, sv_engine = NewEngine ''1'' ''2'' ''3'',
     sv_log = \<lparr>pl_rows = [], pl_pending = [], pl_up = True\<rparr>, sv_redis = []\<rparr>"

lemma ann_fresh: "pg_fresh demo_env ann_db"
  by (simp add: pg_fresh_def demo_env_def ann_db_def row_of_def ann_user_def bob_user_def fits_varchar_def
      pg_chars_ascii char_code_def)

lemma demo_registers_text: "hr_body r = hr_body demo_request \<Longrightarrow> registers_text r"
  by (simp add: registers_text_def decode_register_def demo_request_def set_register_field_def to_lower_def
      lower_char_def char_code_def trim_space_ascii is_space_def pg_text_def pg_chars_ascii)

subsection \<open>Events that are lost\<close>

text \<open>C26: A client chooses whether it is audited: on PostgreSQL no event of a request whose \<open>User-Agent\<close>
  is not UTF-8 text ever reaches the audit table, whenever its goroutine runs, except for the two policy
  changes. The request is served all the same.\<close>

theorem unaudited_user_agent:
  assumes "\<not> pg_text (hr_user_agent r)" and "serve_on postgres_stores cfg env s r = (s', out)"
  shows "\<exists>evs. pl_pending (sv_log s') = pl_pending (sv_log s) @ evs \<and> pl_rows (sv_log s') = pl_rows (sv_log s) \<and>
    (\<forall>e \<in> set evs. ev_action e \<in> {ActionPolicyCreated, ActionPolicyDeleted} \<or> (\<forall>rows. insert_audit rows e = None))"
proof -
  let ?r = "r\<lparr>hr_claims := None\<rparr>" and ?stamp = "stamp_event (en_event_id env) (en_now env)"
  obtain s1 evs out1 where g: "global_handler postgres_stores cfg env s ?r = (s1, evs, out1)"
    by (cases "global_handler postgres_stores cfg env s ?r")
  from emits_agent_server [of postgres_stores cfg env] g have ev: "list_all (agent_event r) evs"
    unfolding emits_agent_def by (metis agent_event_update(1) fst_conv snd_conv)
  have "ev_action (?stamp e) \<in> {ActionPolicyCreated, ActionPolicyDeleted} \<or> (\<forall>rows. insert_audit rows (?stamp e) = None)"
    if "e \<in> set evs" for e
  proof -
    from ev that have "agent_event r e" by (simp add: list_all_iff)
    moreover have "ev_user_agent (?stamp e) = ev_user_agent e" by (simp add: stamp_event_def Let_def)
    ultimately show ?thesis
      using assms(1) audit_columns_agent [of "?stamp e"] by (auto simp: agent_event_def)
  qed
  then show ?thesis
    using serve_pg [OF g] assms(2) by (intro exI [of _ "map ?stamp evs"]) (auto simp: pg_kept_def)
qed

subsection \<open>Outages\<close>

text \<open>C31: While the database is down, every login is answered as wrong credentials and logged as a failed
  login, and the profile of a valid session as an unknown user; only the listing of the users says that
  the server failed.\<close>

theorem pg_outage:
  assumes "\<not> db_up db" and "decode_login (hr_body r) = Some req" and "hr_claims q = Some c"
  shows "Login_handler pg_ops lib key env db r =
      (db, [(request_event ActionLoginFailed r)\<lparr>ev_metadata := [(''username'', li_username req)]\<rparr>],
       Inr (writeError 401 ''invalid credentials'')) \<and>
    Me pg_ops db q = respond db (writeError 404 ''user not found'') \<and>
    ListUsers_handler pg_ops env db q = respond db (writeError 500 ''failed to retrieve users'')"
  using assms by (simp add: Login_handler_def Login_def pg_GetUserByUsername_def pg_get_def select_user_def
      Me_def pg_GetUserByID_def ListUsers_handler_def pg_ListUsers_def)

text \<open>The witness: the right password, and a valid session.\<close>

theorem pg_outage_witness:
  "decode_login (hr_body demo_request) = Some \<lparr>li_username = ''ann'', li_password = ''WrongPass1''\<rparr> \<and>
   snd (snd (Login_handler pg_ops hex_lib ''k'' demo_env (ann_db\<lparr>db_up := False\<rparr>) demo_request)) =
     Inr (writeError 401 ''invalid credentials'') \<and>
   snd (snd (Me pg_ops (ann_db\<lparr>db_up := False\<rparr>) (demo_request\<lparr>hr_claims := Some demo_claims\<rparr>))) =
     Inr (writeError 404 ''user not found'')"
  using pg_outage [of "ann_db\<lparr>db_up := False\<rparr>" demo_request _ "demo_request\<lparr>hr_claims := Some demo_claims\<rparr>"
      demo_claims hex_lib "''k''" demo_env, OF _ decode_demo_login]
  by (simp add: decode_demo_login respond_def)

text \<open>An update of an account on PostgreSQL keeps the table well-typed and every other account as it is,
  and fails when the new name is another account's, where the in-memory store takes the name over.\<close>

theorem pg_update_safe:
  assumes ok: "db_ok db" "db_up db" and fit: "fits_row u"
    and org: "u_organization_id u = [] \<or> u_organization_id u \<in> set (db_organizations db)"
  shows "((\<exists>db'. pg_UpdateUser db t u = Inr db') \<longleftrightarrow> (\<exists>r \<in> set (db_users db). ur_id r = u_id u) \<and>
      \<not> (\<exists>r \<in> set (db_users db). ur_username r = u_username u \<and> ur_id r \<noteq> u_id u)) \<and>
    (\<forall>db'. pg_UpdateUser db t u = Inr db' \<longrightarrow> db_ok db' \<and>
      (\<forall>i. i \<noteq> u_id u \<longrightarrow> pg_GetUserByID db' i = pg_GetUserByID db i) \<and>
      (\<exists>c. pg_GetUserByID db' (u_id u) = Inr (u\<lparr>u_updated_at := t, u_created_at := c\<rparr>)))"
proof
  let ?u = "u\<lparr>u_updated_at := t\<rparr>" and ?row = "row_of (u\<lparr>u_updated_at := t, u_id := []\<rparr>)"
  have "list_all pg_text (text_params ?u)"
    using fit by (auto simp: text_params_def fits_row_def dest: fits_varchar_text)
  moreover have "column_values (?u\<lparr>u_id := []\<rparr>) = Some ?row"
    using fit column_values_fits [of "u\<lparr>u_updated_at := t, u_id := []\<rparr>"] by (simp add: fits_row_def)
  moreover have "organization_exists db ?row" "ur_username ?row = u_username u"
    using org by (auto simp: organization_exists_def row_of_def nullif_empty_def)
  ultimately show "(\<exists>db'. pg_UpdateUser db t u = Inr db') \<longleftrightarrow> (\<exists>r \<in> set (db_users db). ur_id r = u_id u) \<and>
      \<not> (\<exists>r \<in> set (db_users db). ur_username r = u_username u \<and> ur_id r \<noteq> u_id u)"
    using ok(2) by (auto simp: pg_UpdateUser_def update_users_def filter_empty_conv)
qed (use pg_UpdateUser_ok [OF ok(1)] fit in blast)

theorem pg_update_safe_witness:
  "(\<forall>db'. pg_UpdateUser ann_db 7 (bob_user\<lparr>u_username := ''ann''\<rparr>) \<noteq> Inr db') \<and>
   (\<exists>db' c. pg_UpdateUser ann_db 7 bob_user = Inr db' \<and> db_ok db' \<and>
      pg_GetUserByID db' ''u2'' = Inr (bob_user\<lparr>u_updated_at := 7, u_created_at := c\<rparr>))"
proof
  have fits: "fits_row (bob_user\<lparr>u_username := ''ann''\<rparr>)"
    using ann_fits by (simp add: fits_row_def bob_user_def ann_user_def)
  have org: "u_organization_id bob_user = []" by (simp add: bob_user_def ann_user_def)
  show "\<forall>db'. pg_UpdateUser ann_db 7 (bob_user\<lparr>u_username := ''ann''\<rparr>) \<noteq> Inr db'"
    using pg_update_safe [OF ann_db_ok fits, of 7] org
    by (auto simp: ann_db_def row_of_def ann_user_def bob_user_def)
  have "\<exists>db'. pg_UpdateUser ann_db 7 bob_user = Inr db'"
    using pg_update_safe [OF ann_db_ok ann_fits(2), of 7] org
    by (auto simp: ann_db_def row_of_def ann_user_def bob_user_def)
  moreover have "u_id bob_user = ''u2''" by (simp add: bob_user_def)
  ultimately show "\<exists>db' c. pg_UpdateUser ann_db 7 bob_user = Inr db' \<and> db_ok db' \<and>
      pg_GetUserByID db' ''u2'' = Inr (bob_user\<lparr>u_updated_at := 7, u_created_at := c\<rparr>)"
    using pg_update_safe [OF ann_db_ok ann_fits(2), of 7] org by auto
qed

theorem pg_tables_well_typed_witness:
  "db_ok (sv_users (fst (serve_on postgres_stores pg_config demo_env ann_server demo_request)))"
  by (rule pg_tables_well_typed) (simp add: ann_server_def ann_db_ok)

lemma ann_lookup: "pg_GetUserByUsername ann_db ''ann'' = Inr ann_user"
proof -
  have "pg_text ''ann''" by (simp add: pg_text_def pg_chars_ascii char_code_def)
  then show ?thesis
    by (simp add: pg_GetUserByUsername_def pg_get_def select_user_def ann_db_def)
      (simp add: row_of_def ann_user_def scan_user_def coalesce_empty_def nullif_empty_def)
qed

lemma wrong_password: "\<not> bcrypt_compare hex_lib (u_password_hash ann_user) ''WrongPass1''"
proof -
  have "length (hex_text ''AnnPassword1'') \<noteq> length (hex_text ''WrongPass1'')" by (simp add: hex_text_def)
  then have "hex_text ''AnnPassword1'' \<noteq> hex_text ''WrongPass1''" by (rule contrapos_nn) (rule arg_cong)
  then show ?thesis by (simp add: hex_lib_def ann_user_def)
qed

lemma mux_login_pg:
  assumes "hr_method r = ''POST''" "hr_path r = ''/api/v1/auth/login''"
  shows "serve_mux (registerRoutes postgres_stores cfg env) False s r =
    withRateLimit (cf_limiter cfg) (sv_redis s) (en_now env)
      (on_users (Login_handler pg_ops (cf_lib cfg) (cf_key cfg) env)) s (r\<lparr>hr_path_id := []\<rparr>)"
  by (simp add: registerRoutes_def Let_def assms method_match_def)

definition refused_login :: "string \<Rightarrow> http_request" where
  "refused_login agent = demo_request\<lparr>hr_user_agent := agent\<rparr>"

definition refused_event :: "string \<Rightarrow> event" where
  "refused_event agent = \<lparr>ev_id = ''event-1'', ev_user_id = [], ev_action = ActionLoginFailed, ev_resource = [],
     ev_ip_address = ''10.0.0.1:4000'', ev_user_agent = agent, ev_metadata = [(''username'', ''ann'')],
     ev_timestamp = Some 1000\<rparr>"

lemma refused_login_served:
  "\<exists>rsp. serve_on postgres_stores pg_config demo_env ann_server (refused_login agent) =
     (ann_server\<lparr>sv_log := \<lparr>pl_rows = [], pl_pending = [refused_event agent], pl_up = True\<rparr>\<rparr>, Inr rsp) \<and>
     rsp_status rsp = 401"
proof -
  let ?r = "refused_login agent\<lparr>hr_claims := None\<rparr>"
  let ?e = "(request_event ActionLoginFailed ?r)\<lparr>ev_metadata := [(''username'', ''ann'')]\<rparr>"
  let ?rsp = "writeError 401 ''invalid credentials''"
  have lim: "limited_request ?r = ?r"
    by (simp add: limited_request_def refused_login_def demo_request_def)
  have fails: "\<And>q. hr_body q = hr_body demo_request \<Longrightarrow> hr_user_agent q = hr_user_agent ?r \<Longrightarrow>
      hr_remote_addr q = hr_remote_addr ?r \<Longrightarrow>
      Login_handler pg_ops hex_lib ''k'' demo_env ann_db q = (ann_db, [?e], Inr ?rsp)"
    by (simp add: Login_handler_def Login_def decode_demo_login ann_lookup wrong_password request_event_def)
  have "serve_mux (registerRoutes postgres_stores pg_config demo_env) False ann_server (limited_request ?r) =
      (ann_server, [?e], Inr ?rsp)"
    unfolding lim using mux_login_pg [of ?r pg_config demo_env ann_server] fails
    by (simp add: refused_login_def demo_request_def pg_config_def demo_config_def withRateLimit_def limiter_defs
        kv_ops_def kv_get_def ann_server_def on_users_def)
  from global_handler_answer [OF _ this] obtain out' where
    "global_handler postgres_stores pg_config demo_env ann_server ?r = (ann_server, [?e], out')" "same_answer (Inr ?rsp) out'"
    by (auto simp: refused_login_def demo_request_def)
  then show ?thesis
    by (auto simp: serve_on_def same_answer_def pg_Log_def ann_server_def request_event_def new_event_def
        writeError_def writeJSON_def stamp_event_def refused_event_def refused_login_def demo_request_def demo_env_def)
qed

lemma ann_run: "pg_run pg_config ann_server (mem_view [] ann_server)"
  by (rule pg_run.start) (simp_all add: ann_server_def ann_db_ok)

definition settled_server :: "kv_redis pg_server" where
  "settled_server = ann_server\<lparr>sv_log := pg_flush 0 \<lparr>pl_rows = [], pl_pending = [refused_event ''ua''], pl_up = True\<rparr>\<rparr>"

lemma refused_event_fits: "fits_event (refused_event ''ua'')"
  by (simp add: fits_event_def refused_event_def fits_varchar_def pg_text_def pg_chars_ascii char_code_def
      ActionLoginFailed_def)

lemma settled_run: "\<exists>m. pg_run pg_config settled_server m \<and> ml_events (sv_log m) = [refused_event ''ua'']"
proof -
  let ?s = "ann_server\<lparr>sv_log := \<lparr>pl_rows = [], pl_pending = [refused_event ''ua''], pl_up = True\<rparr>\<rparr>"
  obtain rsp where sv: "serve_on postgres_stores pg_config demo_env ann_server (refused_login ''ua'') = (?s, Inr rsp)"
    using refused_login_served [of "''ua''"] by blast
  have ok: "hashes_fit (cf_lib pg_config)" "pg_fresh demo_env (sv_users ann_server)"
    "registers_text (refused_login ''ua'')" "hr_path (refused_login ''ua'') \<noteq> audit_path"
    by (simp_all add: pg_config_def demo_config_def hex_lib_fits ann_server_def ann_fresh demo_registers_text
        refused_login_def) (simp add: demo_request_def audit_path_def)
  let ?m = "fst (serve_on memory_stores pg_config (pg_env demo_env (sv_users ann_server)) (mem_view [] ann_server)
      (refused_login ''ua''))"
  have "pg_run pg_config ?s ?m"
    using pg_run.request [OF ann_run ok(2-4)] sv by simp
  then have "pg_run pg_config settled_server ?m"
    unfolding settled_server_def using pg_run.flush [of pg_config ?s ?m 0] by simp
  moreover have "ml_events (sv_log ?m) = [refused_event ''ua'']"
  proof -
    have live: "db_ok (sv_users ann_server)" "db_up (sv_users ann_server)"
      by (simp_all add: ann_server_def ann_db_ok)
    show ?thesis
      using pg_serve_refines [OF live ok(2,1,3,4) sv, of "[]"] by (auto simp: ann_server_def)
  qed
  ultimately show ?thesis by blast
qed

text \<open>The witness: a refused login whose goroutine has run. The audit endpoint answers the first page as the
  in-memory one does, and \<open>null\<close> for the second, empty one.\<close>

definition second_page :: http_request where
  "second_page = demo_request\<lparr>hr_query := [(''page'', ''2'')]\<rparr>"

lemma second_page_params: "page_param (hr_query second_page) = 2" "page_size_param (hr_query second_page) = 50"
  by (simp_all add: second_page_def page_param_def page_size_param_def Let_def atoi_def nat_of_digits_def
      is_digit_def char_code_def)

lemma second_page_memory:
  "length (ml_events (sv_log m)) = 1 \<Longrightarrow> snd (snd (audit_list m second_page)) =
     Inr (writeJSON 200 (AuditBody \<lparr>ar_events = Some [], ar_total = 1, ar_page = 2, ar_page_size = 50\<rparr>))"
  using List_handler_page [of "hr_query second_page" "sv_log m"]
  by (simp add: audit_list_def second_page_params page_of_def)

theorem pg_server_refines_witness:
  "\<exists>m. pg_run pg_config settled_server m \<and> ml_events (sv_log m) = [refused_event ''ua''] \<and>
     snd (snd (audit_list_on postgres_stores settled_server demo_request)) =
       map_sum id nil_page (snd (snd (audit_list_on memory_stores m demo_request))) \<and>
     snd (snd (audit_list_on memory_stores m second_page)) =
       Inr (writeJSON 200 (AuditBody \<lparr>ar_events = Some [], ar_total = 1, ar_page = 2, ar_page_size = 50\<rparr>)) \<and>
     snd (snd (audit_list_on postgres_stores settled_server second_page)) =
       Inr (writeJSON 200 (AuditBody \<lparr>ar_events = None, ar_total = 1, ar_page = 2, ar_page_size = 50\<rparr>))"
proof -
  obtain m where m: "pg_run pg_config settled_server m" "ml_events (sv_log m) = [refused_event ''ua'']"
    using settled_run by blast
  have "hashes_fit (cf_lib pg_config)" by (simp add: pg_config_def demo_config_def hex_lib_fits)
  note ref = pg_server_refines [OF m(1) this]
  have "pl_pending (sv_log settled_server) = []"
    by (simp add: settled_server_def pg_flush_def Let_def split: option.split)
  moreover have "page_param (hr_query r) < 2 ^ 55" if "r \<in> {demo_request, second_page}" for r
    using that by (auto simp: second_page_params) (simp add: demo_request_def)
  ultimately have "snd (snd (audit_list_on postgres_stores settled_server r)) =
      map_sum id nil_page (snd (snd (audit_list_on memory_stores m r)))" if "r \<in> {demo_request, second_page}" for r
    using ref m(2) refused_event_fits that by (simp add: in_time_order_def)
  then show ?thesis
    using m second_page_memory [of m]
    by (intro exI [of _ m]) (simp add: nil_page_def nil_events_def nil_slice_def writeJSON_def)
qed

text \<open>The witness: a refused login with the byte 255 as its user agent is answered, and lost to the table.\<close>

definition quiet_agent :: string where "quiet_agent = [char_of (255 :: nat)]"

lemma quiet_agent_text: "\<not> pg_text (hr_user_agent (refused_login quiet_agent))"
  by (simp add: refused_login_def quiet_agent_def pg_text_def pg_chars_def char_code_def utf8_chars.simps)

theorem unaudited_user_agent_witness:
  "\<exists>s' e rsp. serve_on postgres_stores pg_config demo_env ann_server (refused_login quiet_agent) = (s', Inr rsp) \<and>
     rsp_status rsp = 401 \<and> pl_pending (sv_log s') = [e] \<and> ev_action e = ActionLoginFailed \<and>
     (\<forall>rows. insert_audit rows e = None)"
proof -
  let ?s = "ann_server\<lparr>sv_log := \<lparr>pl_rows = [], pl_pending = [refused_event quiet_agent], pl_up = True\<rparr>\<rparr>"
  obtain rsp where sv: "serve_on postgres_stores pg_config demo_env ann_server (refused_login quiet_agent) = (?s, Inr rsp)"
    "rsp_status rsp = 401"
    using refused_login_served [of quiet_agent] by blast
  from unaudited_user_agent [OF quiet_agent_text sv(1)] have "\<forall>rows. insert_audit rows (refused_event quiet_agent) = None"
    by (auto simp: ann_server_def refused_event_def action_defs)
  with sv show ?thesis by (auto simp: refused_event_def)
qed

subsection \<open>Overflowing pages\<close>

lemma word_offset: "(word_of_int p - 1) * word_of_int n = (word_of_int ((p - 1) * n) :: 64 word)"
  by simp

lemma word_negative: "sint (word_of_int x :: 64 word) < 0 \<longleftrightarrow> odd (x div 2 ^ 63)"
proof -
  have "sint (word_of_int x :: 64 word) < 0 \<longleftrightarrow> bit (word_of_int x :: 64 word) 63"
    using bit_last_iff [of "word_of_int x :: 64 word"] by simp
  also have "\<dots> \<longleftrightarrow> bit x 63" by (simp add: bit_word_of_int_iff)
  finally show ?thesis by (simp only: bit_iff_odd)
qed

lemma sint_plus_small:
  fixes a b :: "64 word"
  assumes "- (2 ^ 63) \<le> sint a + sint b" "sint a + sint b < 2 ^ 63"
  shows "sint (a + b) = sint a + sint b"
  using assms by (simp add: sint_word_ariths signed_take_bit_int_eq_self)

lemma negative_start_panics:
  fixes l page n
  defines "start \<equiv> (page - 1) * n"
  assumes "length (ml_events l) < 2 ^ 62" and "0 < sint n" "sint n \<le> 200"
  shows "(\<exists>panic. List_page l page n = Inl panic) \<longleftrightarrow> ml_events l \<noteq> [] \<and> sint start < 0"
proof (cases "sint start < 0 \<or> int (length (ml_events l)) \<le> sint start")
  case True
  then show ?thesis
    by (auto simp: List_page_def Let_def start_def go_slice_def)
next
  case False
  then have "sint (start + n) = sint start + sint n"
    using assms(2-4) by (intro sint_plus_small) simp_all
  then show ?thesis
    using False assms(3) by (auto simp: List_page_def Let_def start_def [symmetric] go_slice_def reverse_copy_rev)
qed

text \<open>C27: A page number whose offset overflows into the negative is not caught: for the page and page size the
  audit endpoint reads from a query, when bit 63 of \<open>(page - 1) * page_size\<close> is set, the in-memory server
  panics on any non-empty log, and PostgreSQL refuses the negative offset, answered with 500.
  No other page makes the in-memory endpoint panic.\<close>

theorem audit_page_overflow:
  assumes "length (ml_events (sv_log m)) < 2 ^ 62"
  shows "((\<exists>panic. snd (snd (audit_list_on memory_stores m r)) = Inl panic) \<longleftrightarrow>
      ml_events (sv_log m) \<noteq> [] \<and> odd ((page_param (hr_query r) - 1) * page_size_param (hr_query r) div 2 ^ 63)) \<and>
    (snd (snd (audit_list_on postgres_stores s r)) = Inr (writeError 500 ''failed to retrieve audit logs'') \<longleftrightarrow>
      \<not> pl_up (sv_log s) \<or> odd ((page_param (hr_query r) - 1) * page_size_param (hr_query r) div 2 ^ 63))"
proof -
  let ?q = "hr_query r"
  let ?p = "word_of_int (page_param ?q) :: 64 word" and ?n = "word_of_int (page_size_param ?q) :: 64 word"
  have n: "sint ?n = page_size_param ?q"
    using page_size_param_bounds [of ?q] by (simp add: sint_sbintrunc' signed_take_bit_int_eq_self)
  have off: "sint ((?p - 1) * ?n) < 0 \<longleftrightarrow> odd ((page_param ?q - 1) * page_size_param ?q div 2 ^ 63)"
    unfolding word_offset by (rule word_negative)
  have "(\<exists>panic. snd (snd (audit_list_on memory_stores m r)) = Inl panic) \<longleftrightarrow>
      (\<exists>panic. List_page (sv_log m) ?p ?n = Inl panic)"
    by (auto simp: audit_list_def List_handler_eq split: sum.splits)
  moreover have "(\<exists>panic. List_page (sv_log m) ?p ?n = Inl panic) \<longleftrightarrow>
      ml_events (sv_log m) \<noteq> [] \<and> sint ((?p - 1) * ?n) < 0"
    using assms page_size_param_bounds [of ?q] n by (intro negative_start_panics) simp_all
  moreover have "snd (snd (audit_list_on postgres_stores s r)) = Inr (writeError 500 ''failed to retrieve audit logs'')
      \<longleftrightarrow> \<not> pl_up (sv_log s) \<or> sint ((?p - 1) * ?n) < 0"
    using page_size_param_bounds [of ?q]
    by (auto simp: audit_list_on_def List_handler_on_def pg_List_def select_audit_def Let_def n
        writeError_def writeJSON_def)
  ultimately show ?thesis unfolding off by blast
qed

text \<open>The witness: page \<open>2^62 + 1\<close> of two events each.\<close>

definition far_page :: http_request where
  "far_page = demo_request\<lparr>hr_query := [(''page'', ''4611686018427387905''), (''page_size'', ''2'')]\<rparr>"

theorem audit_page_overflow_witness:
  "\<exists>m. pg_run pg_config settled_server m \<and>
     (\<exists>panic. snd (snd (audit_list_on memory_stores m far_page)) = Inl panic) \<and>
     snd (snd (audit_list_on postgres_stores settled_server far_page)) =
       Inr (writeError 500 ''failed to retrieve audit logs'')"
proof -
  obtain m where m: "pg_run pg_config settled_server m" "ml_events (sv_log m) = [refused_event ''ua'']"
    using settled_run by blast
  have "page_param (hr_query far_page) = 4611686018427387905" "page_size_param (hr_query far_page) = 2"
    by (simp_all add: far_page_def page_param_def page_size_param_def Let_def atoi_def nat_of_digits_def
        is_digit_def char_code_def)
  then show ?thesis
    using audit_page_overflow [of m far_page settled_server] m by auto
qed

end
