(* ===== verification/Startup.thy ===== *)
theory Startup
  imports Migrations ServerPgProps
begin

text \<open>
  The start of \<open>backend/cmd/server/main.go\<close> up to the listener: which stores, key and limiter the server
  runs with, and when it does not start. What is outside the program is the record \<open>host\<close>: environment
  variables, AWS, the driver's URL parser, Redis, bcrypt, the clock and fresh ids. The
  database outlives the process, so a start takes it and returns it.
\<close>

record 'r host =
  ho_getenv :: "string \<Rightarrow> string"
  ho_aws :: "string \<Rightarrow> string option"
  ho_open :: "string \<Rightarrow> string option"
  ho_redis_url :: "string \<Rightarrow> string + 'r redis_ops"
  ho_ping :: "'r redis_ops \<Rightarrow> 'r \<Rightarrow> string option"
  ho_redis :: 'r
  ho_lib :: auth_lib
  ho_salt :: string
  ho_now :: int
  ho_ids :: "string list"
  ho_pids :: "string \<times> string \<times> string"

datatype 'r running = InMemory "'r config" "'r server" | OnPostgres "'r config" "'r pg_server"

definition getEnv :: "'r host \<Rightarrow> string \<Rightarrow> string \<Rightarrow> string" where
  "getEnv ho key defaultVal = (let v = ho_getenv ho key in if v \<noteq> [] then v else defaultVal)"

definition initRateLimiter :: "'r host \<Rightarrow> 'r limiter_ops" where
  "initRateLimiter ho =
     (case ho_redis_url ho (getEnv ho ''REDIS_URL'' ''redis://localhost:6379'') of
        Inl e \<Rightarrow> NilRateLimiter
      | Inr client \<Rightarrow>
          (case ho_ping ho client (ho_redis ho) of Some e \<Rightarrow> NilRateLimiter | None \<Rightarrow> RedisLimiter client))"

definition load_service :: "'r host \<Rightarrow> string + string" where
  "load_service ho =
     (case LoadSigningKey (ho_aws ho) (ho_getenv ho) of
        Inl e \<Rightarrow> Inl (''[FATAL] Failed to load JWT signing key: '' @ e)
      | Inr key \<Rightarrow>
          (case NewService key of
             Inl e \<Rightarrow> Inl (''[FATAL] Failed to initialize auth service: '' @ e)
           | Inr k \<Rightarrow> Inr k))"

definition main_config :: "'r host \<Rightarrow> string \<Rightarrow> 'r config" where
  "main_config ho key = \<lparr>cf_lib = ho_lib ho, cf_key = key, cf_limiter = initRateLimiter ho,
     cf_origins = [getEnv ho ''CORS_ORIGIN'' ''http://localhost:5173'', ''http://localhost:3000'']\<rparr>"

text \<open>The tables the stores work on.\<close>

definition users_db :: "nexus_db \<Rightarrow> user_db" where
  "users_db db = \<lparr>db_users = rows_of (nd_users db), db_organizations = map fst (rows_of (nd_organizations db)),
     db_up = nd_up db\<rparr>"

definition audit_db :: "nexus_db \<Rightarrow> pg_logger" where
  "audit_db db = \<lparr>pl_rows = rows_of (nd_audit_logs db), pl_pending = [], pl_up = nd_up db\<rparr>"

definition main :: "'r host \<Rightarrow> nexus_db \<Rightarrow> nexus_db \<times> (string + 'r running)" where
  "main ho db =
     (let dbURL = ho_getenv ho ''DATABASE_URL'';
          seed = (ho_getenv ho ''DEV_SEED'' = ''true'' \<or> dbURL = [])
      in if dbURL \<noteq> []
         then (case ConnectPostgres (ho_open ho)
                 \<lparr>dc_url = dbURL, dc_max_open = 25, dc_max_idle = 5, dc_idle_time = 0\<rparr> db of
             (db1, Inl e) \<Rightarrow> (db1, Inl (''[FATAL] Failed to connect to PostgreSQL: '' @ e))
           | (db1, Inr limits) \<Rightarrow>
               let us = (if seed
                         then seedDevUsers pg_ops (ho_lib ho) (ho_salt ho) (ho_now ho) (ho_ids ho) (users_db db1)
                         else users_db db1)
               in (db1\<lparr>nd_users := Some (db_users us)\<rparr>,
                   case load_service ho of
                     Inl e \<Rightarrow> Inl e
                   | Inr key \<Rightarrow> (case ho_pids ho of (i1, i2, i3) \<Rightarrow>
                       Inr (OnPostgres (main_config ho key)
                         \<lparr>sv_users = us, sv_engine = NewEngine i1 i2 i3, sv_log = audit_db db1,
                          sv_redis = ho_redis ho\<rparr>))))
         else (db, case load_service ho of
                     Inl e \<Rightarrow> Inl e
                   | Inr key \<Rightarrow> Inr (InMemory (main_config ho key)
                       (start_server (main_config ho key) (ho_redis ho) (ho_salt ho) (ho_now ho)
                          (ho_ids ho) (ho_pids ho)))))"

text \<open>The address the server listens on.\<close>

definition listen_addr :: "'r host \<Rightarrow> string" where
  "listen_addr ho = '':'' @ getEnv ho ''PORT'' ''8080''"

subsection \<open>Starting in memory\<close>

lemma load_service_key:
  "load_service ho = Inr key \<Longrightarrow> key \<noteq> [] \<and> LoadSigningKey (ho_aws ho) (ho_getenv ho) = Inr key"
  by (auto simp: load_service_def NewService_def split: sum.splits if_splits)

lemma load_service_Inl:
  "load_service ho = Inl e \<Longrightarrow> \<exists>e'. LoadSigningKey (ho_aws ho) (ho_getenv ho) = Inl e'"
  by (auto simp: load_service_def dest: LoadSigningKey_NewService split: sum.splits)

lemma main_in_memory:
  assumes "ho_getenv ho ''DATABASE_URL'' = []"
  shows "main ho db = (db, map_sum id (\<lambda>key. InMemory (main_config ho key)
    (start_server (main_config ho key) (ho_redis ho) (ho_salt ho) (ho_now ho) (ho_ids ho) (ho_pids ho))) (load_service ho))"
  using assms by (simp add: main_def split: sum.split)

subsection \<open>Starting on PostgreSQL\<close>

lemma ConnectPostgres_ok:
  assumes "dc_url cfg \<noteq> []" "open_url (dc_url cfg) = None" "tables_ok db" "nd_up db"
  shows "\<exists>limits. ConnectPostgres open_url cfg db = (migrated db, Inr limits)"
  using assms by (simp add: ConnectPostgres_def migrations_complete)

text \<open>Seeding adds rows to a well-formed table, at most.\<close>

definition grown :: "user_db \<Rightarrow> user_db \<Rightarrow> bool" where
  "grown db db' \<longleftrightarrow> db_up db' = db_up db \<and> db_organizations db' = db_organizations db \<and>
     prefix (db_users db) (db_users db') \<and> (db_ok db \<longrightarrow> db_ok db')"

lemma grown_refl [simp]: "grown db db"
  by (simp add: grown_def)

lemma grown_trans: "grown a b \<Longrightarrow> grown b c \<Longrightarrow> grown a c"
  unfolding grown_def using prefix_order.order_trans by metis

lemma seed_one_grown: "grown db (seed_one pg_ops lib salt now db x)"
proof -
  have "grown db db'" if "pg_CreateUser db i t u = Inr (db', v)" for i t u db' v
    using insert_users_kept [OF pg_CreateUser_Inr(2) [OF that]] by (simp add: grown_def)
  then show ?thesis by (auto simp: seed_one_def split: prod.split option.split sum.split)
qed

lemma foldl_seeds_grown: "grown db (foldl (seed_one pg_ops lib salt now) db xs)"
proof (induction xs arbitrary: db)
  case (Cons x xs)
  show ?case using grown_trans [OF seed_one_grown Cons.IH] by simp
qed simp

lemma seeds_grown: "grown db (seedDevUsers pg_ops lib salt now ids db)"
  by (simp add: seedDevUsers_def foldl_seeds_grown)

lemma main_on_postgres:
  assumes "ho_getenv ho ''DATABASE_URL'' \<noteq> []" "ho_open ho (ho_getenv ho ''DATABASE_URL'') = None"
    and "tables_ok db" "nd_up db"
  obtains us where "grown (users_db (migrated db)) us"
    "us = (if ho_getenv ho ''DEV_SEED'' = ''true''
       then seedDevUsers pg_ops (ho_lib ho) (ho_salt ho) (ho_now ho) (ho_ids ho) (users_db (migrated db))
       else users_db (migrated db))"
    "main ho db = ((migrated db)\<lparr>nd_users := Some (db_users us)\<rparr>,
       map_sum id (\<lambda>key. case ho_pids ho of (i1, i2, i3) \<Rightarrow> OnPostgres (main_config ho key)
         \<lparr>sv_users = us, sv_engine = NewEngine i1 i2 i3, sv_log = audit_db (migrated db),
          sv_redis = ho_redis ho\<rparr>) (load_service ho))"
proof -
  obtain limits where c: "ConnectPostgres (ho_open ho)
      \<lparr>dc_url = ho_getenv ho ''DATABASE_URL'', dc_max_open = 25, dc_max_idle = 5, dc_idle_time = 0\<rparr> db =
      (migrated db, Inr limits)"
    using ConnectPostgres_ok [of "\<lparr>dc_url = ho_getenv ho ''DATABASE_URL'', dc_max_open = 25, dc_max_idle = 5,
      dc_idle_time = 0\<rparr>" "ho_open ho" db] assms by auto
  show thesis
    by (rule that [OF _ refl])
      (use assms(1) c seeds_grown in \<open>auto simp: main_def Let_def split: sum.split prod.split\<close>)
qed

lemma main_unconnected:
  assumes "ho_getenv ho ''DATABASE_URL'' \<noteq> []"
    and "\<not> nd_up db \<or> ho_open ho (ho_getenv ho ''DATABASE_URL'') \<noteq> None"
  shows "\<exists>e. main ho db = (db, Inl (''[FATAL] Failed to connect to PostgreSQL: '' @ e))"
proof -
  have "\<exists>e. ConnectPostgres (ho_open ho) \<lparr>dc_url = ho_getenv ho ''DATABASE_URL'', dc_max_open = 25,
      dc_max_idle = 5, dc_idle_time = 0\<rparr> db = (db, Inl e)"
    using assms by (auto simp: ConnectPostgres_def Let_def split: option.splits)
  then show ?thesis using assms(1) by (auto simp: main_def)
qed

subsection \<open>The seeded accounts\<close>

lemma seeds_fit: "\<forall>(n, pw, role) \<in> set dev_seeds. role \<in> set ValidRoles \<and> fits_varchar 64 n"
  by (simp add: dev_seeds_def ValidRoles_def fits_varchar_def char_code_def pg_chars_ascii)

lemma seed_fits:
  assumes "((n, pw, role), i) \<in> set (zip dev_seeds ids)" "fits_varchar 255 h" "fits_varchar 64 i"
  shows "fits_row (created_user i t \<lparr>u_id = [], u_username = n, u_password_hash = h, u_role = role,
    u_organization_id = [], u_status = StatusActive, u_mfa_secret = [], u_mfa_enabled = False,
    u_created_at = 0, u_updated_at = 0\<rparr>)"
proof -
  have "(n, pw, role) \<in> set dev_seeds" using assms(1) by (rule set_zip_leftD)
  with seeds_fit have "role \<in> set ValidRoles" "fits_varchar 64 n" by auto
  then show ?thesis
    using assms(2,3) active_fits role_fits
    by (simp add: fits_row_def created_user_def fits_varchar_def pg_chars_ascii)
qed

definition names_of :: "user_db \<Rightarrow> string set" where
  "names_of db = ur_username ` set (db_users db)"

text \<open>A name that is taken is skipped.\<close>

lemma seed_taken:
  assumes "((n, pw, role), i) \<in> set (zip dev_seeds ids)" "hashes_fit lib" "fits_varchar 64 i" "n \<in> names_of db"
  shows "seed_one pg_ops lib salt now db ((n, pw, role), i) = db"
proof (cases "bcrypt_generate lib pw 12 salt")
  case (Some h)
  let ?u = "\<lparr>u_id = [], u_username = n, u_password_hash = h, u_role = role, u_organization_id = [],
    u_status = StatusActive, u_mfa_secret = [], u_mfa_enabled = False, u_created_at = 0, u_updated_at = 0\<rparr>"
  have "fits_row (created_user i now ?u)"
    using seed_fits [OF assms(1) _ assms(3)] assms(2) Some by (auto simp: hashes_fit_def)
  then have "\<nexists>r. pg_CreateUser db i now ?u = Inr r"
    using pg_created_row(3) [of db i now ?u] pg_CreateUser_Inr(1) [of db i now ?u] assms(4)
    by (fastforce simp: names_of_def)
  then show ?thesis by (auto simp: seed_one_def Some split: sum.split)
qed (simp add: seed_one_def)

lemma reseed_nothing:
  assumes "hashes_fit lib" "\<forall>i \<in> set ids. fits_varchar 64 i" "fst ` set dev_seeds \<subseteq> names_of db"
  shows "seedDevUsers pg_ops lib salt now ids db = db"
proof -
  have "foldl (seed_one pg_ops lib salt now) db xs = db" if "set xs \<subseteq> set (zip dev_seeds ids)" for xs
    using that
  proof (induction xs)
    case (Cons x xs)
    obtain n pw role i where x: "x = ((n, pw, role), i)" by (metis prod.exhaust)
    then have "x \<in> set (zip dev_seeds ids)" "(n, pw, role) \<in> set dev_seeds" "i \<in> set ids"
      using Cons.prems by (auto dest: set_zip_leftD set_zip_rightD)
    then have "seed_one pg_ops lib salt now db x = db"
      unfolding x using assms by (intro seed_taken) force+
    then show ?case using Cons by simp
  qed simp
  then show ?thesis by (simp add: seedDevUsers_def)
qed

text \<open>A free name becomes an account, on a database that is up.\<close>

lemma seed_free:
  assumes "((n, pw, role), i) \<in> set (zip dev_seeds ids)" "hashes_fit lib" "fits_varchar 64 i"
    and "live db" "i \<notin> ur_id ` set (db_users db)" "i \<noteq> []" "bcrypt_generate lib pw 12 salt \<noteq> None"
  shows "n \<in> names_of (seed_one pg_ops lib salt now db ((n, pw, role), i))"
proof (cases "n \<in> names_of db")
  case True
  then show ?thesis using seed_taken [OF assms(1-3)] by simp
next
  case False
  obtain h where h: "bcrypt_generate lib pw 12 salt = Some h" using assms(7) by blast
  let ?u = "\<lparr>u_id = [], u_username = n, u_password_hash = h, u_role = role, u_organization_id = [],
    u_status = StatusActive, u_mfa_secret = [], u_mfa_enabled = False, u_created_at = 0, u_updated_at = 0\<rparr>"
  have fit: "fits_row (created_user i now ?u)"
    using seed_fits [OF assms(1) _ assms(3)] assms(2) h by (auto simp: hashes_fit_def)
  have "byID (abs_store db) (u_id (created_user i now ?u)) = None"
    using assms(5) by (auto simp: abs_store_def find_None created_user_def)
  moreover have "byUsername (abs_store db) (u_username ?u) = None"
    using False by (auto simp: abs_store_def find_None names_of_def)
  ultimately obtain db' v where c: "pg_CreateUser db i now ?u = Inr (db', v)"
    using pg_create_refines [OF _ _ fit, of db] assms(4)
    by (auto simp: live_def mem_CreateUser_def Let_def map_sum_def split: sum.splits)
  have "u_username v = n" using pg_CreateUser_Inr(1) [OF c] by simp
  then show ?thesis
    using pg_created_row(1) [OF c] fit pg_CreateUser_Inr(1) [OF c]
    by (simp add: seed_one_def h c names_of_def row_of_def)
qed

lemma seed_one_ids:
  assumes "((n, pw, role), i) \<in> set (zip dev_seeds ids)" "hashes_fit lib" "fits_varchar 64 i"
  shows "ur_id ` set (db_users (seed_one pg_ops lib salt now db ((n, pw, role), i))) \<subseteq> insert i (ur_id ` set (db_users db))"
proof (cases "bcrypt_generate lib pw 12 salt")
  case (Some h)
  let ?u = "\<lparr>u_id = [], u_username = n, u_password_hash = h, u_role = role, u_organization_id = [],
    u_status = StatusActive, u_mfa_secret = [], u_mfa_enabled = False, u_created_at = 0, u_updated_at = 0\<rparr>"
  have fit: "fits_row (created_user i now ?u)"
    using seed_fits [OF assms(1) _ assms(3)] assms(2) Some by (auto simp: hashes_fit_def)
  have "ur_id ` set (db_users db') \<subseteq> insert i (ur_id ` set (db_users db))"
    if c: "pg_CreateUser db i now ?u = Inr (db', v)" for db' v
    using pg_created_row(1) [OF c] fit pg_CreateUser_Inr(1) [OF c] by (simp add: row_of_def created_user_def)
  then show ?thesis by (auto simp: seed_one_def Some split: sum.split)
qed (auto simp: seed_one_def)

lemma grown_names: "grown a b \<Longrightarrow> names_of a \<subseteq> names_of b"
  by (auto simp: grown_def names_of_def dest: set_mono_prefix)

text \<open>With working libraries every demo name is an account after seeding.\<close>

definition seedable :: "auth_lib \<Rightarrow> string \<Rightarrow> string list \<Rightarrow> user_db \<Rightarrow> bool" where
  "seedable lib salt ids db \<longleftrightarrow> hashes_fit lib \<and>
     (\<forall>(n, pw, role) \<in> set dev_seeds. bcrypt_generate lib pw 12 salt \<noteq> None) \<and>
     length ids = length dev_seeds \<and> distinct ids \<and> [] \<notin> set ids \<and> (\<forall>i \<in> set ids. fits_varchar 64 i) \<and>
     set ids \<inter> ur_id ` set (db_users db) = {}"

lemma seeds_named:
  assumes "live db" and "seedable lib salt ids db"
  shows "fst ` set dev_seeds \<subseteq> names_of (seedDevUsers pg_ops lib salt now ids db)"
proof -
  have "fst ` fst ` set xs \<subseteq> names_of (foldl (seed_one pg_ops lib salt now) db xs)"
    if "set xs \<subseteq> set (zip dev_seeds ids)" "distinct (map snd xs)" "live db"
      "snd ` set xs \<inter> ur_id ` set (db_users db) = {}" for xs
    using that
  proof (induction xs arbitrary: db)
    case (Cons x xs)
    obtain n pw role i where x: "x = ((n, pw, role), i)" by (metis prod.exhaust)
    let ?db = "seed_one pg_ops lib salt now db x"
    have mem: "((n, pw, role), i) \<in> set (zip dev_seeds ids)" using Cons.prems(1) x by simp
    then have i: "fits_varchar 64 i" "i \<noteq> []" "bcrypt_generate lib pw 12 salt \<noteq> None" and lib: "hashes_fit lib"
      using assms(2) set_zip_leftD [OF mem] set_zip_rightD [OF mem] by (auto simp: seedable_def)
    have "i \<notin> ur_id ` set (db_users db)" using Cons.prems(4) x by auto
    then have here: "n \<in> names_of ?db"
      unfolding x using seed_free [OF mem lib i(1) Cons.prems(3)] i by simp
    have "live ?db" using Cons.prems(3) seed_one_grown [of db lib salt now x] by (simp add: live_def grown_def)
    moreover have "snd ` set xs \<inter> insert i (ur_id ` set (db_users db)) = {}"
      using Cons.prems(2,4) by (simp add: x Int_insert_right disjoint_iff)
    then have "snd ` set xs \<inter> ur_id ` set (db_users ?db) = {}"
      using seed_one_ids [OF mem lib i(1), of salt now db] unfolding x by blast
    ultimately have "fst ` fst ` set xs \<subseteq> names_of (foldl (seed_one pg_ops lib salt now) ?db xs)"
      using Cons.prems(1,2) by (intro Cons.IH) simp_all
    moreover have "n \<in> names_of (foldl (seed_one pg_ops lib salt now) ?db xs)"
      using here grown_names [OF foldl_seeds_grown] by blast
    ultimately show ?case by (simp add: x)
  qed simp
  note this [of "zip dev_seeds ids"]
  moreover have "map fst (zip dev_seeds ids) = dev_seeds" "map snd (zip dev_seeds ids) = ids"
    using assms(2) by (simp_all add: seedable_def)
  ultimately show ?thesis
    using assms unfolding seedable_def seedDevUsers_def
    by (metis (no_types, lifting) image_set order_refl)
qed

end
