(* ===== verification/Deployment.thy ===== *)
theory Deployment
  imports Startup
begin

text \<open>
  The life of a deployment on PostgreSQL: the process starts, fails to start, serves, stops at any point and
  starts again, while the database goes down and comes back. What survives a restart and what does not.
\<close>

subsection \<open>The life of a deployment\<close>

text \<open>Between processes there are the tables only; a running server holds its engine and the events
  whose goroutine has not run.\<close>

datatype 'r deployment = Stopped nexus_db | Serving nexus_db "'r config" "'r pg_server"

definition empty_db :: "bool \<Rightarrow> nexus_db" where
  "empty_db up = \<lparr>nd_organizations = None, nd_users = None, nd_roles = None, nd_permissions = None,
     nd_role_permissions = None, nd_applications = None, nd_policies = None, nd_audit_logs = None, nd_up = up\<rparr>"

text \<open>What a process leaves when it stops, at whatever point.\<close>

definition tables_after :: "nexus_db \<Rightarrow> 'r pg_server \<Rightarrow> nexus_db" where
  "tables_after db s = db\<lparr>nd_users := Some (db_users (sv_users s)), nd_audit_logs := Some (pl_rows (sv_log s)),
     nd_up := db_up (sv_users s)\<rparr>"

definition set_up :: "bool \<Rightarrow> 'r pg_server \<Rightarrow> 'r pg_server" where
  "set_up b s = s\<lparr>sv_users := (sv_users s)\<lparr>db_up := b\<rparr>, sv_log := (sv_log s)\<lparr>pl_up := b\<rparr>\<rparr>"

inductive deploy_step :: "'r deployment \<Rightarrow> 'r deployment \<Rightarrow> bool" where
  start: "main ho db = (db', Inr (OnPostgres cfg s)) \<Longrightarrow> deploy_step (Stopped db) (Serving db' cfg s)"
| fatal: "main (ho :: 'r host) db = (db', Inl e) \<Longrightarrow> deploy_step (Stopped db) (Stopped db')"
| request: "deploy_step (Serving db cfg s) (Serving db cfg (fst (serve_on postgres_stores cfg env s r)))"
| flush: "n < length (pl_pending (sv_log s)) \<Longrightarrow>
    deploy_step (Serving db cfg s) (Serving db cfg (s\<lparr>sv_log := pg_flush n (sv_log s)\<rparr>))"
| outage: "deploy_step (Serving db cfg s) (Serving db cfg (set_up b s))"
| outage_stopped: "deploy_step (Stopped db) (Stopped (db\<lparr>nd_up := b\<rparr>))"
| stop: "deploy_step (Serving db cfg s) (Stopped (tables_after db s))"

inductive_cases stopped_step: "deploy_step (Stopped db) y"
inductive_cases serving_step: "deploy_step (Serving db cfg s) y"

definition deployed :: "'r deployment \<Rightarrow> bool" where
  "deployed x \<longleftrightarrow> (\<exists>up. deploy_step\<^sup>*\<^sup>* (Stopped (empty_db up)) x)"

fun account_rows :: "'r deployment \<Rightarrow> user_row list" where
  "account_rows (Stopped db) = rows_of (nd_users db)"
| "account_rows (Serving db cfg s) = db_users (sv_users s)"

fun audit_rows :: "'r deployment \<Rightarrow> audit_row list" where
  "audit_rows (Stopped db) = rows_of (nd_audit_logs db)"
| "audit_rows (Serving db cfg s) = pl_rows (sv_log s)"

fun deployment_ok :: "'r deployment \<Rightarrow> bool" where
  "deployment_ok (Stopped db) = (tables_ok db \<and> db_ok (users_db db))"
| "deployment_ok (Serving db cfg s) =
     (tables_ok db \<and> db_ok (sv_users s) \<and> migrated db = db \<and>
      db_organizations (sv_users s) = map fst default_organizations)"

lemma users_db_migrated:
  assumes "tables_ok db" "db_ok (users_db db)"
  shows "db_ok (users_db (migrated db))"
proof -
  have "organization_exists (users_db (migrated db)) r" if "organization_exists (users_db db) r" for r
    using that assms(1) by (auto simp: organization_exists_def users_db_def migrated_def tables_ok_def seeded_def
        rows_of_def split: option.splits)
  then show ?thesis using assms(2) by (simp add: db_ok_def) (simp add: users_db_def migrated_def)
qed

lemma main_not_memory:
  assumes "main ho db = (db', Inr (OnPostgres cfg s))"
  shows "ho_getenv ho ''DATABASE_URL'' \<noteq> []"
  using assms by (auto simp: main_in_memory map_sum_def split: sum.splits)

text \<open>What a start does to the database, whether the server then runs or not.\<close>

lemma main_cases:
  assumes "tables_ok db" and "main ho db = (db', out)"
  obtains (nothing) "db' = db" "\<nexists>cfg s. out = Inr (OnPostgres cfg s)"
  | (started) us where "nd_up db" "grown (users_db (migrated db)) us" "db' = (migrated db)\<lparr>nd_users := Some (db_users us)\<rparr>"
    "\<forall>cfg s. out = Inr (OnPostgres cfg s) \<longrightarrow> sv_users s = us \<and> sv_log s = audit_db (migrated db)"
proof -
  let ?url = "ho_getenv ho ''DATABASE_URL''"
  consider "?url = []" | "?url \<noteq> []" "\<not> nd_up db \<or> ho_open ho ?url \<noteq> None"
    | "?url \<noteq> []" "ho_open ho ?url = None" "nd_up db" by blast
  then show thesis
  proof cases
    case 1
    then have "db' = db \<and> (\<nexists>cfg s. out = Inr (OnPostgres cfg s))"
      using assms(2) main_in_memory [of ho db] by (cases "load_service ho") auto
    then show thesis by (elim conjE) (rule nothing)
  next
    case 2
    then have "db' = db \<and> (\<nexists>cfg s. out = Inr (OnPostgres cfg s))"
      using assms(2) main_unconnected [of ho db] by auto
    then show thesis by (elim conjE) (rule nothing)
  next
    case 3
    obtain us where us: "grown (users_db (migrated db)) us"
      "main ho db = ((migrated db)\<lparr>nd_users := Some (db_users us)\<rparr>,
       map_sum id (\<lambda>key. case ho_pids ho of (i1, i2, i3) \<Rightarrow> OnPostgres (main_config ho key)
         \<lparr>sv_users = us, sv_engine = NewEngine i1 i2 i3, sv_log = audit_db (migrated db),
          sv_redis = ho_redis ho\<rparr>) (load_service ho))"
      by (rule main_on_postgres [OF 3(1,2) assms(1) 3(3)]) blast
    then show thesis using assms(2)
      by (intro started [of us, OF 3(3)]) (auto simp: map_sum_def split: sum.splits prod.splits)
  qed
qed

lemma start_ok:
  assumes "tables_ok db" "db_ok (users_db db)" "main ho db = (db', out)"
  shows "tables_ok db' \<and> db_ok (users_db db') \<and> prefix (rows_of (nd_users db)) (rows_of (nd_users db')) \<and>
    rows_of (nd_audit_logs db') = rows_of (nd_audit_logs db) \<and>
    (\<forall>cfg s. out = Inr (OnPostgres cfg s) \<longrightarrow> deployment_ok (Serving db' cfg s) \<and>
       db_users (sv_users s) = rows_of (nd_users db') \<and> pl_rows (sv_log s) = rows_of (nd_audit_logs db))"
  using assms(1,3)
proof (cases rule: main_cases)
  case nothing
  then show ?thesis using assms by auto
next
  case (started us)
  have "db_ok us" "db_organizations us = map fst default_organizations" "prefix (rows_of (nd_users db)) (db_users us)"
    "db_up us = nd_up db"
    using started(2) users_db_migrated [OF assms(1,2)]
    by (simp_all add: grown_def users_db_def migrated_def)
  moreover from this have "users_db db' = us"
    by (simp add: started(3)) (simp add: users_db_def migrated_def)
  ultimately show ?thesis
    using started(3,4) by (auto simp: tables_ok_def seeded_def migrated_def audit_db_def)
qed

lemma set_up_sel [simp]: "db_ok (sv_users (set_up b s)) = db_ok (sv_users s)"
  "db_organizations (sv_users (set_up b s)) = db_organizations (sv_users s)"
  "db_users (sv_users (set_up b s)) = db_users (sv_users s)" "pl_rows (sv_log (set_up b s)) = pl_rows (sv_log s)"
  by (simp_all add: set_up_def db_ok_def organization_exists_def cong: option.case_cong)

lemma serve_grown:
  "grown (sv_users s) (sv_users (fst (serve_on postgres_stores cfg env s r))) \<and>
   pl_rows (sv_log (fst (serve_on postgres_stores cfg env s r))) = pl_rows (sv_log s)"
  using serve_pg [of cfg env s r]
  by (cases "global_handler postgres_stores cfg env s (r\<lparr>hr_claims := None\<rparr>)") (auto simp: pg_kept_def grown_def)

lemma flush_appends: "prefix (pl_rows l) (pl_rows (pg_flush n l))"
  by (auto simp: pg_flush_def Let_def insert_audit_def split: option.splits if_splits)

lemma deploy_step_ok:
  assumes "deploy_step x y" "deployment_ok x"
  shows "deployment_ok y \<and> prefix (account_rows x) (account_rows y) \<and> prefix (audit_rows x) (audit_rows y)"
  using assms
proof (induction rule: deploy_step.induct)
  case (start ho db db' cfg s)
  then show ?case using start_ok [of db ho db' "Inr (OnPostgres cfg s)"] by auto
next
  case (fatal ho db db' e)
  then show ?case using start_ok [of db ho db' "Inl e"] by auto
next
  case (request db cfg s env r)
  then show ?case using serve_grown [of s cfg env r] by (simp add: grown_def)
next
  case (flush n s db cfg)
  then show ?case using flush_appends [of "sv_log s" n] by simp
next
  case (outage db cfg s b)
  then show ?case by simp
next
  case (outage_stopped db b)
  then show ?case
    by (auto simp: tables_ok_def users_db_def db_ok_def organization_exists_def split: option.splits)
next
  case (stop db cfg s)
  have "migrated (tables_after db s) = tables_after db s" "users_db (tables_after db s) = sv_users s"
    using stop by (simp_all add: migrated_iff) (simp_all add: tables_after_def users_db_def)
  then show ?case using stop by (auto simp: tables_after_def tables_ok_def)
qed

lemma deploy_steps_ok:
  assumes "deploy_step\<^sup>*\<^sup>* x y" "deployment_ok x"
  shows "deployment_ok y \<and> prefix (account_rows x) (account_rows y) \<and> prefix (audit_rows x) (audit_rows y)"
  using assms
proof (induction rule: rtranclp_induct)
  case (step y z)
  have "deployment_ok y" "prefix (account_rows x) (account_rows y)" "prefix (audit_rows x) (audit_rows y)"
    using step.IH step.prems by simp_all
  moreover note deploy_step_ok [OF step.hyps(2) this(1)]
  ultimately show ?case by (auto intro: prefix_order.order_trans)
qed simp

lemma deployed_ok: "deployed x \<Longrightarrow> deployment_ok x"
proof -
  have "deployment_ok (Stopped (empty_db up))" for up
    by (simp add: empty_db_def tables_ok_def seeded_def users_db_def rows_of_def db_ok_def)
  then show "deployed x \<Longrightarrow> deployment_ok x" using deploy_steps_ok unfolding deployed_def by blast
qed

subsection \<open>Properties\<close>

lemma started_in_memory:
  assumes "snd (main ho db) = Inr (InMemory cfg s)"
  shows "ho_getenv ho ''DATABASE_URL'' = [] \<and> load_service ho = Inr (cf_key cfg) \<and>
    s = start_server cfg (ho_redis ho) (ho_salt ho) (ho_now ho) (ho_ids ho) (ho_pids ho)"
proof -
  have "ho_getenv ho ''DATABASE_URL'' = []"
    using assms by (auto simp: main_def Let_def split: sum.splits prod.splits if_splits)
  with assms main_in_memory [of ho db] show ?thesis
    by (cases "load_service ho") (auto simp: main_config_def)
qed

lemma started_on_postgres:
  assumes "tables_ok db" "main ho db = (db', Inr (OnPostgres cfg s))" "ho_pids ho = (i1, i2, i3)"
  obtains us where "ho_getenv ho ''DATABASE_URL'' \<noteq> []" "nd_up db" "load_service ho = Inr (cf_key cfg)"
    "cfg = main_config ho (cf_key cfg)" "sv_engine s = NewEngine i1 i2 i3" "sv_users s = us"
    "db' = (migrated db)\<lparr>nd_users := Some (db_users us)\<rparr>"
    "us = (if ho_getenv ho ''DEV_SEED'' = ''true''
       then seedDevUsers pg_ops (ho_lib ho) (ho_salt ho) (ho_now ho) (ho_ids ho) (users_db (migrated db))
       else users_db (migrated db))"
proof -
  have url: "ho_getenv ho ''DATABASE_URL'' \<noteq> []" using main_not_memory [OF assms(2)] .
  have "\<not> (\<not> nd_up db \<or> ho_open ho (ho_getenv ho ''DATABASE_URL'') \<noteq> None)"
    using main_unconnected [OF url, of db] assms(2) by fastforce
  then have up: "nd_up db" "ho_open ho (ho_getenv ho ''DATABASE_URL'') = None" by simp_all
  show thesis
    by (rule main_on_postgres [OF url up(2) assms(1) up(1)], rule that)
      (use url up assms(2,3) in \<open>auto simp: main_config_def map_sum_def split: sum.splits\<close>)
qed

lemma load_service_fails:
  "(\<exists>msg. load_service ho = Inl msg) \<longleftrightarrow> (\<exists>e. LoadSigningKey (ho_aws ho) (ho_getenv ho) = Inl e)"
  by (auto simp: load_service_def dest: LoadSigningKey_NewService split: sum.split)

text \<open>C20: A start is decided by the key and the database alone, and without \<open>DATABASE_URL\<close> it serves the
  server the other properties are about. It fails exactly when no signing key loads or, with
  \<open>DATABASE_URL\<close> set, the connection fails; in memory it never runs with an empty key and its state
  is a reachable one. The migrations never make it fail.\<close>

theorem start_outcome:
  assumes "deployed (Stopped db :: 'r deployment)"
  shows "((\<exists>msg. snd (main (ho :: 'r host) db) = Inl msg) \<longleftrightarrow>
      (\<exists>e. LoadSigningKey (ho_aws ho) (ho_getenv ho) = Inl e) \<or>
      ho_getenv ho ''DATABASE_URL'' \<noteq> [] \<and> (\<not> nd_up db \<or> ho_open ho (ho_getenv ho ''DATABASE_URL'') \<noteq> None)) \<and>
    (\<forall>cfg s. snd (main ho db) = Inr (InMemory cfg s) \<and>
       length (ho_ids ho) = 4 \<and> distinct (ho_ids ho) \<and> [] \<notin> set (ho_ids ho) \<longrightarrow>
       ho_getenv ho ''DATABASE_URL'' = [] \<and> cf_key cfg \<noteq> [] \<and> reachable cfg (ho_redis ho) s)"
proof
  have tables: "tables_ok db" using deployed_ok [OF assms] by simp
  let ?url = "ho_getenv ho ''DATABASE_URL''"
  consider "?url = []" | "?url \<noteq> []" "\<not> nd_up db \<or> ho_open ho ?url \<noteq> None"
    | "?url \<noteq> []" "nd_up db" "ho_open ho ?url = None" by blast
  then show "(\<exists>msg. snd (main ho db) = Inl msg) \<longleftrightarrow>
      (\<exists>e. LoadSigningKey (ho_aws ho) (ho_getenv ho) = Inl e) \<or>
      ?url \<noteq> [] \<and> (\<not> nd_up db \<or> ho_open ho ?url \<noteq> None)"
  proof cases
    case 1
    then show ?thesis unfolding load_service_fails [symmetric]
      by (simp add: main_in_memory map_sum_def split: sum.split)
  next
    case 2
    then show ?thesis using main_unconnected [OF 2] by auto
  next
    case 3
    have "\<exists>g. snd (main ho db) = map_sum id g (load_service ho)"
      by (rule main_on_postgres [OF 3(1,3) tables 3(2)]) auto
    then show ?thesis using 3 unfolding load_service_fails [symmetric]
      by (auto simp: map_sum_def split: sum.splits)
  qed
next
  show "\<forall>cfg s. snd (main ho db) = Inr (InMemory cfg s) \<and>
       length (ho_ids ho) = 4 \<and> distinct (ho_ids ho) \<and> [] \<notin> set (ho_ids ho) \<longrightarrow>
       ho_getenv ho ''DATABASE_URL'' = [] \<and> cf_key cfg \<noteq> [] \<and> reachable cfg (ho_redis ho) s"
    using started_in_memory load_service_key by (metis reachable.start)
qed

text \<open>C9: What a restart on PostgreSQL serves: the accounts as the earlier processes left them and, with
  \<open>DEV_SEED\<close> set, every demo account, whether it was there before or not; the audit log that was
  written; but exactly the three built-in policies, whatever policies the administrators had
  created. The policy table of migration 005 is never consulted.\<close>

theorem restart_state:
  assumes "deployed (Stopped db :: 'r deployment)" and "main (ho :: 'r host) db = (db', Inr (OnPostgres cfg s))"
    and "ho_pids ho = (i1, i2, i3)" "distinct [i1, i2, i3]"
  shows "db_ok (sv_users s) \<and> cf_key cfg \<noteq> [] \<and>
    (if ho_getenv ho ''DEV_SEED'' \<noteq> ''true'' then db_users (sv_users s) = rows_of (nd_users db)
     else prefix (rows_of (nd_users db)) (db_users (sv_users s)) \<and>
       (seedable (ho_lib ho) (ho_salt ho) (ho_ids ho) (users_db db) \<longrightarrow> fst ` set dev_seeds \<subseteq> names_of (sv_users s))) \<and>
    pl_rows (sv_log s) = rows_of (nd_audit_logs db) \<and>
    ran (sv_engine s) = set (seed_policies i1 i2 i3) \<and> nd_policies db' = Some policy_rows"
proof -
  have ok: "tables_ok db" "db_ok (users_db db)" using deployed_ok [OF assms(1)] by simp_all
  from started_on_postgres [OF ok(1) assms(2,3)] obtain us where us: "nd_up db" "load_service ho = Inr (cf_key cfg)"
    "sv_engine s = NewEngine i1 i2 i3" "sv_users s = us" "db' = (migrated db)\<lparr>nd_users := Some (db_users us)\<rparr>"
    "us = (if ho_getenv ho ''DEV_SEED'' = ''true''
       then seedDevUsers pg_ops (ho_lib ho) (ho_salt ho) (ho_now ho) (ho_ids ho) (users_db (migrated db))
       else users_db (migrated db))"
    by (metis (no_types, lifting))
  have users: "db_users (users_db (migrated db)) = rows_of (nd_users db)" "db_up (users_db (migrated db)) = nd_up db"
    by (simp_all add: users_db_def migrated_def)
  have live: "live (users_db (migrated db))"
    using users_db_migrated [OF ok] us(1) users by (simp add: live_def)
  have "fst ` set dev_seeds \<subseteq> names_of us"
    if "seedable (ho_lib ho) (ho_salt ho) (ho_ids ho) (users_db db)" "ho_getenv ho ''DEV_SEED'' = ''true''"
  proof -
    have "seedable (ho_lib ho) (ho_salt ho) (ho_ids ho) (users_db (migrated db))"
      using that(1) users by (simp add: seedable_def) (simp add: users_db_def)
    from seeds_named [OF live this] show ?thesis using us(6) that(2) by simp
  qed
  moreover have "db_ok (sv_users s)" "pl_rows (sv_log s) = rows_of (nd_audit_logs db)"
    "prefix (rows_of (nd_users db)) (db_users (sv_users s))"
    using start_ok [OF ok assms(2)] by simp_all
  moreover have "cf_key cfg \<noteq> []" "ran (sv_engine s) = set (seed_policies i1 i2 i3)"
    using load_service_key [OF us(2)] us(3) ran_NewEngine [OF assms(4)] by simp_all
  moreover have "nd_policies db' = Some policy_rows" by (simp add: us(5) migrated_def)
  moreover have "db_users (sv_users s) = rows_of (nd_users db)" if "ho_getenv ho ''DEV_SEED'' \<noteq> ''true''"
    using that us(4,6) users(1) by simp
  ultimately show ?thesis using us(4) by (cases "ho_getenv ho ''DEV_SEED'' = ''true''") simp_all
qed

text \<open>So the migrated policy for security managers never applies: they are denied everything.\<close>

lemma vault_policy_unused:
  assumes "ran e = set (seed_policies i1 i2 i3)" and "rq_role req = RoleSecurityManager"
  shows "rs_decision (Evaluate e order req) = DecisionDeny"
proof -
  have "set (range_over e order) \<subseteq> ran e"
    by (auto simp: range_over_def List.map_filter_def ran_def)
  moreover have "\<forall>p \<in> set (seed_policies i1 i2 i3). \<not> policy_matches p req"
    using assms(2) by (simp add: seed_policies_def policy_matches_def role_defs)
  ultimately have "filter (\<lambda>p. policy_matches p req) (range_over e order) = []"
    using assms(1) by (auto simp: filter_empty_conv)
  then show ?thesis by (simp add: Evaluate_def)
qed

text \<open>C8: Data survives: however processes start, fail, serve, stop or lose the database in between, no
  account and no written audit event is lost or changed. Between any two moments the rows of both
  tables are only appended to, and the users table keeps its constraints.\<close>

theorem data_survives:
  assumes "deployed x" and "deploy_step\<^sup>*\<^sup>* x y"
  shows "prefix (account_rows x) (account_rows y) \<and> prefix (audit_rows x) (audit_rows y) \<and>
    distinct (map ur_id (account_rows y)) \<and> distinct (map ur_username (account_rows y))"
proof -
  note run = deploy_steps_ok [OF assms(2) deployed_ok [OF assms(1)]]
  then have "deployment_ok y" by blast
  then have "distinct (map ur_id (account_rows y)) \<and> distinct (map ur_username (account_rows y))"
    by (cases y) (simp_all add: db_ok_def users_db_def)
  with run show ?thesis by blast
qed

lemma start_up:
  assumes "tables_ok db" "main ho db = (db', Inr (OnPostgres cfg s))"
  shows "db_up (sv_users s)"
  using assms(1,2)
proof (cases rule: main_cases)
  case (started us)
  then show ?thesis by (simp add: grown_def) (simp add: users_db_def migrated_def)
qed simp

subsection \<open>A concrete host\<close>

definition demo_vars :: "string \<Rightarrow> string" where
  "demo_vars k = (if k = ''DATABASE_URL'' then ''postgres://db'' else if k = ''JWT_SIGNING_KEY'' then ''k''
     else if k = ''DEV_SEED'' then ''true'' else [])"

definition demo_host :: "kv_redis host" where
  "demo_host = \<lparr>ho_getenv = demo_vars, ho_aws = (\<lambda>_. None), ho_open = (\<lambda>_. None),
     ho_redis_url = (\<lambda>_. Inr kv_ops), ho_ping = (\<lambda>_ _. None), ho_redis = [], ho_lib = hex_lib,
     ho_salt = ''salt'', ho_now = 1000, ho_ids = [''a'', ''b'', ''c'', ''d''], ho_pids = (''1'', ''2'', ''3'')\<rparr>"

definition memory_host :: "kv_redis host" where
  "memory_host = demo_host\<lparr>ho_getenv := demo_vars(''DATABASE_URL'' := [])\<rparr>"

lemma demo_service: "load_service demo_host = Inr ''k''" "load_service memory_host = Inr ''k''"
  by (simp_all add: load_service_def LoadSigningKey_def NewService_def demo_host_def memory_host_def demo_vars_def)

lemma demo_deployed: "deployed (Stopped (empty_db up))"
  unfolding deployed_def by blast

lemma demo_start:
  assumes "tables_ok db" "nd_up db"
  shows "\<exists>db' cfg s. main demo_host db = (db', Inr (OnPostgres cfg s))"
  by (rule main_on_postgres [OF _ _ assms, of demo_host])
    (simp_all add: demo_service, simp_all add: demo_host_def demo_vars_def)

lemma demo_seedable: "seedable hex_lib ''salt'' [''a'', ''b'', ''c'', ''d''] (users_db (empty_db True))"
proof -
  have "\<forall>(n, pw, role) \<in> set dev_seeds. bcrypt_generate hex_lib pw 12 ''salt'' \<noteq> None"
    by (simp add: dev_seeds_def hex_lib_def)
  then show ?thesis
    unfolding seedable_def
    by (simp add: hex_lib_fits dev_seeds_def users_db_def empty_db_def rows_of_def fits_varchar_def pg_chars_ascii
        char_code_def)
qed

lemma empty_tables: "tables_ok (empty_db up)" "nd_up (empty_db up) = up"
  using deployed_ok [OF demo_deployed, of up] by (simp_all add: empty_db_def)

lemma demo_first: "\<exists>db cfg s. main demo_host (empty_db True) = (db, Inr (OnPostgres cfg s))"
  by (rule demo_start) (simp_all add: empty_tables)

theorem start_outcome_witness:
  "\<exists>cfg s. snd (main memory_host (empty_db False)) = Inr (InMemory cfg s) \<and> reachable cfg [] s"
proof -
  have "\<nexists>e. LoadSigningKey (ho_aws memory_host) (ho_getenv memory_host) = Inl e"
    unfolding load_service_fails [symmetric] by (simp add: demo_service)
  then have "\<nexists>msg. snd (main memory_host (empty_db False)) = Inl msg"
    using start_outcome [OF demo_deployed [of False], of memory_host] by (simp add: memory_host_def)
  moreover have "\<nexists>cfg s. snd (main memory_host (empty_db False)) = Inr (OnPostgres cfg s)"
    by (simp add: main_in_memory memory_host_def demo_host_def map_sum_def split: sum.split)
  ultimately obtain cfg s where "snd (main memory_host (empty_db False)) = Inr (InMemory cfg s)"
    by (metis running.exhaust sum.exhaust)
  then show ?thesis
    using start_outcome [OF demo_deployed [of False], of memory_host] by (auto simp: memory_host_def demo_host_def)
qed

theorem restart_state_witness:
  "\<exists>db' cfg s. main demo_host (empty_db True) = (db', Inr (OnPostgres cfg s)) \<and>
     {''admin'', ''developer'', ''viewer'', ''secmgr''} \<subseteq> names_of (sv_users s) \<and>
     ran (sv_engine s) = set (seed_policies ''1'' ''2'' ''3'')"
proof -
  obtain db' cfg s where m: "main demo_host (empty_db True) = (db', Inr (OnPostgres cfg s))"
    using demo_first by (elim exE)
  have "ho_pids demo_host = (''1'', ''2'', ''3'')" "distinct [''1'', ''2'', ''3'']" "ho_getenv demo_host ''DEV_SEED'' = ''true''"
    by (simp_all add: demo_host_def demo_vars_def)
  moreover have "seedable (ho_lib demo_host) (ho_salt demo_host) (ho_ids demo_host) (users_db (empty_db True))"
    using demo_seedable by (simp add: demo_host_def)
  ultimately have "fst ` set dev_seeds \<subseteq> names_of (sv_users s) \<and> ran (sv_engine s) = set (seed_policies ''1'' ''2'' ''3'')"
    using restart_state [OF demo_deployed m] by simp
  moreover have "fst ` set dev_seeds = {''admin'', ''developer'', ''viewer'', ''secmgr''}"
    by (simp add: dev_seeds_def)
  ultimately show ?thesis using m by (intro exI [of _ db'] exI [of _ cfg] exI [of _ s]) simp
qed

text \<open>A first process stops and a second one starts.\<close>

theorem data_survives_witness:
  "\<exists>db cfg s db' cfg' s'. deployed (Serving db cfg (s :: kv_redis pg_server)) \<and>
     deploy_step (Stopped (tables_after db s)) (Serving db' cfg' (s' :: kv_redis pg_server)) \<and>
     prefix (db_users (sv_users s)) (db_users (sv_users s')) \<and>
     prefix (pl_rows (sv_log s)) (pl_rows (sv_log s'))"
proof -
  obtain db cfg s where m: "main demo_host (empty_db True) = (db, Inr (OnPostgres cfg s))"
    using demo_first by (elim exE)
  then have x: "deployed (Serving db cfg s)"
    unfolding deployed_def by (blast intro: deploy_step.start)
  have stop: "deploy_step (Serving db cfg s) (Stopped (tables_after db s))" by (rule deploy_step.stop)
  have "tables_ok (tables_after db s)" using deploy_step_ok [OF stop deployed_ok [OF x]] by simp
  moreover have "nd_up (tables_after db s)"
    using start_up [OF empty_tables(1) m] by (simp add: tables_after_def)
  ultimately obtain db' cfg' s' where "main demo_host (tables_after db s) = (db', Inr (OnPostgres cfg' s'))"
    using demo_start by fastforce
  then have start: "deploy_step (Stopped (tables_after db s)) (Serving db' cfg' s')" by (rule deploy_step.start)
  have "deploy_step\<^sup>*\<^sup>* (Serving db cfg s) (Serving db' cfg' s')"
    using stop start by (metis (no_types) r_into_rtranclp rtranclp.rtrancl_into_rtrancl)
  from data_survives [OF x this]
  have "prefix (db_users (sv_users s)) (db_users (sv_users s'))" "prefix (pl_rows (sv_log s)) (pl_rows (sv_log s'))"
    by simp_all
  with x start show ?thesis by blast
qed

end
