(* ===== verification/TotpPy.thy ===== *)
theory TotpPy
  imports Totp
begin

text \<open>
  The Python verifier \<open>security/totp_verify.py\<close>, with \<open>base64.b32decode\<close>, \<open>struct.pack\<close> and
  \<open>str.zfill\<close> as Python's library has them, on ASCII strings. Python integers are unbounded (\<open>int\<close>),
  and times are whole seconds, which is what \<open>int(timestamp)\<close> leaves. An exception is the \<open>Inl\<close> side.
\<close>

datatype py_error = ZeroDivisionError | ValueError | BinasciiError | StructError | TypeError

subsection \<open>Base32 as Python decodes it\<close>

definition py_space :: "char \<Rightarrow> bool" where
  "py_space c \<longleftrightarrow> is_space c \<or> 28 \<le> char_code c \<and> char_code c \<le> 31"

definition py_strip :: "string \<Rightarrow> string" where
  "py_strip s = rev (dropWhile py_space (rev (dropWhile py_space s)))"

definition rstrip_pad :: "string \<Rightarrow> string" where
  "rstrip_pad s = rev (dropWhile (\<lambda>c. c = CHR ''='') (rev s))"

text \<open>The inner loop: \<open>acc = (acc << 5) + b32rev[c]\<close>.\<close>

fun py_quanta :: "int \<Rightarrow> string \<Rightarrow> int option" where
  "py_quanta acc [] = Some acc"
| "py_quanta acc (c # cs) =
     (case b32_value c of None \<Rightarrow> None | Some v \<Rightarrow> py_quanta (push_bit 5 acc + uint v) cs)"

text \<open>\<open>acc.to_bytes(5)\<close>, big-endian.\<close>

definition to_bytes5 :: "int \<Rightarrow> byte list" where
  "to_bytes5 acc = map (\<lambda>i. word_of_int (drop_bit (8 * i) acc)) [4, 3, 2, 1, 0]"

text \<open>The outer loop over groups of eight; it leaves the last \<open>acc\<close> for the padding.\<close>

function py_groups :: "byte list \<Rightarrow> int \<Rightarrow> string \<Rightarrow> (byte list \<times> int) option" where
  "py_groups decoded acc s =
     (if s = [] then Some (decoded, acc)
      else case py_quanta 0 (take 8 s) of
          None \<Rightarrow> None
        | Some acc' \<Rightarrow> py_groups (decoded @ to_bytes5 acc') acc' (drop 8 s))"
  by pat_completeness auto
termination
  by (relation "measure (\<lambda>(d, a, s). length s)") auto

declare py_groups.simps [simp del]

definition b32decode :: "string \<Rightarrow> py_error + byte list" where
  "b32decode s0 =
     (if length s0 mod 8 \<noteq> 0 then Inl BinasciiError
      else let s = rstrip_pad s0; padchars = length s0 - length s
           in case py_groups [] 0 s of
                None \<Rightarrow> Inl BinasciiError
              | Some (decoded, acc) \<Rightarrow>
                  if padchars \<notin> {0, 1, 3, 4, 6} then Inl BinasciiError
                  else if padchars \<noteq> 0 \<and> decoded \<noteq> []
                  then let last5 = to_bytes5 (push_bit (5 * padchars) acc);
                           leftover = (43 - 5 * padchars) div 8
                       in Inr (take (length decoded - 5) decoded @ take leftover last5)
                  else Inr decoded)"

definition py_base32_decode :: "string \<Rightarrow> py_error + byte list" where
  "py_base32_decode secret =
     (if py_strip secret = [] then Inl ValueError
      else let clean = py_strip (to_upper secret);
               pad = length clean mod 8
           in b32decode (if pad \<noteq> 0 then clean @ replicate (8 - pad) (CHR ''='') else clean))"

subsection \<open>Passwords\<close>

definition py_hotp :: "byte list \<Rightarrow> int \<Rightarrow> nat \<Rightarrow> py_error + string" where
  "py_hotp key counter digits =
     (if counter < 0 \<or> 2 ^ 64 \<le> counter then Inl StructError
      else let mac = hmac_sha1 key (put_uint64 (word_of_int counter));
               offset = unat (last mac AND 0x0F);
               truncated = get_uint32 (take 4 (drop offset mac)) AND 0x7FFFFFFF
           in Inr (zero_pad digits (unat truncated mod 10 ^ digits)))"

definition generate_totp :: "string \<Rightarrow> int \<Rightarrow> nat \<Rightarrow> int \<Rightarrow> py_error + string" where
  "generate_totp secret time_step digits at =
     (if time_step = 0 then Inl ZeroDivisionError
      else case py_base32_decode secret of
        Inl e \<Rightarrow> Inl e
      | Inr key \<Rightarrow> py_hotp key (at div time_step) digits)"

text \<open>The loop over \<open>range(-window, window + 1)\<close>; \<open>compare_digest\<close> rejects a non-ASCII string.\<close>

fun py_window :: "byte list \<Rightarrow> int \<Rightarrow> string \<Rightarrow> int list \<Rightarrow> py_error + bool" where
  "py_window key counter code [] = Inr False"
| "py_window key counter code (delta # ds) =
     (case py_hotp key (counter + delta) (length code) of
        Inl e \<Rightarrow> Inl e
      | Inr expected \<Rightarrow>
          if \<not> list_all (\<lambda>c. char_code c < 128) code then Inl TypeError
          else if expected = code then Inr True else py_window key counter code ds)"

definition verify_totp :: "string \<Rightarrow> string \<Rightarrow> int \<Rightarrow> nat \<Rightarrow> int \<Rightarrow> py_error + bool" where
  "verify_totp secret code time_step window at =
     (if time_step = 0 then Inl ZeroDivisionError
      else case py_base32_decode secret of
        Inl e \<Rightarrow> Inl e
      | Inr key \<Rightarrow> py_window key (at div time_step) code [- int window..int window])"

subsection \<open>The two decoders agree\<close>

lemma quintet_bit: "unat (v :: byte) < 32 \<Longrightarrow> 5 \<le> n \<Longrightarrow> \<not> bit v n"
proof -
  assume v: "unat v < 32" and n: "5 \<le> n"
  have "take_bit 5 (unat v) = unat v" using v by (simp add: take_bit_nat_eq_self)
  then have "\<not> bit (unat v) n" using n by (metis bit_take_bit_iff not_le)
  then show ?thesis by (simp add: bit_unsigned_iff)
qed

lemma push_add: "unat (v :: byte) < 32 \<Longrightarrow> push_bit 5 acc + uint v = push_bit 5 acc OR uint v"
  by (rule disjunctive_add) (auto simp: bit_push_bit_iff bit_uint_iff dest: quintet_bit)

lemma byte_of_int_bit: "bit (word_of_int (drop_bit k x) :: byte) n \<longleftrightarrow> n < 8 \<and> bit x (k + n)"
  by (simp add: bit_word_of_int_iff bit_drop_bit_eq)

definition quintets_value :: "byte list \<Rightarrow> int" where
  "quintets_value = foldl (\<lambda>acc v. push_bit 5 acc + uint v) 0"

lemma to_bytes5_pack:
  assumes "list_all (\<lambda>v. unat v < 32) [a, b, c, d, e, f, g, h]"
  shows "to_bytes5 (quintets_value [a, b, c, d, e, f, g, h]) = b32_pack [a, b, c, d, e, f, g, h]"
proof -
  have v: "quintets_value [a, b, c, d, e, f, g, h] =
      push_bit 5 (push_bit 5 (push_bit 5 (push_bit 5 (push_bit 5 (push_bit 5 (push_bit 5 (uint a)
        OR uint b) OR uint c) OR uint d) OR uint e) OR uint f) OR uint g) OR uint h"
  proof -
    have p: "unat v < 32 \<Longrightarrow> push_bit 5 acc + uint v = push_bit 5 acc OR uint v" for acc and v :: byte
      by (rule push_add)
    from assms have h: "unat a < 32" "unat b < 32" "unat c < 32" "unat d < 32" "unat e < 32" "unat f < 32"
      "unat g < 32" "unat h < 32" by simp_all
    show ?thesis
      by (simp only: quintets_value_def foldl.simps h [THEN p] push_bit_of_0 add_0)
  qed
  have nb: "\<not> bit a n" "\<not> bit b n" "\<not> bit c n" "\<not> bit d n" "\<not> bit e n" "\<not> bit f n" "\<not> bit g n" "\<not> bit h n"
    if "5 \<le> n" for n using assms quintet_bit that by auto
  show ?thesis
    unfolding to_bytes5_def b32_pack.simps v list.map list.inject
    by (intro conjI; (rule byte_eqI; unfold byte_of_int_bit bit_or_iff bit_push_bit_iff bit_drop_bit_eq
            bit_uint_iff o_def; elim insertE emptyE; simp add: nb)?) (simp_all add: eval_nat_numeral)
qed

lemma to_bytes5_length [simp]: "length (to_bytes5 acc) = 5"
  by (simp add: to_bytes5_def)

lemma py_quanta_values:
  "py_quanta acc s = map_option (foldl (\<lambda>acc v. push_bit 5 acc + uint v) acc) (those (map b32_value s))"
  by (induction s arbitrary: acc) (auto simp: option.map_comp comp_def split: option.split)

lemma those_values_small:
  "those (map b32_value s) = Some vs \<Longrightarrow> length vs = length s \<and> list_all (\<lambda>v. unat v < 32) vs"
proof (induction s arbitrary: vs)
  case (Cons c s)
  then obtain v ws where "b32_value c = Some v" "those (map b32_value s) = Some ws" "vs = v # ws"
    by (auto split: option.splits)
  moreover from this(1) have "unat v < 32"
    by (auto simp: b32_value_def Let_def unat_of_nat simp del: of_nat_diff split: if_splits)
  ultimately show ?case using Cons.IH by simp
qed simp

text \<open>Go, on a group that is not the last: padding is not allowed.\<close>

lemma b32_quantum_inner:
  "16 \<le> j + length src \<Longrightarrow> j \<le> 8 \<Longrightarrow> b32_quantum j acc src =
     (case those (map b32_value (take (8 - j) src)) of
        None \<Rightarrow> None
      | Some vs \<Rightarrow> Some (acc @ vs, False, drop (8 - j) src))"
proof (induction j acc src rule: b32_quantum.induct)
  case (1 j acc src)
  show ?case
  proof (cases "j = 8")
    case True
    then show ?thesis by (simp add: b32_quantum.simps [of 8])
  next
    case False
    with "1.prems" have j: "j < 8" by simp
    obtain c cs where src: "src = c # cs" using "1.prems" j by (cases src) auto
    have inner: "\<not> (c = CHR ''='' \<and> j \<ge> 2 \<and> length cs < 8)" using "1.prems"(1) src j by auto
    have take: "take (8 - j) src = c # take (8 - Suc j) cs" "drop (8 - j) src = drop (8 - Suc j) cs"
      using j src by (simp_all add: take_Cons' drop_Cons')
    show ?thesis
    proof (cases "b32_value c")
      case None
      with inner j src take show ?thesis by (auto simp: b32_quantum.simps [of j])
    next
      case (Some v)
      have "b32_quantum (Suc j) (acc @ [v]) cs = (case those (map b32_value (take (8 - Suc j) cs)) of
          None \<Rightarrow> None | Some vs \<Rightarrow> Some ((acc @ [v]) @ vs, False, drop (8 - Suc j) cs))"
        using "1.prems" src j by (intro "1.IH" [OF _ src inner Some]) auto
      with Some inner j src take show ?thesis
        by (auto simp: b32_quantum.simps [of j] split: option.split)
    qed
  qed
qed

lemma b32_decode_inner:
  assumes "length q = 8" and "8 \<le> length rest"
  shows "b32_decode (q @ rest) = (case those (map b32_value q) of
      None \<Rightarrow> None
    | Some vs \<Rightarrow> map_option (append (b32_pack vs)) (b32_decode rest))"
  using b32_quantum_inner [of 0 "q @ rest" "[]"] assms
  by (subst b32_decode.simps) (auto split: option.split)

text \<open>Go, on the last group: the padding has to fill it, at one of the legal places.\<close>

lemma b32_value_pad [simp]: "b32_value (CHR ''='') = None"
  by (simp add: b32_value_def char_code_def)

lemma b32_quantum_last:
  "j + length body + k = 8 \<Longrightarrow> body = [] \<or> last body \<noteq> CHR ''='' \<Longrightarrow>
   b32_quantum j acc (body @ replicate k (CHR ''='')) =
     (case those (map b32_value body) of
        None \<Rightarrow> None
      | Some vs \<Rightarrow> if k = 0 then Some (acc @ vs, False, [])
          else if k \<in> {1, 3, 4, 6} then Some (acc @ vs, True, replicate (k - 1) (CHR ''=''))
          else None)"
proof (induction body arbitrary: j acc)
  case Nil
  show ?case
  proof (cases k)
    case 0
    with Nil show ?thesis by (simp add: b32_quantum.simps [of 8])
  next
    case (Suc m)
    with Nil have j: "j = 7 - m" "m \<le> 7" by simp_all
    then have "m \<in> {0, 1, 2, 3, 4, 5, 6, 7}" by auto
    with j show ?thesis
      unfolding Suc replicate_Suc append_Nil
      by (subst b32_quantum.simps) (auto simp: list_all_iff)
  qed
next
  case (Cons c body)
  have j: "j < 8" using Cons.prems(1) by simp
  show ?case
  proof (cases "c = CHR ''=''")
    case True
    with Cons.prems(2) have "body \<noteq> []" "last body \<noteq> CHR ''=''" by (auto split: if_splits)
    moreover have "last body \<in> set (take (7 - j) (body @ replicate k (CHR ''='')))"
      using Cons.prems(1) \<open>body \<noteq> []\<close> by simp
    ultimately have "\<not> list_all (\<lambda>x. x = CHR ''='') (take (7 - j) (body @ replicate k (CHR ''='')))"
      unfolding list_all_iff by blast
    with True j show ?thesis by (subst b32_quantum.simps) auto
  next
    case False
    show ?thesis
    proof (cases "b32_value c")
      case None
      with False j show ?thesis by (subst b32_quantum.simps) auto
    next
      case (Some v)
      have "b32_quantum (Suc j) (acc @ [v]) (body @ replicate k (CHR ''='')) =
        (case those (map b32_value body) of
            None \<Rightarrow> None
          | Some vs \<Rightarrow> if k = 0 then Some ((acc @ [v]) @ vs, False, [])
              else if k \<in> {1, 3, 4, 6} then Some ((acc @ [v]) @ vs, True, replicate (k - 1) (CHR ''=''))
              else None)"
        using Cons.prems by (intro Cons.IH) auto
      with False j Some show ?thesis by (subst b32_quantum.simps) (auto split: option.split)
    qed
  qed
qed

lemma b32_decode_last:
  assumes "length body + k = 8" and "body = [] \<or> last body \<noteq> CHR ''=''"
  shows "b32_decode (body @ replicate k (CHR ''='')) =
    (case those (map b32_value body) of
       None \<Rightarrow> None
     | Some vs \<Rightarrow> if k \<in> {0, 1, 3, 4, 6} then Some (b32_pack vs) else None)"
proof -
  have "body @ replicate k (CHR ''='') \<noteq> []" using assms(1) by (cases k) auto
  then show ?thesis
    using b32_quantum_last [of 0 body k "[]"] assms
    by (subst b32_decode.simps) (auto simp: b32_decode.simps [of "[]"] split: option.split)
qed

text \<open>Python, group by group.\<close>

lemma py_groups_prefix:
  "py_groups (d0 @ d) acc s = map_option (\<lambda>(d', a). (d0 @ d', a)) (py_groups d acc s)"
proof (induction d acc s rule: py_groups.induct)
  case (1 d acc s)
  show ?case
  proof (cases "s = []")
    case True
    then show ?thesis by (simp add: py_groups.simps)
  next
    case False
    show ?thesis
    proof (cases "py_quanta 0 (take 8 s)")
      case None
      with False show ?thesis by (simp add: py_groups.simps [of _ _ s])
    next
      case (Some acc')
      with "1.IH" [OF False Some] False show ?thesis by (simp add: py_groups.simps [of _ acc s])
    qed
  qed
qed

lemma py_groups_acc: "s \<noteq> [] \<Longrightarrow> py_groups d acc s = py_groups d 0 s"
  by (simp add: py_groups.simps [of _ _ s])

lemma py_groups_length: "py_groups d acc s = Some (d', a) \<Longrightarrow> s \<noteq> [] \<Longrightarrow> length d + 5 \<le> length d'"
proof (induction d acc s rule: py_groups.induct)
  case (1 d acc s)
  then obtain acc' where acc': "py_quanta 0 (take 8 s) = Some acc'"
    "py_groups (d @ to_bytes5 acc') acc' (drop 8 s) = Some (d', a)"
    by (subst (asm) py_groups.simps) (auto split: option.splits)
  show ?case
  proof (cases "drop 8 s = []")
    case True
    with acc'(2) show ?thesis by (subst (asm) py_groups.simps) auto
  next
    case False
    from "1.IH" [OF "1.prems"(2) acc'(1,2) False] show ?thesis by simp
  qed
qed

lemma rstrip_pad_append:
  "rstrip_pad (q @ rest) = (if rstrip_pad rest = [] then rstrip_pad q else q @ rstrip_pad rest)"
  by (simp add: rstrip_pad_def dropWhile_append dropWhile_eq_Nil_conv)

lemma rstrip_pad_split:
  obtains k where "s = rstrip_pad s @ replicate k (CHR ''='')" "rstrip_pad s = [] \<or> last (rstrip_pad s) \<noteq> CHR ''=''"
    "length s = length (rstrip_pad s) + k"
proof -
  define pad where "pad = takeWhile (\<lambda>c. c = CHR ''='') (rev s)"
  have split: "s = rstrip_pad s @ rev pad"
    unfolding rstrip_pad_def pad_def by (metis rev_append rev_rev_ident takeWhile_dropWhile_id)
  have "\<forall>c \<in> set pad. c = CHR ''=''" unfolding pad_def by (auto dest: set_takeWhileD)
  then have pad: "rev pad = replicate (length pad) (CHR ''='')"
    by (intro replicate_eqI) simp_all
  have "rstrip_pad s = [] \<or> last (rstrip_pad s) \<noteq> CHR ''=''"
    using hd_dropWhile [of "\<lambda>c. c = CHR ''=''" "rev s"] by (auto simp: rstrip_pad_def last_rev)
  moreover have "length s = length (rstrip_pad s) + length pad"
    using arg_cong [OF split, of length] by simp
  ultimately show thesis using that [of "length pad"] split pad by simp
qed

lemma rstrip_pad_body [simp]:
  "body = [] \<or> last body \<noteq> CHR ''='' \<Longrightarrow> rstrip_pad (body @ replicate k (CHR ''='')) = body"
  by (cases body rule: rev_cases) (auto simp: rstrip_pad_def dropWhile_append dropWhile_eq_Nil_conv)

lemma list8: "length ws = 8 \<longleftrightarrow> (\<exists>a b c d e f g h. ws = [a, b, c, d, e, f, g, h])"
  by (auto simp: length_Suc_conv eval_nat_numeral)

lemma to_bytes5_value:
  "length ws = 8 \<Longrightarrow> list_all (\<lambda>v. unat v < 32) ws \<Longrightarrow> to_bytes5 (quintets_value ws) = b32_pack ws"
  unfolding list8 using to_bytes5_pack by blast

lemma quintets_zeros: "quintets_value (vs @ replicate k 0) = push_bit (5 * k) (quintets_value vs)"
proof (induction k)
  case (Suc k)
  have "vs @ replicate (Suc k) 0 = (vs @ replicate k 0) @ [0]" by (simp add: replicate_append_same)
  then have "quintets_value (vs @ replicate (Suc k) 0) = push_bit 5 (quintets_value (vs @ replicate k 0))"
    by (simp add: quintets_value_def)
  then show ?case using Suc by (simp add: add.commute)
qed simp

text \<open>The bytes of a padded group are the leftover of the group filled with zeros.\<close>

lemma short_lists:
  "length vs = 7 \<longleftrightarrow> (\<exists>a b c d e f g. vs = [a, b, c, d, e, f, g])"
  "length vs = 5 \<longleftrightarrow> (\<exists>a b c d e. vs = [a, b, c, d, e])"
  "length vs = 4 \<longleftrightarrow> (\<exists>a b c d. vs = [a, b, c, d])" "length vs = 2 \<longleftrightarrow> (\<exists>a b. vs = [a, b])"
  by (auto simp: length_Suc_conv eval_nat_numeral)

lemma zero_pads:
  "replicate 3 x = [x, x, x]" "replicate 4 x = [x, x, x, x]" "replicate 6 x = [x, x, x, x, x, x]"
  by (simp_all add: eval_nat_numeral)

lemma b32_pack_leftover:
  assumes "length vs + k = 8" and "k \<in> {1, 3, 4, 6}"
  shows "take ((43 - 5 * k) div 8) (b32_pack (vs @ replicate k 0)) = b32_pack vs"
proof -
  from assms consider "k = 1" "length vs = 7" | "k = 3" "length vs = 5" | "k = 4" "length vs = 4" | "k = 6" "length vs = 2"
    by auto
  then show ?thesis
  proof cases
    case 1
    then show ?thesis unfolding short_lists by auto
  next
    case 2
    then show ?thesis unfolding short_lists by (auto simp: zero_pads)
  next
    case 3
    then show ?thesis unfolding short_lists by (auto simp: zero_pads)
  next
    case 4
    then show ?thesis unfolding short_lists by (auto simp: zero_pads)
  qed
qed

lemma py_groups_one:
  assumes "length body \<le> 8" and "body \<noteq> []"
  shows "py_groups [] 0 body = map_option (\<lambda>vs. (to_bytes5 (quintets_value vs), quintets_value vs)) (those (map b32_value body))"
  using assms by (simp add: py_groups.simps [of _ _ body] py_groups.simps [of _ _ "[]"] py_quanta_values
      quintets_value_def split: option.split)

lemma b32decode_last:
  assumes len: "length body + k = 8" and last: "body = [] \<or> last body \<noteq> CHR ''=''"
  shows "b32decode (body @ replicate k (CHR ''='')) =
    (case those (map b32_value body) of
       None \<Rightarrow> Inl BinasciiError
     | Some vs \<Rightarrow> if k \<in> {0, 1, 3, 4, 6} then Inr (b32_pack vs) else Inl BinasciiError)"
proof (cases "body = [] \<or> those (map b32_value body) = None")
  case True
  then consider "body = []" | "body \<noteq> []" "those (map b32_value body) = None" by auto
  then show ?thesis
  proof cases
    case 1
    have "rstrip_pad (replicate 8 (CHR ''='')) = []" using rstrip_pad_body [of "[]" 8] by simp
    with 1 show ?thesis using len by (auto simp: b32decode_def py_groups.simps [of _ _ "[]"] Let_def)
  next
    case 2
    then show ?thesis using len last py_groups_one [of body] by (simp add: b32decode_def Let_def)
  qed
next
  case False
  then obtain vs where vs: "those (map b32_value body) = Some vs" and ne: "body \<noteq> []" by blast
  from those_values_small [OF vs] have small: "length vs = length body" "list_all (\<lambda>v. unat v < 32) vs" by simp_all
  have groups: "py_groups [] 0 body = Some (to_bytes5 (quintets_value vs), quintets_value vs)"
    using py_groups_one [of body] len ne vs by simp
  have whole: "to_bytes5 (push_bit (5 * k) (quintets_value vs)) = b32_pack (vs @ replicate k 0)"
    unfolding quintets_zeros [symmetric] using small len by (intro to_bytes5_value) (auto simp: list_all_iff)
  have bytes: "to_bytes5 (quintets_value vs) = b32_pack vs" if "k = 0"
    using whole that by simp
  have ne5: "to_bytes5 (quintets_value vs) \<noteq> []"
    using to_bytes5_length [of "quintets_value vs"] by (metis list.size(3) zero_neq_numeral)
  have part: "take ((43 - 5 * k) div 8) (to_bytes5 (push_bit (5 * k) (quintets_value vs))) = b32_pack vs"
    if "k \<in> {1, 3, 4, 6}"
    unfolding whole using b32_pack_leftover [of vs k] small(1) len that by simp
  let ?s = "body @ replicate k (CHR ''='')" and ?five = "to_bytes5 (quintets_value vs)"
  have s: "rstrip_pad ?s = body" "length ?s - length body = k" "length ?s mod 8 = 0"
    using last len by simp_all
  have "b32decode ?s =
    (if k \<notin> {0, 1, 3, 4, 6} then Inl BinasciiError
     else if k \<noteq> 0 \<and> ?five \<noteq> []
     then Inr (take (length ?five - 5) ?five @
         take ((43 - 5 * k) div 8) (to_bytes5 (push_bit (5 * k) (quintets_value vs))))
     else Inr ?five)"
    unfolding b32decode_def Let_def s groups by simp
  then show ?thesis using vs ne5 bytes part by (cases "k = 0") auto
qed

lemma b32decode_inner:
  assumes q: "length q = 8" and rest: "8 \<le> length rest" "length rest mod 8 = 0"
  shows "b32decode (q @ rest) = (case those (map b32_value q) of
      None \<Rightarrow> Inl BinasciiError
    | Some vs \<Rightarrow> map_sum id (append (b32_pack vs)) (b32decode rest))"
proof (cases "rstrip_pad rest = []")
  case True
  obtain k where k: "rest = replicate k (CHR ''='')" "k = length rest"
    using rstrip_pad_split [of rest] True by (metis append_Nil length_replicate)
  obtain k' where k': "length q = length (rstrip_pad q) + k'" by (rule rstrip_pad_split [of q])
  have "b32decode rest = Inl BinasciiError"
    using True rest by (auto simp: b32decode_def py_groups.simps [of _ _ "[]"] Let_def)
  moreover have "length (q @ rest) - length (rstrip_pad (q @ rest)) \<notin> {0, 1, 3, 4, 6}"
    using True rest k' q by (auto simp: rstrip_pad_append)
  then have "b32decode (q @ rest) = Inl BinasciiError"
    unfolding b32decode_def Let_def by (auto split: option.split)
  ultimately show ?thesis by (simp split: option.split)
next
  case False
  let ?r = "rstrip_pad rest"
  have strip: "rstrip_pad (q @ rest) = q @ ?r" using False by (simp add: rstrip_pad_append)
  have len: "length ?r \<le> length rest" using rstrip_pad_split [of rest] by (metis le_add1)
  show ?thesis
  proof (cases "those (map b32_value q)")
    case None
    then have "py_groups [] 0 (q @ ?r) = None"
      using q by (subst py_groups.simps) (auto simp: py_quanta_values)
    with None q rest(2) strip show ?thesis by (simp add: b32decode_def Let_def)
  next
    case (Some vs)
    from those_values_small [OF Some] have vs: "length vs = 8" "list_all (\<lambda>v. unat v < 32) vs" using q by simp_all
    have "py_groups [] 0 (q @ ?r) = py_groups (b32_pack vs) (quintets_value vs) ?r"
      using q Some to_bytes5_value [OF vs]
      by (subst py_groups.simps) (auto simp: py_quanta_values quintets_value_def)
    also have "\<dots> = map_option (\<lambda>(d', a). (b32_pack vs @ d', a)) (py_groups [] 0 ?r)"
      using py_groups_prefix [of "b32_pack vs" "[]" "quintets_value vs" ?r]
        py_groups_acc [OF False, of "[]" "quintets_value vs"] by simp
    finally have g: "py_groups [] 0 (q @ ?r) =
      map_option (\<lambda>(d', a). (b32_pack vs @ d', a)) (py_groups [] 0 ?r)" .
    show ?thesis
    proof (cases "py_groups [] 0 ?r")
      case None
      with g Some q rest(2) strip show ?thesis by (simp add: b32decode_def Let_def)
    next
      case (Some p)
      obtain d a where p: "p = (d, a)" by (cases p)
      with Some py_groups_length [of "[]" 0 ?r d a] False have "5 \<le> length d" "d \<noteq> []" by auto
      with Some p g \<open>those (map b32_value q) = Some vs\<close> q rest(2) strip len show ?thesis
        by (auto simp: b32decode_def Let_def)
    qed
  qed
qed

text \<open>The decoders of the two languages agree on every text of whole groups, errors included.\<close>

lemma b32decode_Go:
  "length s mod 8 = 0 \<Longrightarrow> b32decode s = (case b32_decode s of None \<Rightarrow> Inl BinasciiError | Some bs \<Rightarrow> Inr bs)"
proof (induction "length s" arbitrary: s rule: less_induct)
  case less
  consider "s = []" | "length s = 8" | "16 \<le> length s"
    using less.prems by (cases "length s < 16") (auto simp: mod_if split: if_splits)
  then show ?case
  proof cases
    case 1
    then show ?thesis
      by (simp add: b32decode_def rstrip_pad_def py_groups.simps b32_decode.simps [of "[]"])
  next
    case 2
    obtain k where k: "s = rstrip_pad s @ replicate k (CHR ''='')"
      "rstrip_pad s = [] \<or> last (rstrip_pad s) \<noteq> CHR ''=''" "length s = length (rstrip_pad s) + k"
      by (rule rstrip_pad_split)
    then have "length (rstrip_pad s) + k = 8" using 2 by simp
    from b32decode_last [OF this k(2)] b32_decode_last [OF this k(2)] show ?thesis
      unfolding k(1) [symmetric] by (auto split: option.split)
  next
    case 3
    let ?q = "take 8 s" and ?r = "drop 8 s"
    have r: "length ?q = 8" "8 \<le> length ?r" "length ?r mod 8 = 0"
      using 3 less.prems by (simp_all add: le_mod_geq)
    have "b32decode ?r = (case b32_decode ?r of None \<Rightarrow> Inl BinasciiError | Some bs \<Rightarrow> Inr bs)"
      using 3 r(3) by (intro less.hyps) auto
    then have "b32decode (?q @ ?r) = (case b32_decode (?q @ ?r) of None \<Rightarrow> Inl BinasciiError | Some bs \<Rightarrow> Inr bs)"
      unfolding b32decode_inner [OF r] b32_decode_inner [OF r(1,2)] by (auto split: option.split)
    then show ?thesis by simp
  qed
qed

subsection \<open>The two verifiers agree\<close>

text \<open>A secret of printable ASCII characters, not blank. (Go takes a blank secret for the empty key,
  which Python rejects; Python also strips four control characters.)\<close>

definition printable_secret :: "string \<Rightarrow> bool" where
  "printable_secret s \<longleftrightarrow> (\<forall>c \<in> set s. 32 \<le> char_code c \<and> char_code c < 127) \<and> trim_space s \<noteq> []"

lemma dropWhile_subset: "set (dropWhile P xs) \<subseteq> set xs"
  by (auto dest: set_dropWhileD)

lemma py_strip_printable:
  assumes "\<forall>c \<in> set s. 32 \<le> char_code c \<and> char_code c < 127"
  shows "py_strip s = trim_space s"
proof -
  have *: "dropWhile py_space xs = dropWhile is_space xs" if "\<forall>c \<in> set xs. 32 \<le> char_code c" for xs
    using that by (intro dropWhile_cong) (auto simp: py_space_def)
  have "\<forall>c \<in> set (rev (dropWhile is_space s)). 32 \<le> char_code c"
    using assms dropWhile_subset [of is_space s] by auto
  moreover have "trim_space s = rev (dropWhile is_space (rev (dropWhile is_space s)))"
    using assms by (intro trim_space_ascii) auto
  ultimately show ?thesis using * [of s] * [of "rev (dropWhile is_space s)"] assms
    by (simp add: py_strip_def)
qed

lemma upper_char_code: "32 \<le> char_code c \<Longrightarrow> char_code c < 127 \<Longrightarrow> 32 \<le> char_code (upper_char c) \<and> char_code (upper_char c) < 127"
  by (auto simp: upper_char_def char_code_def)

lemma upper_char_space: "is_space (upper_char c) = is_space c"
  by (auto simp: upper_char_def is_space_def char_code_def)

lemma strip_upper:
  assumes "\<forall>c \<in> set s. 32 \<le> char_code c \<and> char_code c < 127"
  shows "py_strip (to_upper s) = to_upper (trim_space s)"
proof -
  have u: "\<forall>c \<in> set (to_upper s). 32 \<le> char_code c \<and> char_code c < 127"
    using assms upper_char_code by (auto simp: to_upper_def)
  then have "trim_space (to_upper s) = rev (dropWhile is_space (rev (dropWhile is_space (to_upper s))))"
    by (intro trim_space_ascii) auto
  moreover have "trim_space s = rev (dropWhile is_space (rev (dropWhile is_space s)))"
    using assms by (intro trim_space_ascii) auto
  ultimately show ?thesis
    using py_strip_printable [of "to_upper s"] u
    by (simp add: to_upper_def dropWhile_map rev_map o_def upper_char_space)
qed

lemma py_base32_decode_Go:
  assumes "printable_secret s"
  shows "py_base32_decode s = (case base32Decode s of None \<Rightarrow> Inl BinasciiError | Some bs \<Rightarrow> Inr bs)"
proof -
  have s: "\<forall>c \<in> set s. 32 \<le> char_code c \<and> char_code c < 127" and ne: "trim_space s \<noteq> []"
    using assms by (simp_all add: printable_secret_def)
  let ?u = "to_upper (trim_space s)"
  have u: "\<forall>c \<in> set ?u. 32 \<le> char_code c"
    using assms set_trim_space [of s] upper_char_code by (auto simp: printable_secret_def to_upper_def)
  have clean: "py_strip s = trim_space s" "py_strip (to_upper s) = ?u"
    using py_strip_printable [OF s] strip_upper [OF s] by simp_all
  let ?p = "if length ?u mod 8 \<noteq> 0 then ?u @ replicate (8 - length ?u mod 8) (CHR ''='') else ?u"
  have "length ?p mod 8 = 0"
  proof -
    have "(n + (8 - n mod 8)) mod 8 = 0" for n :: nat
      by (metis (no_types, opaque_lifting) add.commute add_diff_inverse_nat mod_add_right_eq mod_less_divisor
          mod_self not_less_iff_gr_or_eq zero_less_numeral)
    then show ?thesis by simp
  qed
  moreover have "filter (\<lambda>c. char_code c \<noteq> 10 \<and> char_code c \<noteq> 13) ?p = ?p"
    using u by (intro filter_True) (auto simp: char_code_def split: if_splits)
  ultimately show ?thesis
    using b32decode_Go [of ?p] ne by (simp only: py_base32_decode_def base32Decode_def b32_DecodeString_def Let_def clean if_False)
qed

lemma py_hotp_Go:
  assumes "0 \<le> c" "c < 2 ^ 64"
  shows "\<exists>otp. py_hotp key c 6 = Inr otp \<and> hotp key (word_of_int c) 6 = Inr otp"
proof -
  let ?h = "hmac_sha1 key (put_uint64 (word_of_int c))"
  define m where "m = get_uint32 (take 4 (drop (unat (last ?h AND 0x0F)) ?h)) AND 0x7FFFFFFF"
  have "hotp key (word_of_int c) 6 = Inr (zero_pad 6 (unat (m mod 1000000)))"
    by (simp add: hotp_def Let_def hotp_slice m_def)
  moreover have "py_hotp key c 6 = Inr (zero_pad 6 (unat m mod 10 ^ 6))"
    using assms by (simp add: py_hotp_def Let_def m_def)
  moreover have "unat (m mod 1000000) = unat m mod 10 ^ 6" by (simp add: unat_mod)
  ultimately show ?thesis by simp
qed

lemma py_window_Go:
  assumes "length code = 6" and "list_all (\<lambda>c. char_code c < 128) code"
    and "\<forall>d \<in> set ds. 0 \<le> c + d \<and> c + d < 2 ^ 64"
  shows "\<exists>b. py_window key c code ds = Inr b \<and> verify_window key c code ds = Inr b"
  using assms(3)
proof (induction ds)
  case (Cons d ds)
  from Cons.prems py_hotp_Go [of "c + d" key] obtain otp where
    "py_hotp key (c + d) 6 = Inr otp" "hotp key (word_of_int (c + d)) 6 = Inr otp" by auto
  with Cons assms(1,2) show ?case by auto
qed (auto intro: exI [of _ False])

text \<open>C28: The Python verifier agrees with the server's: for every printable secret, decodable or not, every
  six-character ASCII code and every time from the second time step on, it gives the same verdict, and
  it rejects the secrets Go rejects; the passwords the two generate are equal.\<close>

theorem python_agrees:
  assumes "printable_secret secret" and "length code = 6" and "list_all (\<lambda>c. char_code c < 128) code"
    and "30 \<le> at" and "at < 2 ^ 63"
  shows "verify_totp secret code 30 1 at = map_sum (\<lambda>_. BinasciiError) id (VerifyTOTP secret code at) \<and>
    generate_totp secret 30 6 at = map_sum (\<lambda>_. BinasciiError) id (GenerateTOTP secret at)"
proof (cases "base32Decode secret")
  case None
  then show ?thesis
    using py_base32_decode_Go [OF assms(1)]
    by (simp add: verify_totp_def VerifyTOTP_def generate_totp_def GenerateTOTP_def)
next
  case (Some key)
  let ?c = "at div 30"
  have c: "1 \<le> ?c" "?c < 2 ^ 63"
    using assms(4,5) by (simp_all add: div_int_pos_iff) 
  have step: "go_div at totpTimeStep = ?c"
    using assms(4) by (simp add: go_div_def totpTimeStep_def)
  obtain b where "py_window key ?c code [-1, 0, 1] = Inr b" "verify_window key ?c code [-1, 0, 1] = Inr b"
    using py_window_Go [OF assms(2,3), of "[-1, 0, 1]" ?c key] c by auto
  moreover have "[- int 1..int 1] = [-1, 0, 1]" by (simp add: upto_rec1)
  moreover obtain otp where "py_hotp key ?c 6 = Inr otp" "hotp key (word_of_int ?c) 6 = Inr otp"
    using py_hotp_Go [of ?c key] c by auto
  ultimately show ?thesis
    using Some py_base32_decode_Go [OF assms(1)] counter_of_time [of at] assms(4,5)
    by (simp add: verify_totp_def VerifyTOTP_def generate_totp_def GenerateTOTP_def step)
qed

lemma zero_pad_1: "n < 10 \<Longrightarrow> length (zero_pad 1 n) = 1 \<and> list_all is_digit (zero_pad 1 n)"
  using zero_pad_length [of 1 n] by simp

text \<open>The length of the submitted code decides how many digits are compared: for every secret that
  decodes there is a one-digit code that the verifier accepts, from the second time step on. In the
  first time step it raises instead, even for the right code.\<close>

theorem python_code_length:
  assumes "py_base32_decode secret = Inr key"
  shows "(30 \<le> at \<and> at < 2 ^ 63 \<longrightarrow>
      (\<exists>code. length code = 1 \<and> list_all is_digit code \<and> verify_totp secret code 30 1 at = Inr True)) \<and>
    (0 \<le> at \<and> at < 30 \<longrightarrow> (\<forall>code. verify_totp secret code 30 1 at = Inl StructError))"
proof (intro conjI impI allI)
  have window: "[- 1..1 :: int] = [-1, 0, 1]" by (simp add: upto_rec1)
  { assume t: "30 \<le> at \<and> at < 2 ^ 63"
    then have c: "0 \<le> at div 30 - 1" "at div 30 - 1 < 2 ^ 64" by (linarith, simp, linarith)
    then obtain n where otp: "py_hotp key (at div 30 - 1) 1 = Inr (zero_pad 1 (n mod 10))"
      by (simp add: py_hotp_def Let_def)
    have len: "length (zero_pad 1 (n mod 10)) = 1" "list_all is_digit (zero_pad 1 (n mod 10))"
      using zero_pad_1 [of "n mod 10"] by simp_all
    then have "list_all (\<lambda>c. char_code c < 128) (zero_pad 1 (n mod 10))"
      by (auto simp: list_all_iff is_digit_def)
    then have "verify_totp secret (zero_pad 1 (n mod 10)) 30 1 at = Inr True"
      using otp len assms by (simp add: verify_totp_def window)
    with len show "\<exists>code. length code = 1 \<and> list_all is_digit code \<and> verify_totp secret code 30 1 at = Inr True"
      by blast }
  fix code assume "0 \<le> at \<and> at < 30"
  then have "at div 30 = 0" by simp
  then show "verify_totp secret code 30 1 at = Inl StructError"
    using assms by (simp add: verify_totp_def window py_hotp_def)
qed

lemma printable_demo: "printable_secret ''AAAAAAAA''"
  by (simp add: printable_secret_def trim_space_ascii is_space_def char_code_def)

theorem python_agrees_witness:
  "verify_totp ''AAAAAAAA'' ''287082'' 30 1 59 = map_sum (\<lambda>_. BinasciiError) id (VerifyTOTP ''AAAAAAAA'' ''287082'' 59) \<and>
   generate_totp ''AAAAAAAA'' 30 6 59 = map_sum (\<lambda>_. BinasciiError) id (GenerateTOTP ''AAAAAAAA'' 59)"
  by (rule python_agrees [OF printable_demo]) (simp_all add: char_code_def)

theorem python_code_length_witness:
  "(\<exists>code. length code = 1 \<and> verify_totp ''AAAAAAAA'' code 30 1 59 = Inr True) \<and>
   verify_totp ''AAAAAAAA'' ''287082'' 30 1 29 = Inl StructError"
proof -
  have "py_strip ''AAAAAAAA'' = ''AAAAAAAA''" "to_upper ''AAAAAAAA'' = ''AAAAAAAA''"
    by (simp_all add: py_strip_def py_space_def is_space_def char_code_def to_upper_def upper_char_def)
  moreover have "those (map b32_value ''AAAAAAAA'') = Some (replicate 8 0)"
    by (simp add: b32_value_def char_code_def eval_nat_numeral)
  ultimately have "py_base32_decode ''AAAAAAAA'' = Inr (b32_pack (replicate 8 0))"
    using b32decode_last [of "''AAAAAAAA''" 0] by (simp add: py_base32_decode_def)
  from python_code_length [OF this, of 59] python_code_length [OF this, of 29] show ?thesis by auto
qed

end
