(* ===== verification/PoliciesPage.thy ===== *)
theory PoliciesPage
  imports AuthProvider
begin

text \<open>
  \<open>frontend/src/pages/PoliciesPage.tsx\<close>: the policy list, the creation form and the evaluation
  sandbox. Handlers that await the API are split into a start, which yields the request, and the
  continuation of its reply.
\<close>

subsection \<open>Numbers typed by the user\<close>

text \<open>\<open>parseInt\<close> on decimal text (what number and range inputs deliver): white space, a sign, and
  the longest run of digits; \<open>None\<close> is NaN.\<close>

definition js_parseInt :: "string \<Rightarrow> int option" where
  "js_parseInt v =
     (let t = dropWhile is_space v;
          neg = starts_with ''-'' t;
          ds = takeWhile is_digit (if neg \<or> starts_with ''+'' t then tl t else t)
      in if ds = [] then None
         else Some (if neg then - int (nat_of_digits ds) else int (nat_of_digits ds)))"

definition js_show_number :: "int option \<Rightarrow> string" where
  "js_show_number n = (case n of None \<Rightarrow> ''NaN'' | Some i \<Rightarrow> js_int_string i)"

subsection \<open>State\<close>

record policies_page =
  pg_policies :: "ui_policy list"
  pg_loading :: bool
  pg_showCreateForm :: bool
  pg_policyName :: string
  pg_targetRole :: string
  pg_targetApp :: string
  pg_requireMFA :: bool
  pg_requireTrusted :: bool
  pg_maxRisk :: int
  pg_sandboxApp :: string
  pg_sandboxTrusted :: bool
  pg_sandboxMFA :: bool
  pg_sandboxRisk :: "int option"
  pg_sandboxResult :: "access_response option"
  pg_evaluating :: bool

definition policies_page_init :: policies_page where
  "policies_page_init =
     \<lparr>pg_policies = [], pg_loading = True, pg_showCreateForm = False, pg_policyName = [],
      pg_targetRole = ''developer'', pg_targetApp = ''aws-console'', pg_requireMFA = True,
      pg_requireTrusted = True, pg_maxRisk = 70, pg_sandboxApp = ''aws-console'',
      pg_sandboxTrusted = True, pg_sandboxMFA = True, pg_sandboxRisk = Some 25,
      pg_sandboxResult = None, pg_evaluating = False\<rparr>"

datatype policies_msg =
    ToggleForm
  | SetPolicyName string | SetTargetRole string | SetTargetApp string
  | SetRequireMFA bool | SetRequireTrusted bool | SetMaxRisk string
  | SubmitPolicy
  | DeleteClicked string
  | SetSandboxApp string | SetSandboxTrusted bool | SetSandboxMFA bool | SetSandboxRisk string
  | RunEvaluation

text \<open>What a handler asks of the world besides changing the state.\<close>

datatype policies_cmd = Fetch fetch_call | Alert string

subsection \<open>Handlers\<close>

definition fetchPolicies :: "api_client \<Rightarrow> policies_page \<Rightarrow> policies_page \<times> policies_cmd list" where
  "fetchPolicies c s = (s\<lparr>pg_loading := True\<rparr>, [Fetch (api_listPolicies c)])"

definition fetchPolicies_reply :: "(ui_policy list \<times> nat) fetch_result \<Rightarrow> policies_page \<Rightarrow> policies_page" where
  "fetchPolicies_reply res s =
     (case read_result ''policies'' res of
        Inr (ps, _) \<Rightarrow> s\<lparr>pg_policies := ps, pg_loading := False\<rparr>
      | Inl _ \<Rightarrow> s\<lparr>pg_loading := False\<rparr>)"

fun policies_value :: "(ui_policy list \<times> nat) fetch_result \<Rightarrow> ui_policy list option" where
  "policies_value (HttpOk (Some (ps, n))) = Some ps"
| "policies_value _ = None"

interpretation policy_page: last_reply_wins fetchPolicies_reply pg_policies policies_value
proof
  show "pg_policies (fetchPolicies_reply r s) = (case policies_value r of None \<Rightarrow> pg_policies s | Some v \<Rightarrow> v)" for r s
    by (cases r rule: policies_value.cases) (simp_all add: fetchPolicies_reply_def reply_defs null_read_def)
qed

definition alert_error :: "thrown \<Rightarrow> policies_cmd list" where
  "alert_error t = (case t of ErrorObj msg \<Rightarrow> [Alert msg] | OtherThrown \<Rightarrow> [])"

definition new_policy :: "policies_page \<Rightarrow> ui_policy" where
  "new_policy s =
     \<lparr>up_id = [], up_name = pg_policyName s, up_role = pg_targetRole s, up_application = pg_targetApp s,
      up_require_mfa = pg_requireMFA s, up_require_trusted_device = pg_requireTrusted s,
      up_max_risk_score = pg_maxRisk s, up_decision = ALLOW, up_enabled = True\<rparr>"

definition handleCreatePolicy :: "api_client \<Rightarrow> policies_page \<Rightarrow> policies_page \<times> policies_cmd list" where
  "handleCreatePolicy c s = (s, [Fetch (api_createPolicy c (new_policy s))])"

definition handleCreatePolicy_reply ::
    "api_client \<Rightarrow> ui_policy fetch_result \<Rightarrow> policies_page \<Rightarrow> policies_page \<times> policies_cmd list" where
  "handleCreatePolicy_reply c res s =
     (case request_result res of
        Inr _ \<Rightarrow> fetchPolicies c (s\<lparr>pg_showCreateForm := False, pg_policyName := []\<rparr>)
      | Inl t \<Rightarrow> (s, alert_error t))"

text \<open>\<open>confirmed\<close> is the user's answer to the confirmation dialog.\<close>

definition handleDeletePolicy ::
    "api_client \<Rightarrow> bool \<Rightarrow> string \<Rightarrow> policies_page \<Rightarrow> policies_page \<times> policies_cmd list" where
  "handleDeletePolicy c confirmed i s =
     (if \<not> confirmed then (s, []) else (s, [Fetch (api_deletePolicy c i)]))"

definition handleDeletePolicy_reply ::
    "api_client \<Rightarrow> string fetch_result \<Rightarrow> policies_page \<Rightarrow> policies_page \<times> policies_cmd list" where
  "handleDeletePolicy_reply c res s =
     (case request_result res of
        Inr _ \<Rightarrow> fetchPolicies c s
      | Inl t \<Rightarrow> (s, alert_error t))"

definition sandbox_request :: "policies_page \<Rightarrow> access_request" where
  "sandbox_request s =
     \<lparr>aq_application = pg_sandboxApp s, aq_device_trusted = pg_sandboxTrusted s,
      aq_mfa_verified = pg_sandboxMFA s, aq_risk_score = pg_sandboxRisk s\<rparr>"

definition handleRunEvaluation :: "api_client \<Rightarrow> policies_page \<Rightarrow> policies_page \<times> policies_cmd list" where
  "handleRunEvaluation c s =
     (s\<lparr>pg_evaluating := True\<rparr>, [Fetch (api_checkAccess c (sandbox_request s))])"

definition handleRunEvaluation_reply :: "access_response fetch_result \<Rightarrow> policies_page \<Rightarrow> policies_page" where
  "handleRunEvaluation_reply res s =
     (case request_result res of
        Inr r \<Rightarrow> s\<lparr>pg_sandboxResult := r, pg_evaluating := False\<rparr>
      | Inl (ErrorObj msg) \<Rightarrow>
          s\<lparr>pg_sandboxResult := Some \<lparr>ap_decision = DENY, ap_reason = msg, ap_policy_id = None\<rparr>,
            pg_evaluating := False\<rparr>
      | Inl OtherThrown \<Rightarrow> s\<lparr>pg_evaluating := False\<rparr>)"

fun policies_update ::
    "api_client \<Rightarrow> bool \<Rightarrow> policies_msg \<Rightarrow> policies_page \<Rightarrow> policies_page \<times> policies_cmd list" where
  "policies_update c ok ToggleForm s = (s\<lparr>pg_showCreateForm := \<not> pg_showCreateForm s\<rparr>, [])"
| "policies_update c ok (SetPolicyName v) s = (s\<lparr>pg_policyName := v\<rparr>, [])"
| "policies_update c ok (SetTargetRole v) s = (s\<lparr>pg_targetRole := v\<rparr>, [])"
| "policies_update c ok (SetTargetApp v) s = (s\<lparr>pg_targetApp := v\<rparr>, [])"
| "policies_update c ok (SetRequireMFA b) s = (s\<lparr>pg_requireMFA := b\<rparr>, [])"
| "policies_update c ok (SetRequireTrusted b) s = (s\<lparr>pg_requireTrusted := b\<rparr>, [])"
| "policies_update c ok (SetMaxRisk v) s =
     (s\<lparr>pg_maxRisk := (case js_parseInt v of None \<Rightarrow> 0 | Some i \<Rightarrow> i)\<rparr>, [])"
| "policies_update c ok SubmitPolicy s = handleCreatePolicy c s"
| "policies_update c ok (DeleteClicked i) s = handleDeletePolicy c ok i s"
| "policies_update c ok (SetSandboxApp v) s = (s\<lparr>pg_sandboxApp := v\<rparr>, [])"
| "policies_update c ok (SetSandboxTrusted b) s = (s\<lparr>pg_sandboxTrusted := b\<rparr>, [])"
| "policies_update c ok (SetSandboxMFA b) s = (s\<lparr>pg_sandboxMFA := b\<rparr>, [])"
| "policies_update c ok (SetSandboxRisk v) s = (s\<lparr>pg_sandboxRisk := js_parseInt v\<rparr>, [])"
| "policies_update c ok RunEvaluation s = handleRunEvaluation c s"

definition canManagePolicies :: "auth_state \<Rightarrow> bool" where
  "canManagePolicies a = hasRole a [Admin, SecurityManager, SuperAdmin]"

subsection \<open>View\<close>

definition policies_header :: "auth_state \<Rightarrow> policies_page \<Rightarrow> policies_msg node" where
  "policies_header a s =
    El ''div'' [Attr ''className'' ''page-header''] ([
        El ''div'' [] [
          El ''h1'' [Attr ''className'' ''page-title''] [Txt ''Policy-Based Access Control (PBAC)''],
          El ''p'' [Attr ''className'' ''page-subtitle''] [
            Txt
              ''Fine-grained access control policies evaluating contextual factors (MFA, Device Trust, Risk Score)'']]]
        @ (if canManagePolicies a
          then [
          El ''button'' [OnClick ToggleForm, Attr ''className'' ''btn btn-primary'']
            ([El ''Plus'' [Attr ''size'' ''16''] []]
              @ (if pg_showCreateForm s then [Txt ''Cancel''] else [Txt ''Create Access Policy'']))]
          else []))"

definition policies_form :: "policies_page \<Rightarrow> policies_msg node" where
  "policies_form s =
    El ''div'' [
      Attr ''className'' ''card'',
      Style [(''marginBottom'', ''28px''), (''border'', ''1px solid var(--accent-blue)'')]] [
      El ''div'' [Attr ''className'' ''card-header''] [
        El ''div'' [Attr ''className'' ''card-title''] [
          El ''Plus'' [Attr ''size'' ''18'', Attr ''color'' ''#3b82f6''] [],
          Txt ''Define New Security Policy'']],
      El ''form'' [OnSubmit SubmitPolicy] [
        El ''div'' [Attr ''className'' ''grid-2''] [
          El ''div'' [Attr ''className'' ''form-group''] [
            El ''label'' [Attr ''className'' ''form-label''] [Txt ''Policy Name''],
            El ''input'' [
              Attr ''type'' ''text'',
              Attr ''value'' (pg_policyName s),
              OnChange SetPolicyName,
              Attr ''placeholder'' ''e.g., Strict Vault Access Rule'',
              Flag ''required'' True] []],
          El ''div'' [Attr ''className'' ''form-group''] [
            El ''label'' [Attr ''className'' ''form-label''] [Txt ''Target Role''],
            El ''select'' [Attr ''value'' (pg_targetRole s), OnChange SetTargetRole] [
              El ''option'' [Attr ''value'' ''developer''] [Txt ''Developer''],
              El ''option'' [Attr ''value'' ''admin''] [Txt ''Administrator''],
              El ''option'' [Attr ''value'' ''security_manager''] [Txt ''Security Manager''],
              El ''option'' [Attr ''value'' ''analyst''] [Txt ''Analyst''],
              El ''option'' [Attr ''value'' ''viewer''] [Txt ''Viewer''],
              El ''option'' [Attr ''value'' ''*''] [Txt ''Wildcard (* - All Roles)'']]],
          El ''div'' [Attr ''className'' ''form-group''] [
            El ''label'' [Attr ''className'' ''form-label''] [Txt ''Application Resource''],
            El ''select'' [Attr ''value'' (pg_targetApp s), OnChange SetTargetApp] [
              El ''option'' [Attr ''value'' ''aws-console''] [
                Txt ''AWS Management Console (aws-console)''],
              El ''option'' [Attr ''value'' ''prod-db''] [
                Txt ''Production PostgreSQL Database (prod-db)''],
              El ''option'' [Attr ''value'' ''secrets-vault''] [
                Txt ''Cloud Secrets Vault (secrets-vault)''],
              El ''option'' [Attr ''value'' ''reporting-dashboard''] [
                Txt ''Reporting Dashboard (reporting-dashboard)''],
              El ''option'' [Attr ''value'' ''*''] [Txt ''Wildcard (* - All Resources)'']]],
          El ''div'' [Attr ''className'' ''form-group''] [
            El ''label'' [Attr ''className'' ''form-label''] [
              Txt ''Max Allowed Risk Score (0 = No limit)''],
            El ''input'' [
              Attr ''type'' ''number'',
              Attr ''min'' ''0'',
              Attr ''max'' ''100'',
              Attr ''value'' (js_int_string (pg_maxRisk s)),
              OnChange SetMaxRisk] []]],
        El ''div'' [Style [(''display'', ''flex''), (''gap'', ''24px''), (''margin'', ''16px 0'')]] [
          El ''label'' [
            Style [
              (''display'', ''flex''),
              (''alignItems'', ''center''),
              (''gap'', ''8px''),
              (''cursor'', ''pointer''),
              (''fontSize'', ''14px'')]] [
            El ''input'' [
              Attr ''type'' ''checkbox'',
              Flag ''checked'' (pg_requireMFA s),
              OnCheck SetRequireMFA,
              Style [(''width'', ''auto'')]] [],
            Txt ''Require MFA Verification''],
          El ''label'' [
            Style [
              (''display'', ''flex''),
              (''alignItems'', ''center''),
              (''gap'', ''8px''),
              (''cursor'', ''pointer''),
              (''fontSize'', ''14px'')]] [
            El ''input'' [
              Attr ''type'' ''checkbox'',
              Flag ''checked'' (pg_requireTrusted s),
              OnCheck SetRequireTrusted,
              Style [(''width'', ''auto'')]] [],
            Txt ''Require Trusted Device'']],
        El ''button'' [
          Attr ''type'' ''submit'',
          Attr ''className'' ''btn btn-primary'',
          Style [(''marginTop'', ''8px'')]] [Txt ''Save Policy to Cluster'']]]"

definition sandbox_inputs :: "policies_page \<Rightarrow> policies_msg node" where
  "sandbox_inputs s =
    El ''div'' [Attr ''className'' ''grid-3'', Style [(''marginBottom'', ''16px'')]] [
      El ''div'' [Attr ''className'' ''form-group''] [
        El ''label'' [Attr ''className'' ''form-label''] [Txt ''Target Resource''],
        El ''select'' [Attr ''value'' (pg_sandboxApp s), OnChange SetSandboxApp] [
          El ''option'' [Attr ''value'' ''aws-console''] [Txt ''aws-console''],
          El ''option'' [Attr ''value'' ''prod-db''] [Txt ''prod-db''],
          El ''option'' [Attr ''value'' ''secrets-vault''] [Txt ''secrets-vault''],
          El ''option'' [Attr ''value'' ''reporting-dashboard''] [Txt ''reporting-dashboard'']]],
      El ''div'' [Attr ''className'' ''form-group''] [
        El ''label'' [Attr ''className'' ''form-label''] [
          Txt ''Simulated Risk Score: '',
          Txt (js_show_number (pg_sandboxRisk s)),
          Txt '' / 100''],
        El ''input'' [
          Attr ''type'' ''range'',
          Attr ''min'' ''0'',
          Attr ''max'' ''100'',
          Attr ''value'' (js_show_number (pg_sandboxRisk s)),
          OnChange SetSandboxRisk,
          Style [(''accentColor'', ''#3b82f6'')]] []],
      El ''div'' [
        Style [
          (''display'', ''flex''),
          (''flexDirection'', ''column''),
          (''justifyContent'', ''center''),
          (''gap'', ''8px'')]] [
        El ''label'' [
          Style [
            (''display'', ''flex''),
            (''alignItems'', ''center''),
            (''gap'', ''8px''),
            (''cursor'', ''pointer''),
            (''fontSize'', ''13px'')]] [
          El ''input'' [
            Attr ''type'' ''checkbox'',
            Flag ''checked'' (pg_sandboxMFA s),
            OnCheck SetSandboxMFA,
            Style [(''width'', ''auto'')]] [],
          Txt ''MFA Verified (TOTP)''],
        El ''label'' [
          Style [
            (''display'', ''flex''),
            (''alignItems'', ''center''),
            (''gap'', ''8px''),
            (''cursor'', ''pointer''),
            (''fontSize'', ''13px'')]] [
          El ''input'' [
            Attr ''type'' ''checkbox'',
            Flag ''checked'' (pg_sandboxTrusted s),
            OnCheck SetSandboxTrusted,
            Style [(''width'', ''auto'')]] [],
          Txt ''Device Trusted'']]]"

definition sandbox_result :: "access_response \<Rightarrow> policies_msg node" where
  "sandbox_result res =
    El ''div'' [
      Attr ''className'' (''alert ''
          @ (if ap_decision res = ALLOW
            then ''alert-success''
            else (if ap_decision res = REQUIRE_MFA then ''alert-info'' else ''alert-danger''))),
      Style [(''margin'', ''0'')]] ((if ap_decision res = ALLOW
          then [El ''CheckCircle2'' [Attr ''size'' ''22'', Style [(''flexShrink'', ''0'')]] []]
          else (if ap_decision res = REQUIRE_MFA
            then [El ''AlertTriangle'' [Attr ''size'' ''22'', Style [(''flexShrink'', ''0'')]] []]
            else [El ''XCircle'' [Attr ''size'' ''22'', Style [(''flexShrink'', ''0'')]] []]))
        @ [
        El ''div'' [] [
          El ''div'' [Style [(''fontWeight'', ''800''), (''fontSize'', ''14px'')]] [
            Txt ''DECISION: '',
            Txt (decision_name (ap_decision res))],
          El ''div'' [Style [(''fontSize'', ''13px''), (''marginTop'', ''2px'')]] [
            Txt ''Reason: '',
            Txt (ap_reason res)]]])"

definition policies_sandbox :: "policies_page \<Rightarrow> policies_msg node" where
  "policies_sandbox s =
    El ''div'' [Attr ''className'' ''card'', Style [(''marginBottom'', ''28px'')]]
      ([
        El ''div'' [Attr ''className'' ''card-header''] [
          El ''div'' [Attr ''className'' ''card-title''] [
            El ''Sliders'' [Attr ''size'' ''18'', Attr ''color'' ''#8b5cf6''] [],
            Txt ''Interactive Policy Evaluation Sandbox''],
          El ''span'' [Attr ''className'' ''badge badge-purple''] [Txt ''POST /api/v1/access/check'']],
        El ''p'' [
          Style [
            (''fontSize'', ''13px''),
            (''color'', ''var(--text-secondary)''),
            (''marginBottom'', ''20px'')]] [
          Txt
            ''Simulate an inbound access request with custom risk factors and verify real-time policy decisions.''],
        sandbox_inputs s,
        El ''button'' [
          OnClick RunEvaluation,
          Flag ''disabled'' (pg_evaluating s),
          Attr ''className'' ''btn btn-primary'',
          Style [(''marginBottom'', ''16px'')]] ([El ''Play'' [Attr ''size'' ''15''] []]
            @ (if pg_evaluating s then [Txt ''Evaluating...''] else [Txt ''Evaluate Access Policy'']))]
        @ (case pg_sandboxResult s of Some res \<Rightarrow> [sandbox_result res] | None \<Rightarrow> []))"

definition policy_row :: "auth_state \<Rightarrow> ui_policy \<Rightarrow> policies_msg node" where
  "policy_row a p =
    El ''tr'' [] ([
        El ''td'' [] [
          El ''div'' [Style [(''fontWeight'', ''700'')]] [Txt (up_name p)],
          El ''div'' [Attr ''className'' ''code-inline'', Style [(''fontSize'', ''10px'')]] [
            Txt (take 14 (up_id p)),
            Txt ''...'']],
        El ''td'' [] [El ''span'' [Attr ''className'' ''badge badge-blue''] [Txt (up_role p)]],
        El ''td'' [Attr ''className'' ''code-inline''] [Txt (up_application p)],
        El ''td'' [] (if up_require_mfa p
            then [El ''span'' [Attr ''className'' ''badge badge-green''] [Txt ''Required'']]
            else [
            El ''span'' [Attr ''className'' ''badge'', Style [(''color'', ''var(--text-muted)'')]] [
              Txt ''Optional'']]),
        El ''td'' [] (if up_require_trusted_device p
            then [El ''span'' [Attr ''className'' ''badge badge-green''] [Txt ''Required'']]
            else [
            El ''span'' [Attr ''className'' ''badge'', Style [(''color'', ''var(--text-muted)'')]] [
              Txt ''Optional'']]),
        El ''td'' [] (if up_max_risk_score p > 0
            then [
            El ''span'' [Attr ''className'' ''badge badge-amber''] [
              Txt ''< '',
              Txt (js_int_string (up_max_risk_score p))]]
            else [
            El ''span'' [Style [(''color'', ''var(--text-muted)''), (''fontSize'', ''12px'')]] [
              Txt ''None'']]),
        El ''td'' [] [
          El ''span'' [Attr ''className'' ''badge badge-green''] [Txt (decision_name (up_decision p))]]]
        @ (if canManagePolicies a
          then [
          El ''td'' [] [
            El ''button'' [
              OnClick (DeleteClicked (up_id p)),
              Attr ''className'' ''btn btn-danger'',
              Style [(''padding'', ''4px 8px'')],
              Attr ''title'' ''Delete Policy''] [El ''Trash2'' [Attr ''size'' ''14''] []]]]
          else []))"

definition policies_table :: "auth_state \<Rightarrow> policies_page \<Rightarrow> policies_msg node" where
  "policies_table a s =
    El ''div'' [Attr ''className'' ''card''] [
      El ''div'' [Attr ''className'' ''card-header''] [
        El ''div'' [Attr ''className'' ''card-title''] [
          El ''FileCheck'' [Attr ''size'' ''18'', Attr ''color'' ''#10b981''] [],
          Txt ''Active Policy Cluster Rules''],
        El ''span'' [Attr ''className'' ''badge badge-green''] [
          Txt (show_nat (length (pg_policies s))),
          Txt '' Active Rules'']],
      El ''div'' [Attr ''className'' ''table-container''] [
        El ''table'' [] [
          El ''thead'' [] [
            El ''tr'' [] ([
                El ''th'' [] [Txt ''Policy Rule''],
                El ''th'' [] [Txt ''Role''],
                El ''th'' [] [Txt ''Application''],
                El ''th'' [] [Txt ''MFA Required''],
                El ''th'' [] [Txt ''Trusted Device''],
                El ''th'' [] [Txt ''Max Risk''],
                El ''th'' [] [Txt ''Action'']]
                @ (if canManagePolicies a then [El ''th'' [] [Txt ''Manage'']] else []))],
          El ''tbody'' [] (if pg_loading s
              then [
              El ''tr'' [] [
                El ''td'' [
                  Attr ''colSpan'' ''8'',
                  Style [(''textAlign'', ''center''), (''padding'', ''32px'')]] [
                  Txt ''Loading active policies...'']]]
              else (if pg_policies s \<noteq> []
                then map (\<lambda>p. policy_row a p) (pg_policies s)
                else [
                El ''tr'' [] [
                  El ''td'' [
                    Attr ''colSpan'' ''8'',
                    Style [
                      (''textAlign'', ''center''),
                      (''padding'', ''32px''),
                      (''color'', ''var(--text-muted)'')]] [Txt ''No policies defined.'']]]))]]]"

definition PoliciesPage_view :: "auth_state \<Rightarrow> policies_page \<Rightarrow> policies_msg node" where
  "PoliciesPage_view a s =
    El ''div'' [] ([policies_header a s]
        @ (if pg_showCreateForm s then [policies_form s] else [])
        @ [policies_sandbox s, policies_table a s])"

subsection \<open>What the page offers\<close>

lemma policies_form_clicks [simp]: "clicks (policies_form s) = [SubmitPolicy]"
  by (simp add: policies_form_def)

lemma policies_header_clicks [simp]:
  "clicks (policies_header a s) = (if canManagePolicies a then [ToggleForm] else [])"
  by (simp add: policies_header_def)

lemma sandbox_clicks [simp]:
  "clicks (sandbox_inputs s) = []" "clicks (sandbox_result res) = []"
  "clicks (policies_sandbox s) = (if pg_evaluating s then [] else [RunEvaluation])"
  by (simp_all add: sandbox_inputs_def sandbox_result_def policies_sandbox_def split: option.split)

lemma policy_row_clicks [simp]:
  "clicks (policy_row a p) = (if canManagePolicies a then [DeleteClicked (up_id p)] else [])"
  by (simp add: policy_row_def)

lemma policies_table_clicks [simp]:
  "clicks (policies_table a s) =
     (if \<not> pg_loading s \<and> canManagePolicies a then map (\<lambda>p. DeleteClicked (up_id p)) (pg_policies s) else [])"
  by (simp add: policies_table_def clicks_all_map)

text \<open>The page offers policy management to exactly the roles the server allows it: deleting a
  policy is on offer if and only if the list is loaded, the policy is in it and the user's role
  is one of the server's policy managers, and the button that opens the creation form if and
  only if the role is; running the sandbox is on offer to everyone unless it is running.\<close>

theorem policies_page_offers:
  assumes "au_user a = Some u"
  shows "(DeleteClicked i \<in> set (clicks (PoliciesPage_view a s)) \<longleftrightarrow>
      \<not> pg_loading s \<and> (\<exists>p \<in> set (pg_policies s). up_id p = i) \<and>
      role_name (uu_role u) \<in> {RoleAdmin, RoleSecurityManager, RoleSuperAdmin}) \<and>
    (ToggleForm \<in> set (clicks (PoliciesPage_view a s)) \<longleftrightarrow>
      role_name (uu_role u) \<in> {RoleAdmin, RoleSecurityManager, RoleSuperAdmin}) \<and>
    (RunEvaluation \<in> set (clicks (PoliciesPage_view a s)) \<longleftrightarrow> \<not> pg_evaluating s)"
proof -
  have can: "canManagePolicies a \<longleftrightarrow> role_name (uu_role u) \<in> {RoleAdmin, RoleSecurityManager, RoleSuperAdmin}"
    using assms by (cases "uu_role u") (simp_all add: canManagePolicies_def hasRole_def role_defs)
  show ?thesis
    unfolding can [symmetric] by (auto simp: PoliciesPage_view_def)
qed

theorem policies_page_offers_witness:
  "DeleteClicked [] \<in> set (clicks (PoliciesPage_view (session_as SecurityManager)
      (policies_page_init\<lparr>pg_policies := [sample_policy], pg_loading := False\<rparr>))) \<and>
   DeleteClicked [] \<notin> set (clicks (PoliciesPage_view (session_as Developer)
      (policies_page_init\<lparr>pg_policies := [sample_policy], pg_loading := False\<rparr>)))"
proof -
  show ?thesis
    using policies_page_offers [OF session_as_simps(2)] by (simp add: sample_policy_def role_defs)
qed

text \<open>C23: What the creation form submits is what the server stores: for a named policy with a
  risk limit whose text is within the 64-bit range, the server's handler, called by a policy manager with the
  submitted body, creates a policy with the form's fields, the decision ALLOW and the flag enabled, under the
  fresh id, and answers 201. The stored limit is the one printed: the form's own for every number below \<open>2^53\<close>.\<close>

theorem created_policy_reaches_engine:
  assumes "pg_policyName s \<noteq> []" and "pg_targetApp s \<noteq> []"
    and "sends_int64 (pg_maxRisk s)"
    and "handleCreatePolicy c s = (s', [Fetch call])" and "hr_body r = fc_body call"
    and "hr_claims r = Some claims"
  shows "\<exists>evs rsp. CreatePolicy_handler env e r =
      (e(en_uuid env \<mapsto> \<lparr>p_id = en_uuid env, p_name = pg_policyName s, p_role = pg_targetRole s,
         p_application = pg_targetApp s, p_require_mfa = pg_requireMFA s,
         p_require_trusted = pg_requireTrusted s, p_max_risk_score = js_printed (pg_maxRisk s),
         p_decision = DecisionAllow, p_enabled = True\<rparr>), evs, Inr rsp) \<and> rsp_status rsp = 201 \<and>
    (\<bar>pg_maxRisk s\<bar> < 2 ^ 53 \<longrightarrow> js_printed (pg_maxRisk s) = pg_maxRisk s)"
proof -
  have "call = api_createPolicy c (new_policy s)"
    using assms(4) by (auto simp: handleCreatePolicy_def)
  moreover have "sends_int64 (up_max_risk_score (new_policy s))"
    using assms(3) by (simp add: new_policy_def)
  ultimately have "decode_create_policy (hr_body r) = Some (server_policy (new_policy s))"
    using decode_createPolicy [of "new_policy s" c] assms(5) by simp
  then show ?thesis
    using assms(1,2,6) by (simp add: CreatePolicy_handler_def CreatePolicy_def Let_def server_policy_def
        new_policy_def DecisionAllow_def)
qed

definition demo_form :: policies_page where
  "demo_form = policies_page_init\<lparr>pg_policyName := ''Vault''\<rparr>"

theorem created_policy_reaches_engine_witness:
  "\<exists>e evs rsp. CreatePolicy_handler demo_env Map.empty
      (demo_request\<lparr>hr_claims := Some demo_claims, hr_body := fc_body (api_createPolicy demo_client (new_policy demo_form))\<rparr>)
    = (e, evs, Inr rsp) \<and> rsp_status rsp = 201"
proof -
  let ?r = "demo_request\<lparr>hr_claims := Some demo_claims,
    hr_body := fc_body (api_createPolicy demo_client (new_policy demo_form))\<rparr>"
  have "pg_policyName demo_form \<noteq> []" "pg_targetApp demo_form \<noteq> []"
    "sends_int64 (pg_maxRisk demo_form)"
    by (simp_all add: demo_form_def policies_page_init_def)
  moreover have "handleCreatePolicy demo_client demo_form =
      (demo_form, [Fetch (api_createPolicy demo_client (new_policy demo_form))])"
    by (simp add: handleCreatePolicy_def)
  ultimately show ?thesis
    using created_policy_reaches_engine [of demo_form demo_client demo_form
        "api_createPolicy demo_client (new_policy demo_form)" ?r demo_claims demo_env Map.empty] by fastforce
qed

end
