(* ===== verification/AuditPage.thy ===== *)
theory AuditPage
  imports AuthProvider Server Url
begin

text \<open>
  \<open>frontend/src/pages/AuditPage.tsx\<close>: the audit trail with its page state, the requests its
  effect sends when the page changes, its filter and badges. \<open>audit_reachable\<close> is the page with
  its requests in flight under any order of replies.
\<close>

subsection \<open>State and handlers\<close>

record audit_page =
  at_events :: "audit_event list"
  at_total :: nat
  at_page :: nat
  at_filter :: string
  at_loading :: bool
  at_error :: "string option"

definition pageSize :: nat where "pageSize = 20"

definition audit_page_init :: audit_page where
  "audit_page_init = \<lparr>at_events = [], at_total = 0, at_page = 1, at_filter = ''ALL'',
     at_loading = True, at_error = None\<rparr>"

datatype audit_msg = RefreshClicked | FilterChanged string | PrevClicked | NextClicked

text \<open>\<open>Math.ceil(total / pageSize) || 1\<close>.\<close>

definition totalPages :: "audit_page \<Rightarrow> nat" where
  "totalPages s = (let n = (at_total s + pageSize - 1) div pageSize in if n = 0 then 1 else n)"

definition fetchLogs :: "nat \<Rightarrow> audit_page \<Rightarrow> audit_page" where
  "fetchLogs p s = s\<lparr>at_loading := True, at_error := None\<rparr>"

definition fetchLogs_call :: "api_client \<Rightarrow> nat \<Rightarrow> fetch_call" where
  "fetchLogs_call c p = api_listAuditLogs c p pageSize"

definition fetchLogs_reply :: "audit_list_response fetch_result \<Rightarrow> audit_page \<Rightarrow> audit_page" where
  "fetchLogs_reply res s =
     (case read_result ''events'' res of
        Inr r \<Rightarrow> s\<lparr>at_events := (case al_events r of None \<Rightarrow> [] | Some es \<Rightarrow> es),
                   at_total := al_total r, at_loading := False\<rparr>
      | Inl (ErrorObj msg) \<Rightarrow> s\<lparr>at_error := Some msg, at_loading := False\<rparr>
      | Inl OtherThrown \<Rightarrow> s\<lparr>at_loading := False\<rparr>)"

fun events_value :: "audit_list_response fetch_result \<Rightarrow> audit_event list option" where
  "events_value (HttpOk (Some r)) = Some (case al_events r of None \<Rightarrow> [] | Some es \<Rightarrow> es)"
| "events_value _ = None"

text \<open>The page shows the events of the last reply that brought some.\<close>

interpretation event_page: last_reply_wins fetchLogs_reply at_events events_value
proof
  show "at_events (fetchLogs_reply r s) = (case events_value r of None \<Rightarrow> at_events s | Some v \<Rightarrow> v)" for r s
    by (cases r rule: events_value.cases) (simp_all add: fetchLogs_reply_def reply_defs null_read_def split: thrown.split)
qed

definition filteredEvents :: "audit_page \<Rightarrow> audit_event list" where
  "filteredEvents s =
     filter (\<lambda>e. if at_filter s = ''ALL'' then True else ae_action e = at_filter s) (at_events s)"

definition getActionBadge :: "string \<Rightarrow> string" where
  "getActionBadge action =
     (if js_includes action ''SUCCESS'' \<or> js_includes action ''GRANTED'' \<or>
         js_includes action ''REGISTERED'' then ''badge-green''
      else if js_includes action ''FAILED'' \<or> js_includes action ''DENIED'' \<or>
         js_includes action ''RATE_LIMIT'' \<or> js_includes action ''REJECTED'' then ''badge-red''
      else if js_includes action ''POLICY'' \<or> js_includes action ''ROLE'' then ''badge-purple''
      else ''badge-blue'')"

text \<open>An event handler's new state, and the page that a request is sent for: the refresh button asks
  for it directly, the pagination buttons through the effect that runs when the page changed.\<close>

definition set_page :: "nat \<Rightarrow> audit_page \<Rightarrow> audit_page \<times> nat option" where
  "set_page p s =
     (if p = at_page s then (s, None) else (fetchLogs p (s\<lparr>at_page := p\<rparr>), Some p))"

fun audit_update :: "audit_msg \<Rightarrow> audit_page \<Rightarrow> audit_page \<times> nat option" where
  "audit_update RefreshClicked s = (fetchLogs (at_page s) s, Some (at_page s))"
| "audit_update (FilterChanged v) s = (s\<lparr>at_filter := v\<rparr>, None)"
| "audit_update PrevClicked s = set_page (max 1 (at_page s - 1)) s"
| "audit_update NextClicked s = set_page (min (totalPages s) (at_page s + 1)) s"

text \<open>\<open>JSON.stringify\<close> of a record of strings.\<close>

definition hex_digit :: "nat \<Rightarrow> char" where
  "hex_digit n = (if n < 10 then char_of (48 + n) else char_of (87 + n))"

definition json_escape :: "char \<Rightarrow> string" where
  "json_escape c =
     (let n = char_code c
      in if n = 34 then [CHR 0x5C, c] else if n = 92 then [c, c]
         else if n = 8 then [CHR 0x5C, CHR ''b''] else if n = 9 then [CHR 0x5C, CHR ''t'']
         else if n = 10 then [CHR 0x5C, CHR ''n''] else if n = 12 then [CHR 0x5C, CHR ''f'']
         else if n = 13 then [CHR 0x5C, CHR ''r'']
         else if n < 32 then [CHR 0x5C, CHR ''u'', CHR ''0'', CHR ''0'', hex_digit (n div 16), hex_digit (n mod 16)]
         else [c])"

definition json_quote :: "string \<Rightarrow> string" where
  "json_quote s = CHR 0x22 # concat (map json_escape s) @ [CHR 0x22]"

definition stringify_record :: "(string \<times> string) list \<Rightarrow> string" where
  "stringify_record ms =
     ''{'' @ join_comma (map (\<lambda>(k, v). json_quote k @ '':'' @ json_quote v) ms) @ ''}''"

subsection \<open>View\<close>

text \<open>\<open>fmt\<close> is the browser's rendering of a timestamp.\<close>

definition audit_filter_card :: "audit_page \<Rightarrow> audit_msg node" where
  "audit_filter_card s =
    El ''div'' [
      Attr ''className'' ''card'',
      Style [(''marginBottom'', ''20px''), (''padding'', ''16px 20px'')]] [
      El ''div'' [Style [(''display'', ''flex''), (''gap'', ''16px''), (''alignItems'', ''center'')]] [
        El ''Filter'' [Attr ''size'' ''16'', Attr ''color'' ''var(--text-muted)''] [],
        El ''span'' [
          Style [
            (''fontSize'', ''13px''),
            (''fontWeight'', ''600''),
            (''color'', ''var(--text-secondary)'')]] [Txt ''Filter by Action:''],
        El ''select'' [
          Attr ''value'' (at_filter s),
          OnChange FilterChanged,
          Style [(''width'', ''260px'')]] [
          El ''option'' [Attr ''value'' ''ALL''] [
            Txt ''All Actions ('',
            Txt (show_nat (at_total s)),
            Txt '' total)''],
          El ''option'' [Attr ''value'' ''LOGIN_SUCCESS''] [Txt ''LOGIN_SUCCESS''],
          El ''option'' [Attr ''value'' ''LOGIN_FAILED''] [Txt ''LOGIN_FAILED''],
          El ''option'' [Attr ''value'' ''USER_REGISTERED''] [Txt ''USER_REGISTERED''],
          El ''option'' [Attr ''value'' ''ACCESS_GRANTED''] [Txt ''ACCESS_GRANTED''],
          El ''option'' [Attr ''value'' ''ACCESS_DENIED''] [Txt ''ACCESS_DENIED''],
          El ''option'' [Attr ''value'' ''MFA_SUCCESS''] [Txt ''MFA_SUCCESS''],
          El ''option'' [Attr ''value'' ''MFA_FAILED''] [Txt ''MFA_FAILED''],
          El ''option'' [Attr ''value'' ''POLICY_CREATED''] [Txt ''POLICY_CREATED''],
          El ''option'' [Attr ''value'' ''RATE_LIMIT_TRIGGERED''] [Txt ''RATE_LIMIT_TRIGGERED'']]]]"

definition audit_row :: "(string \<Rightarrow> string) \<Rightarrow> audit_event \<Rightarrow> audit_msg node" where
  "audit_row fmt e =
    El ''tr'' [] [
      El ''td'' [] [
        El ''span'' [Attr ''className'' (''badge '' @ (getActionBadge (ae_action e)))] [Txt (ae_action e)]],
      El ''td'' [] (if truthy (ae_user_id e)
          then [
          El ''span'' [Attr ''className'' ''code-inline''] [
            Txt (take 14 (the (ae_user_id e))),
            Txt ''...'']]
          else [El ''span'' [Style [(''color'', ''var(--text-muted)'')]] [Txt ''anonymous'']]),
      El ''td'' [] (if truthy (ae_resource e)
          then [El ''span'' [Attr ''className'' ''code-inline''] [Txt (the (ae_resource e))]]
          else [El ''span'' [Style [(''color'', ''var(--text-muted)'')]] [Txt ''auth-service'']]),
      El ''td'' [Style [(''fontSize'', ''13px'')]] [
        Txt (if truthy (ae_ip_address e) then the (ae_ip_address e) else ''127.0.0.1'')],
      El ''td'' [] (if ae_metadata e \<noteq> None
          then [
          El ''pre'' [
            Style [
              (''fontSize'', ''11px''),
              (''color'', ''#93c5fd''),
              (''background'', ''rgba(0,0,0,0.3)''),
              (''padding'', ''4px 8px''),
              (''borderRadius'', ''4px''),
              (''maxWidth'', ''280px''),
              (''overflow'', ''hidden''),
              (''textOverflow'', ''ellipsis'')]] [Txt (stringify_record (the (ae_metadata e)))]]
          else [El ''span'' [Style [(''color'', ''var(--text-muted)'')]] [Txt em_dash]]),
      El ''td'' [
        Style [
          (''color'', ''var(--text-secondary)''),
          (''fontSize'', ''13px''),
          (''whiteSpace'', ''nowrap'')]] [Txt (fmt (ae_timestamp e))]]"

definition audit_pagination :: "audit_page \<Rightarrow> audit_msg node" where
  "audit_pagination s =
    El ''div'' [
      Style [
        (''display'', ''flex''),
        (''justifyContent'', ''space-between''),
        (''alignItems'', ''center''),
        (''marginTop'', ''20px''),
        (''paddingTop'', ''16px''),
        (''borderTop'', ''1px solid var(--border-color)'')]] [
      El ''div'' [Style [(''fontSize'', ''13px''), (''color'', ''var(--text-secondary)'')]] [
        Txt ''Showing page '',
        Txt (show_nat (at_page s)),
        Txt '' of '',
        Txt (show_nat (totalPages s)),
        Txt '' ('',
        Txt (show_nat (at_total s)),
        Txt '' events logged)''],
      El ''div'' [Style [(''display'', ''flex''), (''gap'', ''8px'')]] [
        El ''button'' [
          OnClick PrevClicked,
          Flag ''disabled'' (at_page s \<le> 1),
          Attr ''className'' ''btn btn-secondary'',
          Style [(''padding'', ''6px 12px'')]] [
          El ''ChevronLeft'' [Attr ''size'' ''16''] [],
          Txt ''Previous''],
        El ''button'' [
          OnClick NextClicked,
          Flag ''disabled'' (at_page s \<ge> totalPages s),
          Attr ''className'' ''btn btn-secondary'',
          Style [(''padding'', ''6px 12px'')]] [
          Txt ''Next'',
          El ''ChevronRight'' [Attr ''size'' ''16''] []]]]"

definition audit_table_card :: "(string \<Rightarrow> string) \<Rightarrow> audit_page \<Rightarrow> audit_msg node" where
  "audit_table_card fmt s =
    El ''div'' [Attr ''className'' ''card''] [
      El ''div'' [Attr ''className'' ''table-container''] [
        El ''table'' [] [
          El ''thead'' [] [
            El ''tr'' [] [
              El ''th'' [] [Txt ''Action''],
              El ''th'' [] [Txt ''Subject ID''],
              El ''th'' [] [Txt ''Target Resource''],
              El ''th'' [] [Txt ''IP Address''],
              El ''th'' [] [Txt ''Metadata''],
              El ''th'' [] [Txt ''Timestamp'']]],
          El ''tbody'' [] (if at_loading s
              then [
              El ''tr'' [] [
                El ''td'' [
                  Attr ''colSpan'' ''6'',
                  Style [(''textAlign'', ''center''), (''padding'', ''32px'')]] [
                  Txt ''Reading audit log stream...'']]]
              else (if filteredEvents s \<noteq> []
                then map (\<lambda>e. audit_row fmt e) (filteredEvents s)
                else [
                El ''tr'' [] [
                  El ''td'' [
                    Attr ''colSpan'' ''6'',
                    Style [
                      (''textAlign'', ''center''),
                      (''padding'', ''32px''),
                      (''color'', ''var(--text-muted)'')]] [
                    Txt ''No audit records match the current filter.'']]]))]],
      audit_pagination s]"

definition AuditPage_view :: "(string \<Rightarrow> string) \<Rightarrow> audit_page \<Rightarrow> audit_msg node" where
  "AuditPage_view fmt s =
    El ''div'' [] ([
        El ''div'' [Attr ''className'' ''page-header''] [
          El ''div'' [] [
            El ''h1'' [Attr ''className'' ''page-title''] [Txt ''Security Audit Trail''],
            El ''p'' [Attr ''className'' ''page-subtitle''] [
              Txt
                ''Immutable, timestamped security event stream recording authentications, authorization checks, and policy modifications'']],
          El ''button'' [OnClick RefreshClicked, Attr ''className'' ''btn btn-secondary''] [
            El ''RefreshCw'' [Attr ''size'' ''15''] [],
            Txt ''Refresh Stream'']]]
        @ (if truthy (at_error s)
          then [
          El ''div'' [Attr ''className'' ''alert alert-danger''] [
            El ''ShieldAlert'' [Attr ''size'' ''18''] [],
            El ''span'' [] [Txt (the (at_error s))]]]
          else [])
        @ [audit_filter_card s, audit_table_card fmt s])"

lemmas audit_view_defs = AuditPage_view_def audit_filter_card_def audit_table_card_def
  audit_pagination_def audit_row_def

subsection \<open>Pagination\<close>

lemma totalPages_pos [simp]: "Suc 0 \<le> totalPages s"
  by (simp add: totalPages_def Let_def)

text \<open>Every page the total needs, and no more.\<close>

lemma ceil_pages: "t \<le> (19 + t) div 20 * (20 :: nat)" "20 < t \<Longrightarrow> 2 \<le> (19 + t) div (20 :: nat)"
  by presburger+

lemma totalPages_covers: "at_total s \<le> totalPages s * pageSize"
  using ceil_pages(1) [of "at_total s"] by (auto simp: totalPages_def pageSize_def Let_def)

lemma totalPages_least: "at_total s \<le> n * pageSize \<Longrightarrow> 1 \<le> n \<Longrightarrow> totalPages s \<le> n"
  by (auto simp: totalPages_def pageSize_def Let_def)

text \<open>The pagination buttons work as labelled: the page offers Previous exactly when the current
  page is above 1 and Next exactly when it is below the last page, and clicking an offered
  button moves by exactly one page, stays within 1 and the last page, and requests the page it
  moved to.\<close>

theorem pagination_buttons:
  assumes "1 \<le> at_page s"
  shows "(PrevClicked \<in> set (clicks (AuditPage_view fmt s)) \<longleftrightarrow> 1 < at_page s) \<and>
    (NextClicked \<in> set (clicks (AuditPage_view fmt s)) \<longleftrightarrow> at_page s < totalPages s) \<and>
    (1 < at_page s \<longrightarrow> audit_update PrevClicked s =
       (fetchLogs (at_page s - 1) (s\<lparr>at_page := at_page s - 1\<rparr>), Some (at_page s - 1))) \<and>
    (at_page s < totalPages s \<longrightarrow> audit_update NextClicked s =
       (fetchLogs (at_page s + 1) (s\<lparr>at_page := at_page s + 1\<rparr>), Some (at_page s + 1)))"
proof -
  have "clicks (AuditPage_view fmt s) = RefreshClicked #
      (if at_page s \<le> 1 then [] else [PrevClicked]) @ (if at_page s \<ge> totalPages s then [] else [NextClicked])"
    by (simp add: audit_view_defs clicks_all_map)
  moreover have "max 1 (at_page s - 1) = at_page s - 1" if "1 < at_page s" using that by simp
  moreover have "min (totalPages s) (at_page s + 1) = at_page s + 1" if "at_page s < totalPages s"
    using that by simp
  ultimately show ?thesis by (auto simp: set_page_def)
qed

theorem pagination_buttons_witness:
  "PrevClicked \<notin> set (clicks (AuditPage_view id audit_page_init)) \<and>
   NextClicked \<in> set (clicks (AuditPage_view id (audit_page_init\<lparr>at_total := 21\<rparr>)))"
  using pagination_buttons [of audit_page_init id] pagination_buttons [of "audit_page_init\<lparr>at_total := 21\<rparr>" id]
  by (simp add: audit_page_init_def totalPages_def pageSize_def)

subsection \<open>The whole trail\<close>

lemma digit_code [simp]: "d < 10 \<Longrightarrow> char_code (digit_char d) = 48 + d"
  by (simp add: char_code_def digit_char_def)

lemma nat_of_digits_snoc: "nat_of_digits (ds @ [c]) = 10 * nat_of_digits ds + (char_code c - 48)"
  by (simp add: nat_of_digits_def)

lemma nat_of_digits_show [simp]: "nat_of_digits (show_nat n) = n"
proof (induction n rule: show_nat.induct)
  case (1 n)
  show ?case
  proof (cases "n < 10")
    case True
    then show ?thesis by (simp add: show_nat.simps [of n] nat_of_digits_def)
  next
    case False
    then show ?thesis using 1 by (simp add: show_nat.simps [of n] nat_of_digits_snoc)
  qed
qed

lemma digits_no_sign: "list_all is_digit s \<Longrightarrow> \<not> starts_with ''-'' s \<and> \<not> starts_with ''+'' s"
  by (cases s) (auto simp: is_digit_def char_code_def)

text \<open>Printing a page number and reading it back on the server.\<close>

lemma atoi_show: "int n < 2 ^ 63 \<Longrightarrow> atoi (show_nat n) = Some (int n)"
  using digits_no_sign [OF show_nat_digits, of n] show_nat_digits [of n]
  by (simp add: atoi_def Let_def)

text \<open>The query the server reads from the URL the page requests.\<close>

definition audit_query :: "api_client \<Rightarrow> nat \<Rightarrow> (string \<times> string) list" where
  "audit_query c p = url_query (fc_url (fetchLogs_call c p))"

lemma audit_query_eq: "audit_query c p = [(''page'', show_nat p), (''page_size'', show_nat pageSize)]"
  using url_query_two [of "''/api/v1/audit''" "''page''" "show_nat p" "''page_size''" "show_nat pageSize"]
  by (simp add: audit_query_def fetchLogs_call_def api_listAuditLogs_def api_request_def API_BASE_def
      plain_digits plain_char_def)

lemma audit_query_params:
  assumes "1 \<le> p" "int p < 2 ^ 55"
  shows "page_param (audit_query c p) = int p" "page_size_param (audit_query c p) = int pageSize"
proof -
  have "atoi (show_nat p) = Some (int p)" "atoi (show_nat 20) = Some 20"
    using assms(2) atoi_show [of p] atoi_show [of 20] by simp_all
  with assms(1) show "page_param (audit_query c p) = int p" "page_size_param (audit_query c p) = int pageSize"
    by (simp_all add: page_param_def page_size_param_def audit_query_eq pageSize_def)
qed

text \<open>C17: Paging through the trail shows the whole log: with the total the server reports, the
  server's answers to the client's requests for pages 1 to \<open>totalPages\<close>, one after the other,
  are all events of the log, each once, newest first.\<close>

theorem paging_shows_whole_log:
  assumes "at_total s = length (ml_events l)" and "int (totalPages s) < 2 ^ 55"
  shows "concat (map (\<lambda>p. case List_handler l (audit_query c p) of
      Inr reply \<Rightarrow> (case ar_events reply of None \<Rightarrow> [] | Some es \<Rightarrow> es) | Inl _ \<Rightarrow> []) [1..<Suc (totalPages s)]) = rev (ml_events l)"
proof -
  have page: "(case List_handler l (audit_query c p) of Inr reply \<Rightarrow> (case ar_events reply of None \<Rightarrow> [] | Some es \<Rightarrow> es) | Inl _ \<Rightarrow> []) =
      page_of (ml_events l) p pageSize" if "p \<in> set [1..<Suc (totalPages s)]" for p
  proof -
    have p: "1 \<le> p" "p \<le> totalPages s" using that by auto
    then have "int p < 2 ^ 55" using assms(2) by linarith
    note q = audit_query_params [OF p(1) this, of c]
    have "page_param (audit_query c p) < 2 ^ 55" using q(1) \<open>int p < 2 ^ 55\<close> by linarith
    from List_handler_page [OF this, of l] q show ?thesis by simp
  qed
  have "concat (map (\<lambda>p. case List_handler l (audit_query c p) of
      Inr reply \<Rightarrow> (case ar_events reply of None \<Rightarrow> [] | Some es \<Rightarrow> es) | Inl _ \<Rightarrow> []) [1..<Suc (totalPages s)]) =
      concat (map (\<lambda>p. page_of (ml_events l) p pageSize) [1..<Suc (totalPages s)])"
    by (rule arg_cong [where f = concat]) (rule map_cong [OF refl page])
  also have "\<dots> = take (totalPages s * pageSize) (rev (ml_events l))"
    by (rule page_of_tile)
  also have "\<dots> = rev (ml_events l)"
    using totalPages_covers [of s] assms(1) by simp
  finally show ?thesis .
qed

theorem paging_shows_whole_log_witness:
  "concat (map (\<lambda>p. case List_handler example_log (audit_query demo_client p) of
      Inr reply \<Rightarrow> (case ar_events reply of None \<Rightarrow> [] | Some es \<Rightarrow> es) | Inl _ \<Rightarrow> []) [1..<Suc 1]) = rev (ml_events example_log)"
  using paging_shows_whole_log [of "audit_page_init\<lparr>at_total := 3\<rparr>" example_log demo_client]
  by (simp add: example_log_def totalPages_def pageSize_def)

definition reply_of :: "string \<Rightarrow> nat \<Rightarrow> audit_list_response" where
  "reply_of i n = \<lparr>al_events = Some [\<lparr>ae_id = i, ae_user_id = None, ae_action = ActionLoginFailed,
     ae_resource = None, ae_ip_address = None, ae_user_agent = None, ae_metadata = None,
     ae_timestamp = []\<rparr>], al_total = n, al_page = 1, al_page_size = 20\<rparr>"

subsection \<open>Replies out of order\<close>

record audit_run =
  ar_state :: audit_page
  ar_pending :: "nat list"    \<comment> \<open>the pages asked for, in the order of the requests\<close>

inductive audit_reachable :: "(nat \<Rightarrow> audit_list_response fetch_result \<Rightarrow> bool) \<Rightarrow> audit_run \<Rightarrow> bool"
  for answers where
  mounted: "audit_reachable answers \<lparr>ar_state = fetchLogs 1 audit_page_init, ar_pending = [1]\<rparr>"
| event: "audit_reachable answers x \<Longrightarrow> m \<in> set (clicks (AuditPage_view fmt (ar_state x))) \<or> m = FilterChanged v \<Longrightarrow>
    audit_update m (ar_state x) = (s, q) \<Longrightarrow>
    audit_reachable answers \<lparr>ar_state = s,
      ar_pending = ar_pending x @ (case q of None \<Rightarrow> [] | Some p \<Rightarrow> [p])\<rparr>"
| reply: "audit_reachable answers x \<Longrightarrow> i < length (ar_pending x) \<Longrightarrow> answers (ar_pending x ! i) res \<Longrightarrow>
    audit_reachable answers \<lparr>ar_state = fetchLogs_reply res (ar_state x),
      ar_pending = drop_nth i (ar_pending x)\<rparr>"

lemma audit_page_positive: "audit_reachable answers x \<Longrightarrow> 1 \<le> at_page (ar_state x)"
proof (induction rule: audit_reachable.induct)
  case (event x m fmt v s q)
  then show ?case
    by (cases m) (auto simp: set_page_def fetchLogs_def split: if_splits)
next
  case (reply x i res)
  then show ?case by (auto simp: fetchLogs_reply_def split: sum.splits thrown.splits)
qed (simp add: fetchLogs_def audit_page_init_def)

text \<open>Late replies can show the wrong page: for a server with more than one page, two first
  requests and any page 1 answer, the page can come to rest (nothing in flight, not loading, no
  error) on page 2 while it shows the events of page 1, because a reply is not matched with the
  page it was asked for.\<close>

theorem audit_stale_page:
  assumes "answers 1 (HttpOk (Some r1))" and "answers 2 (HttpOk (Some r2))" and "20 < al_total r1"
  shows "\<exists>x. audit_reachable answers x \<and> ar_pending x = [] \<and> at_page (ar_state x) = 2 \<and>
    \<not> at_loading (ar_state x) \<and> at_error (ar_state x) = None \<and>
    at_events (ar_state x) = (case al_events r1 of None \<Rightarrow> [] | Some es \<Rightarrow> es)"
proof -
  let ?es = "\<lambda>r. case al_events r of None \<Rightarrow> [] | Some es \<Rightarrow> es"
  let ?s = "\<lambda>es n p l. \<lparr>at_events = es, at_total = n, at_page = p, at_filter = ''ALL'', at_loading = l,
    at_error = None\<rparr>"
  note upd = audit_page_init_def fetchLogs_def fetchLogs_reply_def reply_defs
    drop_nth_def set_page_def
  have pages: "2 \<le> totalPages (?s es (al_total r1) 1 l)" for es l
    using ceil_pages(2) [OF assms(3)] by (simp add: totalPages_def pageSize_def Let_def)
  have a: "audit_reachable answers \<lparr>ar_state = ?s [] 0 1 True, ar_pending = [1]\<rparr>"
    using mounted [of answers] by (simp add: upd)
  have b: "audit_reachable answers \<lparr>ar_state = ?s (?es r1) (al_total r1) 1 False, ar_pending = []\<rparr>"
    using reply [OF a, of 0 "HttpOk (Some r1)"] assms(1) by (simp add: upd)
  have c: "audit_reachable answers \<lparr>ar_state = ?s (?es r1) (al_total r1) 1 True, ar_pending = [1]\<rparr>"
    using event [OF b, of RefreshClicked id, OF disjI1, of "?s (?es r1) (al_total r1) 1 True" "Some 1"]
    by (simp add: upd audit_view_defs)
  have n: "NextClicked \<in> set (clicks (AuditPage_view id (?s (?es r1) (al_total r1) 1 True)))"
    using pages [of "?es r1" True] by (simp add: audit_view_defs)
  have m: "min (totalPages (?s (?es r1) (al_total r1) 1 True)) 2 = 2"
    using pages [of "?es r1" True] by (rule min_absorb2)
  have d: "audit_reachable answers \<lparr>ar_state = ?s (?es r1) (al_total r1) 2 True, ar_pending = [1, 2]\<rparr>"
    using event [OF c, of NextClicked id, OF disjI1, of "?s (?es r1) (al_total r1) 2 True" "Some 2"] n m
    by (simp add: upd numeral_2_eq_2)
  have e: "audit_reachable answers \<lparr>ar_state = ?s (?es r2) (al_total r2) 2 False, ar_pending = [1]\<rparr>"
    using reply [OF d, of 1 "HttpOk (Some r2)"] assms(2) by (simp add: upd)
  have f: "audit_reachable answers \<lparr>ar_state = ?s (?es r1) (al_total r1) 2 False, ar_pending = []\<rparr>"
    using reply [OF e, of 0 "HttpOk (Some r1)"] assms(1) by (simp add: upd)
  then show ?thesis by (intro exI [of _ "\<lparr>ar_state = ?s (?es r1) (al_total r1) 2 False, ar_pending = []\<rparr>"]) simp
qed

theorem audit_stale_page_witness:
  "\<exists>x. audit_reachable (\<lambda>p res. res = HttpOk (Some (reply_of (show_nat p) 21))) x \<and>
     at_page (ar_state x) = 2 \<and> map ae_id (at_events (ar_state x)) = [show_nat 1]"
proof -
  let ?ans = "\<lambda>p res. res = HttpOk (Some (reply_of (show_nat p) 21))"
  have "20 < al_total (reply_of (show_nat 1) 21)" by (simp add: reply_of_def)
  from audit_stale_page [of ?ans, OF refl refl this] obtain x where
    "audit_reachable ?ans x" "at_page (ar_state x) = 2"
    "at_events (ar_state x) = (case al_events (reply_of (show_nat 1) 21) of None \<Rightarrow> [] | Some es \<Rightarrow> es)"
    by blast
  then show ?thesis by (intro exI [of _ x]) (simp add: reply_of_def)
qed

subsection \<open>Replies in order\<close>

text \<open>When replies come in the order of their requests, only the first request in flight is
  answered.\<close>

inductive audit_in_order :: "(nat \<Rightarrow> audit_list_response fetch_result \<Rightarrow> bool) \<Rightarrow> audit_run \<Rightarrow> bool"
  for answers where
  mounted: "audit_in_order answers \<lparr>ar_state = fetchLogs 1 audit_page_init, ar_pending = [1]\<rparr>"
| event: "audit_in_order answers x \<Longrightarrow> m \<in> set (clicks (AuditPage_view fmt (ar_state x))) \<or> m = FilterChanged v \<Longrightarrow>
    audit_update m (ar_state x) = (s, q) \<Longrightarrow>
    audit_in_order answers \<lparr>ar_state = s,
      ar_pending = ar_pending x @ (case q of None \<Rightarrow> [] | Some p \<Rightarrow> [p])\<rparr>"
| reply: "audit_in_order answers x \<Longrightarrow> ar_pending x = p # ps \<Longrightarrow> answers p res \<Longrightarrow>
    audit_in_order answers \<lparr>ar_state = fetchLogs_reply res (ar_state x), ar_pending = ps\<rparr>"

lemma audit_in_order_reachable: "audit_in_order answers x \<Longrightarrow> audit_reachable answers x"
proof (induction rule: audit_in_order.induct)
  case (reply x p ps res)
  then show ?case using audit_reachable.reply [of answers x 0 res] by simp
qed (blast intro: audit_reachable.intros)+

definition audit_fresh :: "(nat \<Rightarrow> audit_list_response fetch_result \<Rightarrow> bool) \<Rightarrow> audit_run \<Rightarrow> bool" where
  "audit_fresh answers x \<longleftrightarrow>
     (if ar_pending x \<noteq> [] then last (ar_pending x) = at_page (ar_state x)
      else \<not> at_loading (ar_state x) \<and> (\<exists>res. answers (at_page (ar_state x)) res \<and>
        (\<forall>v. events_value res = Some v \<longrightarrow> at_events (ar_state x) = v)))"

lemma fetchLogs_reply_page [simp]:
  "at_page (fetchLogs_reply res s) = at_page s" "\<not> at_loading (fetchLogs_reply res s)"
  by (simp_all add: fetchLogs_reply_def split: sum.split thrown.split)

lemma audit_update_request:
  assumes "audit_update m s = (s', q)"
  shows "case q of Some p \<Rightarrow> at_page s' = p
    | None \<Rightarrow> at_page s' = at_page s \<and> at_loading s' = at_loading s \<and> at_events s' = at_events s"
  using assms by (cases m) (auto simp: set_page_def fetchLogs_def split: if_splits)

lemma audit_in_order_inv: "audit_in_order answers x \<Longrightarrow> audit_fresh answers x"
proof (induction rule: audit_in_order.induct)
  case mounted
  then show ?case by (simp add: audit_fresh_def fetchLogs_def audit_page_init_def)
next
  case (event x m fmt v s q)
  from audit_update_request [OF event.hyps(3)] event.IH show ?case
    by (cases q) (auto simp: audit_fresh_def split: if_splits)
next
  case (reply x p ps res)
  show ?case
  proof (cases "ps = []")
    case True
    then have "answers (at_page (ar_state x)) res" using reply by (simp add: audit_fresh_def)
    with True show ?thesis
      by (auto simp: audit_fresh_def event_page.reply_shown)
  next
    case False
    with reply show ?thesis by (simp add: audit_fresh_def)
  qed
qed

text \<open>C33: With replies in the order of their requests the audit page is fresh: whatever the user
  clicks, when nothing is in flight the page is not loading and shows the events the server sent
  for the current page (when the last answer brought events), so only reordering makes it stale.\<close>

theorem audit_page_fresh:
  assumes "audit_in_order answers x" and "ar_pending x = []"
  shows "audit_reachable answers x \<and> \<not> at_loading (ar_state x) \<and>
    (\<exists>res. answers (at_page (ar_state x)) res \<and>
      (\<forall>r. res = HttpOk (Some r) \<longrightarrow>
        at_events (ar_state x) = (case al_events r of None \<Rightarrow> [] | Some es \<Rightarrow> es)))"
  using audit_in_order_inv [OF assms(1)] audit_in_order_reachable [OF assms(1)] assms(2)
  by (fastforce simp: audit_fresh_def)

theorem audit_page_fresh_witness:
  "\<exists>x. audit_in_order (\<lambda>p res. res = HttpOk (Some (reply_of (show_nat p) 21))) x \<and> ar_pending x = [] \<and>
     at_events (ar_state x) = the (al_events (reply_of (show_nat (at_page (ar_state x))) 21))"
proof -
  let ?ans = "\<lambda>p res. res = HttpOk (Some (reply_of (show_nat p) 21))"
  obtain x where x: "audit_in_order ?ans x" "ar_pending x = []"
    using audit_in_order.reply [OF audit_in_order.mounted, of 1 "[]" ?ans] by auto
  with audit_page_fresh [OF x] show ?thesis by (intro exI [of _ x]) (auto simp: reply_of_def)
qed

subsection \<open>Badges\<close>

text \<open>The badge of every action the server logs: green for successes, grants and registrations,
  red for failures, denials and rate limiting, purple for policy changes, so no server action
  has the fallback badge; and every filter option but \<open>ALL\<close> is an action of the server, the
  deletion of policies being the one action that cannot be filtered for.\<close>

theorem badges_of_server_actions:
  "map getActionBadge [ActionLoginSuccess, ActionMFASuccess, ActionAccessGranted, ActionUserRegistered] =
     replicate 4 ''badge-green'' \<and>
   map getActionBadge [ActionLoginFailed, ActionMFAFailed, ActionAccessDenied, ActionRateLimitTriggered] =
     replicate 4 ''badge-red'' \<and>
   map getActionBadge [ActionPolicyCreated, ActionPolicyDeleted] = replicate 2 ''badge-purple'' \<and>
   set (concat (map (\<lambda>(as, ks). attr_value ''value'' as) (elements ''option'' (AuditPage_view fmt s)))) =
     insert ''ALL'' ({ActionLoginSuccess, ActionMFASuccess, ActionAccessGranted, ActionUserRegistered,
       ActionLoginFailed, ActionMFAFailed, ActionAccessDenied, ActionRateLimitTriggered,
       ActionPolicyCreated, ActionPolicyDeleted} - {ActionPolicyDeleted})"
proof -
  have "elements_all ''option'' (map f (filteredEvents s)) = []"
    if "\<And>e. elements ''option'' (f e) = []" for f :: "audit_event \<Rightarrow> audit_msg node"
    by (simp add: elements_all_map that)
  then have opts: "concat (map (\<lambda>(as, ks). attr_value ''value'' as) (elements ''option'' (AuditPage_view fmt s))) =
    [''ALL'', ''LOGIN_SUCCESS'', ''LOGIN_FAILED'', ''USER_REGISTERED'', ''ACCESS_GRANTED'',
     ''ACCESS_DENIED'', ''MFA_SUCCESS'', ''MFA_FAILED'', ''POLICY_CREATED'', ''RATE_LIMIT_TRIGGERED'']"
    by (simp add: audit_view_defs)
  show ?thesis
    unfolding opts by (simp add: getActionBadge_def action_defs numeral_eq_Suc insert_Diff_if insert_commute)
qed

end
