(* ===== verification/UsersPage.thy ===== *)
theory UsersPage
  imports AuthProvider
begin

text \<open>
  \<open>frontend/src/pages/UsersPage.tsx\<close>: the user directory with its search and role filter.
\<close>

subsection \<open>State and handlers\<close>

record users_page =
  us_users :: "ui_user list"
  us_filterRole :: string
  us_search :: string
  us_loading :: bool
  us_error :: "string option"

definition users_page_init :: users_page where
  "users_page_init = \<lparr>us_users = [], us_filterRole = ''all'', us_search = [], us_loading = True,
     us_error = None\<rparr>"

datatype users_msg = RefreshUsers | SearchChanged string | RoleFilterChanged string

definition fetchUsers :: "api_client \<Rightarrow> users_page \<Rightarrow> users_page \<times> fetch_call" where
  "fetchUsers c s = (s\<lparr>us_loading := True, us_error := None\<rparr>, api_listUsers c)"

definition fetchUsers_reply :: "(ui_user list \<times> nat) fetch_result \<Rightarrow> users_page \<Rightarrow> users_page" where
  "fetchUsers_reply res s =
     (case read_result ''users'' res of
        Inr (us, _) \<Rightarrow> s\<lparr>us_users := us, us_loading := False\<rparr>
      | Inl (ErrorObj msg) \<Rightarrow> s\<lparr>us_error := Some msg, us_loading := False\<rparr>
      | Inl OtherThrown \<Rightarrow> s\<lparr>us_loading := False\<rparr>)"

fun users_update :: "api_client \<Rightarrow> users_msg \<Rightarrow> users_page \<Rightarrow> users_page \<times> fetch_call option" where
  "users_update c RefreshUsers s = (case fetchUsers c s of (s', q) \<Rightarrow> (s', Some q))"
| "users_update c (SearchChanged v) s = (s\<lparr>us_search := v\<rparr>, None)"
| "users_update c (RoleFilterChanged v) s = (s\<lparr>us_filterRole := v\<rparr>, None)"

definition filteredUsers :: "users_page \<Rightarrow> ui_user list" where
  "filteredUsers s =
     filter (\<lambda>u.
       let matchesRole = us_filterRole s = ''all'' \<or> role_name (uu_role u) = us_filterRole s;
           matchesSearch = js_includes (to_lower (uu_username u)) (to_lower (us_search s))
       in matchesRole \<and> matchesSearch) (us_users s)"

fun users_value :: "(ui_user list \<times> nat) fetch_result \<Rightarrow> ui_user list option" where
  "users_value (HttpOk (Some (us, n))) = Some us"
| "users_value _ = None"

interpretation user_page: last_reply_wins fetchUsers_reply us_users users_value
proof
  show "us_users (fetchUsers_reply r s) = (case users_value r of None \<Rightarrow> us_users s | Some v \<Rightarrow> v)" for r s
    by (cases r rule: users_value.cases) (simp_all add: fetchUsers_reply_def reply_defs null_read_def split: thrown.split)
qed

subsection \<open>View\<close>

definition users_controls :: "users_page \<Rightarrow> users_msg node" where
  "users_controls s =
    El ''div'' [
      Attr ''className'' ''card'',
      Style [(''marginBottom'', ''20px''), (''padding'', ''16px 20px'')]] [
      El ''div'' [Style [(''display'', ''flex''), (''gap'', ''16px''), (''alignItems'', ''center'')]] [
        El ''div'' [Style [(''position'', ''relative''), (''flex'', ''1'')]] [
          El ''Search'' [
            Attr ''size'' ''16'',
            Style [
              (''position'', ''absolute''),
              (''left'', ''14px''),
              (''top'', ''50%''),
              (''transform'', ''translateY(-50%)''),
              (''color'', ''var(--text-muted)'')]] [],
          El ''input'' [
            Attr ''type'' ''text'',
            Attr ''placeholder'' ''Search by username...'',
            Attr ''value'' (us_search s),
            OnChange SearchChanged,
            Style [(''paddingLeft'', ''38px'')]] []],
        El ''div'' [Style [(''width'', ''220px'')]] [
          El ''select'' [Attr ''value'' (us_filterRole s), OnChange RoleFilterChanged] [
            El ''option'' [Attr ''value'' ''all''] [Txt ''All Roles''],
            El ''option'' [Attr ''value'' ''super_admin''] [Txt ''Super Admin''],
            El ''option'' [Attr ''value'' ''admin''] [Txt ''Admin''],
            El ''option'' [Attr ''value'' ''security_manager''] [Txt ''Security Manager''],
            El ''option'' [Attr ''value'' ''developer''] [Txt ''Developer''],
            El ''option'' [Attr ''value'' ''analyst''] [Txt ''Analyst''],
            El ''option'' [Attr ''value'' ''viewer''] [Txt ''Viewer'']]]]]"

definition user_row :: "(string \<Rightarrow> string) \<Rightarrow> ui_user \<Rightarrow> users_msg node" where
  "user_row fmt u =
    El ''tr'' [] [
      El ''td'' [] [
        El ''div'' [Style [(''display'', ''flex''), (''alignItems'', ''center''), (''gap'', ''10px'')]] [
          El ''div'' [
            Attr ''className'' ''user-avatar'',
            Style [(''width'', ''32px''), (''height'', ''32px''), (''fontSize'', ''12px'')]] [
            Txt (to_upper (take 1 (uu_username u)))],
          El ''div'' [Style [(''fontWeight'', ''600'')]] [Txt (uu_username u)]]],
      El ''td'' [] [
        El ''span'' [
          Attr ''className'' (''badge ''
              @ (if (role_name (uu_role u)) = ''super_admin''
                then ''badge-purple''
                else (if (role_name (uu_role u)) = ''admin''
                  then ''badge-blue''
                  else (if (role_name (uu_role u)) = ''security_manager''
                    then ''badge-amber''
                    else (if (role_name (uu_role u)) = ''developer'' then ''badge-blue''
                      else ''badge-green'')))))] [Txt (role_name (uu_role u))]],
      El ''td'' [] [
        El ''span'' [Attr ''className'' ''badge badge-green''] [
          El ''CheckCircle2'' [Attr ''size'' ''12''] [],
          Txt (status_name (uu_status u))]],
      El ''td'' [] (if uu_mfa_enabled u
          then [
          El ''span'' [Attr ''className'' ''badge badge-green''] [
            El ''CheckCircle2'' [Attr ''size'' ''12''] [],
            Txt ''Active'']]
          else [
          El ''span'' [
            Attr ''className'' ''badge'',
            Style [(''background'', ''rgba(107, 114, 128, 0.2)''), (''color'', ''#9ca3af'')]] [
            Txt ''Optional'']]),
      El ''td'' [Attr ''className'' ''code-inline''] [Txt (take 13 (uu_id u)), Txt ''...''],
      El ''td'' [Style [(''color'', ''var(--text-secondary)''), (''fontSize'', ''13px'')]] [
        Txt (fmt (uu_created_at u))]]"

definition users_table :: "(string \<Rightarrow> string) \<Rightarrow> users_page \<Rightarrow> users_msg node" where
  "users_table fmt s =
    El ''div'' [Attr ''className'' ''card''] [
      El ''div'' [Attr ''className'' ''table-container''] [
        El ''table'' [] [
          El ''thead'' [] [
            El ''tr'' [] [
              El ''th'' [] [Txt ''Identity''],
              El ''th'' [] [Txt ''Assigned Role''],
              El ''th'' [] [Txt ''Status''],
              El ''th'' [] [Txt ''MFA Enforced''],
              El ''th'' [] [Txt ''Identity ID''],
              El ''th'' [] [Txt ''Provisioned'']]],
          El ''tbody'' [] (if us_loading s
              then [
              El ''tr'' [] [
                El ''td'' [
                  Attr ''colSpan'' ''6'',
                  Style [(''textAlign'', ''center''), (''padding'', ''32px'')]] [
                  Txt ''Loading user directory...'']]]
              else (if filteredUsers s \<noteq> []
                then map (\<lambda>u. user_row fmt u) (filteredUsers s)
                else [
                El ''tr'' [] [
                  El ''td'' [
                    Attr ''colSpan'' ''6'',
                    Style [
                      (''textAlign'', ''center''),
                      (''padding'', ''32px''),
                      (''color'', ''var(--text-muted)'')]] [
                    Txt ''No identities match your current filter.'']]]))]]]"

definition UsersPage_view :: "(string \<Rightarrow> string) \<Rightarrow> users_page \<Rightarrow> users_msg node" where
  "UsersPage_view fmt s =
    El ''div'' [] ([
        El ''div'' [Attr ''className'' ''page-header''] [
          El ''div'' [] [
            El ''h1'' [Attr ''className'' ''page-title''] [Txt ''Identity & User Management''],
            El ''p'' [Attr ''className'' ''page-subtitle''] [
              Txt ''Manage organization members, RBAC role assignments, and authentication posture'']],
          El ''button'' [OnClick RefreshUsers, Attr ''className'' ''btn btn-secondary''] [
            Txt ''Refresh Directory'']]]
        @ (if truthy (us_error s)
          then [
          El ''div'' [Attr ''className'' ''alert alert-danger''] [
            El ''XCircle'' [Attr ''size'' ''18''] [],
            El ''span'' [] [Txt (the (us_error s))]]]
          else [])
        @ [users_controls s, users_table fmt s])"

lemmas users_view_defs = UsersPage_view_def users_controls_def users_table_def user_row_def

subsection \<open>Searching\<close>

text \<open>Reading the directory off the page: the user names of its rows.\<close>

lemma filteredUsers_spec:
  "filteredUsers s = filter (\<lambda>u. (us_filterRole s = ''all'' \<or> role_name (uu_role u) = us_filterRole s) \<and>
     sublist (to_lower (us_search s)) (to_lower (uu_username u))) (us_users s)"
  by (simp add: filteredUsers_def js_includes_iff)

lemma user_row_name: "uu_username u \<in> set (texts (user_row fmt u))"
  by (simp add: user_row_def)

text \<open>The directory's search: a user is listed exactly when the role filter is \<open>all\<close> or the user's
  role and the search text occurs in the user name up to case; the listed users keep the
  server's order; changing the case of the search text changes nothing, extending it can only
  remove users, and with no filter and an empty search every user is listed.\<close>

theorem user_search:
  "(u \<in> set (filteredUsers s) \<longleftrightarrow> u \<in> set (us_users s) \<and>
      (us_filterRole s = ''all'' \<or> role_name (uu_role u) = us_filterRole s) \<and>
      sublist (to_lower (us_search s)) (to_lower (uu_username u))) \<and>
   subseq (filteredUsers s) (us_users s) \<and>
   filteredUsers (s\<lparr>us_search := to_lower t\<rparr>) = filteredUsers (s\<lparr>us_search := t\<rparr>) \<and>
   set (filteredUsers (s\<lparr>us_search := a @ t @ b\<rparr>)) \<subseteq> set (filteredUsers (s\<lparr>us_search := t\<rparr>)) \<and>
   filteredUsers (s\<lparr>us_search := [], us_filterRole := ''all''\<rparr>) = us_users s"
proof -
  have "sublist (to_lower t) (to_lower n)" if "sublist (to_lower (a @ t @ b)) (to_lower n)" for n
  proof -
    have "sublist (to_lower t) (to_lower (a @ t @ b))"
      by (simp add: to_lower_def)
    then show ?thesis using that by (rule sublist_order.order.trans)
  qed
  then have mono: "set (filteredUsers (s\<lparr>us_search := a @ t @ b\<rparr>)) \<subseteq> set (filteredUsers (s\<lparr>us_search := t\<rparr>))"
    by (auto simp: filteredUsers_spec)
  have nil: "to_lower [] = []" by (simp add: to_lower_def)
  show ?thesis
    using mono by (auto simp: filteredUsers_spec nil subseq_filter_left)
qed

text \<open>What the page offers to select: every role but the legacy role \<open>user\<close>.\<close>

lemma role_filter_options:
  "set (concat (map (\<lambda>(as, ks). attr_value ''value'' as) (elements ''option'' (UsersPage_view fmt s)))) =
   insert ''all'' (set ValidRoles - {RoleUser})"
  by (auto simp: users_view_defs elements_all_map ValidRoles_def role_defs)

end
