(* ===== verification/SecurityPage.thy ===== *)
theory SecurityPage
  imports AuthProvider
begin

text \<open>
  \<open>frontend/src/pages/SecurityPage.tsx\<close>: MFA enrolment. \<open>security_reachable\<close> is the page under
  any sequence of the user's inputs and of replies; verifying refreshes the profile before the
  page is idle again.
\<close>

subsection \<open>State and handlers\<close>

record security_page =
  sc_secret :: "string option"
  sc_totpUri :: "string option"
  sc_code :: string
  sc_status :: "(bool \<times> string) option"    \<comment> \<open>success, message\<close>
  sc_loading :: bool

definition security_page_init :: security_page where
  "security_page_init = \<lparr>sc_secret = None, sc_totpUri = None, sc_code = [], sc_status = None,
     sc_loading = False\<rparr>"

datatype security_msg = SetupMFA | VerifyMFA | CodeTyped string

definition handleSetupMFA :: "api_client \<Rightarrow> security_page \<Rightarrow> security_page \<times> fetch_call" where
  "handleSetupMFA c s = (s\<lparr>sc_loading := True, sc_status := None\<rparr>, api_setupMFA c)"

definition setupMFA_reply :: "mfa_setup_response fetch_result \<Rightarrow> security_page \<Rightarrow> security_page" where
  "setupMFA_reply res s =
     (case read_result ''secret'' res of
        Inr r \<Rightarrow> s\<lparr>sc_secret := Some (ms_secret r), sc_totpUri := Some (ms_totp_uri r), sc_loading := False\<rparr>
      | Inl (ErrorObj msg) \<Rightarrow> s\<lparr>sc_status := Some (False, msg), sc_loading := False\<rparr>
      | Inl OtherThrown \<Rightarrow> s\<lparr>sc_loading := False\<rparr>)"

definition handleVerifyMFA :: "api_client \<Rightarrow> security_page \<Rightarrow> security_page \<times> fetch_call" where
  "handleVerifyMFA c s = (s\<lparr>sc_loading := True, sc_status := None\<rparr>, api_verifyMFA c (sc_code s))"

text \<open>The flag says whether the handler goes on to \<open>refreshProfile\<close>; it is then still loading, and
  \<open>verifyMFA_done\<close> is its \<open>finally\<close> once the profile request has settled (\<open>refreshProfile\<close>
  never throws).\<close>

definition verifyMFA_reply :: "mfa_verify_response fetch_result \<Rightarrow> security_page \<Rightarrow> security_page \<times> bool" where
  "verifyMFA_reply res s =
     (case read_result ''message'' res of
        Inr r \<Rightarrow> (s\<lparr>sc_status := Some (True, mv_message r), sc_code := []\<rparr>, True)
      | Inl (ErrorObj msg) \<Rightarrow> (s\<lparr>sc_status := Some (False, msg), sc_loading := False\<rparr>, False)
      | Inl OtherThrown \<Rightarrow> (s\<lparr>sc_loading := False\<rparr>, False))"

definition verifyMFA_done :: "security_page \<Rightarrow> security_page" where
  "verifyMFA_done s = s\<lparr>sc_loading := False\<rparr>"

text \<open>\<open>e.target.value.replace(/\D/g, '')\<close>.\<close>

definition setVerifyCode :: "string \<Rightarrow> security_page \<Rightarrow> security_page" where
  "setVerifyCode v s = s\<lparr>sc_code := filter is_digit v\<rparr>"

fun security_update ::
    "api_client \<Rightarrow> security_msg \<Rightarrow> security_page \<Rightarrow> security_page \<times> fetch_call option" where
  "security_update c SetupMFA s = (case handleSetupMFA c s of (s', q) \<Rightarrow> (s', Some q))"
| "security_update c VerifyMFA s = (case handleVerifyMFA c s of (s', q) \<Rightarrow> (s', Some q))"
| "security_update c (CodeTyped v) s = (setVerifyCode v s, None)"

lemmas security_defs = security_page_init_def handleSetupMFA_def setupMFA_reply_def
  handleVerifyMFA_def verifyMFA_reply_def verifyMFA_done_def setVerifyCode_def

subsection \<open>View\<close>

definition mfa_enrolled :: "security_page \<Rightarrow> security_msg node" where
  "mfa_enrolled s =
    El ''div'' [] [
      El ''div'' [
        Style [
          (''background'', ''rgba(0,0,0,0.4)''),
          (''padding'', ''16px''),
          (''borderRadius'', ''8px''),
          (''marginBottom'', ''20px''),
          (''border'', ''1px solid var(--border-color)'')]] [
        El ''div'' [
          Style [
            (''fontSize'', ''12px''),
            (''color'', ''var(--text-muted)''),
            (''marginBottom'', ''4px'')]] [Txt ''Base32 Shared Secret:''],
        El ''div'' [
          Attr ''className'' ''code-inline'',
          Style [
            (''fontSize'', ''15px''),
            (''letterSpacing'', ''2px''),
            (''wordBreak'', ''break-all''),
            (''display'', ''block''),
            (''padding'', ''8px'')]] (text_of_option (sc_secret s)),
        El ''div'' [
          Style [(''fontSize'', ''11px''), (''color'', ''var(--text-muted)''), (''marginTop'', ''8px'')]] [
          Txt ''URI: '',
          El ''span'' [Attr ''className'' ''code-inline'', Style [(''fontSize'', ''10px'')]]
            (text_of_option (sc_totpUri s))]],
      El ''form'' [OnSubmit VerifyMFA] [
        El ''div'' [Attr ''className'' ''form-group''] [
          El ''label'' [Attr ''className'' ''form-label''] [Txt ''Enter 6-Digit Authenticator Code''],
          El ''input'' [
            Attr ''type'' ''text'',
            Attr ''maxLength'' ''6'',
            Attr ''placeholder'' ''123456'',
            Attr ''value'' (sc_code s),
            OnChange CodeTyped,
            Flag ''required'' True,
            Style [
              (''textAlign'', ''center''),
              (''fontSize'', ''20px''),
              (''letterSpacing'', ''6px''),
              (''fontFamily'', ''var(--font-mono)'')]] []],
        El ''button'' [
          Attr ''type'' ''submit'',
          Flag ''disabled'' ((sc_loading s \<or> js_length (sc_code s) \<noteq> 6)),
          Attr ''className'' ''btn btn-success'',
          Style [(''width'', ''100%'')]] ([El ''CheckCircle2'' [Attr ''size'' ''16''] []]
            @ (if sc_loading s then [Txt ''Verifying...''] else [Txt ''Verify & Enable MFA'']))]]"

definition verify_status_view :: "bool \<times> string \<Rightarrow> security_msg node" where
  "verify_status_view st =
    El ''div'' [
      Attr ''className'' (''alert '' @ (if fst st then ''alert-success'' else ''alert-danger'')),
      Style [(''marginTop'', ''16px''), (''margin'', ''16px 0 0 0'')]] ((if fst st
          then [El ''CheckCircle2'' [Attr ''size'' ''18''] []]
          else [El ''ShieldAlert'' [Attr ''size'' ''18''] []])
        @ [El ''span'' [] [Txt (snd st)]])"

definition mfa_card :: "auth_state \<Rightarrow> security_page \<Rightarrow> security_msg node" where
  "mfa_card a s =
    El ''div'' [Attr ''className'' ''card''] ([
        El ''div'' [Attr ''className'' ''card-header''] [
          El ''div'' [Attr ''className'' ''card-title''] [
            El ''Lock'' [Attr ''size'' ''18'', Attr ''color'' ''#3b82f6''] [],
            Txt ''RFC 6238 TOTP Multi-Factor Authentication''],
          El ''span'' [
            Attr ''className'' (''badge '' @ (if mfa_on a then ''badge-green'' else ''badge-amber''))]
            (if mfa_on a then [Txt ''Enforced''] else [Txt ''Not Enrolled''])],
        El ''p'' [
          Style [
            (''fontSize'', ''13px''),
            (''color'', ''var(--text-secondary)''),
            (''marginBottom'', ''20px'')]] [
          Txt
            ''NEXUS implements standard RFC 6238 Time-based One-Time Passwords using HMAC-SHA1 and dynamic 30-second time steps.'']]
        @ (if \<not> truthy (sc_secret s)
          then [
          El ''button'' [
            OnClick SetupMFA,
            Flag ''disabled'' (sc_loading s),
            Attr ''className'' ''btn btn-primary'',
            Style [(''width'', ''100%'')]] ([El ''QrCode'' [Attr ''size'' ''16''] []]
              @ (if sc_loading s then [Txt ''Generating Secret...''] else [
                Txt ''Generate New TOTP Secret'']))]
          else [mfa_enrolled s])
        @ (case sc_status s of Some st \<Rightarrow> [verify_status_view st] | None \<Rightarrow> []))"

definition defense_controls :: "security_msg node" where
  "defense_controls =
    El ''div'' [Attr ''className'' ''card''] [
      El ''div'' [Attr ''className'' ''card-header''] [
        El ''div'' [Attr ''className'' ''card-title''] [
          El ''ShieldCheck'' [Attr ''size'' ''18'', Attr ''color'' ''#10b981''] [],
          Txt ''Active Defense Controls''],
        El ''span'' [Attr ''className'' ''badge badge-green''] [Txt ''Operational'']],
      El ''div'' [Style [(''display'', ''flex''), (''flexDirection'', ''column''), (''gap'', ''16px'')]] [
        El ''div'' [
          Style [
            (''padding'', ''12px 16px''),
            (''background'', ''rgba(255,255,255,0.03)''),
            (''borderRadius'', ''8px''),
            (''border'', ''1px solid var(--border-color)'')]] [
          El ''div'' [
            Style [
              (''display'', ''flex''),
              (''justifyContent'', ''space-between''),
              (''alignItems'', ''center''),
              (''marginBottom'', ''4px'')]] [
            El ''div'' [Style [(''fontWeight'', ''600''), (''fontSize'', ''14px'')]] [
              Txt ''Redis Login Rate Limiter''],
            El ''span'' [Attr ''className'' ''badge badge-blue''] [Txt ''Sliding Window'']],
          El ''p'' [Style [(''fontSize'', ''12px''), (''color'', ''var(--text-secondary)'')]] [
            Txt
              ''5 failed consecutive authentication attempts from an IP address triggers an automatic 15-minute lockout and fires an audit alert.'']],
        El ''div'' [
          Style [
            (''padding'', ''12px 16px''),
            (''background'', ''rgba(255,255,255,0.03)''),
            (''borderRadius'', ''8px''),
            (''border'', ''1px solid var(--border-color)'')]] [
          El ''div'' [
            Style [
              (''display'', ''flex''),
              (''justifyContent'', ''space-between''),
              (''alignItems'', ''center''),
              (''marginBottom'', ''4px'')]] [
            El ''div'' [Style [(''fontWeight'', ''600''), (''fontSize'', ''14px'')]] [
              Txt ''Bcrypt Password Hashing''],
            El ''span'' [Attr ''className'' ''badge badge-purple''] [Txt ''Work Factor 12'']],
          El ''p'' [Style [(''fontSize'', ''12px''), (''color'', ''var(--text-secondary)'')]] [
            Txt
              ''Adaptive hashing with 4096 rounds prevents offline dictionary attacks. Passwords are never logged or stored in plaintext.'']],
        El ''div'' [
          Style [
            (''padding'', ''12px 16px''),
            (''background'', ''rgba(255,255,255,0.03)''),
            (''borderRadius'', ''8px''),
            (''border'', ''1px solid var(--border-color)'')]] [
          El ''div'' [
            Style [
              (''display'', ''flex''),
              (''justifyContent'', ''space-between''),
              (''alignItems'', ''center''),
              (''marginBottom'', ''4px'')]] [
            El ''div'' [Style [(''fontWeight'', ''600''), (''fontSize'', ''14px'')]] [
              Txt ''AWS Secrets Manager Integration''],
            El ''span'' [Attr ''className'' ''badge badge-amber''] [Txt ''HS256 Key Vault'']],
          El ''p'' [Style [(''fontSize'', ''12px''), (''color'', ''var(--text-secondary)'')]] [
            Txt
              ''JWT signing secrets loaded dynamically from AWS Secrets Manager with zero secrets committed to version control.'']]]]"

definition SecurityPage_view :: "auth_state \<Rightarrow> security_page \<Rightarrow> security_msg node" where
  "SecurityPage_view a s =
    El ''div'' [] [
      El ''div'' [Attr ''className'' ''page-header''] [
        El ''div'' [] [
          El ''h1'' [Attr ''className'' ''page-title''] [
            Txt ''Multi-Factor Authentication & Security Controls''],
          El ''p'' [Attr ''className'' ''page-subtitle''] [
            Txt ''RFC 6238 TOTP enrollment, dynamic token verification, and Redis brute-force protection'']]],
      El ''div'' [Attr ''className'' ''grid-2'', Style [(''marginBottom'', ''28px'')]] [
        mfa_card a s,
        defense_controls]]"

lemmas security_view_defs = SecurityPage_view_def mfa_card_def mfa_enrolled_def
  verify_status_view_def defense_controls_def

subsection \<open>The enrolment as a state machine\<close>

text \<open>The request in flight. A form is submitted through its submit button (a browser also blocks
  submitting by Enter while that button is disabled), so \<open>VerifyMFA\<close> needs the button enabled.\<close>

datatype mfa_phase = Idle | SettingUp | Verifying string | Refreshing

definition submit_enabled :: "auth_state \<Rightarrow> security_page \<Rightarrow> bool" where
  "submit_enabled a s \<longleftrightarrow>
     (\<exists>(as, ks) \<in> set (elements ''button'' (SecurityPage_view a s)).
        attr_value ''type'' as = [''submit''] \<and> \<not> is_disabled as)"

inductive security_reachable :: "security_page \<Rightarrow> mfa_phase \<Rightarrow> bool" where
  start: "security_reachable security_page_init Idle"
| typed: "security_reachable s ph \<Longrightarrow> security_update c (CodeTyped v) s = (s', None) \<Longrightarrow>
    security_reachable s' ph"
| enroll: "security_reachable s ph \<Longrightarrow> SetupMFA \<in> set (clicks (SecurityPage_view a s)) \<Longrightarrow>
    security_update c SetupMFA s = (s', Some q) \<Longrightarrow> security_reachable s' SettingUp"
| enroll_reply: "security_reachable s SettingUp \<Longrightarrow> security_reachable (setupMFA_reply res1 s) Idle"
| verify: "security_reachable s ph \<Longrightarrow> VerifyMFA \<in> set (clicks (SecurityPage_view a s)) \<Longrightarrow>
    submit_enabled a s \<Longrightarrow> security_update c VerifyMFA s = (s', Some q) \<Longrightarrow>
    security_reachable s' (Verifying (sc_code s))"
| verify_ok: "security_reachable s (Verifying code) \<Longrightarrow> verifyMFA_reply res2 s = (s', True) \<Longrightarrow>
    security_reachable s' Refreshing"
| verify_fails: "security_reachable s (Verifying code) \<Longrightarrow> verifyMFA_reply res2 s = (s', False) \<Longrightarrow>
    security_reachable s' Idle"
| refreshed: "security_reachable s Refreshing \<Longrightarrow> security_reachable (verifyMFA_done s) Idle"

lemma security_clicks:
  "set (clicks (SecurityPage_view a s)) =
     (if truthy (sc_secret s) then {VerifyMFA} else if sc_loading s then {} else {SetupMFA})"
  by (auto simp: security_view_defs split: option.split)

lemma submit_enabled_iff:
  "submit_enabled a s \<longleftrightarrow> truthy (sc_secret s) \<and> \<not> sc_loading s \<and> js_length (sc_code s) = 6"
  by (auto simp: submit_enabled_def security_view_defs text_of_option_def elements_all_def
      split: option.split)

lemma digits_js_length: "list_all is_digit s \<Longrightarrow> js_length s = length s"
  by (rule js_length_ascii) (auto simp: list_all_iff is_digit_def)

definition phase_ok :: "security_page \<Rightarrow> mfa_phase \<Rightarrow> bool" where
  "phase_ok s ph \<longleftrightarrow>
     list_all is_digit (sc_code s) \<and> (sc_loading s \<longleftrightarrow> ph \<noteq> Idle) \<and>
     (case ph of Verifying code \<Rightarrow> length code = 6 \<and> list_all is_digit code | _ \<Rightarrow> True)"

lemma security_reachable_ok: "security_reachable s ph \<Longrightarrow> phase_ok s ph"
proof (induction rule: security_reachable.induct)
  case start
  then show ?case by (simp add: phase_ok_def security_page_init_def)
next
  case (typed s ph c v s')
  then show ?case by (auto simp: phase_ok_def setVerifyCode_def list_all_iff split: mfa_phase.splits)
next
  case (enroll s ph a c s' q)
  then show ?case by (auto simp: phase_ok_def handleSetupMFA_def)
next
  case (enroll_reply s res1)
  then show ?case by (auto simp: phase_ok_def setupMFA_reply_def split: sum.split thrown.split)
next
  case (verify s ph a c s' q)
  then show ?case by (auto simp: phase_ok_def handleVerifyMFA_def submit_enabled_iff digits_js_length)
next
  case (verify_ok s code res2 s')
  then show ?case by (auto simp: phase_ok_def verifyMFA_reply_def split: sum.splits thrown.splits)
next
  case (verify_fails s code res2 s')
  then show ?case by (auto simp: phase_ok_def verifyMFA_reply_def split: sum.splits thrown.splits)
next
  case (refreshed s)
  then show ?case by (simp add: phase_ok_def verifyMFA_done_def)
qed

text \<open>C22: In every reachable state of the enrolment page the code field holds digits only, the page
  is loading exactly while a request is in flight, at most one request is in flight (while one
  is, neither button is enabled), and a code that is being verified has six digits.\<close>

theorem enrolment_invariant:
  assumes "security_reachable s ph"
  shows "list_all is_digit (sc_code s) \<and> (sc_loading s \<longleftrightarrow> ph \<noteq> Idle) \<and>
    (sc_loading s \<longrightarrow> SetupMFA \<notin> set (clicks (SecurityPage_view a s)) \<and> \<not> submit_enabled a s) \<and>
    (\<forall>code. ph = Verifying code \<longrightarrow> length code = 6 \<and> list_all is_digit code)"
  using security_reachable_ok [OF assms]
  by (auto simp: phase_ok_def security_clicks submit_enabled_iff)

lemma setup_in_flight: "\<exists>s. security_reachable s SettingUp"
proof -
  have "SetupMFA \<in> set (clicks (SecurityPage_view (auth_init None) security_page_init))"
    by (simp add: security_clicks security_page_init_def truthy_def)
  then have "security_reachable (fst (handleSetupMFA (new_ApiClient None) security_page_init)) SettingUp"
    by (rule security_reachable.enroll [OF security_reachable.start])
      (simp add: handleSetupMFA_def)
  then show ?thesis by blast
qed

theorem enrolment_invariant_witness:
  "\<exists>s. security_reachable s SettingUp \<and> sc_loading s \<and> SetupMFA \<notin> set (clicks (SecurityPage_view (auth_init None) s))"
proof -
  obtain s where s: "security_reachable s SettingUp" using setup_in_flight by blast
  with enrolment_invariant [OF s, of "auth_init None"] show ?thesis by blast
qed

text \<open>A refused verification is shown as the server worded it.\<close>

lemma verify_refused:
  "verifyMFA_reply (HttpError st data) s =
     (s\<lparr>sc_status := Some (False, http_error_message st data), sc_loading := False\<rparr>, False)"
  by (simp add: verifyMFA_reply_def reply_defs)

end
