(* ===== verification/DashboardPage.thy ===== *)
theory DashboardPage
  imports AuthProvider AuditPage
begin

text \<open>
  \<open>frontend/src/pages/DashboardPage.tsx\<close>: the overview with its two requests on mount (the second
  is sent when the first has settled), the RBAC endpoint prover and the recent audit events.
\<close>

subsection \<open>State and handlers\<close>

record test_result =
  tr_endpoint :: string
  tr_status :: string       \<comment> \<open>a number or a string in the source; shown as text either way\<close>
  tr_message :: string
  tr_success :: bool

record dashboard_page =
  db_events :: "audit_event list"
  db_totalUsers :: nat
  db_result :: "test_result option"
  db_testing :: bool

definition dashboard_page_init :: dashboard_page where
  "dashboard_page_init = \<lparr>db_events = [], db_totalUsers = 4, db_result = None, db_testing = False\<rparr>"

datatype dashboard_msg = TestUser | TestAdmin

text \<open>\<open>fetchData\<close>: its first request, and its continuations.\<close>

definition fetchData :: "api_client \<Rightarrow> fetch_call" where
  "fetchData c = api_listAuditLogs c 1 6"

definition fetchData_audit_reply ::
    "audit_list_response fetch_result \<Rightarrow> api_client \<Rightarrow> dashboard_page \<Rightarrow> dashboard_page \<times> fetch_call" where
  "fetchData_audit_reply res c s =
     ((case read_result ''events'' res of
         Inr r \<Rightarrow> s\<lparr>db_events := (case al_events r of None \<Rightarrow> [] | Some es \<Rightarrow> es)\<rparr>
       | Inl _ \<Rightarrow> s), api_listUsers c)"

definition fetchData_users_reply :: "(ui_user list \<times> nat) fetch_result \<Rightarrow> dashboard_page \<Rightarrow> dashboard_page" where
  "fetchData_users_reply res s =
     (case read_result ''count'' res of
        Inr (us, n) \<Rightarrow> s\<lparr>db_totalUsers := (if n = 0 then 4 else n)\<rparr>
      | Inl _ \<Rightarrow> s)"

text \<open>The body of the two demo endpoints.\<close>

record prover_response =
  pr_message :: string
  pr_user :: string
  pr_role :: string

definition prover_endpoint :: "dashboard_msg \<Rightarrow> string" where
  "prover_endpoint m =
     (case m of TestAdmin \<Rightarrow> ''GET /api/v1/admin-only'' | TestUser \<Rightarrow> ''GET /api/v1/user-or-admin'')"

definition testEndpoint :: "api_client \<Rightarrow> dashboard_msg \<Rightarrow> dashboard_page \<Rightarrow> dashboard_page \<times> fetch_call" where
  "testEndpoint c m s =
     (s\<lparr>db_testing := True, db_result := None\<rparr>,
      case m of TestAdmin \<Rightarrow> api_getAdminOnly c | TestUser \<Rightarrow> api_getUserOrAdmin c)"

definition testEndpoint_reply ::
    "dashboard_msg \<Rightarrow> prover_response fetch_result \<Rightarrow> dashboard_page \<Rightarrow> dashboard_page" where
  "testEndpoint_reply m res s =
     (case read_result ''message'' res of
        Inr r \<Rightarrow> s\<lparr>db_result := Some \<lparr>tr_endpoint = prover_endpoint m, tr_status = ''200'',
             tr_message = pr_message r @ '' (Authenticated as '' @ pr_user r @ '', role: '' @ pr_role r @ '')'',
             tr_success = True\<rparr>, db_testing := False\<rparr>
      | Inl (ErrorObj msg) \<Rightarrow> s\<lparr>db_result := Some \<lparr>tr_endpoint = prover_endpoint m,
             tr_status = ''403 / 401'', tr_message = msg, tr_success = False\<rparr>, db_testing := False\<rparr>
      | Inl OtherThrown \<Rightarrow> s\<lparr>db_testing := False\<rparr>)"

lemmas dashboard_defs = dashboard_page_init_def fetchData_def fetchData_audit_reply_def
  fetchData_users_reply_def prover_endpoint_def testEndpoint_def testEndpoint_reply_def

subsection \<open>View\<close>

definition stats_grid :: "auth_state \<Rightarrow> dashboard_page \<Rightarrow> dashboard_msg node" where
  "stats_grid a s =
    El ''div'' [Attr ''className'' ''grid-4'', Style [(''marginBottom'', ''28px'')]] [
      El ''div'' [Attr ''className'' ''stat-card''] [
        El ''div'' [] [
          El ''div'' [Attr ''className'' ''stat-label''] [Txt ''Active Users''],
          El ''div'' [Attr ''className'' ''stat-value''] [Txt (show_nat (db_totalUsers s))],
          El ''div'' [
            Style [
              (''fontSize'', ''12px''),
              (''color'', ''var(--accent-green)''),
              (''marginTop'', ''4px'')]] [Txt (black_circle @ '' 100% Active Directory'')]],
        El ''div'' [
          Attr ''className'' ''stat-icon'',
          Style [(''background'', ''rgba(59, 130, 246, 0.15)''), (''color'', ''#60a5fa'')]] [
          El ''Users'' [Attr ''size'' ''24''] []]],
      El ''div'' [Attr ''className'' ''stat-card''] [
        El ''div'' [] [
          El ''div'' [Attr ''className'' ''stat-label''] [Txt ''Current Role''],
          El ''div'' [
            Attr ''className'' ''stat-value'',
            Style [(''fontSize'', ''20px''), (''textTransform'', ''uppercase'')]]
            (case au_user a of None \<Rightarrow> [] | Some u \<Rightarrow> [Txt (role_name (uu_role u))]),
          El ''div'' [
            Style [
              (''fontSize'', ''12px''),
              (''color'', ''var(--text-secondary)''),
              (''marginTop'', ''4px'')]] ([Txt ''ID: '']
              @ (case au_user a of None \<Rightarrow> [] | Some u \<Rightarrow> [Txt (take 8 (uu_id u))])
              @ [Txt ''...''])],
        El ''div'' [
          Attr ''className'' ''stat-icon'',
          Style [(''background'', ''rgba(139, 92, 246, 0.15)''), (''color'', ''#a78bfa'')]] [
          El ''ShieldCheck'' [Attr ''size'' ''24''] []]],
      El ''div'' [Attr ''className'' ''stat-card''] [
        El ''div'' [] [
          El ''div'' [Attr ''className'' ''stat-label''] [Txt ''MFA Status''],
          El ''div'' [Attr ''className'' ''stat-value'', Style [(''fontSize'', ''22px'')]]
            (if mfa_on a then [Txt ''Enforced''] else [Txt ''Optional'']),
          El ''div'' [
            Style [
              (''fontSize'', ''12px''),
              (''color'', (if mfa_on a then ''var(--accent-green)'' else ''var(--accent-amber)'')),
              (''marginTop'', ''4px'')]] [Txt ''RFC 6238 TOTP'']],
        El ''div'' [
          Attr ''className'' ''stat-icon'',
          Style [(''background'', ''rgba(16, 185, 129, 0.15)''), (''color'', ''#34d399'')]] [
          El ''Lock'' [Attr ''size'' ''24''] []]],
      El ''div'' [Attr ''className'' ''stat-card''] [
        El ''div'' [] [
          El ''div'' [Attr ''className'' ''stat-label''] [Txt ''Rate Limiter''],
          El ''div'' [
            Attr ''className'' ''stat-value'',
            Style [(''fontSize'', ''22px''), (''color'', ''#60a5fa'')]] [Txt ''Active''],
          El ''div'' [
            Style [
              (''fontSize'', ''12px''),
              (''color'', ''var(--text-secondary)''),
              (''marginTop'', ''4px'')]] [Txt ''Redis 5-Attempt Sliding'']],
        El ''div'' [
          Attr ''className'' ''stat-icon'',
          Style [(''background'', ''rgba(239, 68, 68, 0.15)''), (''color'', ''#f87171'')]] [
          El ''ShieldAlert'' [Attr ''size'' ''24''] []]]]"

definition test_result_view :: "test_result \<Rightarrow> dashboard_msg node" where
  "test_result_view r =
    El ''div'' [
      Attr ''className'' (''alert '' @ (if tr_success r then ''alert-success'' else ''alert-danger'')),
      Style [(''alignItems'', ''flex-start''), (''margin'', ''0'')]] ((if tr_success r
          then [
          El ''CheckCircle2'' [
            Attr ''size'' ''20'',
            Style [(''flexShrink'', ''0''), (''marginTop'', ''2px'')]] []]
          else [
          El ''XCircle'' [Attr ''size'' ''20'', Style [(''flexShrink'', ''0''), (''marginTop'', ''2px'')]]
            []])
        @ [
        El ''div'' [Style [(''flex'', ''1'')]] [
          El ''div'' [Style [(''fontWeight'', ''700''), (''fontSize'', ''13px'')]] [
            Txt (tr_endpoint r),
            Txt ('' '' @ right_arrow @ '' HTTP ''),
            Txt (tr_status r)],
          El ''div'' [Style [(''fontSize'', ''13px''), (''marginTop'', ''2px'')]] [Txt (tr_message r)]]])"

definition endpoint_prover :: "dashboard_page \<Rightarrow> dashboard_msg node" where
  "endpoint_prover s =
    El ''div'' [Attr ''className'' ''card''] ([
        El ''div'' [Attr ''className'' ''card-header''] [
          El ''div'' [Attr ''className'' ''card-title''] [
            El ''Activity'' [Attr ''size'' ''18'', Attr ''color'' ''#3b82f6''] [],
            Txt ''Live RBAC Endpoint Prover''],
          El ''span'' [Attr ''className'' ''badge badge-blue''] [Txt ''Interactive Test'']],
        El ''p'' [
          Style [
            (''fontSize'', ''13px''),
            (''color'', ''var(--text-secondary)''),
            (''marginBottom'', ''16px'')]] [
          Txt
            ''Exercise backend RBAC authorization middleware in real-time. Verify whether your token is accepted (200) or rejected (403/401).''],
        El ''div'' [Style [(''display'', ''flex''), (''gap'', ''12px''), (''marginBottom'', ''20px'')]] [
          El ''button'' [
            OnClick TestUser,
            Flag ''disabled'' (db_testing s),
            Attr ''className'' ''btn btn-secondary'',
            Style [(''flex'', ''1'')]] [
            El ''Play'' [Attr ''size'' ''14''] [],
            Txt ''Call '',
            El ''code'' [Style [(''fontSize'', ''12px'')]] [Txt ''/user-or-admin'']],
          El ''button'' [
            OnClick TestAdmin,
            Flag ''disabled'' (db_testing s),
            Attr ''className'' ''btn btn-secondary'',
            Style [(''flex'', ''1'')]] [
            El ''Play'' [Attr ''size'' ''14''] [],
            Txt ''Call '',
            El ''code'' [Style [(''fontSize'', ''12px'')]] [Txt ''/admin-only'']]]]
        @ (case db_result s of Some r \<Rightarrow> [test_result_view r] | None \<Rightarrow> []))"

definition decision_pipeline :: "dashboard_msg node" where
  "decision_pipeline =
    El ''div'' [Attr ''className'' ''card''] [
      El ''div'' [Attr ''className'' ''card-header''] [
        El ''div'' [Attr ''className'' ''card-title''] [
          El ''ShieldCheck'' [Attr ''size'' ''18'', Attr ''color'' ''#10b981''] [],
          Txt ''Access Decision Pipeline''],
        El ''span'' [Attr ''className'' ''badge badge-green''] [Txt ''Zero Trust'']],
      El ''div'' [
        Style [
          (''fontFamily'', ''var(--font-mono)''),
          (''fontSize'', ''12px''),
          (''background'', ''rgba(0,0,0,0.3)''),
          (''padding'', ''16px''),
          (''borderRadius'', ''8px''),
          (''lineHeight'', ''1.8''),
          (''color'', ''#93c5fd'')]] [
        El ''div'' [] [Txt (''USER '' @ right_arrow @ '' AUTHENTICATION (Bcrypt Cost 12)'')],
        El ''div'' [] [Txt (nbsp @ nbsp @ down_arrow)],
        El ''div'' [] [Txt ''JWT SIGNATURE (AWS Secrets Manager / HS256)''],
        El ''div'' [] [Txt (nbsp @ nbsp @ down_arrow)],
        El ''div'' [] [Txt ''MFA VERIFICATION (RFC 6238 TOTP HMAC-SHA1)''],
        El ''div'' [] [Txt (nbsp @ nbsp @ down_arrow)],
        El ''div'' [] [Txt ''RBAC PERMISSIONS CHECK (Fine-grained capabilities)''],
        El ''div'' [] [Txt (nbsp @ nbsp @ down_arrow)],
        El ''div'' [] [Txt ''POLICY ENGINE EVALUATION (Risk + Device Trust)''],
        El ''div'' [] [Txt (nbsp @ nbsp @ down_arrow)],
        El ''div'' [] [Txt (''ACCESS DECISION '' @ right_arrow @ '' AUDIT TRAIL RECORDED'')]]]"

definition dashboard_row :: "(string \<Rightarrow> string) \<Rightarrow> audit_event \<Rightarrow> dashboard_msg node" where
  "dashboard_row fmt evt =
    El ''tr'' [] [
      El ''td'' [] [
        El ''span'' [
          Attr ''className'' (''badge ''
              @ (if (js_includes (ae_action evt) ''SUCCESS'' \<or> js_includes (ae_action evt) ''GRANTED''
                  \<or> js_includes (ae_action evt) ''REGISTERED'')
                then ''badge-green''
                else (if (js_includes (ae_action evt) ''DENIED'' \<or> js_includes (ae_action evt)
                    ''FAILED'' \<or> js_includes (ae_action evt) ''RATE_LIMIT'')
                  then ''badge-red''
                  else ''badge-blue'')))] [Txt (ae_action evt)]],
      El ''td'' [Attr ''className'' ''code-inline''] [
        Txt (if truthy (ae_resource evt)
            then the (ae_resource evt)
            else if truthy (ae_user_id evt)
            then the (ae_user_id evt)
            else ''system'')],
      El ''td'' [] [Txt (if truthy (ae_ip_address evt) then the (ae_ip_address evt) else ''127.0.0.1'')],
      El ''td'' [Style [(''color'', ''var(--text-secondary)''), (''fontSize'', ''13px'')]] [
        Txt (fmt (ae_timestamp evt))]]"

definition recent_logs :: "(string \<Rightarrow> string) \<Rightarrow> dashboard_page \<Rightarrow> dashboard_msg node" where
  "recent_logs fmt s =
    El ''div'' [Attr ''className'' ''card''] [
      El ''div'' [Attr ''className'' ''card-header''] [
        El ''div'' [Attr ''className'' ''card-title''] [
          El ''Activity'' [Attr ''size'' ''18'', Attr ''color'' ''#8b5cf6''] [],
          Txt ''Recent Security Audit Stream''],
        El ''Link'' [
          Attr ''to'' ''/audit'',
          Attr ''className'' ''btn btn-secondary'',
          Style [(''padding'', ''6px 12px''), (''fontSize'', ''12px'')]] [
          Txt ''View Full Trail '',
          El ''ArrowUpRight'' [Attr ''size'' ''14''] []]],
      El ''div'' [Attr ''className'' ''table-container''] [
        El ''table'' [] [
          El ''thead'' [] [
            El ''tr'' [] [
              El ''th'' [] [Txt ''Event Action''],
              El ''th'' [] [Txt ''Resource / User''],
              El ''th'' [] [Txt ''IP Address''],
              El ''th'' [] [Txt ''Timestamp'']]],
          El ''tbody'' [] (if db_events s \<noteq> []
              then map (\<lambda>evt. dashboard_row fmt evt) (db_events s)
              else [
              El ''tr'' [] [
                El ''td'' [
                  Attr ''colSpan'' ''4'',
                  Style [
                    (''textAlign'', ''center''),
                    (''color'', ''var(--text-muted)''),
                    (''padding'', ''24px'')]] [
                  Txt
                    ''No audit records available for your role or event stream is currently initializing.'']]])]]]"

definition DashboardPage_view :: "(string \<Rightarrow> string) \<Rightarrow> auth_state \<Rightarrow> dashboard_page \<Rightarrow> dashboard_msg node" where
  "DashboardPage_view fmt a s =
    El ''div'' [] [
      El ''div'' [Attr ''className'' ''page-header''] [
        El ''div'' [] [
          El ''h1'' [Attr ''className'' ''page-title''] [Txt ''Security Overview''],
          El ''p'' [Attr ''className'' ''page-subtitle''] [
            Txt ''Organization Identity Posture & Zero-Trust Access State'']],
        El ''div'' [Style [(''display'', ''flex''), (''gap'', ''12px'')]] [
          El ''Link'' [Attr ''to'' ''/policies'', Attr ''className'' ''btn btn-secondary''] [
            El ''Key'' [Attr ''size'' ''16''] [],
            Txt ''Evaluate Access''],
          El ''Link'' [Attr ''to'' ''/security'', Attr ''className'' ''btn btn-primary''] [
            El ''Lock'' [Attr ''size'' ''16''] [],
            Txt ''MFA Settings'']]],
      stats_grid a s,
      El ''div'' [Attr ''className'' ''grid-2'', Style [(''marginBottom'', ''28px'')]] [
        endpoint_prover s,
        decision_pipeline],
      recent_logs fmt s]"

lemmas dashboard_view_defs = DashboardPage_view_def stats_grid_def test_result_view_def
  endpoint_prover_def decision_pipeline_def recent_logs_def dashboard_row_def

subsection \<open>The overview\<close>

text \<open>The texts of the first card: the number of active users.\<close>

definition shown_users :: "dashboard_page \<Rightarrow> string" where
  "shown_users s = show_nat (db_totalUsers s)"

definition mount_dashboard ::
    "audit_list_response fetch_result \<Rightarrow> (ui_user list \<times> nat) fetch_result \<Rightarrow> api_client \<Rightarrow> dashboard_page" where
  "mount_dashboard r1 r2 c =
     fetchData_users_reply r2 (fst (fetchData_audit_reply r1 c dashboard_page_init))"

lemma recent_rows:
  "elements ''tr'' (recent_logs fmt s) \<noteq> [] \<and>
   length (elements ''tr'' (recent_logs fmt s)) = 1 + (if db_events s = [] then 1 else length (db_events s))"
  by (simp add: recent_logs_def dashboard_row_def elements_all_map length_concat comp_def sum_list_triv)

text \<open>What the overview shows once its requests have settled: the count of active users is the
  server's count when the request succeeded with a positive one, and 4 in every other case, so
  a role that may not list users sees 4 whatever the directory holds; and the events are those
  of the audit answer, or none when that request failed, without any error shown.\<close>

theorem overview_after_mount:
  "(shown_users (mount_dashboard r1 r2 c) =
      (case r2 of HttpOk (Some (us, n)) \<Rightarrow> show_nat (if n = 0 then 4 else n) | _ \<Rightarrow> show_nat 4)) \<and>
   db_events (mount_dashboard r1 r2 c) =
      (case r1 of HttpOk (Some r) \<Rightarrow> (case al_events r of None \<Rightarrow> [] | Some es \<Rightarrow> es) | _ \<Rightarrow> []) \<and>
   db_result (mount_dashboard r1 r2 c) = None \<and>
   Txt (shown_users s) \<in> set (concat (map snd (elements ''div'' (stats_grid a s)))) \<and>
   length (elements ''tr'' (recent_logs fmt s)) = 1 + max 1 (length (db_events s))"
proof -
  have users: "shown_users (mount_dashboard r1 r2 c) =
      (case r2 of HttpOk (Some (us, n)) \<Rightarrow> show_nat (if n = 0 then 4 else n) | _ \<Rightarrow> show_nat 4)"
    by (cases r2) (auto simp: mount_dashboard_def shown_users_def dashboard_defs reply_defs split: sum.split option.split thrown.split)
  have events: "db_events (mount_dashboard r1 r2 c) =
      (case r1 of HttpOk (Some r) \<Rightarrow> (case al_events r of None \<Rightarrow> [] | Some es \<Rightarrow> es) | _ \<Rightarrow> []) \<and>
      db_result (mount_dashboard r1 r2 c) = None"
    by (cases r1) (auto simp: mount_dashboard_def dashboard_defs reply_defs
        split: sum.split option.split thrown.split)
  have "1 + (if db_events s = [] then 1 else length (db_events s)) = 1 + max 1 (length (db_events s))"
    by (cases "db_events s") simp_all
  then show ?thesis
    using users events recent_rows [of fmt s] by (simp add: stats_grid_def shown_users_def)
qed

text \<open>The overview's events are the newest ones: the server answers the request the page sends on
  mount with the six newest events of the log, newest first (all of them when there are fewer).\<close>

theorem overview_newest_events:
  "fc_url (fetchData c) = ''/api/v1/audit?page='' @ show_nat 1 @ ''&page_size='' @ show_nat 6 \<and>
   (\<exists>reply. List_handler l [(''page'', show_nat 1), (''page_size'', show_nat 6)] = Inr reply \<and>
      ar_events reply = Some (take 6 (rev (ml_events l))) \<and> ar_total reply = length (ml_events l))"
proof -
  let ?q = "[(''page'', show_nat 1), (''page_size'', show_nat 6)]"
  have "atoi (show_nat 1) = Some 1" "atoi (show_nat 6) = Some 6"
    using atoi_show [of 1] atoi_show [of 6] by simp_all
  then have q: "page_param ?q = 1" "page_size_param ?q = 6"
    by (simp_all add: page_param_def page_size_param_def)
  then have "page_param ?q < 2 ^ 55" by simp
  from List_handler_page [OF this, of l] q show ?thesis
    by (simp add: fetchData_def api_listAuditLogs_def api_request_def API_BASE_def page_of_def)
qed

subsection \<open>The endpoint prover\<close>

text \<open>The prover shows one test at a time: while a test runs neither button is enabled and no result
  is shown; after its reply the page shows a result for the tested endpoint, marked successful
  exactly when the server accepted the request, and every failure, whatever its status (a
  server error and a network error included), is labelled \<open>403 / 401\<close>.\<close>

theorem prover_outcome:
  assumes "res \<noteq> NetworkError OtherThrown"
  shows "clicks (DashboardPage_view fmt a (fst (testEndpoint c m s))) = [] \<and>
    db_result (fst (testEndpoint c m s)) = None \<and>
    set (clicks (DashboardPage_view fmt a (testEndpoint_reply m res s))) = {TestUser, TestAdmin} \<and>
    (case db_result (testEndpoint_reply m res s) of None \<Rightarrow> False | Some r \<Rightarrow>
      tr_endpoint r = prover_endpoint m \<and> (tr_success r \<longleftrightarrow> (\<exists>v. res = HttpOk (Some v))) \<and>
      tr_status r = (if tr_success r then ''200'' else ''403 / 401''))"
proof -
  have clk: "clicks (DashboardPage_view fmt a s') = (if db_testing s' then [] else [TestUser, TestAdmin])" for s'
    by (simp add: dashboard_view_defs clicks_all_map split: option.split)
  have reply: "\<not> db_testing (testEndpoint_reply m res s) \<and>
    (case db_result (testEndpoint_reply m res s) of None \<Rightarrow> False | Some r \<Rightarrow>
      tr_endpoint r = prover_endpoint m \<and> (tr_success r \<longleftrightarrow> (\<exists>v. res = HttpOk (Some v))) \<and>
      tr_status r = (if tr_success r then ''200'' else ''403 / 401''))"
    using assms by (cases res) (auto simp: testEndpoint_reply_def reply_defs
        null_read_def split: option.split thrown.split)
  then show ?thesis by (auto simp: clk testEndpoint_def)
qed

theorem prover_outcome_witness:
  "\<exists>r. db_result (testEndpoint_reply TestAdmin (HttpError 500 None) dashboard_page_init) = Some r \<and>
     tr_status r = ''403 / 401'' \<and> \<not> tr_success r"
proof -
  have "HttpError 500 None \<noteq> (NetworkError OtherThrown :: prover_response fetch_result)" by simp
  from prover_outcome [OF this, of id "auth_init None" "new_ApiClient None" TestAdmin dashboard_page_init]
  show ?thesis by (auto split: option.splits)
qed

text \<open>The fallback badge of this page differs from the audit page's only for policy, role and rejection events.\<close>

lemma dashboard_badge:
  "js_includes (ae_action e) ''POLICY'' \<or> js_includes (ae_action e) ''ROLE'' \<or>
   js_includes (ae_action e) ''REJECTED'' \<or>
   Attr ''className'' (''badge '' @ getActionBadge (ae_action e)) \<in>
     set (concat (map fst (elements ''span'' (dashboard_row fmt e))))"
  by (auto simp: dashboard_row_def getActionBadge_def)

end
