(* ===== verification/ApplicationsPage.thy ===== *)
theory ApplicationsPage
  imports AuthProvider
begin

text \<open>
  \<open>frontend/src/pages/ApplicationsPage.tsx\<close>: the application catalog and its access checks.
  \<open>applications_reachable\<close> is the page under any sequence of launches and replies.
\<close>

subsection \<open>State and handlers\<close>

record app_item =
  ai_id :: string
  ai_name :: string
  ai_slug :: string
  ai_description :: string
  ai_iconType :: string
  ai_sensitivity :: string

definition apps :: "app_item list" where
  "apps =
    [\<lparr>ai_id = ''app-aws-console'', ai_name = ''AWS Management Console'', ai_slug = ''aws-console'',
      ai_description = ''Production cloud infrastructure orchestration, ECS clusters, VPC and IAM roles.'',
      ai_iconType = ''aws'', ai_sensitivity = ''Critical''\<rparr>,
     \<lparr>ai_id = ''app-prod-db'', ai_name = ''Production PostgreSQL Database'', ai_slug = ''prod-db'',
      ai_description = ''Core transactional customer data warehouse and identity store replica.'',
      ai_iconType = ''db'', ai_sensitivity = ''Critical''\<rparr>,
     \<lparr>ai_id = ''app-reporting'', ai_name = ''Executive Reporting Dashboard'', ai_slug = ''reporting-dashboard'',
      ai_description = ''Business intelligence telemetry, analytics exports, and compliance reporting.'',
      ai_iconType = ''chart'', ai_sensitivity = ''Medium''\<rparr>,
     \<lparr>ai_id = ''app-vault'', ai_name = ''Cloud Secrets Vault'', ai_slug = ''secrets-vault'',
      ai_description = ''AWS Secrets Manager signing keys, HSM tokens, and database credentials.'',
      ai_iconType = ''vault'', ai_sensitivity = ''Critical''\<rparr>]"

record applications_page =
  ap_selected :: "app_item option"
  ap_result :: "access_response option"
  ap_checking :: bool

definition applications_page_init :: applications_page where
  "applications_page_init = \<lparr>ap_selected = None, ap_result = None, ap_checking = False\<rparr>"

datatype applications_msg = LaunchApp app_item

definition launch_request :: "app_item \<Rightarrow> access_request" where
  "launch_request app = \<lparr>aq_application = ai_slug app, aq_device_trusted = True,
     aq_mfa_verified = True, aq_risk_score = Some 15\<rparr>"

definition handleLaunchApp ::
    "api_client \<Rightarrow> app_item \<Rightarrow> applications_page \<Rightarrow> applications_page \<times> fetch_call" where
  "handleLaunchApp c app s =
     (s\<lparr>ap_selected := Some app, ap_checking := True, ap_result := None\<rparr>,
      api_checkAccess c (launch_request app))"

text \<open>The answer is stored as it is, null included.\<close>

definition launch_reply :: "access_response fetch_result \<Rightarrow> applications_page \<Rightarrow> applications_page" where
  "launch_reply res s =
     (case request_result res of
        Inr r \<Rightarrow> s\<lparr>ap_result := r, ap_checking := False\<rparr>
      | Inl (ErrorObj msg) \<Rightarrow>
          s\<lparr>ap_result := Some \<lparr>ap_decision = DENY, ap_reason = msg, ap_policy_id = None\<rparr>,
            ap_checking := False\<rparr>
      | Inl OtherThrown \<Rightarrow> s\<lparr>ap_checking := False\<rparr>)"

text \<open>The decision shown is the last answer's; only a thrown value that is no error brings none.\<close>

fun launch_value :: "access_response fetch_result \<Rightarrow> access_response option option" where
  "launch_value (HttpOk r) = Some r"
| "launch_value (HttpError st data) =
     Some (Some \<lparr>ap_decision = DENY, ap_reason = http_error_message st data, ap_policy_id = None\<rparr>)"
| "launch_value (NetworkError (ErrorObj msg)) =
     Some (Some \<lparr>ap_decision = DENY, ap_reason = msg, ap_policy_id = None\<rparr>)"
| "launch_value (NetworkError OtherThrown) = None"

interpretation app_page: last_reply_wins launch_reply ap_result launch_value
proof
  show "ap_result (launch_reply r s) = (case launch_value r of None \<Rightarrow> ap_result s | Some v \<Rightarrow> v)" for r s
    by (cases r rule: launch_value.cases) (simp_all add: launch_reply_def request_result_def)
qed

subsection \<open>View\<close>

definition renderIcon :: "string \<Rightarrow> 'm node" where
  "renderIcon t =
     (if t = ''aws'' then El ''Cloud'' [Attr ''size'' ''24'', Attr ''color'' ''#f59e0b''] []
      else if t = ''db'' then El ''Database'' [Attr ''size'' ''24'', Attr ''color'' ''#3b82f6''] []
      else if t = ''chart'' then El ''BarChart3'' [Attr ''size'' ''24'', Attr ''color'' ''#10b981''] []
      else if t = ''vault'' then El ''Key'' [Attr ''size'' ''24'', Attr ''color'' ''#8b5cf6''] []
      else El ''Cloud'' [Attr ''size'' ''24''] [])"

definition app_card :: "app_item \<Rightarrow> applications_msg node" where
  "app_card app =
    El ''div'' [
      Attr ''className'' ''card'',
      Style [
        (''display'', ''flex''),
        (''flexDirection'', ''column''),
        (''justifyContent'', ''space-between'')]] [
      El ''div'' [] [
        El ''div'' [
          Style [
            (''display'', ''flex''),
            (''justifyContent'', ''space-between''),
            (''alignItems'', ''flex-start''),
            (''marginBottom'', ''14px'')]] [
          El ''div'' [
            Style [
              (''width'', ''48px''),
              (''height'', ''48px''),
              (''borderRadius'', ''12px''),
              (''background'', ''rgba(255, 255, 255, 0.05)''),
              (''display'', ''flex''),
              (''alignItems'', ''center''),
              (''justifyContent'', ''center''),
              (''border'', ''1px solid var(--border-color)'')]] [renderIcon (ai_iconType app)],
          El ''span'' [
            Attr ''className'' (''badge '' @ (if (ai_sensitivity app) = ''Critical''
                  then ''badge-red'' else ''badge-green''))] [Txt (ai_sensitivity app)]],
        El ''h3'' [
          Style [(''fontSize'', ''17px''), (''fontWeight'', ''700''), (''marginBottom'', ''6px'')]] [
          Txt (ai_name app)],
        El ''div'' [
          Attr ''className'' ''code-inline'',
          Style [(''display'', ''inline-block''), (''marginBottom'', ''12px''), (''fontSize'', ''11px'')]] [
          Txt (ai_slug app)],
        El ''p'' [
          Style [
            (''fontSize'', ''13px''),
            (''color'', ''var(--text-secondary)''),
            (''lineHeight'', ''1.6'')]] [Txt (ai_description app)]],
      El ''div'' [
        Style [
          (''marginTop'', ''20px''),
          (''paddingTop'', ''16px''),
          (''borderTop'', ''1px solid var(--border-color)''),
          (''display'', ''flex''),
          (''justifyContent'', ''space-between''),
          (''alignItems'', ''center'')]] [
        El ''span'' [Style [(''fontSize'', ''12px''), (''color'', ''var(--text-muted)'')]] [
          Txt ''Policy Enforced''],
        El ''button'' [
          OnClick (LaunchApp app),
          Attr ''className'' ''btn btn-primary'',
          Style [(''padding'', ''8px 14px''), (''fontSize'', ''13px'')]] [
          Txt ''Request Access'',
          El ''ExternalLink'' [Attr ''size'' ''14''] []]]]"

definition check_result_view :: "access_response \<Rightarrow> applications_msg node" where
  "check_result_view r =
    El ''div'' [
      Attr ''className'' (''alert ''
          @ (if ap_decision r = ALLOW
            then ''alert-success''
            else (if ap_decision r = REQUIRE_MFA then ''alert-info'' else ''alert-danger''))),
      Style [(''margin'', ''0'')]] [
      El ''div'' [] [
        El ''div'' [
          Style [(''fontWeight'', ''800''), (''fontSize'', ''14px''), (''textTransform'', ''uppercase'')]] [
          Txt ''Decision: '',
          Txt (decision_name (ap_decision r))],
        El ''div'' [Style [(''fontSize'', ''13px''), (''marginTop'', ''4px'')]] [Txt (ap_reason r)]]]"

definition decision_card :: "applications_page \<Rightarrow> app_item \<Rightarrow> applications_msg node" where
  "decision_card s app =
    El ''div'' [Attr ''className'' ''card'', Style [(''border'', ''1px solid #3b82f6'')]]
      ([
        El ''div'' [Attr ''className'' ''card-header''] [
          El ''div'' [Attr ''className'' ''card-title''] [
            El ''ShieldCheck'' [Attr ''size'' ''18'', Attr ''color'' ''#3b82f6''] [],
            Txt ''Policy Engine Access Decision: '',
            Txt (ai_name app)]]]
        @ (if ap_checking s
          then [
          El ''div'' [
            Style [
              (''padding'', ''20px''),
              (''textAlign'', ''center''),
              (''color'', ''var(--text-secondary)'')]] [
            Txt ''Evaluating contextual security policies against your role...'']]
          else (case ap_result s of Some r \<Rightarrow> [check_result_view r] | None \<Rightarrow> [])))"

definition ApplicationsPage_view :: "applications_page \<Rightarrow> applications_msg node" where
  "ApplicationsPage_view s =
    El ''div'' [] ([
        El ''div'' [Attr ''className'' ''page-header''] [
          El ''div'' [] [
            El ''h1'' [Attr ''className'' ''page-title''] [Txt ''Application Resource Catalog''],
            El ''p'' [Attr ''className'' ''page-subtitle''] [
              Txt
                ''Protected organizational workloads governed by Zero-Trust contextual security policies'']]],
        El ''div'' [Attr ''className'' ''grid-2'', Style [(''marginBottom'', ''28px'')]]
          (map (\<lambda>app. app_card app) apps)]
        @ (case ap_selected s of Some app \<Rightarrow> [decision_card s app] | None \<Rightarrow> []))"

lemmas applications_view_defs = ApplicationsPage_view_def decision_card_def check_result_view_def
  app_card_def

lemma renderIcon_clicks [simp]: "clicks (renderIcon t) = []"
  by (simp add: renderIcon_def)

text \<open>The catalog is always on offer, also while a check is running.\<close>

lemma ApplicationsPage_clicks:
  "clicks (ApplicationsPage_view s) = map LaunchApp apps"
  by (simp add: applications_view_defs clicks_all_map apps_def split: option.split)

subsection \<open>Decisions of the seeded policies\<close>

lemma decode_launch:
  "decode_access_check (fc_body (snd (handleLaunchApp c app s))) =
     Some \<lparr>ac_user_id = [], ac_application = ai_slug app, ac_device_trusted = True,
       ac_mfa_verified = True, ac_risk_score = 15\<rparr>"
  by (simp add: handleLaunchApp_def launch_request_def api_checkAccess_def api_request_def
      decode_access_check_def set_access_field_def)

lemma seed_verdict:
  assumes "distinct [i1, i2, i3]"
    and "rq_role req = role_name ro" "rq_device_trusted req" "rq_mfa_verified req" "rq_risk_score req = 15"
  shows "(\<exists>p \<in> ran (NewEngine i1 i2 i3). policy_matches p req) \<and>
      (\<forall>p \<in> ran (NewEngine i1 i2 i3). policy_matches p req \<longrightarrow> policy_satisfied p req) \<longleftrightarrow>
    ro \<in> {Admin, Viewer} \<or> ro = Developer \<and> rq_application req = ''aws-console''"
  unfolding ran_NewEngine [OF assms(1)]
  using assms(2-) by (cases ro) (simp_all add: seed_policies_def policy_matches_def policy_satisfied_def
      role_defs decision_defs)

text \<open>C16: What the catalog's access checks decide under the seeded policies, in any iteration order:
  an application of the catalog is allowed to admins and viewers, and the AWS console also to
  developers; everyone else is denied, super admins and security managers included. The page
  claims a trusted device, a verified MFA and risk 15 for every user. The README's RBAC matrix documents
  the AWS console otherwise: open to super admins and closed to viewers.\<close>

theorem catalog_decisions:
  assumes "distinct [i1, i2, i3]" and "iteration_order (NewEngine i1 i2 i3) (en_policy_order env)"
    and "app \<in> set apps" and "hr_body q = fc_body (snd (handleLaunchApp c app s))"
    and "hr_claims q = Some cl" and "c_role cl = role_name ro"
  shows "\<exists>ev res. CheckAccess env (NewEngine i1 i2 i3) q =
      (NewEngine i1 i2 i3, [ev], Inr (writeJSON 200 (DecisionBody res))) \<and>
    rs_decision res =
      (if ro \<in> {Admin, Viewer} \<or> ro = Developer \<and> ai_slug app = ''aws-console''
       then DecisionAllow else DecisionDeny)"
proof -
  let ?b = "\<lparr>ac_user_id = [], ac_application = ai_slug app, ac_device_trusted = True,
       ac_mfa_verified = True, ac_risk_score = 15\<rparr>"
  let ?req = "policy_request cl ?b q"
  have req: "rq_role ?req = role_name ro" "rq_device_trusted ?req" "rq_mfa_verified ?req"
      "rq_risk_score ?req = 15" "rq_application ?req = ai_slug app"
    using assms(6) by (simp_all add: policy_request_def)
  have "ai_slug app \<noteq> []" using assms(3) by (auto simp: apps_def)
  then have "CheckAccess env (NewEngine i1 i2 i3) q = (NewEngine i1 i2 i3,
      [access_event cl ?b q (Evaluate (NewEngine i1 i2 i3) (en_policy_order env) ?req)],
      Inr (writeJSON 200 (DecisionBody (Evaluate (NewEngine i1 i2 i3) (en_policy_order env) ?req))))"
    by (simp add: CheckAccess_def assms(4,5) decode_launch Let_def)
  moreover have "rs_decision (Evaluate (NewEngine i1 i2 i3) (en_policy_order env) ?req) =
      (if ro \<in> {Admin, Viewer} \<or> ro = Developer \<and> ai_slug app = ''aws-console''
       then DecisionAllow else DecisionDeny)"
    using Evaluate_verified [OF assms(2) req(3)] seed_verdict [OF assms(1) req(1-4)] req(5) by simp
  ultimately show ?thesis by blast
qed

theorem catalog_decisions_witness:
  "\<exists>ev res. CheckAccess (demo_env\<lparr>en_policy_order := [''1'', ''2'', ''3'']\<rparr>) (NewEngine ''1'' ''2'' ''3'')
      (demo_request\<lparr>hr_claims := Some (demo_claims\<lparr>c_role := role_name SuperAdmin\<rparr>),
        hr_body := fc_body (snd (handleLaunchApp (new_ApiClient None) (hd apps) applications_page_init))\<rparr>) =
      (NewEngine ''1'' ''2'' ''3'', [ev], Inr (writeJSON 200 (DecisionBody res))) \<and>
    rs_decision res = DecisionDeny"
proof -
  let ?q = "demo_request\<lparr>hr_claims := Some (demo_claims\<lparr>c_role := role_name SuperAdmin\<rparr>),
        hr_body := fc_body (snd (handleLaunchApp (new_ApiClient None) (hd apps) applications_page_init))\<rparr>"
  have d: "distinct [''1'', ''2'', ''3'']" by simp
  have "iteration_order (NewEngine ''1'' ''2'' ''3'') (en_policy_order (demo_env\<lparr>en_policy_order := [''1'', ''2'', ''3'']\<rparr>))"
    using iteration_order_seed [OF d] by simp
  moreover have "hd apps \<in> set apps" by (simp add: apps_def)
  moreover have "hr_body ?q = fc_body (snd (handleLaunchApp (new_ApiClient None) (hd apps) applications_page_init))"
    "hr_claims ?q = Some (demo_claims\<lparr>c_role := role_name SuperAdmin\<rparr>)"
    "c_role (demo_claims\<lparr>c_role := role_name SuperAdmin\<rparr>) = role_name SuperAdmin" by simp_all
  ultimately show ?thesis using catalog_decisions [OF d] by fastforce
qed

subsection \<open>Replies out of order\<close>

inductive applications_reachable ::
    "(string \<Rightarrow> access_response fetch_result \<Rightarrow> bool) \<Rightarrow> applications_page \<Rightarrow> string list \<Rightarrow> bool"
  for answers where
  mounted: "applications_reachable answers applications_page_init []"
| launch: "applications_reachable answers s ps \<Longrightarrow> LaunchApp app \<in> set (clicks (ApplicationsPage_view s)) \<Longrightarrow>
    handleLaunchApp c app s = (s', q) \<Longrightarrow> applications_reachable answers s' (ps @ [ai_slug app])"
| reply: "applications_reachable answers s ps \<Longrightarrow> i < length ps \<Longrightarrow> answers (ps ! i) res \<Longrightarrow>
    applications_reachable answers (launch_reply res s) (drop_nth i ps)"

text \<open>The checks in flight are for applications of the catalog, and a result is shown only with a
  selected application.\<close>

lemma applications_invariant:
  "applications_reachable answers s ps \<Longrightarrow>
     set ps \<subseteq> ai_slug ` set apps \<and> (ps \<noteq> [] \<longrightarrow> ap_selected s \<noteq> None) \<and>
     (ap_result s \<noteq> None \<longrightarrow> ap_selected s \<noteq> None) \<and> (\<forall>app. ap_selected s = Some app \<longrightarrow> app \<in> set apps) \<and>
     (ap_checking s \<longrightarrow> ps \<noteq> [])"
proof (induction rule: applications_reachable.induct)
  case mounted
  then show ?case by (simp add: applications_page_init_def)
next
  case (launch s ps app c s' q)
  then show ?case by (auto simp: handleLaunchApp_def ApplicationsPage_clicks)
next
  case (reply s ps i res)
  have "set (drop_nth i ps) \<subseteq> set ps" by (rule set_drop_nth_subset)
  moreover have "ap_selected s \<noteq> None" using reply by auto
  ultimately show ?case using reply
    by (auto simp: launch_reply_def drop_nth_def split: sum.split thrown.split)
qed

text \<open>A decision can be shown under the wrong application: for any two applications of the catalog
  and any answers to their checks, launching the first and then the second, with the answers
  arriving in the opposite order, leaves the page at rest (no check in flight, not checking) with
  the second application selected and the first one's decision displayed for it.\<close>

theorem decision_race:
  assumes "A \<in> set apps" and "B \<in> set apps"
    and "answers (ai_slug A) (HttpOk (Some ra))" and "answers (ai_slug B) (HttpOk (Some rb))"
  shows "\<exists>s. applications_reachable answers s [] \<and> ap_selected s = Some B \<and> ap_result s = Some ra \<and>
    \<not> ap_checking s \<and> decision_card s B \<in> (case ApplicationsPage_view s of El t as ks \<Rightarrow> set ks | Txt x \<Rightarrow> {}) \<and>
    decision_name (ap_decision ra) \<in> set (texts (decision_card s B))"
proof -
  let ?s = "\<lambda>a r k. \<lparr>ap_selected = Some a, ap_result = r, ap_checking = k\<rparr>"
  note upd = applications_page_init_def handleLaunchApp_def launch_reply_def request_result_def drop_nth_def
  have click: "LaunchApp x \<in> set (clicks (ApplicationsPage_view s))" if "x \<in> set apps" for x s
    using that by (simp add: ApplicationsPage_clicks)
  have a: "applications_reachable answers (?s A None True) [ai_slug A]"
    using launch [OF mounted click [OF assms(1)], of "new_ApiClient None"] by (simp add: upd)
  have b: "applications_reachable answers (?s B None True) [ai_slug A, ai_slug B]"
    using launch [OF a click [OF assms(2)], of "new_ApiClient None"] by (simp add: upd)
  have c: "applications_reachable answers (?s B (Some rb) False) [ai_slug A]"
    using reply [OF b, of 1 "HttpOk (Some rb)"] assms(4) by (simp add: upd)
  have e: "applications_reachable answers (?s B (Some ra) False) []"
    using reply [OF c, of 0 "HttpOk (Some ra)"] assms(3) by (simp add: upd)
  have "decision_name (ap_decision ra) \<in> set (texts (decision_card (?s B (Some ra) False) B))"
    by (simp add: decision_card_def check_result_view_def)
  moreover have "decision_card (?s B (Some ra) False) B \<in>
      (case ApplicationsPage_view (?s B (Some ra) False) of El t as ks \<Rightarrow> set ks | Txt x \<Rightarrow> {})"
    by (simp add: ApplicationsPage_view_def)
  ultimately show ?thesis using e by (intro exI [of _ "?s B (Some ra) False"]) simp
qed

definition answer_for :: "string \<Rightarrow> access_response" where
  "answer_for slug = \<lparr>ap_decision = (if slug = ''aws-console'' then ALLOW else DENY), ap_reason = slug,
     ap_policy_id = None\<rparr>"

theorem decision_race_witness:
  "\<exists>s. applications_reachable (\<lambda>slug res. res = HttpOk (Some (answer_for slug))) s [] \<and>
     ap_selected s = Some (apps ! 1) \<and> ai_slug (apps ! 1) = ''prod-db'' \<and>
     map_option ap_decision (ap_result s) = Some ALLOW"
proof -
  let ?ans = "\<lambda>slug res. res = HttpOk (Some (answer_for slug))"
  have "apps ! 0 \<in> set apps" "apps ! 1 \<in> set apps" by (simp_all add: apps_def)
  from decision_race [of _ _ ?ans, OF this refl refl] obtain s where
    "applications_reachable ?ans s []" "ap_selected s = Some (apps ! 1)"
    "ap_result s = Some (answer_for (ai_slug (apps ! 0)))" by blast
  then show ?thesis by (intro exI [of _ s]) (simp add: apps_def answer_for_def)
qed

end
