(* ===== verification/RolesPage.thy ===== *)
theory RolesPage
  imports Dom Rbac PolicyHandler
begin

text \<open>
  \<open>frontend/src/pages/RolesPage.tsx\<close>: the static permission matrix, against the server's
  permission table and its gates.
\<close>

subsection \<open>The matrix\<close>

record matrix_permissions =
  usersRead :: bool
  usersCreate :: bool
  usersUpdate :: bool
  usersDelete :: bool
  appsRead :: bool
  appsManage :: bool
  policiesRead :: bool
  policiesManage :: bool
  auditRead :: bool
  securityManage :: bool

record role_permission_matrix =
  rm_role :: string
  rm_description :: string
  rm_permissions :: matrix_permissions

definition matrix :: "role_permission_matrix list" where
  "matrix =
    [\<lparr>rm_role = ''SUPER_ADMIN'',
      rm_description = ''Full root tenant authority across all governance and compute systems'',
      rm_permissions = \<lparr>usersRead = True, usersCreate = True, usersUpdate = True, usersDelete = True,
        appsRead = True, appsManage = True, policiesRead = True, policiesManage = True,
        auditRead = True, securityManage = True\<rparr>\<rparr>,
     \<lparr>rm_role = ''ADMIN'',
      rm_description = ''Organization administrator managing team accounts and application definitions'',
      rm_permissions = \<lparr>usersRead = True, usersCreate = True, usersUpdate = True, usersDelete = False,
        appsRead = True, appsManage = True, policiesRead = True, policiesManage = True,
        auditRead = True, securityManage = False\<rparr>\<rparr>,
     \<lparr>rm_role = ''SECURITY_MANAGER'',
      rm_description = ''Information security officer managing risk policies, audits, and MFA enforcement'',
      rm_permissions = \<lparr>usersRead = True, usersCreate = False, usersUpdate = False, usersDelete = False,
        appsRead = True, appsManage = False, policiesRead = True, policiesManage = True,
        auditRead = True, securityManage = True\<rparr>\<rparr>,
     \<lparr>rm_role = ''DEVELOPER'',
      rm_description = ''Software engineer deploying and managing backend services and cloud consoles'',
      rm_permissions = \<lparr>usersRead = True, usersCreate = False, usersUpdate = False, usersDelete = False,
        appsRead = True, appsManage = True, policiesRead = True, policiesManage = False,
        auditRead = False, securityManage = False\<rparr>\<rparr>,
     \<lparr>rm_role = ''ANALYST'',
      rm_description = ''Security & compliance auditor reviewing access logs and policy rules'',
      rm_permissions = \<lparr>usersRead = True, usersCreate = False, usersUpdate = False, usersDelete = False,
        appsRead = True, appsManage = False, policiesRead = True, policiesManage = False,
        auditRead = True, securityManage = False\<rparr>\<rparr>,
     \<lparr>rm_role = ''VIEWER'',
      rm_description = ''Read-only viewer for authorized application catalog items'',
      rm_permissions = \<lparr>usersRead = False, usersCreate = False, usersUpdate = False, usersDelete = False,
        appsRead = True, appsManage = False, policiesRead = False, policiesManage = False,
        auditRead = False, securityManage = False\<rparr>\<rparr>]"

subsection \<open>View\<close>

definition matrix_row :: "role_permission_matrix \<Rightarrow> 'm node" where
  "matrix_row row =
    El ''tr'' [] [
      El ''td'' [] [
        El ''div'' [Style [(''fontWeight'', ''700''), (''fontSize'', ''13px'')]] [Txt (rm_role row)],
        El ''div'' [
          Style [
            (''fontSize'', ''11px''),
            (''color'', ''var(--text-muted)''),
            (''marginTop'', ''2px''),
            (''maxWidth'', ''200px'')]] [Txt (rm_description row)]],
      El ''td'' [Style [(''textAlign'', ''center'')]] (if usersRead (rm_permissions row)
          then [El ''Check'' [Attr ''size'' ''16'', Attr ''color'' ''#10b981''] []]
          else [El ''X'' [Attr ''size'' ''16'', Attr ''color'' ''#4b5563''] []]),
      El ''td'' [Style [(''textAlign'', ''center'')]] (if usersCreate (rm_permissions row)
          then [El ''Check'' [Attr ''size'' ''16'', Attr ''color'' ''#10b981''] []]
          else [El ''X'' [Attr ''size'' ''16'', Attr ''color'' ''#4b5563''] []]),
      El ''td'' [Style [(''textAlign'', ''center'')]] (if usersDelete (rm_permissions row)
          then [El ''Check'' [Attr ''size'' ''16'', Attr ''color'' ''#10b981''] []]
          else [El ''X'' [Attr ''size'' ''16'', Attr ''color'' ''#4b5563''] []]),
      El ''td'' [Style [(''textAlign'', ''center'')]] (if appsRead (rm_permissions row)
          then [El ''Check'' [Attr ''size'' ''16'', Attr ''color'' ''#10b981''] []]
          else [El ''X'' [Attr ''size'' ''16'', Attr ''color'' ''#4b5563''] []]),
      El ''td'' [Style [(''textAlign'', ''center'')]] (if appsManage (rm_permissions row)
          then [El ''Check'' [Attr ''size'' ''16'', Attr ''color'' ''#10b981''] []]
          else [El ''X'' [Attr ''size'' ''16'', Attr ''color'' ''#4b5563''] []]),
      El ''td'' [Style [(''textAlign'', ''center'')]] (if policiesRead (rm_permissions row)
          then [El ''Check'' [Attr ''size'' ''16'', Attr ''color'' ''#10b981''] []]
          else [El ''X'' [Attr ''size'' ''16'', Attr ''color'' ''#4b5563''] []]),
      El ''td'' [Style [(''textAlign'', ''center'')]] (if policiesManage (rm_permissions row)
          then [El ''Check'' [Attr ''size'' ''16'', Attr ''color'' ''#10b981''] []]
          else [El ''X'' [Attr ''size'' ''16'', Attr ''color'' ''#4b5563''] []]),
      El ''td'' [Style [(''textAlign'', ''center'')]] (if auditRead (rm_permissions row)
          then [El ''Check'' [Attr ''size'' ''16'', Attr ''color'' ''#10b981''] []]
          else [El ''X'' [Attr ''size'' ''16'', Attr ''color'' ''#4b5563''] []]),
      El ''td'' [Style [(''textAlign'', ''center'')]] (if securityManage (rm_permissions row)
          then [El ''Check'' [Attr ''size'' ''16'', Attr ''color'' ''#10b981''] []]
          else [El ''X'' [Attr ''size'' ''16'', Attr ''color'' ''#4b5563''] []])]"

definition RolesPage_view :: "'m node" where
  "RolesPage_view =
    El ''div'' [] [
      El ''div'' [Attr ''className'' ''page-header''] [
        El ''div'' [] [
          El ''h1'' [Attr ''className'' ''page-title''] [Txt ''RBAC Governance Matrix''],
          El ''p'' [Attr ''className'' ''page-subtitle''] [
            Txt ''Single Source of Truth: Canonical role-to-permission capabilities mapping'']]],
      El ''div'' [Attr ''className'' ''card'', Style [(''marginBottom'', ''24px'')]] [
        El ''div'' [Attr ''className'' ''card-header''] [
          El ''div'' [Attr ''className'' ''card-title''] [
            El ''KeyRound'' [Attr ''size'' ''18'', Attr ''color'' ''#3b82f6''] [],
            Txt ''Role Permission Matrix''],
          El ''span'' [Attr ''className'' ''badge badge-purple''] [Txt ''Enforced by Middleware'']],
        El ''div'' [Attr ''className'' ''table-container''] [
          El ''table'' [] [
            El ''thead'' [] [
              El ''tr'' [] [
                El ''th'' [] [Txt ''Role''],
                El ''th'' [] [Txt ''Users Read''],
                El ''th'' [] [Txt ''Users Write''],
                El ''th'' [] [Txt ''Users Delete''],
                El ''th'' [] [Txt ''Apps Read''],
                El ''th'' [] [Txt ''Apps Manage''],
                El ''th'' [] [Txt ''Policies Read''],
                El ''th'' [] [Txt ''Policies Manage''],
                El ''th'' [] [Txt ''Audit Logs''],
                El ''th'' [] [Txt ''Security Manage'']]],
            El ''tbody'' [] (map (\<lambda>row. matrix_row row) matrix)]]]]"

lemmas roles_view_defs = RolesPage_view_def matrix_row_def

subsection \<open>The matrix and the server\<close>

definition matrix_flags :: "matrix_permissions \<Rightarrow> bool list" where
  "matrix_flags p = [usersRead p, usersCreate p, usersUpdate p, usersDelete p, appsRead p, appsManage p,
     policiesRead p, policiesManage p, auditRead p, securityManage p]"

definition matrix_perms :: "permission list" where
  "matrix_perms = [PermUsersRead, PermUsersCreate, PermUsersUpdate, PermUsersDelete,
     PermApplicationsRead, PermApplicationsManage, PermPoliciesRead, PermPoliciesManage,
     PermAuditRead, PermSecurityManage]"

lemma to_lower_roles:
  "to_lower ''SUPER_ADMIN'' = RoleSuperAdmin" "to_lower ''ADMIN'' = RoleAdmin"
  "to_lower ''SECURITY_MANAGER'' = RoleSecurityManager" "to_lower ''DEVELOPER'' = RoleDeveloper"
  "to_lower ''ANALYST'' = RoleAnalyst" "to_lower ''VIEWER'' = RoleViewer"
  by code_simp+

text \<open>The marks of a row as rendered: one icon per cell.\<close>

definition row_marks :: "'m node \<Rightarrow> bool list" where
  "row_marks row = concat (map (\<lambda>(as, ks). map (\<lambda>_. True) (elements_all ''Check'' ks) @
     map (\<lambda>_. False) (elements_all ''X'' ks)) (elements ''td'' row))"

lemma row_marks_row:
  "row_marks (matrix_row row) =
     (let p = rm_permissions row
      in [usersRead p, usersCreate p, usersDelete p, appsRead p, appsManage p, policiesRead p,
          policiesManage p, auditRead p, securityManage p])"
  by (simp add: row_marks_def matrix_row_def Let_def)

text \<open>C18: The matrix is the server's permission table: its rows are the six roles, from super admin to
  viewer, and each row's ten flags are \<open>HasPermission\<close> of that role for the ten permissions; the
  page renders nine of the ten columns (not the update permission), each mark being the flag.\<close>

theorem matrix_is_permission_table:
  "map (\<lambda>row. (to_lower (rm_role row), matrix_flags (rm_permissions row))) matrix =
     map (\<lambda>r. (r, map (HasPermission r) matrix_perms))
       [RoleSuperAdmin, RoleAdmin, RoleSecurityManager, RoleDeveloper, RoleAnalyst, RoleViewer] \<and>
   map (\<lambda>row. row_marks (matrix_row row)) matrix =
     map (\<lambda>r. map (HasPermission r) [PermUsersRead, PermUsersCreate, PermUsersDelete,
       PermApplicationsRead, PermApplicationsManage, PermPoliciesRead, PermPoliciesManage,
       PermAuditRead, PermSecurityManage])
       [RoleSuperAdmin, RoleAdmin, RoleSecurityManager, RoleDeveloper, RoleAnalyst, RoleViewer]"
proof -
  have names: "RoleSuperAdmin = role_name SuperAdmin" "RoleAdmin = role_name Admin"
    "RoleSecurityManager = role_name SecurityManager" "RoleDeveloper = role_name Developer"
    "RoleAnalyst = role_name Analyst" "RoleViewer = role_name Viewer"
    by (simp_all add: role_defs)
  have has: "HasPermission r p \<longleftrightarrow> p \<in> set (PermissionsForRole r)" for r p
    by (rule HasPermission_iff)
  have lower: "map (\<lambda>row. to_lower (rm_role row)) matrix =
      [RoleSuperAdmin, RoleAdmin, RoleSecurityManager, RoleDeveloper, RoleAnalyst, RoleViewer]"
    by (simp add: matrix_def to_lower_roles)
  have flags: "map (\<lambda>row. matrix_flags (rm_permissions row)) matrix =
      map (\<lambda>r. map (HasPermission r) matrix_perms)
        [RoleSuperAdmin, RoleAdmin, RoleSecurityManager, RoleDeveloper, RoleAnalyst, RoleViewer]"
    unfolding names has
    by (simp add: matrix_def matrix_flags_def matrix_perms_def PermissionsForRole_ui perm_defs
        del: role_name.simps)
  have zip: "map (\<lambda>row. (f row, g row)) xs = map (\<lambda>r. (r, h r)) ys"
    if "map f xs = ys" "map g xs = map h ys" for f g h xs ys
    using that by (auto simp: map_eq_conv)
  show ?thesis
    using zip [OF lower flags] flags
    by (simp add: matrix_def matrix_flags_def matrix_perms_def row_marks_row Let_def)
qed

lemma matrix_readers:
  "\<forall>r. (HasPermission (role_name r) PermUsersRead \<longleftrightarrow> r \<notin> {Viewer, UserRole}) \<and>
     (HasPermission (role_name r) PermPoliciesRead \<longleftrightarrow> r \<notin> {Viewer, UserRole})"
  by code_simp

text \<open>The badge \<open>Enforced by Middleware\<close> is not true: the matrix grants security managers,
  developers and analysts the reading of users, yet the gate of the user list answers 403 to
  exactly the roles other than admin and super admin; and it denies viewers the reading of
  policies, yet the policy list, which has no gate, answers 200 to every role.\<close>

theorem matrix_not_enforced:
  "{r. HasPermission (role_name r) PermUsersRead} = {SuperAdmin, Admin, SecurityManager, Developer, Analyst} \<and>
   {r. HasPermission (role_name r) PermPoliciesRead} = {SuperAdmin, Admin, SecurityManager, Developer, Analyst} \<and>
   RequireRole RoleAdmin next s (q\<lparr>hr_claims := Some (cl\<lparr>c_role := role_name r\<rparr>)\<rparr>) =
     (if r \<in> {Admin, SuperAdmin} then next s (q\<lparr>hr_claims := Some (cl\<lparr>c_role := role_name r\<rparr>)\<rparr>)
      else respond s (writeError 403 ''insufficient role: admin required'')) \<and>
   (case ListPolicies_handler env e (q\<lparr>hr_claims := Some (cl\<lparr>c_role := role_name r\<rparr>)\<rparr>) of
      (_, _, out) \<Rightarrow> map_sum id rsp_status out = (Inr 200 :: string + nat))"
proof -
  have read: "HasPermission (role_name r) PermUsersRead \<longleftrightarrow> r \<notin> {Viewer, UserRole}"
    "HasPermission (role_name r) PermPoliciesRead \<longleftrightarrow> r \<notin> {Viewer, UserRole}" for r
    using matrix_readers by blast+
  have "\<forall>r. r \<notin> {Viewer, UserRole} \<longleftrightarrow> r \<in> {SuperAdmin, Admin, SecurityManager, Developer, Analyst}"
    by code_simp
  then have five: "{r. r \<notin> {Viewer, UserRole}} = {SuperAdmin, Admin, SecurityManager, Developer, Analyst}"
    by blast
  have gate: "RequireRole RoleAdmin next s (q\<lparr>hr_claims := Some (cl\<lparr>c_role := role_name r\<rparr>)\<rparr>) =
     (if r \<in> {Admin, SuperAdmin} then next s (q\<lparr>hr_claims := Some (cl\<lparr>c_role := role_name r\<rparr>)\<rparr>)
      else respond s (writeError 403 ''insufficient role: admin required''))"
    by (cases r) (simp_all add: RequireRole_def role_defs)
  show ?thesis
    unfolding read five using gate by (simp add: ListPolicies_handler_def respond_def Let_def)
qed

end
