(* ===== verification/SettingsPage.thy ===== *)
theory SettingsPage
  imports AuthProvider
begin

text \<open>
  \<open>frontend/src/pages/SettingsPage.tsx\<close>: the profile and the token inspector, which decodes the
  token's payload with the browser's \<open>atob\<close> and \<open>JSON.parse\<close>. \<open>atob\<close> is the platform's forgiving
  Base64 decoder; \<open>JSON.parse\<close> (\<open>None\<close> when it throws) and the indented \<open>JSON.stringify\<close> are the
  arguments \<open>parse\<close> and \<open>stringify\<close>.
\<close>

subsection \<open>Decoding a token\<close>

fun split_on :: "char \<Rightarrow> string \<Rightarrow> string list" where
  "split_on d [] = [[]]"
| "split_on d (c # s) =
     (if c = d then [] # split_on d s
      else (case split_on d s of [] \<Rightarrow> [[c]] | p # ps \<Rightarrow> (c # p) # ps))"

definition b64_value :: "char \<Rightarrow> nat option" where
  "b64_value c =
     (let n = char_code c
      in if 65 \<le> n \<and> n \<le> 90 then Some (n - 65)
         else if 97 \<le> n \<and> n \<le> 122 then Some (n - 71)
         else if 48 \<le> n \<and> n \<le> 57 then Some (n + 4)
         else if n = 43 then Some 62
         else if n = 47 then Some 63
         else None)"

fun b64_bytes :: "nat list \<Rightarrow> nat list" where
  "b64_bytes (a # b # c # d # r) =
     (4 * a + b div 16) # (16 * (b mod 16) + c div 4) # (64 * (c mod 4) + d) # b64_bytes r"
| "b64_bytes [a, b, c] = [4 * a + b div 16, 16 * (b mod 16) + c div 4]"
| "b64_bytes [a, b] = [4 * a + b div 16]"
| "b64_bytes _ = []"

definition is_ascii_space :: "char \<Rightarrow> bool" where
  "is_ascii_space c \<longleftrightarrow> char_code c \<in> {9, 10, 12, 13, 32}"

definition drop_padding :: "string \<Rightarrow> string" where
  "drop_padding s =
     (if length s mod 4 = 0 \<and> s \<noteq> [] \<and> last s = CHR ''=''
      then (let t = butlast s in if t \<noteq> [] \<and> last t = CHR ''='' then butlast t else t)
      else s)"

text \<open>\<open>atob\<close>: white space is dropped, then up to two \<open>=\<close> of a text whose length is a multiple of
  four; a length of one more than a multiple of four and characters outside the alphabet throw.\<close>

definition atob :: "string \<Rightarrow> string option" where
  "atob data =
     (let s = drop_padding (filter (\<lambda>c. \<not> is_ascii_space c) data)
      in if length s mod 4 = 1 then None
         else map_option (\<lambda>vs. map char_of (b64_bytes vs)) (those (map b64_value s)))"

definition decodedPayload :: "(string \<Rightarrow> json option) \<Rightarrow> string option \<Rightarrow> json option" where
  "decodedPayload parse tok =
     (case tok of
        None \<Rightarrow> None
      | Some t \<Rightarrow>
          if t = [] then None
          else let parts = split_on (CHR ''.'') t
               in if length parts = 3
                  then (case atob (parts ! 1) of None \<Rightarrow> None | Some js \<Rightarrow> parse js)
                  else None)"

definition claims_text :: "(json \<Rightarrow> string) \<Rightarrow> json option \<Rightarrow> string" where
  "claims_text stringify payload =
     (case payload of
        None \<Rightarrow> ''No token present''
      | Some j \<Rightarrow> if js_truthy j then stringify j else ''No token present'')"

subsection \<open>View\<close>

definition profile_card :: "auth_state \<Rightarrow> 'm node" where
  "profile_card a =
    El ''div'' [Attr ''className'' ''card''] [
      El ''div'' [Attr ''className'' ''card-header''] [
        El ''div'' [Attr ''className'' ''card-title''] [
          El ''User'' [Attr ''size'' ''18'', Attr ''color'' ''#3b82f6''] [],
          Txt ''Authenticated Identity''],
        El ''span'' [Attr ''className'' ''badge badge-blue''] [Txt ''Verified'']],
      El ''div'' [Style [(''display'', ''flex''), (''flexDirection'', ''column''), (''gap'', ''16px'')]] [
        El ''div'' [
          Style [
            (''display'', ''flex''),
            (''justifyContent'', ''space-between''),
            (''paddingBottom'', ''12px''),
            (''borderBottom'', ''1px solid var(--border-color)'')]] [
          El ''span'' [Style [(''color'', ''var(--text-secondary)'')]] [Txt ''Username''],
          El ''span'' [Style [(''fontWeight'', ''600'')]] (case au_user a of None \<Rightarrow> []
              | Some u \<Rightarrow> [Txt (uu_username u)])],
        El ''div'' [
          Style [
            (''display'', ''flex''),
            (''justifyContent'', ''space-between''),
            (''paddingBottom'', ''12px''),
            (''borderBottom'', ''1px solid var(--border-color)'')]] [
          El ''span'' [Style [(''color'', ''var(--text-secondary)'')]] [Txt ''Assigned Role''],
          El ''span'' [Attr ''className'' ''badge badge-purple''] (case au_user a of None \<Rightarrow> []
              | Some u \<Rightarrow> [Txt (role_name (uu_role u))])],
        El ''div'' [
          Style [
            (''display'', ''flex''),
            (''justifyContent'', ''space-between''),
            (''paddingBottom'', ''12px''),
            (''borderBottom'', ''1px solid var(--border-color)'')]] [
          El ''span'' [Style [(''color'', ''var(--text-secondary)'')]] [Txt ''Account Status''],
          El ''span'' [Attr ''className'' ''badge badge-green''] (case au_user a of None \<Rightarrow> []
              | Some u \<Rightarrow> [Txt (status_name (uu_status u))])],
        El ''div'' [
          Style [
            (''display'', ''flex''),
            (''justifyContent'', ''space-between''),
            (''paddingBottom'', ''12px''),
            (''borderBottom'', ''1px solid var(--border-color)'')]] [
          El ''span'' [Style [(''color'', ''var(--text-secondary)'')]] [Txt ''MFA Verified''],
          El ''span'' [] (if mfa_on a then [Txt ''Enforced''] else [Txt ''Optional''])],
        El ''div'' [Style [(''display'', ''flex''), (''justifyContent'', ''space-between'')]] [
          El ''span'' [Style [(''color'', ''var(--text-secondary)'')]] [Txt ''Identity ID''],
          El ''span'' [Attr ''className'' ''code-inline''] (case au_user a of None \<Rightarrow> []
              | Some u \<Rightarrow> [Txt (uu_id u)])]]]"

definition storage_note :: "'m node" where
  "storage_note =
    El ''div'' [Attr ''className'' ''card''] [
      El ''div'' [Attr ''className'' ''card-header''] [
        El ''div'' [Attr ''className'' ''card-title''] [
          El ''Shield'' [Attr ''size'' ''18'', Attr ''color'' ''#10b981''] [],
          Txt ''Security Architecture & Storage Note'']],
      El ''div'' [
        Style [
          (''fontSize'', ''13px''),
          (''color'', ''var(--text-secondary)''),
          (''lineHeight'', ''1.7'')]] [
        El ''p'' [Style [(''marginBottom'', ''12px'')]] [
          El ''strong'' [Style [(''color'', ''var(--text-primary)'')]] [Txt ''Why not localStorage?'']],
        El ''p'' [Style [(''marginBottom'', ''12px'')]] [
          Txt
            ''In accordance with security best practices, NEXUS stores JWT tokens in React memory / session storage, preventing persistent exposure to cross-site scripting (XSS) attacks.''],
        El ''p'' [] [
          El ''strong'' [Style [(''color'', ''var(--text-primary)'')]] [Txt ''Token Expiration:''],
          Txt
            '' Tokens are issued with a 24-hour expiration window signed via HS256 with keys loaded securely from AWS Secrets Manager.'']]]"

definition token_inspector :: "(string \<Rightarrow> json option) \<Rightarrow> (json \<Rightarrow> string) \<Rightarrow> string option \<Rightarrow> 'm node" where
  "token_inspector parse stringify tok =
    El ''div'' [Attr ''className'' ''card''] [
      El ''div'' [Attr ''className'' ''card-header''] [
        El ''div'' [Attr ''className'' ''card-title''] [
          El ''Key'' [Attr ''size'' ''18'', Attr ''color'' ''#8b5cf6''] [],
          Txt ''JWT Token Inspector (Decoded Claims)''],
        El ''span'' [Attr ''className'' ''badge badge-purple''] [Txt ''RFC 7519 Compliant'']],
      El ''div'' [Style [(''marginBottom'', ''16px'')]] [
        El ''div'' [
          Style [
            (''fontSize'', ''12px''),
            (''color'', ''var(--text-muted)''),
            (''marginBottom'', ''6px'')]] [Txt ''Decoded Payload Claims:''],
        El ''pre'' [
          Style [
            (''fontFamily'', ''var(--font-mono)''),
            (''fontSize'', ''13px''),
            (''color'', ''#93c5fd''),
            (''background'', ''rgba(0,0,0,0.4)''),
            (''padding'', ''16px''),
            (''borderRadius'', ''8px''),
            (''border'', ''1px solid var(--border-color)''),
            (''overflowX'', ''auto'')]] [Txt (claims_text stringify (decodedPayload parse tok))]],
      El ''div'' [] [
        El ''div'' [
          Style [
            (''fontSize'', ''12px''),
            (''color'', ''var(--text-muted)''),
            (''marginBottom'', ''6px'')]] [Txt ''Raw Signed Token:''],
        El ''div'' [
          Attr ''className'' ''code-inline'',
          Style [
            (''display'', ''block''),
            (''padding'', ''12px''),
            (''fontSize'', ''11px''),
            (''wordBreak'', ''break-all''),
            (''lineHeight'', ''1.5''),
            (''color'', ''#a78bfa'')]] [Txt (if truthy tok then the tok else ''No active token'')]]]"

definition SettingsPage_view :: "(string \<Rightarrow> json option) \<Rightarrow> (json \<Rightarrow> string) \<Rightarrow> auth_state \<Rightarrow> string option \<Rightarrow> 'm node" where
  "SettingsPage_view parse stringify a tok =
    El ''div'' [] [
      El ''div'' [Attr ''className'' ''page-header''] [
        El ''div'' [] [
          El ''h1'' [Attr ''className'' ''page-title''] [Txt ''Session & Profile Settings''],
          El ''p'' [Attr ''className'' ''page-subtitle''] [
            Txt
              ''Authenticated identity context, active session claims, and cryptographic token inspection'']]],
      El ''div'' [Attr ''className'' ''grid-2'', Style [(''marginBottom'', ''28px'')]] [
        profile_card a,
        storage_note],
      token_inspector parse stringify tok]"

lemmas settings_view_defs = SettingsPage_view_def profile_card_def storage_note_def token_inspector_def

subsection \<open>Reference encoding\<close>

text \<open>RFC 4648: the sextets of a text and the URL alphabet without padding, in which RFC 7519 writes
  a token's parts.\<close>

fun sextets :: "nat list \<Rightarrow> nat list" where
  "sextets (a # b # c # r) =
     (a div 4) # (16 * (a mod 4) + b div 16) # (4 * (b mod 16) + c div 64) # (c mod 64) # sextets r"
| "sextets [a, b] = [a div 4, 16 * (a mod 4) + b div 16, 4 * (b mod 16)]"
| "sextets [a] = [a div 4, 16 * (a mod 4)]"
| "sextets [] = []"

definition b64url_char :: "nat \<Rightarrow> char" where
  "b64url_char v =
     (if v < 26 then char_of (65 + v) else if v < 52 then char_of (71 + v)
      else if v < 62 then char_of (v - 4) else if v = 62 then CHR ''-'' else CHR ''_'')"

definition b64url_encode :: "string \<Rightarrow> string" where
  "b64url_encode s = map b64url_char (sextets (map char_code s))"

lemma sextet_bounds:
  "a < 256 \<Longrightarrow> a div 4 < (64 :: nat)" "b < 256 \<Longrightarrow> 16 * (a mod 4) + b div 16 < (64 :: nat)"
  "c < 256 \<Longrightarrow> 4 * (b mod 16) + c div 64 < (64 :: nat)"
  "16 * (a mod 4) < (64 :: nat)" "4 * (b mod 16) < (64 :: nat)"
  by linarith+

lemma sextets_bound: "\<forall>b \<in> set bs. b < 256 \<Longrightarrow> \<forall>v \<in> set (sextets bs). v < 64"
  by (induction bs rule: sextets.induct) (simp_all add: sextet_bounds)

lemma sextet_parts:
  assumes "(b :: nat) < 256"
  shows "b div 16 div 16 = 0" "b div 16 mod 16 = b div 16" "b div 64 div 4 = 0" "b div 64 mod 4 = b div 64"
proof -
  have "b div 16 < 16" "b div 64 < 4" using assms by linarith+
  then show "b div 16 div 16 = 0" "b div 16 mod 16 = b div 16" "b div 64 div 4 = 0"
    "b div 64 mod 4 = b div 64" by simp_all
qed

lemma bytes_sextets: "\<forall>b \<in> set bs. b < 256 \<Longrightarrow> b64_bytes (sextets bs) = bs"
  by (induction bs rule: sextets.induct) (simp_all add: sextet_parts)

lemma length_sextets: "length (sextets bs) mod 4 \<noteq> 1"
  by (induction bs rule: sextets.induct) (simp_all add: mod_Suc)

lemma b64_value_url: "v < 64 \<Longrightarrow> b64_value (b64url_char v) = (if v < 62 then Some v else None)"
  by (auto simp: b64_value_def b64url_char_def char_code_def Let_def)

lemma char_code_eq: "c = d \<longleftrightarrow> char_code c = char_code d"
  by (simp add: char_code_def)

lemma b64url_char_code:
  "char_code (b64url_char v) = (if v < 26 then 65 + v else if v < 52 then 71 + v
     else if v < 62 then v - 4 else if v = 62 then 45 else 95)"
  by (simp add: b64url_char_def char_code_def)

lemma b64url_char_plain:
  assumes "v < 64"
  shows "\<not> is_ascii_space (b64url_char v)" "b64url_char v \<noteq> CHR ''=''" "b64url_char v \<noteq> CHR ''.''"
    "b64url_char v \<in> {CHR ''-'', CHR ''_''} \<longleftrightarrow> 62 \<le> v"
proof -
  have codes: "char_code (CHR ''='') = 61" "char_code (CHR ''.'') = 46" "char_code (CHR ''-'') = 45"
    "char_code (CHR ''_'') = 95" by (simp_all add: char_code_def)
  show "\<not> is_ascii_space (b64url_char v)"
    by (auto simp: is_ascii_space_def b64url_char_code split: if_splits)
  show "b64url_char v \<noteq> CHR ''=''" "b64url_char v \<noteq> CHR ''.''"
    unfolding char_code_eq codes b64url_char_code by (auto split: if_splits)
  show "b64url_char v \<in> {CHR ''-'', CHR ''_''} \<longleftrightarrow> 62 \<le> v"
    unfolding insert_iff empty_iff char_code_eq codes b64url_char_code using assms by auto
qed

lemma b64url_no_dot: "CHR ''.'' \<notin> set (b64url_encode s)"
proof
  assume "CHR ''.'' \<in> set (b64url_encode s)"
  then obtain v where v: "v \<in> set (sextets (map char_code s))" "CHR ''.'' = b64url_char v"
    unfolding b64url_encode_def set_map by (rule imageE) auto
  then have "v < 64" using sextets_bound [of "map char_code s"] char_code_less by simp
  from b64url_char_plain(3) [OF this] v(2) show False by simp
qed

lemma those_values:
  "\<forall>v \<in> set vs. v < 64 \<Longrightarrow>
   those (map (\<lambda>v. b64_value (b64url_char v)) vs) = (if \<forall>v \<in> set vs. v < 62 then Some vs else None)"
  by (induction vs) (auto simp: b64_value_url)

definition url_only :: "string \<Rightarrow> bool" where
  "url_only p \<longleftrightarrow> (\<exists>c \<in> set p. c \<in> {CHR ''-'', CHR ''_''})"

lemma atob_b64url: "atob (b64url_encode s) = (if url_only (b64url_encode s) then None else Some s)"
proof -
  let ?vs = "sextets (map char_code s)"
  have bound: "\<forall>v \<in> set ?vs. v < 64"
    using sextets_bound [of "map char_code s"] char_code_less by simp
  then have "filter (\<lambda>c. \<not> is_ascii_space c) (b64url_encode s) = b64url_encode s"
    using b64url_char_plain(1) by (auto simp: b64url_encode_def intro!: filter_True)
  moreover have "drop_padding (b64url_encode s) = b64url_encode s"
  proof -
    have "last (map b64url_char ?vs) \<noteq> CHR ''=''" if "?vs \<noteq> []"
      using that bound b64url_char_plain(2) [of "last ?vs"] last_in_set [OF that] by (simp add: last_map)
    then show ?thesis by (auto simp: drop_padding_def b64url_encode_def)
  qed
  moreover have "length (b64url_encode s) mod 4 \<noteq> 1"
    using length_sextets by (simp add: b64url_encode_def)
  moreover have "url_only (b64url_encode s) \<longleftrightarrow> \<not> (\<forall>v \<in> set ?vs. v < 62)"
  proof -
    have "url_only (b64url_encode s) \<longleftrightarrow> (\<exists>v \<in> set ?vs. b64url_char v \<in> {CHR ''-'', CHR ''_''})"
      by (simp add: url_only_def b64url_encode_def)
    also have "\<dots> \<longleftrightarrow> (\<exists>v \<in> set ?vs. 62 \<le> v)" using bound b64url_char_plain(4) by blast
    also have "\<dots> \<longleftrightarrow> \<not> (\<forall>v \<in> set ?vs. v < 62)" by (auto simp: not_less)
    finally show ?thesis .
  qed
  moreover have "map char_of (b64_bytes ?vs) = s"
  proof -
    have "b64_bytes ?vs = map char_code s"
      by (rule bytes_sextets) (auto simp: char_code_less)
    then show ?thesis by (simp add: char_code_def comp_def)
  qed
  moreover have "those (map b64_value (b64url_encode s)) = (if \<forall>v \<in> set ?vs. v < 62 then Some ?vs else None)"
    using those_values [OF bound] by (simp add: b64url_encode_def comp_def)
  ultimately show ?thesis by (auto simp: atob_def Let_def)
qed

lemma split_on_none: "d \<notin> set s \<Longrightarrow> split_on d s = [s]"
  by (induction s) auto

lemma split_on_first: "d \<notin> set s \<Longrightarrow> split_on d (s @ d # r) = s # split_on d r"
  by (induction s) auto

text \<open>C21: What the inspector shows for a signed token: for any header and signature part and any
  payload text, written as RFC 7519 writes it, the page shows the claims that \<open>parse\<close> reads from
  exactly that text when its encoding uses no character of the URL alphabet beyond the standard
  one, and \<open>No token present\<close> when it does, although a token is present and shown below.\<close>

theorem inspector_shows_payload:
  assumes "CHR ''.'' \<notin> set h" and "CHR ''.'' \<notin> set sig" and "js_truthy claims"
    and "parse payload = Some claims"
  shows "let tok = h @ ''.'' @ b64url_encode payload @ ''.'' @ sig
    in claims_text stringify (decodedPayload parse (Some tok)) =
         (if url_only (b64url_encode payload) then ''No token present'' else stringify claims) \<and>
       tok \<in> set (texts (token_inspector parse stringify (Some tok)))"
proof -
  let ?p = "b64url_encode payload"
  have "CHR ''.'' \<notin> set ?p" by (rule b64url_no_dot)
  then have split: "split_on (CHR ''.'') (h @ CHR ''.'' # ?p @ CHR ''.'' # sig) = [h, ?p, sig]"
    using assms(1,2) by (simp add: split_on_first split_on_none)
  have "decodedPayload parse (Some (h @ CHR ''.'' # ?p @ CHR ''.'' # sig)) =
      (if url_only ?p then None else Some claims)"
    using assms(4) by (simp add: decodedPayload_def split atob_b64url Let_def)
  moreover have "h @ CHR ''.'' # ?p @ CHR ''.'' # sig \<in>
      set (texts (token_inspector parse stringify (Some (h @ CHR ''.'' # ?p @ CHR ''.'' # sig))))"
    by (simp add: token_inspector_def truthy_def)
  ultimately show ?thesis using assms(3) by (simp add: Let_def claims_text_def)
qed

text \<open>The claim \<open>{"u":"a?"}\<close> is hidden, \<open>{"u":"ann"}\<close> is shown.\<close>

theorem inspector_shows_payload_witness:
  "claims_text (\<lambda>_. ''claims'') (decodedPayload (\<lambda>s. Some (JStr s)) (Some (''h'' @ ''.'' @ b64url_encode ''???'' @ ''.'' @ ''s''))) =
     ''No token present'' \<and>
   claims_text (\<lambda>_. ''claims'') (decodedPayload (\<lambda>s. Some (JStr s)) (Some (''h'' @ ''.'' @ b64url_encode ''ann'' @ ''.'' @ ''s''))) =
     ''claims''"
proof -
  have no_dot: "CHR ''.'' \<notin> set ''h''" "CHR ''.'' \<notin> set ''s''" by simp_all
  have "url_only (b64url_encode ''???'')" "\<not> url_only (b64url_encode ''ann'')"
    by code_simp+
  note shape = this
  have truthy: "js_truthy (JStr ''???'')" "js_truthy (JStr ''ann'')" by simp_all
  note shown = inspector_shows_payload [OF no_dot truthy(1), of "\<lambda>s. Some (JStr s)" "''???''" "\<lambda>_. ''claims''", OF refl]
    inspector_shows_payload [OF no_dot truthy(2), of "\<lambda>s. Some (JStr s)" "''ann''" "\<lambda>_. ''claims''", OF refl]
  show ?thesis
    using shown [unfolded Let_def] shape
    by (simp only: if_True if_False simp_thms) (elim conjE, intro conjI; assumption)
qed

end
