(* ===== verification/Spec2Isabelle.thy ===== *)
theory Spec2Isabelle
  imports Rbac SystemProps Deployment TotpPy PoliciesPage AuditPage UsersPage SecurityPage
    DashboardPage ApplicationsPage RolesPage SettingsPage
begin

text \<open>
  NEXUS is a cloud identity and access governance platform: a Go server (\<open>backend/\<close>) that keeps
  accounts, policies and an audit log behind an HTTP API, and a React client (\<open>frontend/src/\<close>)
  with one page per task. This development models the client as it is rendered and driven, the
  server in both its deployments (in memory and on PostgreSQL), the network between them, and the
  Python verifier of one-time passwords (\<open>security/totp_verify.py\<close>).

  \<^bold>\<open>How the parts interact.\<close> A page calls the API client, which sends a request with the session's
  bearer token; the server's middleware reads the token, checks its role and runs the handler;
  handlers change the user store or the policy engine and log audit events; the reply becomes a
  value or a thrown error in the client, and the page's handler updates the page's state. The
  session provider decides which pages a user sees.

  \<^bold>\<open>Shared theories.\<close> \<open>Prelude\<close>: strings as byte lists, trimming of Unicode white space, case, digits, JavaScript's
  \<open>length\<close> and \<open>includes\<close>. \<open>JsNumber\<close>: whole numbers as doubles, and the text JavaScript prints for
  them. \<open>Dom\<close>: rendered trees, the messages a view offers (\<open>clicks\<close>), its
  texts, elements and link targets. \<open>Replies\<close>: requests in flight and the locale \<open>last_reply_wins\<close>
  of the pages that keep the last reply, interpreted on the handlers of each such page.

  \<^bold>\<open>Server\<close> (\<open>backend/internal\<close>). \<open>Users\<close>: \<open>users/model.go\<close> and the client's \<open>Role\<close>. \<open>Rbac\<close>:
  \<open>rbac/permissions.go\<close>. \<open>PolicyEngine\<close>: \<open>policy/engine.go\<close>, \<open>policy/types.go\<close>; the engine is the
  map from ids to policies and the order of a range over it is an argument, since Go leaves it
  open. \<open>PolicyHandler\<close>: \<open>policy/handler.go\<close>. \<open>AuditLog\<close>: \<open>audit/\<close>, its \<open>Logger\<close> interface as a record
  of operations and the in-memory logger, with the page arithmetic on 64-bit words. \<open>Http\<close>: JSON decoding into structs, responses, \<open>middleware/http.go\<close> and the role
  middleware of \<open>auth/middleware.go\<close>. \<open>UserStore\<close>: \<open>auth/store.go\<close> and \<open>auth/errors.go\<close>; the locale
  \<open>user_store\<close> states what the service relies on, for the accounts that fit the store; its
  extension \<open>total_user_store\<close> is for a store every account fits and that never fails. They are
  interpreted on the in-memory store (\<open>mem\<close>) and, the first one, on PostgreSQL (\<open>pg\<close>).
  \<open>AuthService\<close>: \<open>auth/service.go\<close>. \<open>Hmac\<close>, \<open>Totp\<close>: \<open>auth/totp.go\<close> with SHA-1, HMAC and Base32
  written out. \<open>AuthHandlers\<close>: \<open>auth/handler.go\<close>, \<open>auth/mfa_handler.go\<close>. \<open>RateLimit\<close>: \<open>security/\<close>,
  with the locales \<open>limiter\<close> (interpreted on both limiters) and \<open>redis_server\<close> (interpreted on a
  key-value store with expiry). \<open>Server\<close>: routes, global middleware and seeding of
  \<open>cmd/server/main.go\<close> over any user store and audit logger (\<open>stores\<close>); \<open>serve_on\<close> is the step of
  the server, \<open>serve\<close> that of the in-memory server and \<open>reachable\<close> its states.
  \<open>DemoLib\<close>: concrete bcrypt and JWT functions that satisfy the laws assumed of them.
  \<open>ServerRoutes\<close>, \<open>ServerEffects\<close>, \<open>ServerProps\<close>: the route table and its gates, what each route
  changes with the invariant of the reachable states, and the properties of the running server.

  \<^bold>\<open>PostgreSQL\<close>. \<open>Postgres\<close>: what the statements of the repository need of the database: text values,
  \<open>VARCHAR(n)\<close>, the error codes. \<open>UserStorePg\<close>: \<open>auth/store_postgres.go\<close> over the table of
  migration 002, rows in a list with the constraints of the table (\<open>db_ok\<close>). \<open>AuditLogPg\<close>:
  \<open>audit/logger_postgres.go\<close> over the table of migration 006; \<open>pg_Log\<close> starts a goroutine, kept as
  a pending insert, and \<open>pg_flush\<close> runs any one of them, so that \<open>pg_log_run\<close> has every
  interleaving. \<open>ServerPg\<close>: the server over both (\<open>postgres_stores\<close>), \<open>does_as\<close> the simulation of
  one handler by another, route by route up to the whole server, and \<open>pg_run\<close> its runs beside those
  of an in-memory server. \<open>ServerPgProps\<close>: where the two differ, with a concrete database.
  \<open>Migrations\<close>: \<open>database/postgres.go\<close> with the six migrations as lists of statements on \<open>nexus_db\<close>
  (a table is missing or a list of rows). \<open>Startup\<close>: \<open>main\<close> up to the listener over the record \<open>host\<close> of
  what is outside the process, every fatal exit a value. \<open>Deployment\<close>: starts, failures, requests,
  goroutines, stops and outages as \<open>deploy_step\<close>, \<open>deployed\<close> its states from the empty database.
  SQL is a language of the source like Go: statements are atomic, rows of equal sort keys come in an
  order that is an argument for users and the order of insertion for events, times are whole
  seconds, and no insert falls between the two queries of a listing.

  \<^bold>\<open>Client\<close> (\<open>frontend/src\<close>). \<open>UiTypes\<close>: \<open>types/index.ts\<close>. \<open>Api\<close>: \<open>services/api.ts\<close>. \<open>AuthProvider\<close>:
  \<open>hooks/useAuth.tsx\<close>, an operation being split at its awaits into a start and one continuation
  per reply, and \<open>session_reachable\<close> its states under any order of operations and replies.
  \<open>Routing\<close>: \<open>App.tsx\<close> and \<open>components/\<close>. \<open>LoginPage\<close>, \<open>RegisterPage\<close>, \<open>PoliciesPage\<close>, \<open>AuditPage\<close>,
  \<open>UsersPage\<close>, \<open>SecurityPage\<close>, \<open>DashboardPage\<close>, \<open>ApplicationsPage\<close>, \<open>RolesPage\<close>, \<open>SettingsPage\<close>: the
  page of that name under \<open>pages/\<close>, with a record for its \<open>useState\<close> values, a definition per
  handler and reply, and \<open>..._view\<close> for what it renders. React keys are not modelled, as they are
  never rendered.

  \<^bold>\<open>Both sides.\<close> \<open>Wire\<close>: \<open>delivered\<close> says that a request of the client reached the server and
  \<open>answer\<close> turns the server's outcome into the client's result. \<open>ServerAnswers\<close>: what a token or a
  profile the server answers says about its accounts. \<open>SignIn\<close>: the login and registration forms
  down to the server's handlers and back. \<open>System\<close>: provider, requests in flight and server as one
  step relation, \<open>system_reachable\<close> its states; a request is served at some point among other
  traffic and its answer arrives later or never. \<open>SystemProps\<close>: its invariants. \<open>TotpPy\<close>: the
  Python verifier against \<open>auth/totp.go\<close>.

  \<^bold>\<open>What the theorems show.\<close> For the server: access control on every route, the invariant of the
  reachable states, where state changes can come from, the append-only log, the refinement of the
  in-memory server by the one on PostgreSQL, when it starts and what survives a restart, the engine against its documented semantics, one-time passwords, and behaviours that deviate from what is
  documented (no lockout, unverifiable MFA, anonymous super administrators, a panic on a large
  page number). For the client: the session's invariant and termination, which page is shown to
  whom, forms and tables against what the server does with them, and what becomes of replies that
  arrive in order (a fresh page) and out of order (the races). For the composition: the user
  a client shows is an account of the server, a token it obtained was signed for one, signing in works
  end to end, and so does registering, but for a name typed with white space around it.
  This theory holds the properties of a page's form, table or button across both sides.

  \<^bold>\<open>Bounds and termination.\<close> No fuel is used: loops are structural recursion or have a measure.
  Integers are unbounded except where the code's arithmetic can wrap (page offsets, counters and
  digests are words); the JSON decoder rejects numbers outside the 64-bit range, and the client
  prints a whole number as the shortest decimal text of a double. Strings are
  byte lists: JavaScript's \<open>length\<close> is modelled on UTF-8, while \<open>charAt(0)\<close>, \<open>substring\<close> and case
  mapping, Go's included, are those of ASCII text.

  \<^bold>\<open>Parameters.\<close> bcrypt, JWT signing and parsing, AWS Secrets Manager, Redis, uuid, random bytes
  and the clock of the server; \<open>fetch\<close>, \<open>JSON.parse\<close>, the indented \<open>JSON.stringify\<close>, date
  formatting and the router's pattern matching of the client. Hypotheses about them
  (\<open>bcrypt_ok\<close>, \<open>jwt_ok\<close>, \<open>jwt_text\<close>: tokens are header text; \<open>hashes_fit\<close>: hashes are short ASCII;
  \<open>redis_server\<close>, \<open>static_router\<close>) state documented behaviour and are witnessed by concrete
  functions. The client's requests reach the server with the headers the client set, whatever
  else a browser adds.

  \<^bold>\<open>Not modelled.\<close> The listener, signals and log lines of \<open>main\<close>, \<open>main.tsx\<close>, which mounts \<open>App\<close>, style
  sheets, build configuration, containers, infrastructure and the Go tests: they are
  configuration or I/O without a decision of their own. Of the pool only its limits are kept, and of
  the migrated tables not the time stamps their rows get by default. Python's strings are ASCII.
  Handlers run one at a time: the mutexes of the stores make their operations atomic, and no
  handler does more than one update.
\<close>

subsection \<open>The user directory\<close>

definition read_zone :: "payload \<Rightarrow> prover_response option" where
  "read_zone p = (case p of
     ZoneBody m u r \<Rightarrow> Some \<lparr>pr_message = m, pr_user = u, pr_role = r\<rparr> | _ \<Rightarrow> None)"

definition read_users :: "(int \<Rightarrow> string) \<Rightarrow> payload \<Rightarrow> (ui_user list \<times> nat) option" where
  "read_users stamp p = (case p of
     UsersBody us n \<Rightarrow> map_option (\<lambda>l. (l, n)) (those (map (read_user stamp) us)) | _ \<Rightarrow> None)"

lemma those_map_Some:
  "\<forall>x \<in> set xs. \<exists>y. f x = Some y \<Longrightarrow> those (map f xs) = Some (map (the \<circ> f) xs)"
  by (induction xs) auto

lemma mem_ListUsers_order:
  "iteration_order (byID s) ks \<Longrightarrow> mem_ListUsers s ks = Inr (map (the \<circ> byID s) ks)"
  by (auto simp: mem_ListUsers_def List.map_filter_def iteration_order_def dom_def intro!: arg_cong [where f = "map _"] filter_True)

text \<open>One row per account, in the order of the store's map.\<close>

lemma directory_rows:
  assumes ok: "users_ok s" and order: "iteration_order (byID s) ks"
  shows "\<exists>g. those (map (read_user stamp) (map to_public (map (the \<circ> byID s) ks))) = Some (map g ks) \<and>
    (\<forall>i u. byID s i = Some u \<longrightarrow> uu_id (g i) = i \<and> uu_username (g i) = u_username u \<and>
       role_name (uu_role (g i)) = u_role u \<and> status_name (uu_status (g i)) = u_status u)"
proof (intro exI conjI)
  let ?g = "the \<circ> read_user stamp \<circ> to_public \<circ> (the \<circ> byID s)"
  have acc: "store_consistent s" "\<And>i u. byID s i = Some u \<Longrightarrow> account_ok u"
    using ok by (auto simp: users_ok_def)
  have "\<exists>y. read_user stamp v = Some y" if "v \<in> set (map to_public (map (the \<circ> byID s) ks))" for v
    using that order acc(2) read_user_account by (fastforce simp: iteration_order_def)
  then show "those (map (read_user stamp) (map to_public (map (the \<circ> byID s) ks))) = Some (map ?g ks)"
    by (simp add: those_map_Some o_assoc)
  show "\<forall>i u. byID s i = Some u \<longrightarrow> uu_id (?g i) = i \<and> uu_username (?g i) = u_username u \<and>
       role_name (uu_role (?g i)) = u_role u \<and> status_name (uu_status (?g i)) = u_status u"
    using read_user_account [OF acc(2), of _ _ stamp] store_consistentD(1) [OF acc(1)] by fastforce
qed

text \<open>C34: The directory shows the accounts of the server: in every reachable state and for every order
  in which the store's map is visited, after the server's answer the page is no longer loading and
  lists each account exactly once, namely those whose role passes the role filter and whose name
  contains the search text up to case, each with its own id, role and status.\<close>

theorem directory_complete:
  assumes "reachable cfg r0 srv" and "iteration_order (byID (sv_users srv)) (en_user_order env)"
    and "p' = fetchUsers_reply
      (answer (read_users stamp) (snd (snd (ListUsers_handler mem_ops env (sv_users srv) r)))) p"
  shows "\<not> us_loading p' \<and> us_error p' = us_error p \<and>
    distinct (map uu_username (filteredUsers p')) \<and>
    (\<lambda>x. (uu_username x, uu_id x, role_name (uu_role x), status_name (uu_status x))) ` set (filteredUsers p') =
    {(n, u_id u, u_role u, u_status u) | n u. byUsername (sv_users srv) n = Some u \<and>
       (us_filterRole p = ''all'' \<or> u_role u = us_filterRole p) \<and>
       sublist (to_lower (us_search p)) (to_lower n)}"
proof -
  let ?s = "sv_users srv" and ?ks = "en_user_order env"
  let ?hit = "\<lambda>ro n. (us_filterRole p = ''all'' \<or> ro = us_filterRole p) \<and>
    sublist (to_lower (us_search p)) (to_lower n)"
  have ok: "users_ok ?s" using reachable_server_ok [OF assms(1)] by (simp add: server_ok_def)
  then have cons: "store_consistent ?s" by (simp add: users_ok_def)
  from assms(2) have ks: "distinct ?ks" "set ?ks = dom (byID ?s)"
    by (simp_all add: iteration_order_def)
  from directory_rows [OF ok assms(2), of stamp] obtain g where
    rows: "those (map (read_user stamp) (map to_public (map (the \<circ> byID ?s) ?ks))) = Some (map g ?ks)"
    and g: "\<And>i u. byID ?s i = Some u \<Longrightarrow> uu_id (g i) = i \<and> uu_username (g i) = u_username u \<and>
       role_name (uu_role (g i)) = u_role u \<and> status_name (uu_status (g i)) = u_status u"
    by blast
  have p': "p' = p\<lparr>us_users := map g ?ks, us_loading := False\<rparr>"
    unfolding assms(3) using rows by (simp add: ListUsers_handler_def respond_def mem_ops_def
        mem_ListUsers_order [OF assms(2)] answer_def read_users_def fetchUsers_reply_def reply_defs)
  have "inj_on (\<lambda>i. uu_username (g i)) (set ?ks)"
  proof (rule inj_onI)
    fix i j assume "i \<in> set ?ks" "j \<in> set ?ks" and eq: "uu_username (g i) = uu_username (g j)"
    then obtain u v where uv: "byID ?s i = Some u" "byID ?s j = Some v" using ks(2) by auto
    with g eq have "u_username u = u_username v" by metis
    with store_consistentD(1,2) [OF cons] uv show "i = j" by (metis option.inject)
  qed
  with ks(1) have "distinct (map uu_username (map g ?ks))"
    unfolding map_map by (simp add: distinct_map comp_def)
  then have "distinct (map uu_username (filteredUsers p'))"
    unfolding filteredUsers_spec p' by (intro distinct_map_filter) simp
  moreover have "set (filteredUsers p') = g ` {i. \<exists>u. byID ?s i = Some u \<and> ?hit (u_role u) (u_username u)}"
    using ks(2) g by (auto simp: filteredUsers_spec p' dom_def)
  moreover have "(\<lambda>x. (uu_username x, uu_id x, role_name (uu_role x), status_name (uu_status x))) `
      g ` {i. \<exists>u. byID ?s i = Some u \<and> ?hit (u_role u) (u_username u)} =
    {(n, u_id u, u_role u, u_status u) | n u. byUsername ?s n = Some u \<and> ?hit (u_role u) n}"
    using g store_consistentD [OF cons] unfolding image_image by (auto simp: image_iff) metis+
  ultimately show ?thesis by (simp add: p')
qed

lemma demo_viewers:
  "byUsername (sv_users demo_server) n = Some u \<and> u_role u = ''viewer'' \<longleftrightarrow>
     n = ''viewer'' \<and> u = demo_account ''c'' ''viewer'' ''ViewerPassword123!'' RoleViewer"
proof -
  have "u_role (demo_account i m h ro) = ro" for i m h ro by (simp add: demo_account_def)
  then show ?thesis unfolding demo_users by (simp add: role_defs eq_commute [of _ u]) (auto simp: role_defs)
qed

definition directory_env :: env where
  "directory_env = demo_env\<lparr>en_user_order := [''c'', ''a'', ''d'', ''b'']\<rparr>"

theorem directory_complete_witness:
  "(\<lambda>x. (uu_username x, uu_id x, role_name (uu_role x), status_name (uu_status x))) ` set (filteredUsers
     (fetchUsers_reply (answer (read_users (\<lambda>_. ''now'')) (snd (snd (ListUsers_handler mem_ops directory_env
       (sv_users demo_server) demo_request)))) (users_page_init\<lparr>us_filterRole := ''viewer''\<rparr>))) =
   {(''viewer'', ''c'', ''viewer'', ''active'')}"
proof -
  let ?p = "users_page_init\<lparr>us_filterRole := ''viewer''\<rparr>"
  have "iteration_order (byID (sv_users demo_server)) (en_user_order directory_env)"
    by (auto simp: iteration_order_def directory_env_def demo_users)
  moreover have "{(n, u_id u, u_role u, u_status u) | n u. byUsername (sv_users demo_server) n = Some u \<and>
       (us_filterRole ?p = ''all'' \<or> u_role u = us_filterRole ?p) \<and>
       sublist (to_lower (us_search ?p)) (to_lower n)} = {(''viewer'', ''c'', ''viewer'', ''active'')}"
    using demo_viewers by (simp add: users_page_init_def to_lower_def demo_account_def role_defs StatusActive_def)
  ultimately show ?thesis
    using directory_complete [OF demo_reachable _ refl] by simp
qed

subsection \<open>The endpoint prover and the gate\<close>

text \<open>C19: The dashboard's prover tells the truth about the admin zone: for a token with role \<open>ro\<close>, the
  test of the admin endpoint ends with success exactly for admin and super admin, showing the
  server's greeting with the token's user and role, and for every other role with the message of
  the server's refusal.\<close>

theorem prover_matches_gate:
  "db_result (testEndpoint_reply TestAdmin
      (answer read_zone (snd (snd (RequireRole RoleAdmin AdminOnly st
        (q\<lparr>hr_claims := Some (cl\<lparr>c_role := role_name ro\<rparr>)\<rparr>))))) s) =
    Some (if ro \<in> {Admin, SuperAdmin}
      then \<lparr>tr_endpoint = ''GET /api/v1/admin-only'', tr_status = ''200'',
        tr_message = ''welcome to the admin zone (Authenticated as '' @ c_username cl @ '', role: '' @
          role_name ro @ '')'', tr_success = True\<rparr>
      else \<lparr>tr_endpoint = ''GET /api/v1/admin-only'', tr_status = ''403 / 401'',
        tr_message = ''insufficient role: admin required'', tr_success = False\<rparr>)"
proof (cases "ro \<in> {Admin, SuperAdmin}")
  case True
  then have "RequireRole RoleAdmin AdminOnly st (q\<lparr>hr_claims := Some (cl\<lparr>c_role := role_name ro\<rparr>)\<rparr>) =
      respond st (writeJSON 200 (ZoneBody ''welcome to the admin zone'' (c_username cl) (role_name ro)))"
    by (auto simp: RequireRole_def AdminOnly_def role_defs)
  with True show ?thesis
    by (simp add: respond_def answer_def read_zone_def testEndpoint_reply_def reply_defs prover_endpoint_def)
next
  case False
  then have "RequireRole RoleAdmin AdminOnly st (q\<lparr>hr_claims := Some (cl\<lparr>c_role := role_name ro\<rparr>)\<rparr>) =
      respond st (writeError 403 ''insufficient role: admin required'')"
    by (cases ro) (simp_all add: RequireRole_def role_defs)
  with False show ?thesis
    by (simp add: respond_def testEndpoint_reply_def read_answer_error prover_endpoint_def)
qed

subsection \<open>The audit trail of an analyst\<close>

text \<open>The audit page opens for analysts and then fails: the route's guard lets exactly the roles
  analyst, admin, security manager and super admin see the page, and of these the analyst alone
  gets the server's refusal as the page's error, with no events.\<close>

theorem analyst_audit_page:
  "(''/audit'', Guarded (Some [Admin, SecurityManager, Analyst, SuperAdmin]), AuditP) \<in> set app_routes \<and>
   (passes (session_as ro) (Some [Admin, SecurityManager, Analyst, SuperAdmin]) \<and>
      at_error (fetchLogs_reply (answer read (snd (snd (RequireAnyRole [RoleAdmin, RoleSecurityManager] audit_list st
        (q\<lparr>hr_claims := Some (demo_claims\<lparr>c_role := role_name ro\<rparr>)\<rparr>))))) (fetchLogs 1 audit_page_init)) =
        Some ''insufficient permissions''
    \<longleftrightarrow> ro = Analyst) \<and>
   at_events (fetchLogs_reply (answer read (Inr (writeError 403 ''insufficient permissions'')))
     (fetchLogs 1 audit_page_init)) = []"
proof -
  have route: "(''/audit'', Guarded (Some [Admin, SecurityManager, Analyst, SuperAdmin]), AuditP) \<in> set app_routes"
    by (simp add: app_routes_def)
  have refused: "at_error (fetchLogs_reply (answer read (Inr (writeError 403 ''insufficient permissions'')))
      (fetchLogs 1 audit_page_init)) = Some ''insufficient permissions''"
    "at_events (fetchLogs_reply (answer read (Inr (writeError 403 ''insufficient permissions'')))
      (fetchLogs 1 audit_page_init)) = []"
    by (simp_all add: fetchLogs_reply_def read_answer_error fetchLogs_def audit_page_init_def)
  have ok: "at_error (fetchLogs_reply (answer read (snd (snd (audit_list st r)))) (fetchLogs 1 audit_page_init)) \<noteq>
      Some ''insufficient permissions''" for r
  proof (cases "List_handler (sv_log st) (hr_query r)")
    case (Inl e)
    then show ?thesis by (simp add: audit_list_def fetchLogs_reply_def answer_def reply_defs)
  next
    case (Inr body)
    then show ?thesis
      by (cases "read (AuditBody body)") (simp_all add: audit_list_def fetchLogs_reply_def answer_def
          reply_defs null_read_def fetchLogs_def)
  qed
  have gate: "snd (snd (RequireAnyRole [RoleAdmin, RoleSecurityManager] audit_list st
        (q\<lparr>hr_claims := Some (demo_claims\<lparr>c_role := role_name ro\<rparr>)\<rparr>))) =
      (if ro \<in> {Admin, SecurityManager, SuperAdmin}
       then snd (snd (audit_list st (q\<lparr>hr_claims := Some (demo_claims\<lparr>c_role := role_name ro\<rparr>)\<rparr>)))
       else Inr (writeError 403 ''insufficient permissions''))"
    by (cases ro) (simp_all add: RequireAnyRole_def respond_def Let_def role_defs)
  show ?thesis
    unfolding gate using route refused ok by (cases ro) (simp_all add: passes_def)
qed

subsection \<open>Enrolling in MFA\<close>

text \<open>C32: The enrolment page can never enable MFA: in every reachable state of the server, for every
  signed-in user and every six-digit code typed into the page, the server's answer leaves the
  page showing a failure, and the profile is not refreshed.\<close>

theorem mfa_page_never_verifies:
  assumes "reachable cfg r0 srv" and "hr_claims r = Some cl" and "js_length (sc_code p) = 6"
    and "list_all is_digit (sc_code p)" and "delivered (snd (handleVerifyMFA c p)) r"
  shows "\<exists>p' msg. verifyMFA_reply (answer read_verified (snd (snd (MFAVerify mem_ops env (sv_users srv) r))))
      (fst (handleVerifyMFA c p)) = (p', False) \<and> sc_status p' = Some (False, msg) \<and> \<not> sc_loading p' \<and>
    msg \<in> {''MFA is not enabled for this user'', ''user not found''}"
proof -
  have len: "length (sc_code p) = 6" using digits_js_length [OF assms(4)] assms(3) by simp
  have body: "hr_body r = Some (JObj [(''code'', JStr (sc_code p))])"
    using assms(5) by (simp add: delivered_def handleVerifyMFA_def api_verifyMFA_def api_request_def)
  have code: "decode_mfa (hr_body r) = Some (sc_code p)"
    unfolding body by (simp add: decode_mfa_def to_lower_def lower_char_def char_code_def)
  have off: "\<not> u_mfa_enabled u" if "GetUserByID mem_ops (sv_users srv) j = Inr u" for j u
    using reachable_server_ok [OF assms(1)] that
    by (auto simp: server_ok_def users_ok_def account_ok_def mem_ops_def mem_GetUserByID_def
        split: option.splits)
  have reply: "verifyMFA_reply (answer read_verified (Inr (writeError st msg))) x =
      (x\<lparr>sc_status := Some (False, msg), sc_loading := False\<rparr>, False)" if "msg \<noteq> []" "300 \<le> st" for msg st x
    using that by (simp add: verifyMFA_reply_def read_answer_error)
  show ?thesis
  proof (cases "GetUserByID mem_ops (sv_users srv) (c_user_id cl)")
    case (Inl e)
    then have "snd (snd (MFAVerify mem_ops env (sv_users srv) r)) = Inr (writeError 404 ''user not found'')"
      using assms(2) len code by (simp add: MFAVerify_def respond_def)
    then show ?thesis by (simp add: reply)
  next
    case (Inr u)
    then have "snd (snd (MFAVerify mem_ops env (sv_users srv) r)) =
        Inr (writeError 400 ''MFA is not enabled for this user'')"
      using assms(2) len code off [OF Inr] by (simp add: MFAVerify_def respond_def)
    then show ?thesis by (simp add: reply)
  qed
qed

theorem mfa_page_never_verifies_witness:
  "\<exists>p' msg. verifyMFA_reply (answer read_verified (snd (snd (MFAVerify mem_ops demo_env (sv_users demo_server)
       (demo_request\<lparr>hr_claims := Some demo_claims, hr_path := ''/api/v1/mfa/verify'',
         hr_body := Some (JObj [(''code'', JStr ''123456'')])\<rparr>)))))
     (fst (handleVerifyMFA (new_ApiClient None) (security_page_init\<lparr>sc_code := ''123456''\<rparr>))) = (p', False) \<and>
     sc_status p' = Some (False, msg)"
proof -
  let ?p = "security_page_init\<lparr>sc_code := ''123456''\<rparr>"
  let ?r = "demo_request\<lparr>hr_claims := Some demo_claims, hr_path := ''/api/v1/mfa/verify'',
    hr_body := Some (JObj [(''code'', JStr ''123456'')])\<rparr>"
  have "hr_claims ?r = Some demo_claims" "js_length (sc_code ?p) = 6" "list_all is_digit (sc_code ?p)"
    by (simp_all add: js_length_def is_digit_def char_code_def)
  moreover have "delivered (snd (handleVerifyMFA (new_ApiClient None) ?p)) ?r"
    by (simp add: delivered_def handleVerifyMFA_def api_verifyMFA_def api_request_def new_ApiClient_def
        authorization_of_def API_BASE_def demo_request_def)
  ultimately show ?thesis using mfa_page_never_verifies [OF demo_reachable] by blast
qed

subsection \<open>Registering\<close>

text \<open>C35: A name typed with surrounding white space ends in an error although the account is created:
  on any reachable server, submitting the registration form with an ASCII password, one of the form's roles
  and such a name, its trimmed form being free and of 3 to 50 characters, creates the account under the trimmed
  name; the automatic login sends the name as typed, the server answers 401, and the page stays with
  \<open>invalid credentials\<close>, with no session and no navigation.\<close>

theorem padded_registration_error:
  assumes "register_handleSubmit p = (p', Some (n, pw, role))" and "\<forall>c \<in> set (rp_password p). char_code c < 128"
    and "rp_role p \<in> (\<lambda>x. role_name (ro_value x)) ` set ROLES"
    and "trim_space n \<noteq> n" "3 \<le> length (trim_space n)" "length (trim_space n) \<le> 50"
    and "reachable cfg r0 srv" "byUsername (sv_users srv) (trim_space n) = None"
    and "bcrypt_generate (cf_lib cfg) pw bcryptCost (en_salt env0) = Some h" "fresh_env env0 srv"
    and "delivered (register_start n pw role a) q0" "hr_body_bytes q0 \<le> 2 ^ 20"
    and "serve cfg env0 srv q0 = (srv0, out0)"
    and "delivered (login_start n pw a) q1" "hr_body_bytes q1 \<le> 2 ^ 20"
    and "not_locked cfg env1 srv0 q1" "serve cfg env1 srv0 q1 = (srv1, out1)"
  shows "(\<exists>acc. byUsername (sv_users srv1) (trim_space n) = Some acc \<and> u_role acc = role \<and> u_password_hash acc = h) \<and>
    register_run n pw (answer (read_registered stamp) out0) (answer read_token out1) r2 a =
      (a, Inl (ErrorObj ''invalid credentials'')) \<and>
    register_settled (Inl (ErrorObj ''invalid credentials'')) p' =
      (p'\<lparr>rp_error := Some ''invalid credentials'', rp_submitting := False\<rparr>, None)"
proof -
  have sent: "role = rp_role p" "8 \<le> length pw"
    using assms(1) js_length_ascii [OF assms(2)]
    by (auto simp: register_handleSubmit_def Let_def split: if_splits)
  have role: "to_lower (trim_space role) = role" "role \<in> set ValidRoles"
    using form_role [OF assms(3)] sent(1) by simp_all
  have uuid: "en_uuid env0 \<noteq> []" using assms(10) by (simp add: fresh_env_def)
  from register_across [OF assms(11,12,5,6) sent(2) role assms(9,8) uuid assms(13)] obtain acc rsp where
    acc: "byUsername (sv_users srv0) (trim_space n) = Some acc" "u_role acc = role" "u_password_hash acc = h"
    and out0: "out0 = Inr rsp" "rsp_status rsp = 201"
    by blast
  have "reachable cfg r0 srv0" using reachable.request [OF assms(7,10), of q0] assms(13) by simp
  from serve_login_refused [OF assms(14-16) padded_login_fails [OF this assms(4)]] assms(17) obtain evs rsp1 where
    "srv1 = log_events env1 evs srv0"
    and out1: "out1 = Inr rsp1" "rsp_status rsp1 = 401" "rsp_payload rsp1 = ErrorBody ''invalid credentials''"
    by auto
  then have "sv_users srv1 = sv_users srv0" by simp
  moreover have "register_run n pw (answer (read_registered stamp) out0) (answer read_token out1) r2 a =
      (a, Inl (ErrorObj ''invalid credentials''))"
    by (simp add: register_run_def register_reply_def login_run_def login_token_reply_def api_login_reply_def
        out0 out1 answer_def reply_defs)
  ultimately show ?thesis
    using acc by (simp add: register_settled_def error_message_def)
qed

definition padded_registration :: register_page where
  "padded_registration = register_page_init\<lparr>rp_username := '' mallory'', rp_password := ''Secret-123''\<rparr>"

theorem padded_registration_error_witness:
  "\<exists>q0 q1 srv0 srv1 out0 out1 acc.
     serve demo_config demo_env demo_server q0 = (srv0, out0) \<and> serve demo_config demo_env srv0 q1 = (srv1, out1) \<and>
     byUsername (sv_users srv1) ''mallory'' = Some acc \<and> u_role acc = ''viewer'' \<and>
     register_run '' mallory'' ''Secret-123'' (answer (read_registered (\<lambda>_. ''now'')) out0) (answer read_token out1)
       (HttpOk None) (auth_init None) = (auth_init None, Inl (ErrorObj ''invalid credentials''))"
proof -
  let ?a = "auth_init None"
  let ?p' = "padded_registration\<lparr>rp_error := None, rp_submitting := True\<rparr>"
  let ?q0 = "request_of (register_start '' mallory'' ''Secret-123'' ''viewer'' ?a)"
  let ?q1 = "request_of (login_start '' mallory'' ''Secret-123'' ?a)"
  obtain srv0 out0 where s0: "serve demo_config demo_env demo_server ?q0 = (srv0, out0)" by fastforce
  obtain srv1 out1 where s1: "serve demo_config demo_env srv0 ?q1 = (srv1, out1)" by fastforce
  have form: "register_handleSubmit padded_registration = (?p', Some ('' mallory'', ''Secret-123'', ''viewer''))"
    "\<forall>c \<in> set (rp_password padded_registration). char_code c < 128"
    "rp_role padded_registration \<in> (\<lambda>x. role_name (ro_value x)) ` set ROLES"
    by (simp_all add: padded_registration_def register_page_init_def register_handleSubmit_def js_length_def
        char_code_def ROLES_def)
  have trim: "trim_space '' mallory'' = ''mallory''"
    by (simp add: trim_space_ascii is_space_def char_code_def)
  have name: "trim_space '' mallory'' \<noteq> '' mallory''" "3 \<le> length (trim_space '' mallory'')"
    "length (trim_space '' mallory'') \<le> 50" "byUsername (sv_users demo_server) (trim_space '' mallory'') = None"
    by (simp_all add: trim demo_users)
  have hash: "bcrypt_generate (cf_lib demo_config) ''Secret-123'' bcryptCost (en_salt demo_env) = Some ''$2a$Secret-123''"
    by (simp add: demo_lib_def)
  have "reachable demo_config [] srv0"
    using reachable.request [OF demo_reachable demo_fresh, of ?q0] s0 by simp
  then have lock: "not_locked demo_config demo_env srv0 ?q1" by (rule demo_not_locked)
  have lim: "hr_body_bytes ?q0 \<le> 2 ^ 20" "hr_body_bytes ?q1 \<le> 2 ^ 20"
    using request_of_delivered(2) by simp_all
  from padded_registration_error [OF form name(1-3) demo_reachable name(4) hash demo_fresh
      request_of_delivered(4) lim(1) s0 request_of_delivered(1) lim(2) lock s1, of "\<lambda>_. ''now''" "HttpOk None"]
  show ?thesis using s0 s1 unfolding trim by blast
qed

end
